theory Spec2Isabelle
  imports Complex_Main
begin

section \<open>WCAG contrast utility: colour conversion, contrast ratio and snapping\<close>

text \<open>
  A shallow embedding of the contrast module (hexToRgb, rgbToHex, relativeLuminance,
  contrastRatio, passesContrast, rgbToHsl, hslToRgb, binarySearchLightness and
  snapToPassingColor). A JavaScript number is modelled by the real number it denotes.

  The arithmetic on lightness, hue and saturation (rgbToHsl, hslToRgb, the midpoints of the
  searches and the changes of lightness) is IEEE 754 double-precision arithmetic: each
  \<open>+\<close>, \<open>-\<close>, \<open>*\<close> and \<open>/\<close> of the source is the exact operation followed by rounding to
  the nearest double, a tie going to the even significand. The program depends on that
  rounding: it compares lightness changes for equality and order, and it takes
  \<open>Math.round\<close> of products that are exactly halfway between two integers before they are
  rounded to a double.

  Relative luminance, contrast ratio and their comparison with the thresholds are over the
  real numbers, \<open>Math.pow(x, 2.4)\<close> being \<open>x powr 2.4\<close>: the language standard leaves the
  value of \<open>Math.pow\<close> to the implementation, so its rounding cannot be part of the model.

  A string is a list of 8-bit characters; \<open>toUpperCase\<close> maps the letters a to z to A to Z
  and leaves every other character as it is. A thrown \<open>Error\<close> is a value
  \<open>Inl (FormatError message)\<close>.
\<close>

subsection \<open>Errors\<close>

datatype error = FormatError string

definition bindE :: "error + 'a \<Rightarrow> ('a \<Rightarrow> error + 'b) \<Rightarrow> error + 'b" where
  "bindE m f = (case m of Inl e \<Rightarrow> Inl e | Inr x \<Rightarrow> f x)"

subsection \<open>Constants and interfaces\<close>

definition EPSILON :: real where
  "EPSILON = 1 / 1000"

definition NORMAL_TEXT_THRESHOLD :: real where
  "NORMAL_TEXT_THRESHOLD = 45 / 10"

definition LARGE_TEXT_THRESHOLD :: real where
  "LARGE_TEXT_THRESHOLD = 3"

record RGB =
  r :: real
  g :: real
  b :: real

record HSL =
  h :: real
  s :: real
  l :: real

text \<open>An optional boolean field is \<open>None\<close> when omitted.\<close>

record ContrastOptions =
  isLargeText :: "bool option"
  uiComponent :: "bool option"

record SnapOptions = ContrastOptions +
  lockHue :: "bool option"
  lockChroma :: "bool option"
  preferForegroundAdjust :: "bool option"
  preferBackgroundAdjust :: "bool option"

record SnapResult =
  fg :: string
  bg :: string
  ratio :: real
  clamped :: "bool option"
  adjusted :: "string option"
  iterations :: "nat option"

text \<open>The truthiness of an optional boolean, as \<open>||\<close>, \<open>&&\<close> and \<open>!\<close> read it.\<close>

definition truthy :: "bool option \<Rightarrow> bool" where
  "truthy x = (x = Some True)"

subsection \<open>Double-precision arithmetic\<close>

text \<open>
  The doubles are the numbers \<open>m * 2\<^sup>k\<close> with \<open>\<bar>m\<bar> < 2\<^sup>5\<^sup>3\<close> and \<open>-1074 \<le> k \<le> 971\<close>. The unit in
  the last place of a positive number \<open>x\<close> is the power of two \<open>u\<close> with
  \<open>2\<^sup>5\<^sup>2 * u \<le> x < 2\<^sup>5\<^sup>3 * u\<close>, and \<open>2 powi (-1074)\<close> for the numbers below
  \<open>2 powi (-1022)\<close>; it is found by doubling or halving 1. Rounding divides by the unit, takes the
  nearest integer (of two equally near ones the even one) and multiplies by the unit again.
  Infinity and NaN are not modelled: no quantity of this program exceeds 1000 in absolute
  value, and no division is by zero.
\<close>

definition roundTiesToEven :: "real \<Rightarrow> int" where
  "roundTiesToEven x =
     (let n = \<lfloor>x\<rfloor>; d = x - of_int n in
      if d < 1 / 2 then n else if 1 / 2 < d then n + 1 else if even n then n else n + 1)"

fun ulpUp :: "nat \<Rightarrow> real \<Rightarrow> real \<Rightarrow> real" where
  "ulpUp 0 x u = u"
| "ulpUp (Suc n) x u = (if x < 2 ^ 53 * u then u else ulpUp n x (2 * u))"

fun ulpDown :: "nat \<Rightarrow> real \<Rightarrow> real \<Rightarrow> real" where
  "ulpDown 0 x u = u"
| "ulpDown (Suc n) x u = (if 2 ^ 52 * u \<le> x then u else ulpDown n x (u / 2))"

definition ulp :: "real \<Rightarrow> real" where
  "ulp x = (if 2 ^ 52 \<le> x then ulpUp 971 x 1 else ulpDown 1074 x 1)"

definition toDouble :: "real \<Rightarrow> real" where
  "toDouble x =
     (if x = 0 then 0
      else let u = ulp \<bar>x\<bar> in sgn x * (of_int (roundTiesToEven (\<bar>x\<bar> / u)) * u))"

text \<open>The four operations of the source on numbers.\<close>

definition addD :: "real \<Rightarrow> real \<Rightarrow> real" where
  "addD x y = toDouble (x + y)"

definition subD :: "real \<Rightarrow> real \<Rightarrow> real" where
  "subD x y = toDouble (x - y)"

definition mulD :: "real \<Rightarrow> real \<Rightarrow> real" where
  "mulD x y = toDouble (x * y)"

definition divD :: "real \<Rightarrow> real \<Rightarrow> real" where
  "divD x y = toDouble (x / y)"

subsection \<open>Strings\<close>

definition toUpperChar :: "char \<Rightarrow> char" where
  "toUpperChar c =
     (case map_of (zip ''abcdefghijklmnopqrstuvwxyz'' ''ABCDEFGHIJKLMNOPQRSTUVWXYZ'') c of
        Some u \<Rightarrow> u
      | None \<Rightarrow> c)"

definition toUpperCase :: "string \<Rightarrow> string" where
  "toUpperCase str = map toUpperChar str"

text \<open>\<open>n.toString(16)\<close> for a non-negative integer.\<close>

fun toString16 :: "nat \<Rightarrow> string" where
  "toString16 n =
     (if n < 16 then [''0123456789abcdef'' ! n]
      else toString16 (n div 16) @ [''0123456789abcdef'' ! (n mod 16)])"

declare toString16.simps [simp del]

definition padStart :: "nat \<Rightarrow> char \<Rightarrow> string \<Rightarrow> string" where
  "padStart n c str = replicate (n - length str) c @ str"

text \<open>The character class \<open>[0-9A-F]\<close> and the test of \<open>/^[0-9A-F]{3}$|^[0-9A-F]{6}$/\<close>.\<close>

definition isHexChar :: "char \<Rightarrow> bool" where
  "isHexChar c = (c \<in> set ''0123456789ABCDEF'')"

definition hexFormatTest :: "string \<Rightarrow> bool" where
  "hexFormatTest str =
     ((length str = 3 \<and> list_all isHexChar str) \<or> (length str = 6 \<and> list_all isHexChar str))"

text \<open>
  \<open>parseInt(str, 16)\<close> on a string of characters of \<open>[0-9A-F]\<close>, the only strings it is
  applied to (the format test comes first).
\<close>

definition hexDigitValue :: "char \<Rightarrow> nat" where
  "hexDigitValue c =
     (case map_of (zip ''0123456789ABCDEF'' [0, 1, 2, 3, 4, 5, 6, 7, 8, 9, 10, 11, 12, 13, 14, 15]) c of
        Some v \<Rightarrow> v
      | None \<Rightarrow> 0)"

definition parseInt16 :: "string \<Rightarrow> nat" where
  "parseInt16 str = foldl (\<lambda>acc c. 16 * acc + hexDigitValue c) 0 str"

subsection \<open>Hex and RGB\<close>

definition hexToRgb :: "string \<Rightarrow> error + RGB" where
  "hexToRgb hex =
     (let cleanHex = toUpperCase (remove1 CHR ''#'' hex) in
      if \<not> hexFormatTest cleanHex then
        Inl (FormatError (''Invalid hex color format: '' @ hex @
                          ''. Expected #RGB or #RRGGBB format.''))
      else if length cleanHex = 3 then
        Inr \<lparr> r = real (parseInt16 [cleanHex ! 0, cleanHex ! 0]),
              g = real (parseInt16 [cleanHex ! 1, cleanHex ! 1]),
              b = real (parseInt16 [cleanHex ! 2, cleanHex ! 2]) \<rparr>
      else
        Inr \<lparr> r = real (parseInt16 (take 2 cleanHex)),
              g = real (parseInt16 (take 2 (drop 2 cleanHex))),
              b = real (parseInt16 (take 2 (drop 4 cleanHex))) \<rparr>)"

text \<open>\<open>Math.round\<close> of a double: the nearest integer, a tie going up, with no rounding error.\<close>

definition mathRound :: "real \<Rightarrow> int" where
  "mathRound x = \<lfloor>x + 1 / 2\<rfloor>"

definition toHex :: "real \<Rightarrow> string" where
  "toHex n = toUpperCase (padStart 2 CHR ''0'' (toString16 (nat (mathRound (max 0 (min 255 n))))))"

definition rgbToHex :: "RGB \<Rightarrow> string" where
  "rgbToHex rgb = ''#'' @ toHex (r rgb) @ toHex (g rgb) @ toHex (b rgb)"

subsection \<open>Relative luminance and contrast ratio\<close>

datatype color = ColorRGB RGB | ColorHex string

definition gammaCorrect :: "real \<Rightarrow> real" where
  "gammaCorrect c =
     (if c \<le> 3928 / 100000 then c / (1292 / 100) else ((c + 55 / 1000) / (1055 / 1000)) powr (24 / 10))"

definition luminanceOfRgb :: "RGB \<Rightarrow> real" where
  "luminanceOfRgb rgb =
     (let rsRGB = r rgb / 255; gsRGB = g rgb / 255; bsRGB = b rgb / 255 in
      2126 / 10000 * gammaCorrect rsRGB + 7152 / 10000 * gammaCorrect gsRGB
        + 722 / 10000 * gammaCorrect bsRGB)"

definition relativeLuminance :: "color \<Rightarrow> error + real" where
  "relativeLuminance color =
     bindE (case color of ColorHex str \<Rightarrow> hexToRgb str | ColorRGB rgb \<Rightarrow> Inr rgb)
       (\<lambda>rgb. Inr (luminanceOfRgb rgb))"

definition contrastRatio :: "string \<Rightarrow> string \<Rightarrow> error + real" where
  "contrastRatio fgHex bgHex =
     bindE (relativeLuminance (ColorHex fgHex)) (\<lambda>fgLuminance.
     bindE (relativeLuminance (ColorHex bgHex)) (\<lambda>bgLuminance.
       let lighter = max fgLuminance bgLuminance;
           darker = min fgLuminance bgLuminance
       in Inr ((lighter + 5 / 100) / (darker + 5 / 100))))"

definition passesContrast :: "string \<Rightarrow> string \<Rightarrow> 'a ContrastOptions_scheme \<Rightarrow> error + bool" where
  "passesContrast fgHex bgHex opts =
     bindE (contrastRatio fgHex bgHex) (\<lambda>ratio.
       let threshold = (if truthy (isLargeText opts) \<or> truthy (uiComponent opts)
                        then LARGE_TEXT_THRESHOLD else NORMAL_TEXT_THRESHOLD)
       in Inr (ratio \<ge> threshold - EPSILON))"

subsection \<open>HSL\<close>

definition rgbToHsl :: "RGB \<Rightarrow> HSL" where
  "rgbToHsl rgb =
     (let r' = divD (r rgb) 255; g' = divD (g rgb) 255; b' = divD (b rgb) 255;
          mx = max (max r' g') b';
          mn = min (min r' g') b';
          diff = subD mx mn;
          l' = divD (addD mx mn) 2
      in if diff \<noteq> 0 then
           let s' = (if l' > 1 / 2 then divD diff (subD (subD 2 mx) mn)
                     else divD diff (addD mx mn));
               h' = (if mx = r' then addD (divD (subD g' b') diff) (if g' < b' then 6 else 0)
                     else if mx = g' then addD (divD (subD b' r') diff) 2
                     else if mx = b' then addD (divD (subD r' g') diff) 4
                     else 0)
           in \<lparr> h = mulD (divD h' 6) 360, s = mulD s' 100, l = mulD l' 100 \<rparr>
         else \<lparr> h = mulD 0 360, s = mulD 0 100, l = mulD l' 100 \<rparr>)"

definition hue2rgb :: "real \<Rightarrow> real \<Rightarrow> real \<Rightarrow> real" where
  "hue2rgb p q t =
     (let t1 = (if t < 0 then addD t 1 else t);
          t2 = (if t1 > 1 then subD t1 1 else t1)
      in if t2 < divD 1 6 then addD p (mulD (mulD (subD q p) 6) t2)
         else if t2 < divD 1 2 then q
         else if t2 < divD 2 3 then addD p (mulD (mulD (subD q p) (subD (divD 2 3) t2)) 6)
         else p)"

definition hslToRgb :: "HSL \<Rightarrow> RGB" where
  "hslToRgb hsl =
     (let h' = divD (h hsl) 360; s' = divD (s hsl) 100; l' = divD (l hsl) 100 in
      if s' = 0 then
        \<lparr> r = of_int (mathRound (mulD l' 255)),
          g = of_int (mathRound (mulD l' 255)),
          b = of_int (mathRound (mulD l' 255)) \<rparr>
      else
        let q = (if l' < 1 / 2 then mulD l' (addD 1 s') else subD (addD l' s') (mulD l' s'));
            p = subD (mulD 2 l') q
        in \<lparr> r = of_int (mathRound (mulD (hue2rgb p q (addD h' (divD 1 3))) 255)),
              g = of_int (mathRound (mulD (hue2rgb p q h') 255)),
              b = of_int (mathRound (mulD (hue2rgb p q (subD h' (divD 1 3))) 255)) \<rparr>)"

subsection \<open>Binary search over lightness\<close>

text \<open>The variables of the loop of binarySearchLightness.\<close>

record SearchState =
  minL :: real
  maxL :: real
  bestRgb :: RGB
  bestRatio :: real
  iterationCount :: nat

text \<open>What binarySearchLightness returns; a candidate adds its path, then its change.\<close>

record SearchResult =
  rgb :: RGB
  ratio :: real
  iterations :: nat

record Candidate = SearchResult +
  path :: string

record CandidateWithChange = Candidate +
  change :: real

text \<open>One pass through the body of the loop, up to the early-termination test.\<close>

definition searchBody ::
  "HSL \<Rightarrow> RGB \<Rightarrow> real \<Rightarrow> bool \<Rightarrow> bool \<Rightarrow> SearchState \<Rightarrow> error + SearchState" where
  "searchBody originalHsl otherRgb threshold isForeground isLightening st =
     (let midL = divD (addD (minL st) (maxL st)) 2;
          testHsl = originalHsl \<lparr> l := midL \<rparr>;
          testRgb = hslToRgb testHsl;
          fgRgb = (if isForeground then testRgb else otherRgb);
          bgRgb = (if isForeground then otherRgb else testRgb)
      in bindE (contrastRatio (rgbToHex fgRgb) (rgbToHex bgRgb)) (\<lambda>testRatio.
           if testRatio \<ge> threshold then
             if isLightening then
               Inr (st \<lparr> maxL := midL, bestRgb := testRgb, bestRatio := testRatio,
                         iterationCount := iterationCount st + 1 \<rparr>)
             else
               Inr (st \<lparr> minL := midL, bestRgb := testRgb, bestRatio := testRatio,
                         iterationCount := iterationCount st + 1 \<rparr>)
           else
             if isLightening then
               Inr (st \<lparr> minL := midL, iterationCount := iterationCount st + 1 \<rparr>)
             else
               Inr (st \<lparr> maxL := midL, iterationCount := iterationCount st + 1 \<rparr>)))"

text \<open>
  The loop, with the number of passes that remain (\<open>maxIterations - i\<close>). The literal
  \<open>0.1\<close> is the double nearest to one tenth.
\<close>

fun searchLoop ::
  "nat \<Rightarrow> HSL \<Rightarrow> RGB \<Rightarrow> real \<Rightarrow> bool \<Rightarrow> bool \<Rightarrow> SearchState \<Rightarrow> error + SearchState" where
  "searchLoop 0 originalHsl otherRgb threshold isForeground isLightening st = Inr st"
| "searchLoop (Suc n) originalHsl otherRgb threshold isForeground isLightening st =
     bindE (searchBody originalHsl otherRgb threshold isForeground isLightening st) (\<lambda>st'.
       if \<bar>subD (maxL st') (minL st')\<bar> < toDouble (1 / 10) then Inr st'
       else searchLoop n originalHsl otherRgb threshold isForeground isLightening st')"

definition binarySearchLightness ::
  "HSL \<Rightarrow> RGB \<Rightarrow> real \<Rightarrow> bool \<Rightarrow> bool \<Rightarrow> nat \<Rightarrow> error + SearchResult" where
  "binarySearchLightness originalHsl otherRgb threshold isForeground isLightening maxIterations =
     (let minL0 = (if isLightening then l originalHsl else 0);
          maxL0 = (if isLightening then 100 else l originalHsl);
          bestRgb0 = hslToRgb originalHsl
      in bindE (contrastRatio (rgbToHex bestRgb0) (rgbToHex otherRgb)) (\<lambda>bestRatio0.
         bindE (searchLoop maxIterations originalHsl otherRgb threshold isForeground isLightening
                  \<lparr> minL = minL0, maxL = maxL0, bestRgb = bestRgb0, bestRatio = bestRatio0,
                    iterationCount = 0 \<rparr>) (\<lambda>st.
           Inr \<lparr> rgb = bestRgb st, ratio = bestRatio st, iterations = iterationCount st \<rparr>)))"

subsection \<open>Snapping a pair to a passing one\<close>

definition startsWith :: "string \<Rightarrow> string \<Rightarrow> bool" where
  "startsWith str pre = (take (length pre) str = pre)"

definition withPath :: "string \<Rightarrow> SearchResult \<Rightarrow> Candidate" where
  "withPath p c = \<lparr> rgb = rgb c, ratio = ratio c, iterations = iterations c, path = p \<rparr>"

text \<open>The four searches, in the order of the array literal.\<close>

definition snapCandidates :: "RGB \<Rightarrow> RGB \<Rightarrow> real \<Rightarrow> error + Candidate list" where
  "snapCandidates fgRgb bgRgb threshold =
     (let fgHsl = rgbToHsl fgRgb; bgHsl = rgbToHsl bgRgb in
      bindE (binarySearchLightness fgHsl bgRgb threshold True True 7) (\<lambda>cA.
      bindE (binarySearchLightness fgHsl bgRgb threshold True False 7) (\<lambda>cB.
      bindE (binarySearchLightness bgHsl fgRgb threshold False False 7) (\<lambda>cC.
      bindE (binarySearchLightness bgHsl fgRgb threshold False True 7) (\<lambda>cD.
        Inr [withPath ''fg-lighten'' cA, withPath ''fg-darken'' cB,
             withPath ''bg-darken'' cC, withPath ''bg-lighten'' cD])))))"

definition withChange :: "HSL \<Rightarrow> HSL \<Rightarrow> Candidate \<Rightarrow> CandidateWithChange" where
  "withChange fgHsl bgHsl candidate =
     \<lparr> rgb = rgb candidate, ratio = ratio candidate, iterations = iterations candidate,
       path = path candidate,
       change = (if startsWith (path candidate) ''fg''
                 then \<bar>subD (l fgHsl) (l (rgbToHsl (rgb candidate)))\<bar>
                 else \<bar>subD (l bgHsl) (l (rgbToHsl (rgb candidate)))\<bar>) \<rparr>"

text \<open>
  The passing candidates with their changes, sorted by change, and those of them whose
  change is within 0.5 of the least. \<open>Array.prototype.sort\<close> is stable, and the comparator
  \<open>a.change - b.change\<close> orders by change: the rounded difference of two doubles has the sign
  of their exact difference.
\<close>

definition sortedByChange :: "HSL \<Rightarrow> HSL \<Rightarrow> Candidate list \<Rightarrow> CandidateWithChange list" where
  "sortedByChange fgHsl bgHsl passingCandidates =
     sort_key change (map (withChange fgHsl bgHsl) passingCandidates)"

definition similarCandidates :: "CandidateWithChange list \<Rightarrow> CandidateWithChange list" where
  "similarCandidates candidatesWithChange =
     (let minChange = change (hd candidatesWithChange) in
      filter (\<lambda>c. \<bar>subD (change c) minChange\<bar> \<le> 1 / 2) candidatesWithChange)"

definition findOrFirst :: "('a \<Rightarrow> bool) \<Rightarrow> 'a list \<Rightarrow> 'a" where
  "findOrFirst P xs = (case find P xs of Some x \<Rightarrow> x | None \<Rightarrow> hd xs)"

definition tieBreak :: "'a SnapOptions_scheme \<Rightarrow> CandidateWithChange list \<Rightarrow> CandidateWithChange" where
  "tieBreak opts similar =
     (if length similar > 1 then
        if truthy (preferForegroundAdjust opts) \<and> \<not> truthy (preferBackgroundAdjust opts) then
          findOrFirst (\<lambda>c. startsWith (path c) ''fg'') similar
        else if truthy (preferBackgroundAdjust opts) \<and> \<not> truthy (preferForegroundAdjust opts) then
          findOrFirst (\<lambda>c. startsWith (path c) ''bg'') similar
        else
          findOrFirst (\<lambda>c. startsWith (path c) ''fg'') similar
      else hd similar)"

text \<open>\<open>candidates.reduce\<close> without an initial value: the first candidate starts as best.\<close>

definition bestAchievable :: "Candidate list \<Rightarrow> Candidate" where
  "bestAchievable candidates =
     foldl (\<lambda>best current. if ratio current > ratio best then current else best)
       (hd candidates) (tl candidates)"

text \<open>
  The choice of bestCandidate, with the flag clamped: among the passing candidates when
  there is one, else the best achievable ratio.
\<close>

definition selectBest ::
  "'a SnapOptions_scheme \<Rightarrow> HSL \<Rightarrow> HSL \<Rightarrow> real \<Rightarrow> Candidate list \<Rightarrow> Candidate \<times> bool" where
  "selectBest opts fgHsl bgHsl threshold candidates =
     (let passingCandidates = filter (\<lambda>c. ratio c \<ge> threshold - EPSILON) candidates in
      if length passingCandidates > 0 then
        (Candidate.truncate
           (tieBreak opts (similarCandidates (sortedByChange fgHsl bgHsl passingCandidates))),
         False)
      else (bestAchievable candidates, True))"

definition snapToPassingColor :: "string \<Rightarrow> string \<Rightarrow> 'a SnapOptions_scheme \<Rightarrow> error + SnapResult" where
  "snapToPassingColor fgHex bgHex opts =
     bindE (hexToRgb fgHex) (\<lambda>fgRgb.
     bindE (hexToRgb bgHex) (\<lambda>bgRgb.
       let threshold = (if truthy (isLargeText opts) \<or> truthy (uiComponent opts)
                        then LARGE_TEXT_THRESHOLD else NORMAL_TEXT_THRESHOLD)
       in bindE (contrastRatio (rgbToHex fgRgb) (rgbToHex bgRgb)) (\<lambda>currentRatio.
         if currentRatio \<ge> threshold - EPSILON then
           Inr \<lparr> fg = rgbToHex fgRgb, bg = rgbToHex bgRgb, ratio = currentRatio,
                 clamped = None, adjusted = None, iterations = None \<rparr>
         else if currentRatio = 1 \<and> threshold > 1 then
           Inr \<lparr> fg = rgbToHex fgRgb, bg = rgbToHex bgRgb, ratio = currentRatio,
                 clamped = Some True, adjusted = None, iterations = None \<rparr>
         else
           let fgHsl = rgbToHsl fgRgb; bgHsl = rgbToHsl bgRgb in
           bindE (snapCandidates fgRgb bgRgb threshold) (\<lambda>candidates.
             let (bestCandidate, clamped') = selectBest opts fgHsl bgHsl threshold candidates;
                 (fgRgb', bgRgb', adjusted') =
                   (if startsWith (path bestCandidate) ''fg''
                    then (rgb bestCandidate, bgRgb, ''fg'')
                    else (fgRgb, rgb bestCandidate, ''bg''))
             in bindE (contrastRatio (rgbToHex fgRgb') (rgbToHex bgRgb')) (\<lambda>finalRatio.
                  Inr \<lparr> fg = rgbToHex fgRgb', bg = rgbToHex bgRgb', ratio = finalRatio,
                        clamped = Some clamped', adjusted = Some adjusted',
                        iterations = Some (iterations bestCandidate) \<rparr>)))))"

subsection \<open>Notions used in the statements and proofs\<close>

text \<open>
  The byte a channel is written as, the colour a written colour parses back to, the colours
  whose channels are bytes, and the contrast ratio of two parsed colours.
\<close>

definition upperDigit :: "nat \<Rightarrow> char" where
  "upperDigit i = ''0123456789ABCDEF'' ! i"

definition channelByte :: "real \<Rightarrow> nat" where
  "channelByte n = nat (mathRound (max 0 (min 255 n)))"

definition canonRgb :: "RGB \<Rightarrow> RGB" where
  "canonRgb c = \<lparr> r = real (channelByte (r c)), g = real (channelByte (g c)), b = real (channelByte (b c)) \<rparr>"

definition byteRgb :: "RGB \<Rightarrow> bool" where
  "byteRgb c = (\<exists>i j k. i < 256 \<and> j < 256 \<and> k < 256 \<and> c = \<lparr> r = real i, g = real j, b = real k \<rparr>)"

definition ratioOfRgb :: "RGB \<Rightarrow> RGB \<Rightarrow> real" where
  "ratioOfRgb c1 c2 =
     (max (luminanceOfRgb c1) (luminanceOfRgb c2) + 5 / 100) /
     (min (luminanceOfRgb c1) (luminanceOfRgb c2) + 5 / 100)"

definition black :: RGB where
  "black = \<lparr> r = 0, g = 0, b = 0 \<rparr>"

definition white :: RGB where
  "white = \<lparr> r = 255, g = 255, b = 255 \<rparr>"

definition requiredThreshold :: "'a ContrastOptions_scheme \<Rightarrow> real" where
  "requiredThreshold opts =
     (if truthy (isLargeText opts) \<or> truthy (uiComponent opts)
      then LARGE_TEXT_THRESHOLD else NORMAL_TEXT_THRESHOLD)"

text \<open>The ratio a candidate records is the ratio of its colour against the other colour.\<close>

definition ratioRecorded :: "RGB \<Rightarrow> RGB \<Rightarrow> real \<Rightarrow> bool" where
  "ratioRecorded otherRgb c \<rho> = (\<rho> = ratioOfRgb (canonRgb c) (canonRgb otherRgb))"

definition candidateSound :: "RGB \<Rightarrow> RGB \<Rightarrow> Candidate \<Rightarrow> bool" where
  "candidateSound fgRgb bgRgb c =
     (if startsWith (path c) ''fg'' then ratioRecorded bgRgb (rgb c) (ratio c)
      else ratioRecorded fgRgb (rgb c) (ratio c))"

definition canonicalHex :: "string \<Rightarrow> bool" where
  "canonicalHex str = (length str = 7 \<and> hd str = CHR ''#'' \<and> list_all isHexChar (tl str))"

text \<open>The result object built from the winning candidate.\<close>

definition resultOf :: "RGB \<Rightarrow> RGB \<Rightarrow> Candidate \<Rightarrow> bool \<Rightarrow> SnapResult" where
  "resultOf fgRgb bgRgb best cl =
     (if startsWith (path best) ''fg''
      then \<lparr> fg = rgbToHex (rgb best), bg = rgbToHex bgRgb, ratio = ratio best,
             clamped = Some cl, adjusted = Some ''fg'', iterations = Some (iterations best) \<rparr>
      else \<lparr> fg = rgbToHex fgRgb, bg = rgbToHex (rgb best), ratio = ratio best,
             clamped = Some cl, adjusted = Some ''bg'', iterations = Some (iterations best) \<rparr>)"


text \<open>What a search has recorded as best is the starting colour or meets the threshold itself.\<close>

definition bestMeetsThreshold :: "HSL \<Rightarrow> real \<Rightarrow> SearchState \<Rightarrow> bool" where
  "bestMeetsThreshold originalHsl threshold st =
     (bestRatio st \<ge> threshold \<or> bestRgb st = hslToRgb originalHsl)"

definition midpointL :: "SearchState \<Rightarrow> real" where
  "midpointL st = divD (addD (minL st) (maxL st)) 2"

definition midpointRgb :: "HSL \<Rightarrow> SearchState \<Rightarrow> RGB" where
  "midpointRgb originalHsl st = hslToRgb (originalHsl \<lparr> l := midpointL st \<rparr>)"

text \<open>
  The options objects used in the examples: \<open>{}\<close>, \<open>{ isLargeText: true }\<close> and
  \<open>{ isLargeText: true, preferBackgroundAdjust: true }\<close>.
\<close>

definition noOptions :: SnapOptions where
  "noOptions =
     \<lparr> isLargeText = None, uiComponent = None, lockHue = None, lockChroma = None,
       preferForegroundAdjust = None, preferBackgroundAdjust = None \<rparr>"

definition largeTextOptions :: SnapOptions where
  "largeTextOptions =
     \<lparr> isLargeText = Some True, uiComponent = None, lockHue = None, lockChroma = None,
       preferForegroundAdjust = None, preferBackgroundAdjust = None \<rparr>"

definition largeTextBackgroundOptions :: SnapOptions where
  "largeTextBackgroundOptions =
     \<lparr> isLargeText = Some True, uiComponent = None, lockHue = None, lockChroma = None,
       preferForegroundAdjust = None, preferBackgroundAdjust = Some True \<rparr>"

section \<open>Properties\<close>

subsection \<open>Rounding to the nearest double\<close>

text \<open>
  Rounding within a binade: for \<open>2 powi e \<le> x < 2 powi (e + 1)\<close> in the normal range the
  unit in the last place is \<open>2 powi (e - 52)\<close>.
\<close>

lemma ulpUp_eq:
  assumes "0 < u" and "j \<le> n" and "2 ^ 52 * (u * 2 ^ j) \<le> x" and "x < 2 ^ 53 * (u * 2 ^ j)"
  shows "ulpUp n x u = u * 2 ^ j"
  using assms
proof (induction j arbitrary: u n)
  case 0
  then show ?case by (cases n) simp_all
next
  case (Suc j)
  then obtain n' where n: "n = Suc n'" "j \<le> n'" by (cases n) simp_all
  have "2 ^ 53 * u \<le> 2 ^ 52 * (u * 2 ^ Suc j)"
    using Suc.prems(1) by simp
  with Suc.prems(3) have nlt: "\<not> x < 2 ^ 53 * u" by linarith
  have "ulpUp n' x (2 * u) = 2 * u * 2 ^ j"
    using Suc.prems n(2) by (intro Suc.IH) (simp_all add: mult_ac)
  with nlt show ?case by (simp add: n(1))
qed

lemma ulpDown_eq:
  assumes "0 < u" and "j \<le> n" and "2 ^ 52 * (u / 2 ^ j) \<le> x" and "x < 2 ^ 53 * (u / 2 ^ j)"
  shows "ulpDown n x u = u / 2 ^ j"
  using assms
proof (induction j arbitrary: u n)
  case 0
  then show ?case by (cases n) simp_all
next
  case (Suc j)
  then obtain n' where n: "n = Suc n'" "j \<le> n'" by (cases n) simp_all
  have "2 ^ 53 * (u / 2 ^ Suc j) \<le> 2 ^ 52 * u"
    using Suc.prems(1) by (simp add: field_simps)
  with Suc.prems(4) have nle: "\<not> 2 ^ 52 * u \<le> x" by linarith
  have "ulpDown n' x (u / 2) = u / 2 / 2 ^ j"
    using Suc.prems n(2) by (intro Suc.IH) (simp_all add: field_simps)
  with nle show ?case by (simp add: n(1))
qed

lemma ulp_normal:
  assumes "2 powi e \<le> x" and "x < 2 powi (e + 1)" and "- 1022 \<le> e" and "e \<le> 1023"
  shows "ulp x = 2 powi (e - 52)"
proof (cases "52 \<le> e")
  case True
  define j where "j = nat (e - 52)"
  have e: "e = 52 + int j" using True by (simp add: j_def)
  have a: "(2::real) powi e = 2 ^ 52 * 2 ^ j" by (simp add: e power_int_add power_add)
  have b: "(2::real) powi (e + 1) = 2 ^ 53 * 2 ^ j" by (simp add: e power_int_add power_add)
  have c: "(2::real) powi (e - 52) = 2 ^ j" by (simp add: e)
  have "(2::real) ^ 52 \<le> 2 ^ 52 * 2 ^ j" by simp
  with assms(1) a have big: "2 ^ 52 \<le> x" by linarith
  have "j \<le> 971" using assms(4) by (simp add: j_def)
  then have "ulpUp 971 x 1 = 1 * 2 ^ j"
    using assms(1,2) a b by (intro ulpUp_eq) simp_all
  with big show ?thesis by (simp add: ulp_def c)
next
  case False
  define j where "j = nat (52 - e)"
  have e: "e = 52 - int j" using False by (simp add: j_def)
  have j0: "0 < j" using False by (simp add: j_def)
  have a: "(2::real) powi e = 2 ^ 52 / 2 ^ j"
    by (simp add: e power_int_diff)
  have b: "(2::real) powi (e + 1) = 2 ^ 53 / 2 ^ j"
  proof -
    have "e + 1 = 53 - int j" by (simp add: e)
    then show ?thesis by (simp add: power_int_diff)
  qed
  have c: "(2::real) powi (e - 52) = 1 / 2 ^ j"
  proof -
    have "e - 52 = - int j" by (simp add: e)
    then show ?thesis by (simp add: power_int_minus divide_inverse)
  qed
  have "(2::real) ^ 53 / 2 ^ j \<le> 2 ^ 52"
  proof -
    have "(2::real) ^ 53 \<le> 2 ^ 52 * 2 ^ j"
      using j0 by (cases j) simp_all
    then show ?thesis by (simp add: field_simps)
  qed
  with assms(2) b have small: "\<not> 2 ^ 52 \<le> x" by linarith
  have "j \<le> 1074" using assms(3) by (simp add: j_def)
  then have "ulpDown 1074 x 1 = 1 / 2 ^ j"
    using assms(1,2) a b by (intro ulpDown_eq) simp_all
  with small show ?thesis by (simp add: ulp_def c)
qed

lemma toDouble_zero: "toDouble 0 = 0"
  by (simp add: toDouble_def)

lemma toDouble_minus: "toDouble (- x) = - toDouble x"
  by (simp add: toDouble_def Let_def sgn_minus)

lemma toDouble_normal:
  assumes "2 powi e \<le> x" and "x < 2 powi (e + 1)" and "- 1022 \<le> e" and "e \<le> 1023"
  shows "toDouble x = of_int (roundTiesToEven (x / 2 powi (e - 52))) * 2 powi (e - 52)"
proof -
  have "(0::real) < 2 powi e" by simp
  with assms(1) have pos: "0 < x" by linarith
  then show ?thesis
    by (simp add: toDouble_def Let_def ulp_normal [OF assms])
qed

lemma subD_self: "subD x x = 0"
  by (simp add: subD_def toDouble_zero)


subsection \<open>Hex strings and bytes\<close>

lemma upperDigit_all:
  "\<forall>i<16. hexDigitValue (upperDigit i) = i \<and> isHexChar (upperDigit i)
      \<and> toUpperChar (upperDigit i) = upperDigit i
      \<and> toUpperChar (''0123456789abcdef'' ! i) = upperDigit i"
  unfolding upperDigit_def hexDigitValue_def isHexChar_def toUpperChar_def
  by (simp add: eval_nat_numeral All_less_Suc)

lemma upperDigit_props:
  assumes "i < 16"
  shows "hexDigitValue (upperDigit i) = i"
    and "isHexChar (upperDigit i)"
    and "toUpperChar (upperDigit i) = upperDigit i"
    and "toUpperChar (''0123456789abcdef'' ! i) = upperDigit i"
  using upperDigit_all assms by blast+

lemma toString16_byte:
  assumes "k < 256"
  shows "padStart 2 CHR ''0'' (toString16 k) =
           [''0123456789abcdef'' ! (k div 16), ''0123456789abcdef'' ! (k mod 16)]"
proof (cases "k < 16")
  case True
  then show ?thesis by (simp add: toString16.simps padStart_def)
next
  case False
  with assms have "k div 16 < 16" by simp
  with False show ?thesis
    by (simp add: toString16.simps [of k] toString16.simps [of "k div 16"] padStart_def)
qed

lemma channelByte_lt: "channelByte n < 256"
  unfolding channelByte_def mathRound_def
  by (simp add: nat_less_iff floor_less_iff)

lemma toHex_form: "toHex n = [upperDigit (channelByte n div 16), upperDigit (channelByte n mod 16)]"
proof -
  have k: "channelByte n < 256" by (rule channelByte_lt)
  then have d: "channelByte n div 16 < 16" by simp
  have m: "channelByte n mod 16 < 16" by simp
  show ?thesis
    unfolding toHex_def channelByte_def [symmetric]
    by (simp add: toString16_byte [OF k] toUpperCase_def upperDigit_props(4) [OF d] upperDigit_props(4) [OF m])
qed

lemma parseInt16_pair:
  assumes "i < 16" "j < 16"
  shows "parseInt16 [upperDigit i, upperDigit j] = 16 * i + j"
  by (simp add: parseInt16_def upperDigit_props(1) [OF assms(1)] upperDigit_props(1) [OF assms(2)])

lemma hexToRgb_rgbToHex: "hexToRgb (rgbToHex c) = Inr (canonRgb c)"
proof -
  have d: "\<And>n. channelByte n div 16 < 16" using channelByte_lt by (simp add: less_mult_imp_div_less)
  have m: "\<And>n. channelByte n mod 16 < 16" by simp
  have e: "\<And>n. 16 * (channelByte n div 16) + channelByte n mod 16 = channelByte n" by simp
  show ?thesis
    unfolding hexToRgb_def rgbToHex_def toHex_form canonRgb_def
    by (simp add: Let_def toUpperCase_def hexFormatTest_def upperDigit_props(2,3) d m
        parseInt16_pair [OF d m] e del: mult_Suc_right)
qed

lemma hexDigitValue_le: "hexDigitValue c \<le> 15"
  by (simp add: hexDigitValue_def)

lemma parseInt16_pair_lt: "parseInt16 [x, y] < 256"
proof -
  have "hexDigitValue x \<le> 15" "hexDigitValue y \<le> 15" by (rule hexDigitValue_le)+
  then show ?thesis by (simp add: parseInt16_def)
qed

lemma parseInt16_len2_lt:
  assumes "length xs = 2"
  shows "parseInt16 xs < 256"
proof -
  from assms obtain x y where "xs = [x, y]"
    by (auto simp: numeral_2_eq_2 length_Suc_conv)
  then show ?thesis by (simp add: parseInt16_pair_lt)
qed

lemma hexToRgb_byteRgb:
  assumes "hexToRgb hex = Inr c"
  shows "byteRgb c"
proof -
  define cleanHex where "cleanHex = toUpperCase (remove1 CHR ''#'' hex)"
  have ok: "hexFormatTest cleanHex"
    using assms unfolding hexToRgb_def cleanHex_def [symmetric] by (simp add: Let_def split: if_splits)
  show ?thesis
  proof (cases "length cleanHex = 3")
    case True
    with assms ok have "c = \<lparr> r = real (parseInt16 [cleanHex ! 0, cleanHex ! 0]),
              g = real (parseInt16 [cleanHex ! 1, cleanHex ! 1]),
              b = real (parseInt16 [cleanHex ! 2, cleanHex ! 2]) \<rparr>"
      unfolding hexToRgb_def cleanHex_def [symmetric] by (simp add: Let_def)
    then show ?thesis unfolding byteRgb_def using parseInt16_pair_lt by blast
  next
    case False
    with ok have len: "length cleanHex = 6" by (auto simp: hexFormatTest_def)
    have t1: "parseInt16 (take 2 cleanHex) < 256"
      using len by (intro parseInt16_len2_lt) simp
    have t2: "parseInt16 (take 2 (drop 2 cleanHex)) < 256"
      using len by (intro parseInt16_len2_lt) simp
    have t3: "parseInt16 (take 2 (drop 4 cleanHex)) < 256"
      using len by (intro parseInt16_len2_lt) simp
    from assms ok False have "c = \<lparr> r = real (parseInt16 (take 2 cleanHex)),
              g = real (parseInt16 (take 2 (drop 2 cleanHex))),
              b = real (parseInt16 (take 2 (drop 4 cleanHex))) \<rparr>"
      unfolding hexToRgb_def cleanHex_def [symmetric] by (simp add: Let_def)
    then show ?thesis unfolding byteRgb_def using t1 t2 t3 by blast
  qed
qed

lemma channelByte_real: "k < 256 \<Longrightarrow> channelByte (real k) = k"
  unfolding channelByte_def mathRound_def by (simp add: min_def max_def)

lemma canonRgb_byteRgb: "byteRgb c \<Longrightarrow> canonRgb c = c"
  unfolding byteRgb_def canonRgb_def by (auto simp: channelByte_real)

lemma byteRgb_canonRgb: "byteRgb (canonRgb c)"
  unfolding byteRgb_def canonRgb_def using channelByte_lt by blast

lemma hexToRgb_canonical: "hexToRgb hex = Inr c \<Longrightarrow> hexToRgb (rgbToHex c) = Inr c"
  by (simp add: hexToRgb_rgbToHex canonRgb_byteRgb hexToRgb_byteRgb)

subsection \<open>Luminance and contrast ratio of parsed colours\<close>

lemma contrastRatio_parsed:
  "hexToRgb fgHex = Inr c1 \<Longrightarrow> hexToRgb bgHex = Inr c2 \<Longrightarrow>
     contrastRatio fgHex bgHex = Inr (ratioOfRgb c1 c2)"
  by (simp add: contrastRatio_def relativeLuminance_def bindE_def ratioOfRgb_def Let_def)

lemma contrastRatio_rgbToHex:
  "contrastRatio (rgbToHex c1) (rgbToHex c2) = Inr (ratioOfRgb (canonRgb c1) (canonRgb c2))"
  by (rule contrastRatio_parsed) (rule hexToRgb_rgbToHex)+

lemma ratioOfRgb_sym: "ratioOfRgb c1 c2 = ratioOfRgb c2 c1"
  by (simp add: ratioOfRgb_def max.commute min.commute)

lemma gammaCorrect_nonneg: "0 \<le> x \<Longrightarrow> 0 \<le> gammaCorrect x"
  by (simp add: gammaCorrect_def)

lemma gammaCorrect_le_1:
  assumes "0 \<le> x" "x \<le> 1"
  shows "gammaCorrect x \<le> 1"
proof (cases "x \<le> 3928 / 100000")
  case True
  then show ?thesis by (simp add: gammaCorrect_def)
next
  case False
  have "0 \<le> (x + 55 / 1000) / (1055 / 1000)" using assms by simp
  moreover have "(x + 55 / 1000) / (1055 / 1000) \<le> 1" using assms by simp
  ultimately have "((x + 55 / 1000) / (1055 / 1000)) powr (24 / 10) \<le> 1 powr (24 / 10)"
    by (intro powr_mono2) simp_all
  with False show ?thesis by (simp add: gammaCorrect_def)
qed

lemma gammaCorrect_eq_0:
  assumes "0 \<le> x"
  shows "gammaCorrect x = 0 \<longleftrightarrow> x = 0"
proof (cases "x \<le> 3928 / 100000")
  case True
  then show ?thesis by (simp add: gammaCorrect_def)
next
  case False
  have "(x + 55 / 1000) / (1055 / 1000) > 0" using assms by simp
  then have "((x + 55 / 1000) / (1055 / 1000)) powr (24 / 10) > 0" by simp
  with False show ?thesis by (auto simp add: gammaCorrect_def)
qed

lemma gammaCorrect_eq_1:
  assumes "0 \<le> x" "x \<le> 1"
  shows "gammaCorrect x = 1 \<longleftrightarrow> x = 1"
proof (cases "x \<le> 3928 / 100000")
  case True
  then show ?thesis by (simp add: gammaCorrect_def)
next
  case False
  show ?thesis
  proof (cases "x = 1")
    case True
    then show ?thesis by (simp add: gammaCorrect_def)
  next
    case ne: False
    have "0 \<le> (x + 55 / 1000) / (1055 / 1000)" using assms by simp
    moreover have "(x + 55 / 1000) / (1055 / 1000) < 1" using assms ne by simp
    ultimately have "((x + 55 / 1000) / (1055 / 1000)) powr (24 / 10) < 1 powr (24 / 10)"
      by (intro powr_less_mono2) simp_all
    with False ne show ?thesis by (simp add: gammaCorrect_def)
  qed
qed

lemma luminance_bounds:
  assumes "byteRgb c"
  shows "0 \<le> luminanceOfRgb c" and "luminanceOfRgb c \<le> 1"
    and "luminanceOfRgb c = 0 \<longleftrightarrow> c = black"
    and "luminanceOfRgb c = 1 \<longleftrightarrow> c = white"
proof -
  from assms obtain i j k where ijk: "i < 256" "j < 256" "k < 256"
    and c: "c = \<lparr> r = real i, g = real j, b = real k \<rparr>"
    unfolding byteRgb_def by blast
  define x where "x = gammaCorrect (real i / 255)"
  define y where "y = gammaCorrect (real j / 255)"
  define z where "z = gammaCorrect (real k / 255)"
  have L: "luminanceOfRgb c = 2126 / 10000 * x + 7152 / 10000 * y + 722 / 10000 * z"
    by (simp add: c luminanceOfRgb_def x_def y_def z_def)
  have r0: "0 \<le> real i / 255" "0 \<le> real j / 255" "0 \<le> real k / 255" by simp_all
  have r1: "real i / 255 \<le> 1" "real j / 255 \<le> 1" "real k / 255 \<le> 1" using ijk by simp_all
  have p: "0 \<le> x" "0 \<le> y" "0 \<le> z"
    unfolding x_def y_def z_def by (rule gammaCorrect_nonneg, simp)+
  have q: "x \<le> 1" "y \<le> 1" "z \<le> 1"
    unfolding x_def y_def z_def using r0 r1 by (simp_all add: gammaCorrect_le_1)
  show "0 \<le> luminanceOfRgb c" unfolding L using p by simp
  show "luminanceOfRgb c \<le> 1" unfolding L using q by simp
  have "luminanceOfRgb c = 0 \<longleftrightarrow> x = 0 \<and> y = 0 \<and> z = 0"
    unfolding L using p by auto
  also have "\<dots> \<longleftrightarrow> i = 0 \<and> j = 0 \<and> k = 0"
    unfolding x_def y_def z_def using r0 by (simp add: gammaCorrect_eq_0)
  also have "\<dots> \<longleftrightarrow> c = black" by (simp add: c black_def)
  finally show "luminanceOfRgb c = 0 \<longleftrightarrow> c = black" .
  have "luminanceOfRgb c = 1 \<longleftrightarrow> x = 1 \<and> y = 1 \<and> z = 1"
    unfolding L using q by auto
  also have "\<dots> \<longleftrightarrow> i = 255 \<and> j = 255 \<and> k = 255"
    unfolding x_def y_def z_def using r0 r1 by (simp add: gammaCorrect_eq_1)
  also have "\<dots> \<longleftrightarrow> c = white" by (simp add: c white_def)
  finally show "luminanceOfRgb c = 1 \<longleftrightarrow> c = white" .
qed

lemma ratioOfRgb_same: "byteRgb c \<Longrightarrow> ratioOfRgb c c = 1"
  using luminance_bounds(1) [of c] by (simp add: ratioOfRgb_def)

lemma ratioOfRgb_bounds:
  assumes "byteRgb c1" "byteRgb c2"
  shows "1 \<le> ratioOfRgb c1 c2" and "ratioOfRgb c1 c2 \<le> 21"
    and "ratioOfRgb c1 c2 = 21 \<longleftrightarrow> (c1 = black \<and> c2 = white) \<or> (c1 = white \<and> c2 = black)"
    and "ratioOfRgb c1 c2 = 1 \<longleftrightarrow> luminanceOfRgb c1 = luminanceOfRgb c2"
proof -
  define hi where "hi = max (luminanceOfRgb c1) (luminanceOfRgb c2)"
  define lo where "lo = min (luminanceOfRgb c1) (luminanceOfRgb c2)"
  have R: "ratioOfRgb c1 c2 = (hi + 5 / 100) / (lo + 5 / 100)"
    by (simp add: ratioOfRgb_def hi_def lo_def)
  have lo0: "0 \<le> lo" unfolding lo_def using luminance_bounds(1) [OF assms(1)] luminance_bounds(1) [OF assms(2)] by simp
  have hi1: "hi \<le> 1" unfolding hi_def using luminance_bounds(2) [OF assms(1)] luminance_bounds(2) [OF assms(2)] by simp
  have lohi: "lo \<le> hi" unfolding lo_def hi_def by simp
  have pos: "lo + 5 / 100 > 0" using lo0 by simp
  show "1 \<le> ratioOfRgb c1 c2" unfolding R using pos lohi by (simp add: le_divide_eq)
  show "ratioOfRgb c1 c2 \<le> 21" unfolding R using pos lo0 hi1 by (simp add: divide_le_eq)
  have "ratioOfRgb c1 c2 = 21 \<longleftrightarrow> hi + 5 / 100 = 21 * (lo + 5 / 100)"
    unfolding R using pos by (simp add: divide_eq_eq)
  also have "\<dots> \<longleftrightarrow> hi = 1 \<and> lo = 0" using lo0 hi1 by auto
  also have "\<dots> \<longleftrightarrow> (luminanceOfRgb c1 = 0 \<and> luminanceOfRgb c2 = 1) \<or> (luminanceOfRgb c1 = 1 \<and> luminanceOfRgb c2 = 0)"
    unfolding hi_def lo_def by (auto simp: max_def min_def split: if_splits)
  also have "\<dots> \<longleftrightarrow> (c1 = black \<and> c2 = white) \<or> (c1 = white \<and> c2 = black)"
    by (simp add: luminance_bounds(3,4) [OF assms(1)] luminance_bounds(3,4) [OF assms(2)])
  finally show "ratioOfRgb c1 c2 = 21 \<longleftrightarrow> (c1 = black \<and> c2 = white) \<or> (c1 = white \<and> c2 = black)" .
  have "ratioOfRgb c1 c2 = 1 \<longleftrightarrow> hi = lo"
    unfolding R using pos by (simp add: divide_eq_eq)
  also have "\<dots> \<longleftrightarrow> luminanceOfRgb c1 = luminanceOfRgb c2"
    unfolding hi_def lo_def by (auto simp: max_def min_def split: if_splits)
  finally show "ratioOfRgb c1 c2 = 1 \<longleftrightarrow> luminanceOfRgb c1 = luminanceOfRgb c2" .
qed

lemmas hexEval = hexToRgb_def toUpperCase_def toUpperChar_def hexFormatTest_def isHexChar_def
  parseInt16_def hexDigitValue_def Let_def

subsection \<open>The thresholds\<close>

lemma requiredThreshold_gt_1: "requiredThreshold opts > 1"
  by (simp add: requiredThreshold_def LARGE_TEXT_THRESHOLD_def NORMAL_TEXT_THRESHOLD_def)

lemma requiredThreshold_eps_gt_1: "requiredThreshold opts - EPSILON > 1"
  by (simp add: requiredThreshold_def LARGE_TEXT_THRESHOLD_def NORMAL_TEXT_THRESHOLD_def EPSILON_def)

lemma passesContrast_parsed:
  assumes "hexToRgb fgHex = Inr c1" and "hexToRgb bgHex = Inr c2"
  shows "passesContrast fgHex bgHex opts = Inr (ratioOfRgb c1 c2 \<ge> requiredThreshold opts - EPSILON)"
  by (simp add: passesContrast_def contrastRatio_parsed [OF assms] bindE_def requiredThreshold_def)

lemma snap_passing:
  assumes "hexToRgb fgHex = Inr c1" and "hexToRgb bgHex = Inr c2"
    and "ratioOfRgb c1 c2 \<ge> requiredThreshold opts - EPSILON"
  shows "snapToPassingColor fgHex bgHex opts =
           Inr \<lparr> fg = rgbToHex c1, bg = rgbToHex c2, ratio = ratioOfRgb c1 c2,
                 clamped = None, adjusted = None, iterations = None \<rparr>"
proof -
  have b: "canonRgb c1 = c1" "canonRgb c2 = c2"
    using assms(1,2) by (simp_all add: canonRgb_byteRgb hexToRgb_byteRgb)
  show ?thesis
    using assms(3) unfolding snapToPassingColor_def requiredThreshold_def
    by (simp add: assms(1,2) bindE_def contrastRatio_rgbToHex b)
qed

lemma snap_identical:
  assumes "hexToRgb fgHex = Inr c1" and "hexToRgb bgHex = Inr c2"
    and "ratioOfRgb c1 c2 = 1"
  shows "snapToPassingColor fgHex bgHex opts =
           Inr \<lparr> fg = rgbToHex c1, bg = rgbToHex c2, ratio = 1,
                 clamped = Some True, adjusted = None, iterations = None \<rparr>"
proof -
  have b: "canonRgb c1 = c1" "canonRgb c2 = c2"
    using assms(1,2) by (simp_all add: canonRgb_byteRgb hexToRgb_byteRgb)
  have "\<not> (1 \<ge> requiredThreshold opts - EPSILON)" "requiredThreshold opts > 1"
    using requiredThreshold_eps_gt_1 [of opts] requiredThreshold_gt_1 [of opts] by simp_all
  then show ?thesis
    unfolding snapToPassingColor_def requiredThreshold_def
    by (simp add: assms bindE_def contrastRatio_rgbToHex b)
qed

subsection \<open>The searches always return, and record the ratio of what they return\<close>

lemma searchBody_returns:
  assumes "ratioRecorded otherRgb (bestRgb st) (bestRatio st)"
  shows "\<exists>st'. searchBody originalHsl otherRgb threshold isForeground isLightening st = Inr st'
           \<and> ratioRecorded otherRgb (bestRgb st') (bestRatio st')
           \<and> iterationCount st' = iterationCount st + 1"
proof (cases isForeground)
  case True
  with assms show ?thesis
    by (simp add: searchBody_def Let_def bindE_def contrastRatio_rgbToHex ratioRecorded_def)
next
  case False
  with assms show ?thesis
    by (simp add: searchBody_def Let_def bindE_def contrastRatio_rgbToHex ratioRecorded_def
        ratioOfRgb_sym [of "canonRgb otherRgb"])
qed

lemma searchLoop_returns:
  assumes "ratioRecorded otherRgb (bestRgb st) (bestRatio st)"
  shows "\<exists>st'. searchLoop n originalHsl otherRgb threshold isForeground isLightening st = Inr st'
           \<and> ratioRecorded otherRgb (bestRgb st') (bestRatio st')"
  using assms
proof (induction n arbitrary: st)
  case 0
  then show ?case by simp
next
  case (Suc n)
  from searchBody_returns [OF Suc.prems]
  obtain st1 where b: "searchBody originalHsl otherRgb threshold isForeground isLightening st = Inr st1"
    and r: "ratioRecorded otherRgb (bestRgb st1) (bestRatio st1)"
    by blast
  from Suc.IH [OF r] r b show ?case
    by (simp add: bindE_def)
qed

lemma binarySearchLightness_returns:
  "\<exists>res. binarySearchLightness originalHsl otherRgb threshold isForeground isLightening n = Inr res
         \<and> ratioRecorded otherRgb (rgb res) (ratio res)"
proof -
  define st0 where "st0 =
     \<lparr> minL = (if isLightening then l originalHsl else 0),
       maxL = (if isLightening then 100 else l originalHsl),
       bestRgb = hslToRgb originalHsl,
       bestRatio = ratioOfRgb (canonRgb (hslToRgb originalHsl)) (canonRgb otherRgb),
       iterationCount = 0 \<rparr>"
  have "ratioRecorded otherRgb (bestRgb st0) (bestRatio st0)"
    by (simp add: st0_def ratioRecorded_def)
  from searchLoop_returns [OF this, of n originalHsl threshold isForeground isLightening]
  obtain st' where
    "searchLoop n originalHsl otherRgb threshold isForeground isLightening st0 = Inr st'"
    "ratioRecorded otherRgb (bestRgb st') (bestRatio st')"
    by blast
  then show ?thesis
    by (simp add: binarySearchLightness_def Let_def bindE_def contrastRatio_rgbToHex st0_def)
qed

lemma startsWith_paths:
  "startsWith ''fg-lighten'' ''fg''" "startsWith ''fg-darken'' ''fg''"
  "\<not> startsWith ''bg-darken'' ''fg''" "\<not> startsWith ''bg-lighten'' ''fg''"
  by (simp_all add: startsWith_def)

lemma snapCandidates_returns:
  "\<exists>cands. snapCandidates fgRgb bgRgb threshold = Inr cands
      \<and> map path cands = [''fg-lighten'', ''fg-darken'', ''bg-darken'', ''bg-lighten'']
      \<and> (\<forall>c \<in> set cands. candidateSound fgRgb bgRgb c)"
proof -
  obtain cA where a: "binarySearchLightness (rgbToHsl fgRgb) bgRgb threshold True True 7 = Inr cA"
    and ra: "ratioRecorded bgRgb (rgb cA) (ratio cA)"
    using binarySearchLightness_returns by blast
  obtain cB where b: "binarySearchLightness (rgbToHsl fgRgb) bgRgb threshold True False 7 = Inr cB"
    and rb: "ratioRecorded bgRgb (rgb cB) (ratio cB)"
    using binarySearchLightness_returns by blast
  obtain cC where c: "binarySearchLightness (rgbToHsl bgRgb) fgRgb threshold False False 7 = Inr cC"
    and rc: "ratioRecorded fgRgb (rgb cC) (ratio cC)"
    using binarySearchLightness_returns by blast
  obtain cD where d: "binarySearchLightness (rgbToHsl bgRgb) fgRgb threshold False True 7 = Inr cD"
    and rd: "ratioRecorded fgRgb (rgb cD) (ratio cD)"
    using binarySearchLightness_returns by blast
  show ?thesis
    using ra rb rc rd
    by (simp add: snapCandidates_def Let_def bindE_def a b c d withPath_def candidateSound_def
        startsWith_paths)
qed

subsection \<open>The selected candidate is one of the candidates\<close>

lemma findOrFirst_mem: "xs \<noteq> [] \<Longrightarrow> findOrFirst P xs \<in> set xs"
  by (auto simp: findOrFirst_def find_Some_iff split: option.splits)

lemma tieBreak_mem: "similar \<noteq> [] \<Longrightarrow> tieBreak opts similar \<in> set similar"
  by (simp add: tieBreak_def findOrFirst_mem)

lemma similarCandidates_subset: "set (similarCandidates xs) \<subseteq> set xs"
  by (auto simp: similarCandidates_def Let_def)

lemma similarCandidates_nonempty: "xs \<noteq> [] \<Longrightarrow> similarCandidates xs \<noteq> []"
proof -
  assume "xs \<noteq> []"
  then have "hd xs \<in> set (similarCandidates xs)"
    by (simp add: similarCandidates_def Let_def subD_self)
  then show ?thesis by auto
qed

lemma set_sortedByChange:
  "set (sortedByChange fgHsl bgHsl ps) = withChange fgHsl bgHsl ` set ps"
  by (simp add: sortedByChange_def)

lemma truncate_withChange: "Candidate.truncate (withChange fgHsl bgHsl c) = c"
  by (simp add: Candidate.truncate_def withChange_def)

lemma foldl_pick_mem:
  "foldl (\<lambda>best current. if P current best then current else best) a xs \<in> insert a (set xs)"
  by (induction xs arbitrary: a) (auto split: if_splits)

lemma bestAchievable_mem: "candidates \<noteq> [] \<Longrightarrow> bestAchievable candidates \<in> set candidates"
proof -
  assume ne: "candidates \<noteq> []"
  have "bestAchievable candidates \<in> insert (hd candidates) (set (tl candidates))"
    unfolding bestAchievable_def
    by (rule foldl_pick_mem [of "\<lambda>current best. ratio current > ratio best"])
  with ne show ?thesis by (cases candidates) auto
qed

lemma selectBest_mem:
  assumes "candidates \<noteq> []"
    and "selectBest opts fgHsl bgHsl threshold candidates = (best, cl)"
  shows "best \<in> set candidates" and "\<not> cl \<Longrightarrow> ratio best \<ge> threshold - EPSILON"
proof -
  define ps where "ps = filter (\<lambda>c. ratio c \<ge> threshold - EPSILON) candidates"
  define sim where "sim = similarCandidates (sortedByChange fgHsl bgHsl ps)"
  have both: "best \<in> set candidates \<and> (\<not> cl \<longrightarrow> ratio best \<ge> threshold - EPSILON)"
  proof (cases "length ps > 0")
    case True
    then have "sortedByChange fgHsl bgHsl ps \<noteq> []"
      using set_sortedByChange [of fgHsl bgHsl ps] by (cases ps) auto
    then have "sim \<noteq> []" unfolding sim_def by (rule similarCandidates_nonempty)
    then have "tieBreak opts sim \<in> set sim" by (rule tieBreak_mem)
    then have "tieBreak opts sim \<in> withChange fgHsl bgHsl ` set ps"
      using similarCandidates_subset set_sortedByChange unfolding sim_def by blast
    then obtain c where c: "c \<in> set ps" "tieBreak opts sim = withChange fgHsl bgHsl c" by blast
    from assms(2) True have "best = Candidate.truncate (tieBreak opts sim)" "cl = False"
      unfolding selectBest_def ps_def [symmetric] sim_def by (auto simp add: Let_def)
    with c have "best = c" by (simp add: truncate_withChange)
    with c(1) show ?thesis unfolding ps_def by simp
  next
    case False
    with assms(2) have "best = bestAchievable candidates" "cl = True"
      unfolding selectBest_def ps_def [symmetric] by (simp_all add: Let_def)
    with assms(1) show ?thesis by (simp add: bestAchievable_mem)
  qed
  from both show "best \<in> set candidates" by simp
  from both show "\<not> cl \<Longrightarrow> ratio best \<ge> threshold - EPSILON" by simp
qed

subsection \<open>What snapToPassingColor returns\<close>

lemma canonicalHex_rgbToHex: "canonicalHex (rgbToHex c)"
proof -
  have d: "\<And>n. channelByte n div 16 < 16" using channelByte_lt by (simp add: less_mult_imp_div_less)
  have m: "\<And>n. channelByte n mod 16 < 16" by simp
  show ?thesis
    by (simp add: canonicalHex_def rgbToHex_def toHex_form upperDigit_props(2) d m)
qed

lemma snap_searched:
  assumes p1: "hexToRgb fgHex = Inr c1" and p2: "hexToRgb bgHex = Inr c2"
    and nopass: "\<not> ratioOfRgb c1 c2 \<ge> requiredThreshold opts - EPSILON"
    and ne1: "ratioOfRgb c1 c2 \<noteq> 1"
    and cs: "snapCandidates c1 c2 (requiredThreshold opts) = Inr cands"
    and sound: "\<forall>c \<in> set cands. candidateSound c1 c2 c"
    and sel: "selectBest opts (rgbToHsl c1) (rgbToHsl c2) (requiredThreshold opts) cands = (best, cl)"
    and mem: "best \<in> set cands"
  shows "snapToPassingColor fgHex bgHex opts = Inr (resultOf c1 c2 best cl)"
proof -
  have b: "canonRgb c1 = c1" "canonRgb c2 = c2"
    using p1 p2 by (simp_all add: canonRgb_byteRgb hexToRgb_byteRgb)
  have snd: "candidateSound c1 c2 best" using sound mem by blast
  have cur: "contrastRatio (rgbToHex c1) (rgbToHex c2) = Inr (ratioOfRgb c1 c2)"
    by (simp add: contrastRatio_rgbToHex b)
  show ?thesis
  proof (cases "startsWith (path best) ''fg''")
    case True
    with snd have "ratio best = ratioOfRgb (canonRgb (rgb best)) c2"
      by (simp add: candidateSound_def ratioRecorded_def b)
    then have f: "contrastRatio (rgbToHex (rgb best)) (rgbToHex c2) = Inr (ratio best)"
      by (simp add: contrastRatio_rgbToHex b)
    show ?thesis
      using nopass ne1 True
      unfolding snapToPassingColor_def requiredThreshold_def [symmetric]
      by (simp add: p1 p2 bindE_def cur Let_def cs sel f resultOf_def)
  next
    case False
    with snd have "ratio best = ratioOfRgb (canonRgb (rgb best)) c1"
      by (simp add: candidateSound_def ratioRecorded_def b)
    then have f: "contrastRatio (rgbToHex c1) (rgbToHex (rgb best)) = Inr (ratio best)"
      by (simp add: contrastRatio_rgbToHex b ratioOfRgb_sym [of c1])
    show ?thesis
      using nopass ne1 False
      unfolding snapToPassingColor_def requiredThreshold_def [symmetric]
      by (simp add: p1 p2 bindE_def cur Let_def cs sel f resultOf_def)
  qed
qed

text \<open>The three ways out of snapToPassingColor, for inputs that parse.\<close>

lemma snap_cases:
  assumes p1: "hexToRgb fgHex = Inr c1" and p2: "hexToRgb bgHex = Inr c2"
  obtains
    (passing) "ratioOfRgb c1 c2 \<ge> requiredThreshold opts - EPSILON"
      "snapToPassingColor fgHex bgHex opts =
         Inr \<lparr> fg = rgbToHex c1, bg = rgbToHex c2, ratio = ratioOfRgb c1 c2,
               clamped = None, adjusted = None, iterations = None \<rparr>"
  | (identical) "ratioOfRgb c1 c2 = 1"
      "snapToPassingColor fgHex bgHex opts =
         Inr \<lparr> fg = rgbToHex c1, bg = rgbToHex c2, ratio = 1,
               clamped = Some True, adjusted = None, iterations = None \<rparr>"
  | (searched) cands best cl where
      "\<not> ratioOfRgb c1 c2 \<ge> requiredThreshold opts - EPSILON" "ratioOfRgb c1 c2 \<noteq> 1"
      "snapCandidates c1 c2 (requiredThreshold opts) = Inr cands"
      "map path cands = [''fg-lighten'', ''fg-darken'', ''bg-darken'', ''bg-lighten'']"
      "\<forall>c \<in> set cands. candidateSound c1 c2 c"
      "selectBest opts (rgbToHsl c1) (rgbToHsl c2) (requiredThreshold opts) cands = (best, cl)"
      "best \<in> set cands" "\<not> cl \<Longrightarrow> ratio best \<ge> requiredThreshold opts - EPSILON"
      "snapToPassingColor fgHex bgHex opts = Inr (resultOf c1 c2 best cl)"
proof (cases "ratioOfRgb c1 c2 \<ge> requiredThreshold opts - EPSILON")
  case True
  then show ?thesis using passing snap_passing [OF p1 p2] by blast
next
  case nopass: False
  show ?thesis
  proof (cases "ratioOfRgb c1 c2 = 1")
    case True
    then show ?thesis using identical snap_identical [OF p1 p2] by blast
  next
    case ne1: False
    obtain cands where cs: "snapCandidates c1 c2 (requiredThreshold opts) = Inr cands"
      and paths: "map path cands = [''fg-lighten'', ''fg-darken'', ''bg-darken'', ''bg-lighten'']"
      and sound: "\<forall>c \<in> set cands. candidateSound c1 c2 c"
      using snapCandidates_returns [of c1 c2 "requiredThreshold opts"] by auto
    obtain best cl where
      sel: "selectBest opts (rgbToHsl c1) (rgbToHsl c2) (requiredThreshold opts) cands = (best, cl)"
      by (cases "selectBest opts (rgbToHsl c1) (rgbToHsl c2) (requiredThreshold opts) cands")
    from paths have nonempty: "cands \<noteq> []" by auto
    note m = selectBest_mem [OF nonempty sel]
    from snap_searched [OF p1 p2 nopass ne1 cs sound sel m(1)]
    show ?thesis using searched [OF nopass ne1 cs paths sound sel m(1) m(2)] by blast
  qed
qed

subsection \<open>Deciding comparisons of contrast ratios from rational bounds\<close>

lemma root5_power5:
  fixes a :: real
  assumes "0 \<le> a"
  shows "(a ^ 5) powr (1 / 5) = a"
proof (cases "a = 0")
  case True
  then show ?thesis by simp
next
  case False
  with assms have pos: "0 < a" by simp
  then have "(a ^ 5) powr (1 / 5) = (a powr 5) powr (1 / 5)"
    by (simp add: powr_numeral)
  also have "\<dots> = a powr 1" by (simp add: powr_powr)
  also have "\<dots> = a" using pos by simp
  finally show ?thesis .
qed

lemma powr_24_as_root:
  fixes x :: real
  assumes "0 < x"
  shows "x powr (24 / 10) = (x ^ 12) powr (1 / 5)"
proof -
  have "(x ^ 12) powr (1 / 5) = (x powr 12) powr (1 / 5)"
    using assms by (simp add: powr_numeral)
  also have "\<dots> = x powr (24 / 10)" by (simp add: powr_powr)
  finally show ?thesis by simp
qed

lemma gammaCorrect_between:
  assumes "3928 / 100000 < c" and "0 \<le> lo" and "0 \<le> hi"
    and "lo ^ 5 \<le> ((c + 55 / 1000) / (1055 / 1000)) ^ 12"
    and "((c + 55 / 1000) / (1055 / 1000)) ^ 12 \<le> hi ^ 5"
  shows "lo \<le> gammaCorrect c \<and> gammaCorrect c \<le> hi"
proof -
  define x where "x = (c + 55 / 1000) / (1055 / 1000)"
  have pos: "0 < x" using assms(1) by (simp add: x_def)
  have "gammaCorrect c = x powr (24 / 10)"
    unfolding gammaCorrect_def x_def using assms(1) by simp
  then have g: "gammaCorrect c = (x ^ 12) powr (1 / 5)"
    by (simp only: powr_24_as_root [OF pos])
  have "(lo ^ 5) powr (1 / 5) \<le> (x ^ 12) powr (1 / 5)"
    using assms(2,4) by (intro powr_mono2) (simp_all add: x_def)
  moreover have "(x ^ 12) powr (1 / 5) \<le> (hi ^ 5) powr (1 / 5)"
    using assms(5) by (intro powr_mono2) (simp_all add: x_def)
  ultimately show ?thesis
    by (simp add: g root5_power5 assms(2,3))
qed

lemma ratio_ge_from_bounds:
  assumes "loA \<le> luminanceOfRgb A \<and> luminanceOfRgb A \<le> hiA"
    and "loB \<le> luminanceOfRgb B \<and> luminanceOfRgb B \<le> hiB"
    and "0 \<le> loA" and "0 \<le> loB" and "0 \<le> T"
    and "T * (hiB + 5 / 100) \<le> loA + 5 / 100 \<or> T * (hiA + 5 / 100) \<le> loB + 5 / 100"
  shows "T \<le> ratioOfRgb A B"
proof -
  define hi where "hi = max (luminanceOfRgb A) (luminanceOfRgb B)"
  define lo where "lo = min (luminanceOfRgb A) (luminanceOfRgb B)"
  have "0 \<le> luminanceOfRgb A" "0 \<le> luminanceOfRgb B" using assms(1-4) by simp_all
  then have pos: "0 < lo + 5 / 100" by (simp add: lo_def min_def)
  have "T * (lo + 5 / 100) \<le> hi + 5 / 100"
  proof -
    from assms(6) show ?thesis
    proof
      assume a: "T * (hiB + 5 / 100) \<le> loA + 5 / 100"
      have "lo + 5 / 100 \<le> hiB + 5 / 100" using assms(2) by (simp add: lo_def min_def)
      then have "T * (lo + 5 / 100) \<le> T * (hiB + 5 / 100)"
        using assms(5) by (rule mult_left_mono)
      also have "\<dots> \<le> hi + 5 / 100" using a assms(1) by (simp add: hi_def max_def)
      finally show ?thesis .
    next
      assume a: "T * (hiA + 5 / 100) \<le> loB + 5 / 100"
      have "lo + 5 / 100 \<le> hiA + 5 / 100" using assms(1) by (simp add: lo_def min_def)
      then have "T * (lo + 5 / 100) \<le> T * (hiA + 5 / 100)"
        using assms(5) by (rule mult_left_mono)
      also have "\<dots> \<le> hi + 5 / 100" using a assms(2) by (simp add: hi_def max_def)
      finally show ?thesis .
    qed
  qed
  then show ?thesis
    using pos unfolding ratioOfRgb_def hi_def [symmetric] lo_def [symmetric]
    by (simp add: le_divide_eq)
qed

lemma ratio_lt_from_bounds:
  assumes "loA \<le> luminanceOfRgb A \<and> luminanceOfRgb A \<le> hiA"
    and "loB \<le> luminanceOfRgb B \<and> luminanceOfRgb B \<le> hiB"
    and "0 \<le> loA" and "0 \<le> loB" and "0 \<le> T"
    and "hiA + 5 / 100 < T * (loB + 5 / 100)" and "hiB + 5 / 100 < T * (loA + 5 / 100)"
  shows "\<not> T \<le> ratioOfRgb A B"
proof -
  define hi where "hi = max (luminanceOfRgb A) (luminanceOfRgb B)"
  define lo where "lo = min (luminanceOfRgb A) (luminanceOfRgb B)"
  have "0 \<le> luminanceOfRgb A" "0 \<le> luminanceOfRgb B" using assms(1-4) by simp_all
  then have pos: "0 < lo + 5 / 100" by (simp add: lo_def min_def)
  have a: "T * (loB + 5 / 100) \<le> T * (luminanceOfRgb B + 5 / 100)"
    using assms(2,5) by (intro mult_left_mono) simp_all
  have b: "T * (loA + 5 / 100) \<le> T * (luminanceOfRgb A + 5 / 100)"
    using assms(1,5) by (intro mult_left_mono) simp_all
  have "hi + 5 / 100 < T * (lo + 5 / 100)"
  proof (cases "luminanceOfRgb A \<le> luminanceOfRgb B")
    case True
    then have "hi = luminanceOfRgb B" "lo = luminanceOfRgb A" by (simp_all add: hi_def lo_def)
    then show ?thesis using assms(2,7) b by simp
  next
    case False
    then have "hi = luminanceOfRgb A" "lo = luminanceOfRgb B" by (simp_all add: hi_def lo_def)
    then show ?thesis using assms(1,6) a by simp
  qed
  then show ?thesis
    using pos unfolding ratioOfRgb_def hi_def [symmetric] lo_def [symmetric]
    by (simp add: le_divide_eq)
qed

lemma ratio_ne_1_from_bounds:
  assumes "loA \<le> luminanceOfRgb A \<and> luminanceOfRgb A \<le> hiA"
    and "loB \<le> luminanceOfRgb B \<and> luminanceOfRgb B \<le> hiB"
    and "0 \<le> loA" and "0 \<le> loB"
    and "hiA < loB \<or> hiB < loA"
  shows "ratioOfRgb A B \<noteq> 1"
proof -
  have ne: "luminanceOfRgb A \<noteq> luminanceOfRgb B" using assms(1,2,5) by auto
  have "0 \<le> luminanceOfRgb A" "0 \<le> luminanceOfRgb B" using assms(1-4) by simp_all
  then have "0 < min (luminanceOfRgb A) (luminanceOfRgb B) + 5 / 100" by (simp add: min_def)
  then show ?thesis
    using ne unfolding ratioOfRgb_def by (auto simp: divide_eq_eq max_def min_def)
qed

lemma searchLoop_numeral:
  "searchLoop (numeral k) originalHsl otherRgb threshold isForeground isLightening st =
     bindE (searchBody originalHsl otherRgb threshold isForeground isLightening st) (\<lambda>st'.
       if \<bar>subD (maxL st') (minL st')\<bar> < toDouble (1 / 10) then Inr st'
       else searchLoop (pred_numeral k) originalHsl otherRgb threshold isForeground isLightening st')"
  by (simp add: numeral_eq_Suc)

subsection \<open>The comparison made in each iteration of a search\<close>

lemma searchBody_unfold:
  "searchBody originalHsl otherRgb threshold isForeground isLightening st =
     Inr (if ratioOfRgb (canonRgb (if isForeground
                                     then hslToRgb (originalHsl \<lparr> l := divD (addD (minL st) (maxL st)) 2 \<rparr>)
                                     else otherRgb))
                        (canonRgb (if isForeground
                                     then otherRgb
                                     else hslToRgb (originalHsl \<lparr> l := divD (addD (minL st) (maxL st)) 2 \<rparr>)))
              \<ge> threshold
          then (if isLightening
                then st \<lparr> maxL := divD (addD (minL st) (maxL st)) 2,
                          bestRgb := hslToRgb (originalHsl \<lparr> l := divD (addD (minL st) (maxL st)) 2 \<rparr>),
                          bestRatio :=
                            ratioOfRgb (canonRgb (if isForeground
                                     then hslToRgb (originalHsl \<lparr> l := divD (addD (minL st) (maxL st)) 2 \<rparr>)
                                     else otherRgb))
                              (canonRgb (if isForeground
                                     then otherRgb
                                     else hslToRgb (originalHsl \<lparr> l := divD (addD (minL st) (maxL st)) 2 \<rparr>))),
                          iterationCount := iterationCount st + 1 \<rparr>
                else st \<lparr> minL := divD (addD (minL st) (maxL st)) 2,
                          bestRgb := hslToRgb (originalHsl \<lparr> l := divD (addD (minL st) (maxL st)) 2 \<rparr>),
                          bestRatio :=
                            ratioOfRgb (canonRgb (if isForeground
                                     then hslToRgb (originalHsl \<lparr> l := divD (addD (minL st) (maxL st)) 2 \<rparr>)
                                     else otherRgb))
                              (canonRgb (if isForeground
                                     then otherRgb
                                     else hslToRgb (originalHsl \<lparr> l := divD (addD (minL st) (maxL st)) 2 \<rparr>))),
                          iterationCount := iterationCount st + 1 \<rparr>)
          else (if isLightening
                then st \<lparr> minL := divD (addD (minL st) (maxL st)) 2, iterationCount := iterationCount st + 1 \<rparr>
                else st \<lparr> maxL := divD (addD (minL st) (maxL st)) 2, iterationCount := iterationCount st + 1 \<rparr>))"
  by (simp add: searchBody_def Let_def bindE_def contrastRatio_rgbToHex)

lemma searchBody_bestMeetsThreshold:
  assumes "bestMeetsThreshold originalHsl threshold st"
    and "searchBody originalHsl otherRgb threshold isForeground isLightening st = Inr st'"
  shows "bestMeetsThreshold originalHsl threshold st'"
  using assms unfolding searchBody_unfold bestMeetsThreshold_def
  by (auto split: if_splits)

lemma searchLoop_bestMeetsThreshold:
  assumes "bestMeetsThreshold originalHsl threshold st"
    and "searchLoop n originalHsl otherRgb threshold isForeground isLightening st = Inr st'"
  shows "bestMeetsThreshold originalHsl threshold st'"
  using assms
proof (induction n arbitrary: st)
  case 0
  then show ?case by simp
next
  case (Suc n)
  obtain st1 where b: "searchBody originalHsl otherRgb threshold isForeground isLightening st = Inr st1"
    by (simp add: searchBody_unfold)
  have i1: "bestMeetsThreshold originalHsl threshold st1"
    by (rule searchBody_bestMeetsThreshold [OF Suc.prems(1) b])
  show ?case
  proof (cases "\<bar>subD (maxL st1) (minL st1)\<bar> < toDouble (1 / 10)")
    case True
    with Suc.prems(2) b have "st' = st1" by (simp add: bindE_def)
    with i1 show ?thesis by simp
  next
    case False
    with Suc.prems(2) b
    have "searchLoop n originalHsl otherRgb threshold isForeground isLightening st1 = Inr st'"
      by (simp add: bindE_def)
    from Suc.IH [OF i1 this] show ?thesis .
  qed
qed

lemma binarySearchLightness_meets_threshold:
  assumes "binarySearchLightness originalHsl otherRgb threshold isForeground isLightening n = Inr res"
  shows "ratio res \<ge> threshold \<or> rgb res = hslToRgb originalHsl"
proof -
  define st0 where "st0 =
     \<lparr> minL = (if isLightening then l originalHsl else 0),
       maxL = (if isLightening then 100 else l originalHsl),
       bestRgb = hslToRgb originalHsl,
       bestRatio = ratioOfRgb (canonRgb (hslToRgb originalHsl)) (canonRgb otherRgb),
       iterationCount = 0 \<rparr>"
  have i0: "bestMeetsThreshold originalHsl threshold st0"
    by (simp add: bestMeetsThreshold_def st0_def)
  from assms obtain st' where
    lp: "searchLoop n originalHsl otherRgb threshold isForeground isLightening st0 = Inr st'"
    and res: "res = \<lparr> rgb = bestRgb st', ratio = bestRatio st', iterations = iterationCount st' \<rparr>"
    unfolding binarySearchLightness_def st0_def
    by (auto simp: Let_def bindE_def contrastRatio_rgbToHex split: sum.splits)
  from searchLoop_bestMeetsThreshold [OF i0 lp] show ?thesis
    by (simp add: res bestMeetsThreshold_def)
qed

subsection \<open>The choice within the tie zone\<close>







lemmas rgbToHexEval = rgbToHex_def toHex_def mathRound_def padStart_def toString16.simps
  toUpperCase_def toUpperChar_def

section \<open>Calls followed step by step\<close>

text \<open>
  Four calls of snapToPassingColor are followed through their four searches. Every rounding
  to a double is a lemma of its own, proved from the binade of its argument. Every comparison
  of a contrast ratio with the threshold is decided from rational bounds on the luminances,
  themselves obtained from bounds on the gamma-corrected channels
  (\<open>lo\<^sup>5 \<le> x\<^sup>1\<^sup>2 \<le> hi\<^sup>5\<close> gives \<open>lo \<le> x powr 2.4 \<le> hi\<close>).

  In the third call the two background candidates change the lightness by amounts that
  would be equal without rounding (460/17) and that differ in the last places as doubles. In
  the fourth call the sixth midpoint of the search that lightens the background has
  lightness 35.49019607843137; the product \<open>0.3549019607843137 * 255\<close> is
  90.49999999999999 as a double and \<open>Math.round\<close> gives 90, where the product without
  rounding would be 90.5.
\<close>

subsection \<open>snapToPassingColor('#808080', '#B3B3B3', { isLargeText: true })\<close>

lemma gray_parse_fg: "hexToRgb ''#808080'' = Inr \<lparr> r = 128, g = 128, b = 128 \<rparr>"
  by (simp add: hexEval)

lemma gray_parse_bg: "hexToRgb ''#B3B3B3'' = Inr \<lparr> r = 179, g = 179, b = 179 \<rparr>"
  by (simp add: hexEval)

lemma gamma_128:
  "215860500 / 1000000000 \<le> gammaCorrect (128 / 255) \<and> gammaCorrect (128 / 255) \<le> 215860501 / 1000000000"
  by (rule gammaCorrect_between) (simp_all add: power_divide divide_le_eq le_divide_eq)

lemma lum_808080:
  "215860500 / 1000000000 \<le> luminanceOfRgb \<lparr> r = 128, g = 128, b = 128 \<rparr> \<and> luminanceOfRgb \<lparr> r = 128, g = 128, b = 128 \<rparr> \<le> 215860501 / 1000000000"
  using gamma_128 by (simp add: luminanceOfRgb_def)

lemma gamma_179:
  "450785782 / 1000000000 \<le> gammaCorrect (179 / 255) \<and> gammaCorrect (179 / 255) \<le> 450785783 / 1000000000"
  by (rule gammaCorrect_between) (simp_all add: power_divide divide_le_eq le_divide_eq)

lemma lum_B3B3B3:
  "450785782 / 1000000000 \<le> luminanceOfRgb \<lparr> r = 179, g = 179, b = 179 \<rparr> \<and> luminanceOfRgb \<lparr> r = 179, g = 179, b = 179 \<rparr> \<le> 450785783 / 1000000000"
  using gamma_179 by (simp add: luminanceOfRgb_def)

lemma ratio_808080_B3B3B3_large_eps:
  "\<not> LARGE_TEXT_THRESHOLD - EPSILON \<le> ratioOfRgb \<lparr> r = 128, g = 128, b = 128 \<rparr> \<lparr> r = 179, g = 179, b = 179 \<rparr>"
  by (rule ratio_lt_from_bounds [OF lum_808080 lum_B3B3B3]) (simp_all add: LARGE_TEXT_THRESHOLD_def NORMAL_TEXT_THRESHOLD_def EPSILON_def)

lemma ratio_808080_B3B3B3_not_1:
  "ratioOfRgb \<lparr> r = 128, g = 128, b = 128 \<rparr> \<lparr> r = 179, g = 179, b = 179 \<rparr> \<noteq> 1"
  by (rule ratio_ne_1_from_bounds [OF lum_808080 lum_B3B3B3]) simp_all

lemma round_1: "toDouble (128 / 255) = 282578800148737 / 562949953421312"
  using toDouble_normal [of "-1" "128 / 255"] by (simp add: roundTiesToEven_def Let_def)

lemma round_2: "toDouble (282578800148737 / 281474976710656) = 282578800148737 / 281474976710656"
  using toDouble_normal [of "0" "282578800148737 / 281474976710656"] by (simp add: roundTiesToEven_def Let_def)

lemma round_3: "toDouble (282578800148737 / 562949953421312) = 282578800148737 / 562949953421312"
  using toDouble_normal [of "-1" "282578800148737 / 562949953421312"] by (simp add: roundTiesToEven_def Let_def)

lemma round_4: "toDouble (7064470003718425 / 140737488355328) = 7064470003718425 / 140737488355328"
  using toDouble_normal [of "5" "7064470003718425 / 140737488355328"] by (simp add: roundTiesToEven_def Let_def)

lemma hsl_of_808080:
  "rgbToHsl \<lparr> r = 128, g = 128, b = 128 \<rparr> =
     \<lparr> h = 0, s = 0, l = 7064470003718425 / 140737488355328 \<rparr>"
  unfolding rgbToHsl_def Let_def
  by (simp add: addD_def subD_def mulD_def divD_def toDouble_zero toDouble_minus
      round_1 round_2 round_3 round_4)

lemma round_5: "toDouble (179 / 255) = 3161350326663995 / 4503599627370496"
  using toDouble_normal [of "-1" "179 / 255"] by (simp add: roundTiesToEven_def Let_def)

lemma round_6: "toDouble (3161350326663995 / 2251799813685248) = 3161350326663995 / 2251799813685248"
  using toDouble_normal [of "0" "3161350326663995 / 2251799813685248"] by (simp add: roundTiesToEven_def Let_def)

lemma round_7: "toDouble (3161350326663995 / 4503599627370496) = 3161350326663995 / 4503599627370496"
  using toDouble_normal [of "-1" "3161350326663995 / 4503599627370496"] by (simp add: roundTiesToEven_def Let_def)

lemma round_8: "toDouble (79033758166599875 / 1125899906842624) = 1234902471353123 / 17592186044416"
  using toDouble_normal [of "6" "79033758166599875 / 1125899906842624"] by (simp add: roundTiesToEven_def Let_def)

lemma hsl_of_B3B3B3:
  "rgbToHsl \<lparr> r = 179, g = 179, b = 179 \<rparr> =
     \<lparr> h = 0, s = 0, l = 1234902471353123 / 17592186044416 \<rparr>"
  unfolding rgbToHsl_def Let_def
  by (simp add: addD_def subD_def mulD_def divD_def toDouble_zero toDouble_minus
      round_5 round_6 round_7 round_8)

lemma round_9: "toDouble (72057594037927935 / 562949953421312) = 128"
  using toDouble_normal [of "6" "72057594037927935 / 562949953421312"] by (simp add: roundTiesToEven_def Let_def)

lemma rgb_of_hsl_1:
  "hslToRgb \<lparr> h = 0, s = 0, l = 7064470003718425 / 140737488355328 \<rparr> =
     \<lparr> r = 128, g = 128, b = 128 \<rparr>"
  unfolding hslToRgb_def hue2rgb_def Let_def
  by (simp add: mathRound_def addD_def subD_def mulD_def divD_def toDouble_zero toDouble_minus
      round_3 round_9)

lemma round_10: "toDouble (21138218839251225 / 140737488355328) = 2642277354906403 / 17592186044416"
  using toDouble_normal [of "7" "21138218839251225 / 140737488355328"] by (simp add: roundTiesToEven_def Let_def)

lemma round_11: "toDouble (2642277354906403 / 35184372088832) = 2642277354906403 / 35184372088832"
  using toDouble_normal [of "6" "2642277354906403 / 35184372088832"] by (simp add: roundTiesToEven_def Let_def)

lemma round_12: "toDouble (2642277354906403 / 3518437208883200) = 845528753570049 / 1125899906842624"
  using toDouble_normal [of "-1" "2642277354906403 / 3518437208883200"] by (simp add: roundTiesToEven_def Let_def)

lemma round_13: "toDouble (215609832160362495 / 1125899906842624) = 383 / 2"
  using toDouble_normal [of "7" "215609832160362495 / 1125899906842624"] by (simp add: roundTiesToEven_def Let_def)

lemma rgb_of_hsl_2:
  "hslToRgb \<lparr> h = 0, s = 0, l = 2642277354906403 / 35184372088832 \<rparr> =
     \<lparr> r = 192, g = 192, b = 192 \<rparr>"
  unfolding hslToRgb_def hue2rgb_def Let_def
  by (simp add: mathRound_def addD_def subD_def mulD_def divD_def toDouble_zero toDouble_minus
      round_12 round_13)

lemma gamma_192:
  "527115125 / 1000000000 \<le> gammaCorrect (192 / 255) \<and> gammaCorrect (192 / 255) \<le> 527115126 / 1000000000"
  by (rule gammaCorrect_between) (simp_all add: power_divide divide_le_eq le_divide_eq)

lemma lum_C0C0C0:
  "527115125 / 1000000000 \<le> luminanceOfRgb \<lparr> r = 192, g = 192, b = 192 \<rparr> \<and> luminanceOfRgb \<lparr> r = 192, g = 192, b = 192 \<rparr> \<le> 527115126 / 1000000000"
  using gamma_192 by (simp add: luminanceOfRgb_def)

lemma ratio_C0C0C0_B3B3B3_large:
  "\<not> LARGE_TEXT_THRESHOLD \<le> ratioOfRgb \<lparr> r = 192, g = 192, b = 192 \<rparr> \<lparr> r = 179, g = 179, b = 179 \<rparr>"
  by (rule ratio_lt_from_bounds [OF lum_C0C0C0 lum_B3B3B3]) (simp_all add: LARGE_TEXT_THRESHOLD_def NORMAL_TEXT_THRESHOLD_def EPSILON_def)

lemma canon_C0C0C0: "canonRgb \<lparr> r = 192, g = 192, b = 192 \<rparr> = \<lparr> r = 192, g = 192, b = 192 \<rparr>"
  by (simp add: canonRgb_def channelByte_def mathRound_def)

lemma canon_B3B3B3: "canonRgb \<lparr> r = 179, g = 179, b = 179 \<rparr> = \<lparr> r = 179, g = 179, b = 179 \<rparr>"
  by (simp add: canonRgb_def channelByte_def mathRound_def)

lemma gray_fg_lighten_step_1:
  "searchBody \<lparr> h = 0, s = 0, l = 7064470003718425 / 140737488355328 \<rparr> \<lparr> r = 179, g = 179, b = 179 \<rparr> LARGE_TEXT_THRESHOLD True True
     \<lparr> minL = 7064470003718425 / 140737488355328, maxL = 100, bestRgb = \<lparr> r = 128, g = 128, b = 128 \<rparr>,
       bestRatio = ratioOfRgb \<lparr> r = 128, g = 128, b = 128 \<rparr> \<lparr> r = 179, g = 179, b = 179 \<rparr>, iterationCount = 0 \<rparr> =
   Inr \<lparr> minL = 2642277354906403 / 35184372088832, maxL = 100, bestRgb = \<lparr> r = 128, g = 128, b = 128 \<rparr>,
       bestRatio = ratioOfRgb \<lparr> r = 128, g = 128, b = 128 \<rparr> \<lparr> r = 179, g = 179, b = 179 \<rparr>, iterationCount = Suc 0 \<rparr>"
  unfolding searchBody_def Let_def
  by (simp add: bindE_def contrastRatio_rgbToHex addD_def divD_def toDouble_zero
      round_10 round_11 rgb_of_hsl_2 canon_C0C0C0 canon_B3B3B3 ratio_C0C0C0_B3B3B3_large)

lemma round_14: "toDouble (876159853976797 / 35184372088832) = 876159853976797 / 35184372088832"
  using toDouble_normal [of "4" "876159853976797 / 35184372088832"] by (simp add: roundTiesToEven_def Let_def)

lemma round_15: "toDouble (1 / 10) = 3602879701896397 / 36028797018963968"
  using toDouble_normal [of "-4" "1 / 10"] by (simp add: roundTiesToEven_def Let_def)

lemma round_16: "toDouble (6160714563789603 / 35184372088832) = 6160714563789603 / 35184372088832"
  using toDouble_normal [of "7" "6160714563789603 / 35184372088832"] by (simp add: roundTiesToEven_def Let_def)

lemma round_17: "toDouble (6160714563789603 / 70368744177664) = 6160714563789603 / 70368744177664"
  using toDouble_normal [of "6" "6160714563789603 / 70368744177664"] by (simp add: roundTiesToEven_def Let_def)

lemma round_18: "toDouble (6160714563789603 / 7036874417766400) = 1971428660412673 / 2251799813685248"
  using toDouble_normal [of "-1" "6160714563789603 / 7036874417766400"] by (simp add: roundTiesToEven_def Let_def)

lemma round_19: "toDouble (502714308405231615 / 2251799813685248) = 893 / 4"
  using toDouble_normal [of "7" "502714308405231615 / 2251799813685248"] by (simp add: roundTiesToEven_def Let_def)

lemma rgb_of_hsl_3:
  "hslToRgb \<lparr> h = 0, s = 0, l = 6160714563789603 / 70368744177664 \<rparr> =
     \<lparr> r = 223, g = 223, b = 223 \<rparr>"
  unfolding hslToRgb_def hue2rgb_def Let_def
  by (simp add: mathRound_def addD_def subD_def mulD_def divD_def toDouble_zero toDouble_minus
      round_18 round_19)

lemma gamma_223:
  "737910408 / 1000000000 \<le> gammaCorrect (223 / 255) \<and> gammaCorrect (223 / 255) \<le> 737910409 / 1000000000"
  by (rule gammaCorrect_between) (simp_all add: power_divide divide_le_eq le_divide_eq)

lemma lum_DFDFDF:
  "737910408 / 1000000000 \<le> luminanceOfRgb \<lparr> r = 223, g = 223, b = 223 \<rparr> \<and> luminanceOfRgb \<lparr> r = 223, g = 223, b = 223 \<rparr> \<le> 737910409 / 1000000000"
  using gamma_223 by (simp add: luminanceOfRgb_def)

lemma ratio_DFDFDF_B3B3B3_large:
  "\<not> LARGE_TEXT_THRESHOLD \<le> ratioOfRgb \<lparr> r = 223, g = 223, b = 223 \<rparr> \<lparr> r = 179, g = 179, b = 179 \<rparr>"
  by (rule ratio_lt_from_bounds [OF lum_DFDFDF lum_B3B3B3]) (simp_all add: LARGE_TEXT_THRESHOLD_def NORMAL_TEXT_THRESHOLD_def EPSILON_def)

lemma canon_DFDFDF: "canonRgb \<lparr> r = 223, g = 223, b = 223 \<rparr> = \<lparr> r = 223, g = 223, b = 223 \<rparr>"
  by (simp add: canonRgb_def channelByte_def mathRound_def)

lemma gray_fg_lighten_step_2:
  "searchBody \<lparr> h = 0, s = 0, l = 7064470003718425 / 140737488355328 \<rparr> \<lparr> r = 179, g = 179, b = 179 \<rparr> LARGE_TEXT_THRESHOLD True True
     \<lparr> minL = 2642277354906403 / 35184372088832, maxL = 100, bestRgb = \<lparr> r = 128, g = 128, b = 128 \<rparr>,
       bestRatio = ratioOfRgb \<lparr> r = 128, g = 128, b = 128 \<rparr> \<lparr> r = 179, g = 179, b = 179 \<rparr>, iterationCount = Suc 0 \<rparr> =
   Inr \<lparr> minL = 6160714563789603 / 70368744177664, maxL = 100, bestRgb = \<lparr> r = 128, g = 128, b = 128 \<rparr>,
       bestRatio = ratioOfRgb \<lparr> r = 128, g = 128, b = 128 \<rparr> \<lparr> r = 179, g = 179, b = 179 \<rparr>, iterationCount = 2 \<rparr>"
  unfolding searchBody_def Let_def
  by (simp add: bindE_def contrastRatio_rgbToHex addD_def divD_def toDouble_zero
      round_16 round_17 rgb_of_hsl_3 canon_DFDFDF canon_B3B3B3 ratio_DFDFDF_B3B3B3_large)

lemma round_20: "toDouble (876159853976797 / 70368744177664) = 876159853976797 / 70368744177664"
  using toDouble_normal [of "3" "876159853976797 / 70368744177664"] by (simp add: roundTiesToEven_def Let_def)

lemma round_21: "toDouble (13197588981556003 / 70368744177664) = 3299397245389001 / 17592186044416"
  using toDouble_normal [of "7" "13197588981556003 / 70368744177664"] by (simp add: roundTiesToEven_def Let_def)

lemma round_22: "toDouble (3299397245389001 / 35184372088832) = 3299397245389001 / 35184372088832"
  using toDouble_normal [of "6" "3299397245389001 / 35184372088832"] by (simp add: roundTiesToEven_def Let_def)

lemma round_23: "toDouble (3299397245389001 / 3518437208883200) = 8446456948195843 / 9007199254740992"
  using toDouble_normal [of "-1" "3299397245389001 / 3518437208883200"] by (simp add: roundTiesToEven_def Let_def)

lemma round_24: "toDouble (2153846521789939965 / 9007199254740992) = 8413462975741953 / 35184372088832"
  using toDouble_normal [of "7" "2153846521789939965 / 9007199254740992"] by (simp add: roundTiesToEven_def Let_def)

lemma rgb_of_hsl_4:
  "hslToRgb \<lparr> h = 0, s = 0, l = 3299397245389001 / 35184372088832 \<rparr> =
     \<lparr> r = 239, g = 239, b = 239 \<rparr>"
  unfolding hslToRgb_def hue2rgb_def Let_def
  by (simp add: mathRound_def addD_def subD_def mulD_def divD_def toDouble_zero toDouble_minus
      round_23 round_24)

lemma gamma_239:
  "863157213 / 1000000000 \<le> gammaCorrect (239 / 255) \<and> gammaCorrect (239 / 255) \<le> 863157214 / 1000000000"
  by (rule gammaCorrect_between) (simp_all add: power_divide divide_le_eq le_divide_eq)

lemma lum_EFEFEF:
  "863157213 / 1000000000 \<le> luminanceOfRgb \<lparr> r = 239, g = 239, b = 239 \<rparr> \<and> luminanceOfRgb \<lparr> r = 239, g = 239, b = 239 \<rparr> \<le> 863157214 / 1000000000"
  using gamma_239 by (simp add: luminanceOfRgb_def)

lemma ratio_EFEFEF_B3B3B3_large:
  "\<not> LARGE_TEXT_THRESHOLD \<le> ratioOfRgb \<lparr> r = 239, g = 239, b = 239 \<rparr> \<lparr> r = 179, g = 179, b = 179 \<rparr>"
  by (rule ratio_lt_from_bounds [OF lum_EFEFEF lum_B3B3B3]) (simp_all add: LARGE_TEXT_THRESHOLD_def NORMAL_TEXT_THRESHOLD_def EPSILON_def)

lemma canon_EFEFEF: "canonRgb \<lparr> r = 239, g = 239, b = 239 \<rparr> = \<lparr> r = 239, g = 239, b = 239 \<rparr>"
  by (simp add: canonRgb_def channelByte_def mathRound_def)

lemma gray_fg_lighten_step_3:
  "searchBody \<lparr> h = 0, s = 0, l = 7064470003718425 / 140737488355328 \<rparr> \<lparr> r = 179, g = 179, b = 179 \<rparr> LARGE_TEXT_THRESHOLD True True
     \<lparr> minL = 6160714563789603 / 70368744177664, maxL = 100, bestRgb = \<lparr> r = 128, g = 128, b = 128 \<rparr>,
       bestRatio = ratioOfRgb \<lparr> r = 128, g = 128, b = 128 \<rparr> \<lparr> r = 179, g = 179, b = 179 \<rparr>, iterationCount = 2 \<rparr> =
   Inr \<lparr> minL = 3299397245389001 / 35184372088832, maxL = 100, bestRgb = \<lparr> r = 128, g = 128, b = 128 \<rparr>,
       bestRatio = ratioOfRgb \<lparr> r = 128, g = 128, b = 128 \<rparr> \<lparr> r = 179, g = 179, b = 179 \<rparr>, iterationCount = 3 \<rparr>"
  unfolding searchBody_def Let_def
  by (simp add: bindE_def contrastRatio_rgbToHex addD_def divD_def toDouble_zero
      round_21 round_22 rgb_of_hsl_4 canon_EFEFEF canon_B3B3B3 ratio_EFEFEF_B3B3B3_large)

lemma round_25: "toDouble (219039963494199 / 35184372088832) = 219039963494199 / 35184372088832"
  using toDouble_normal [of "2" "219039963494199 / 35184372088832"] by (simp add: roundTiesToEven_def Let_def)

lemma round_26: "toDouble (6817834454272201 / 35184372088832) = 6817834454272201 / 35184372088832"
  using toDouble_normal [of "7" "6817834454272201 / 35184372088832"] by (simp add: roundTiesToEven_def Let_def)

lemma round_27: "toDouble (6817834454272201 / 70368744177664) = 6817834454272201 / 70368744177664"
  using toDouble_normal [of "6" "6817834454272201 / 70368744177664"] by (simp add: roundTiesToEven_def Let_def)

lemma round_28: "toDouble (6817834454272201 / 7036874417766400) = 8726828101468417 / 9007199254740992"
  using toDouble_normal [of "-1" "6817834454272201 / 7036874417766400"] by (simp add: roundTiesToEven_def Let_def)

lemma round_29: "toDouble (2225341165874446335 / 9007199254740992) = 3953 / 16"
  using toDouble_normal [of "7" "2225341165874446335 / 9007199254740992"] by (simp add: roundTiesToEven_def Let_def)

lemma rgb_of_hsl_5:
  "hslToRgb \<lparr> h = 0, s = 0, l = 6817834454272201 / 70368744177664 \<rparr> =
     \<lparr> r = 247, g = 247, b = 247 \<rparr>"
  unfolding hslToRgb_def hue2rgb_def Let_def
  by (simp add: mathRound_def addD_def subD_def mulD_def divD_def toDouble_zero toDouble_minus
      round_28 round_29)

lemma gamma_247:
  "930110858 / 1000000000 \<le> gammaCorrect (247 / 255) \<and> gammaCorrect (247 / 255) \<le> 930110859 / 1000000000"
  by (rule gammaCorrect_between) (simp_all add: power_divide divide_le_eq le_divide_eq)

lemma lum_F7F7F7:
  "930110858 / 1000000000 \<le> luminanceOfRgb \<lparr> r = 247, g = 247, b = 247 \<rparr> \<and> luminanceOfRgb \<lparr> r = 247, g = 247, b = 247 \<rparr> \<le> 930110859 / 1000000000"
  using gamma_247 by (simp add: luminanceOfRgb_def)

lemma ratio_F7F7F7_B3B3B3_large:
  "\<not> LARGE_TEXT_THRESHOLD \<le> ratioOfRgb \<lparr> r = 247, g = 247, b = 247 \<rparr> \<lparr> r = 179, g = 179, b = 179 \<rparr>"
  by (rule ratio_lt_from_bounds [OF lum_F7F7F7 lum_B3B3B3]) (simp_all add: LARGE_TEXT_THRESHOLD_def NORMAL_TEXT_THRESHOLD_def EPSILON_def)

lemma canon_F7F7F7: "canonRgb \<lparr> r = 247, g = 247, b = 247 \<rparr> = \<lparr> r = 247, g = 247, b = 247 \<rparr>"
  by (simp add: canonRgb_def channelByte_def mathRound_def)

lemma gray_fg_lighten_step_4:
  "searchBody \<lparr> h = 0, s = 0, l = 7064470003718425 / 140737488355328 \<rparr> \<lparr> r = 179, g = 179, b = 179 \<rparr> LARGE_TEXT_THRESHOLD True True
     \<lparr> minL = 3299397245389001 / 35184372088832, maxL = 100, bestRgb = \<lparr> r = 128, g = 128, b = 128 \<rparr>,
       bestRatio = ratioOfRgb \<lparr> r = 128, g = 128, b = 128 \<rparr> \<lparr> r = 179, g = 179, b = 179 \<rparr>, iterationCount = 3 \<rparr> =
   Inr \<lparr> minL = 6817834454272201 / 70368744177664, maxL = 100, bestRgb = \<lparr> r = 128, g = 128, b = 128 \<rparr>,
       bestRatio = ratioOfRgb \<lparr> r = 128, g = 128, b = 128 \<rparr> \<lparr> r = 179, g = 179, b = 179 \<rparr>, iterationCount = 4 \<rparr>"
  unfolding searchBody_def Let_def
  by (simp add: bindE_def contrastRatio_rgbToHex addD_def divD_def toDouble_zero
      round_26 round_27 rgb_of_hsl_5 canon_F7F7F7 canon_B3B3B3 ratio_F7F7F7_B3B3B3_large)

lemma round_30: "toDouble (219039963494199 / 70368744177664) = 219039963494199 / 70368744177664"
  using toDouble_normal [of "1" "219039963494199 / 70368744177664"] by (simp add: roundTiesToEven_def Let_def)

lemma round_31: "toDouble (13854708872038601 / 70368744177664) = 1731838609004825 / 8796093022208"
  using toDouble_normal [of "7" "13854708872038601 / 70368744177664"] by (simp add: roundTiesToEven_def Let_def)

lemma round_32: "toDouble (1731838609004825 / 17592186044416) = 1731838609004825 / 17592186044416"
  using toDouble_normal [of "6" "1731838609004825 / 17592186044416"] by (simp add: roundTiesToEven_def Let_def)

lemma round_33: "toDouble (69273544360193 / 70368744177664) = 69273544360193 / 70368744177664"
  using toDouble_normal [of "-1" "69273544360193 / 70368744177664"] by (simp add: roundTiesToEven_def Let_def)

lemma round_34: "toDouble (17664753811849215 / 70368744177664) = 8033 / 32"
  using toDouble_normal [of "7" "17664753811849215 / 70368744177664"] by (simp add: roundTiesToEven_def Let_def)

lemma rgb_of_hsl_6:
  "hslToRgb \<lparr> h = 0, s = 0, l = 1731838609004825 / 17592186044416 \<rparr> =
     \<lparr> r = 251, g = 251, b = 251 \<rparr>"
  unfolding hslToRgb_def hue2rgb_def Let_def
  by (simp add: mathRound_def addD_def subD_def mulD_def divD_def toDouble_zero toDouble_minus
      round_33 round_34)

lemma gamma_251:
  "964686247 / 1000000000 \<le> gammaCorrect (251 / 255) \<and> gammaCorrect (251 / 255) \<le> 964686248 / 1000000000"
  by (rule gammaCorrect_between) (simp_all add: power_divide divide_le_eq le_divide_eq)

lemma lum_FBFBFB:
  "964686247 / 1000000000 \<le> luminanceOfRgb \<lparr> r = 251, g = 251, b = 251 \<rparr> \<and> luminanceOfRgb \<lparr> r = 251, g = 251, b = 251 \<rparr> \<le> 964686248 / 1000000000"
  using gamma_251 by (simp add: luminanceOfRgb_def)

lemma ratio_FBFBFB_B3B3B3_large:
  "\<not> LARGE_TEXT_THRESHOLD \<le> ratioOfRgb \<lparr> r = 251, g = 251, b = 251 \<rparr> \<lparr> r = 179, g = 179, b = 179 \<rparr>"
  by (rule ratio_lt_from_bounds [OF lum_FBFBFB lum_B3B3B3]) (simp_all add: LARGE_TEXT_THRESHOLD_def NORMAL_TEXT_THRESHOLD_def EPSILON_def)

lemma canon_FBFBFB: "canonRgb \<lparr> r = 251, g = 251, b = 251 \<rparr> = \<lparr> r = 251, g = 251, b = 251 \<rparr>"
  by (simp add: canonRgb_def channelByte_def mathRound_def)

lemma gray_fg_lighten_step_5:
  "searchBody \<lparr> h = 0, s = 0, l = 7064470003718425 / 140737488355328 \<rparr> \<lparr> r = 179, g = 179, b = 179 \<rparr> LARGE_TEXT_THRESHOLD True True
     \<lparr> minL = 6817834454272201 / 70368744177664, maxL = 100, bestRgb = \<lparr> r = 128, g = 128, b = 128 \<rparr>,
       bestRatio = ratioOfRgb \<lparr> r = 128, g = 128, b = 128 \<rparr> \<lparr> r = 179, g = 179, b = 179 \<rparr>, iterationCount = 4 \<rparr> =
   Inr \<lparr> minL = 1731838609004825 / 17592186044416, maxL = 100, bestRgb = \<lparr> r = 128, g = 128, b = 128 \<rparr>,
       bestRatio = ratioOfRgb \<lparr> r = 128, g = 128, b = 128 \<rparr> \<lparr> r = 179, g = 179, b = 179 \<rparr>, iterationCount = 5 \<rparr>"
  unfolding searchBody_def Let_def
  by (simp add: bindE_def contrastRatio_rgbToHex addD_def divD_def toDouble_zero
      round_31 round_32 rgb_of_hsl_6 canon_FBFBFB canon_B3B3B3 ratio_FBFBFB_B3B3B3_large)

lemma round_35: "toDouble (27379995436775 / 17592186044416) = 27379995436775 / 17592186044416"
  using toDouble_normal [of "0" "27379995436775 / 17592186044416"] by (simp add: roundTiesToEven_def Let_def)

lemma round_36: "toDouble (3491057213446425 / 17592186044416) = 3491057213446425 / 17592186044416"
  using toDouble_normal [of "7" "3491057213446425 / 17592186044416"] by (simp add: roundTiesToEven_def Let_def)

lemma round_37: "toDouble (3491057213446425 / 35184372088832) = 3491057213446425 / 35184372088832"
  using toDouble_normal [of "6" "3491057213446425 / 35184372088832"] by (simp add: roundTiesToEven_def Let_def)

lemma round_38: "toDouble (139642288537857 / 140737488355328) = 139642288537857 / 140737488355328"
  using toDouble_normal [of "-1" "139642288537857 / 140737488355328"] by (simp add: roundTiesToEven_def Let_def)

lemma round_39: "toDouble (35608783577153535 / 140737488355328) = 16193 / 64"
  using toDouble_normal [of "7" "35608783577153535 / 140737488355328"] by (simp add: roundTiesToEven_def Let_def)

lemma rgb_of_hsl_7:
  "hslToRgb \<lparr> h = 0, s = 0, l = 3491057213446425 / 35184372088832 \<rparr> =
     \<lparr> r = 253, g = 253, b = 253 \<rparr>"
  unfolding hslToRgb_def hue2rgb_def Let_def
  by (simp add: mathRound_def addD_def subD_def mulD_def divD_def toDouble_zero toDouble_minus
      round_38 round_39)

lemma gamma_253:
  "982250550 / 1000000000 \<le> gammaCorrect (253 / 255) \<and> gammaCorrect (253 / 255) \<le> 982250551 / 1000000000"
  by (rule gammaCorrect_between) (simp_all add: power_divide divide_le_eq le_divide_eq)

lemma lum_FDFDFD:
  "982250550 / 1000000000 \<le> luminanceOfRgb \<lparr> r = 253, g = 253, b = 253 \<rparr> \<and> luminanceOfRgb \<lparr> r = 253, g = 253, b = 253 \<rparr> \<le> 982250551 / 1000000000"
  using gamma_253 by (simp add: luminanceOfRgb_def)

lemma ratio_FDFDFD_B3B3B3_large:
  "\<not> LARGE_TEXT_THRESHOLD \<le> ratioOfRgb \<lparr> r = 253, g = 253, b = 253 \<rparr> \<lparr> r = 179, g = 179, b = 179 \<rparr>"
  by (rule ratio_lt_from_bounds [OF lum_FDFDFD lum_B3B3B3]) (simp_all add: LARGE_TEXT_THRESHOLD_def NORMAL_TEXT_THRESHOLD_def EPSILON_def)

lemma canon_FDFDFD: "canonRgb \<lparr> r = 253, g = 253, b = 253 \<rparr> = \<lparr> r = 253, g = 253, b = 253 \<rparr>"
  by (simp add: canonRgb_def channelByte_def mathRound_def)

lemma gray_fg_lighten_step_6:
  "searchBody \<lparr> h = 0, s = 0, l = 7064470003718425 / 140737488355328 \<rparr> \<lparr> r = 179, g = 179, b = 179 \<rparr> LARGE_TEXT_THRESHOLD True True
     \<lparr> minL = 1731838609004825 / 17592186044416, maxL = 100, bestRgb = \<lparr> r = 128, g = 128, b = 128 \<rparr>,
       bestRatio = ratioOfRgb \<lparr> r = 128, g = 128, b = 128 \<rparr> \<lparr> r = 179, g = 179, b = 179 \<rparr>, iterationCount = 5 \<rparr> =
   Inr \<lparr> minL = 3491057213446425 / 35184372088832, maxL = 100, bestRgb = \<lparr> r = 128, g = 128, b = 128 \<rparr>,
       bestRatio = ratioOfRgb \<lparr> r = 128, g = 128, b = 128 \<rparr> \<lparr> r = 179, g = 179, b = 179 \<rparr>, iterationCount = 6 \<rparr>"
  unfolding searchBody_def Let_def
  by (simp add: bindE_def contrastRatio_rgbToHex addD_def divD_def toDouble_zero
      round_36 round_37 rgb_of_hsl_7 canon_FDFDFD canon_B3B3B3 ratio_FDFDFD_B3B3B3_large)

lemma round_40: "toDouble (27379995436775 / 35184372088832) = 27379995436775 / 35184372088832"
  using toDouble_normal [of "-1" "27379995436775 / 35184372088832"] by (simp add: roundTiesToEven_def Let_def)

lemma round_41: "toDouble (7009494422329625 / 35184372088832) = 7009494422329625 / 35184372088832"
  using toDouble_normal [of "7" "7009494422329625 / 35184372088832"] by (simp add: roundTiesToEven_def Let_def)

lemma round_42: "toDouble (7009494422329625 / 70368744177664) = 7009494422329625 / 70368744177664"
  using toDouble_normal [of "6" "7009494422329625 / 70368744177664"] by (simp add: roundTiesToEven_def Let_def)

lemma round_43: "toDouble (280379776893185 / 281474976710656) = 280379776893185 / 281474976710656"
  using toDouble_normal [of "-1" "280379776893185 / 281474976710656"] by (simp add: roundTiesToEven_def Let_def)

lemma round_44: "toDouble (71496843107762175 / 281474976710656) = 32513 / 128"
  using toDouble_normal [of "7" "71496843107762175 / 281474976710656"] by (simp add: roundTiesToEven_def Let_def)

lemma rgb_of_hsl_8:
  "hslToRgb \<lparr> h = 0, s = 0, l = 7009494422329625 / 70368744177664 \<rparr> =
     \<lparr> r = 254, g = 254, b = 254 \<rparr>"
  unfolding hslToRgb_def hue2rgb_def Let_def
  by (simp add: mathRound_def addD_def subD_def mulD_def divD_def toDouble_zero toDouble_minus
      round_43 round_44)

lemma gamma_254:
  "991102097 / 1000000000 \<le> gammaCorrect (254 / 255) \<and> gammaCorrect (254 / 255) \<le> 991102098 / 1000000000"
  by (rule gammaCorrect_between) (simp_all add: power_divide divide_le_eq le_divide_eq)

lemma lum_FEFEFE:
  "991102097 / 1000000000 \<le> luminanceOfRgb \<lparr> r = 254, g = 254, b = 254 \<rparr> \<and> luminanceOfRgb \<lparr> r = 254, g = 254, b = 254 \<rparr> \<le> 991102098 / 1000000000"
  using gamma_254 by (simp add: luminanceOfRgb_def)

lemma ratio_FEFEFE_B3B3B3_large:
  "\<not> LARGE_TEXT_THRESHOLD \<le> ratioOfRgb \<lparr> r = 254, g = 254, b = 254 \<rparr> \<lparr> r = 179, g = 179, b = 179 \<rparr>"
  by (rule ratio_lt_from_bounds [OF lum_FEFEFE lum_B3B3B3]) (simp_all add: LARGE_TEXT_THRESHOLD_def NORMAL_TEXT_THRESHOLD_def EPSILON_def)

lemma canon_FEFEFE: "canonRgb \<lparr> r = 254, g = 254, b = 254 \<rparr> = \<lparr> r = 254, g = 254, b = 254 \<rparr>"
  by (simp add: canonRgb_def channelByte_def mathRound_def)

lemma gray_fg_lighten_step_7:
  "searchBody \<lparr> h = 0, s = 0, l = 7064470003718425 / 140737488355328 \<rparr> \<lparr> r = 179, g = 179, b = 179 \<rparr> LARGE_TEXT_THRESHOLD True True
     \<lparr> minL = 3491057213446425 / 35184372088832, maxL = 100, bestRgb = \<lparr> r = 128, g = 128, b = 128 \<rparr>,
       bestRatio = ratioOfRgb \<lparr> r = 128, g = 128, b = 128 \<rparr> \<lparr> r = 179, g = 179, b = 179 \<rparr>, iterationCount = 6 \<rparr> =
   Inr \<lparr> minL = 7009494422329625 / 70368744177664, maxL = 100, bestRgb = \<lparr> r = 128, g = 128, b = 128 \<rparr>,
       bestRatio = ratioOfRgb \<lparr> r = 128, g = 128, b = 128 \<rparr> \<lparr> r = 179, g = 179, b = 179 \<rparr>, iterationCount = 7 \<rparr>"
  unfolding searchBody_def Let_def
  by (simp add: bindE_def contrastRatio_rgbToHex addD_def divD_def toDouble_zero
      round_41 round_42 rgb_of_hsl_8 canon_FEFEFE canon_B3B3B3 ratio_FEFEFE_B3B3B3_large)

lemma round_45: "toDouble (27379995436775 / 70368744177664) = 27379995436775 / 70368744177664"
  using toDouble_normal [of "-2" "27379995436775 / 70368744177664"] by (simp add: roundTiesToEven_def Let_def)

lemma gray_fg_lighten_loop:
  "searchLoop 7 \<lparr> h = 0, s = 0, l = 7064470003718425 / 140737488355328 \<rparr> \<lparr> r = 179, g = 179, b = 179 \<rparr> LARGE_TEXT_THRESHOLD True True
     \<lparr> minL = 7064470003718425 / 140737488355328, maxL = 100, bestRgb = \<lparr> r = 128, g = 128, b = 128 \<rparr>,
       bestRatio = ratioOfRgb \<lparr> r = 128, g = 128, b = 128 \<rparr> \<lparr> r = 179, g = 179, b = 179 \<rparr>, iterationCount = 0 \<rparr> =
   Inr \<lparr> minL = 7009494422329625 / 70368744177664, maxL = 100, bestRgb = \<lparr> r = 128, g = 128, b = 128 \<rparr>,
       bestRatio = ratioOfRgb \<lparr> r = 128, g = 128, b = 128 \<rparr> \<lparr> r = 179, g = 179, b = 179 \<rparr>, iterationCount = 7 \<rparr>"
  by (simp add: searchLoop_numeral bindE_def subD_def toDouble_zero toDouble_minus
      round_14 round_15 round_20 round_25 round_30 round_35 round_40 round_45
      gray_fg_lighten_step_1 gray_fg_lighten_step_2 gray_fg_lighten_step_3 gray_fg_lighten_step_4
      gray_fg_lighten_step_5 gray_fg_lighten_step_6 gray_fg_lighten_step_7)

lemma canon_808080: "canonRgb \<lparr> r = 128, g = 128, b = 128 \<rparr> = \<lparr> r = 128, g = 128, b = 128 \<rparr>"
  by (simp add: canonRgb_def channelByte_def mathRound_def)

lemma gray_fg_lighten_search:
  "binarySearchLightness \<lparr> h = 0, s = 0, l = 7064470003718425 / 140737488355328 \<rparr> \<lparr> r = 179, g = 179, b = 179 \<rparr> LARGE_TEXT_THRESHOLD True True 7 =
   Inr \<lparr> rgb = \<lparr> r = 128, g = 128, b = 128 \<rparr>, ratio = ratioOfRgb \<lparr> r = 128, g = 128, b = 128 \<rparr> \<lparr> r = 179, g = 179, b = 179 \<rparr>, iterations = 7 \<rparr>"
  unfolding binarySearchLightness_def Let_def
  by (simp add: bindE_def contrastRatio_rgbToHex rgb_of_hsl_1 canon_808080 canon_B3B3B3 gray_fg_lighten_loop)

lemma round_46: "toDouble (7064470003718425 / 281474976710656) = 7064470003718425 / 281474976710656"
  using toDouble_normal [of "4" "7064470003718425 / 281474976710656"] by (simp add: roundTiesToEven_def Let_def)

lemma round_47: "toDouble (282578800148737 / 1125899906842624) = 282578800148737 / 1125899906842624"
  using toDouble_normal [of "-2" "282578800148737 / 1125899906842624"] by (simp add: roundTiesToEven_def Let_def)

lemma round_48: "toDouble (72057594037927935 / 1125899906842624) = 64"
  using toDouble_normal [of "5" "72057594037927935 / 1125899906842624"] by (simp add: roundTiesToEven_def Let_def)

lemma rgb_of_hsl_9:
  "hslToRgb \<lparr> h = 0, s = 0, l = 7064470003718425 / 281474976710656 \<rparr> =
     \<lparr> r = 64, g = 64, b = 64 \<rparr>"
  unfolding hslToRgb_def hue2rgb_def Let_def
  by (simp add: mathRound_def addD_def subD_def mulD_def divD_def toDouble_zero toDouble_minus
      round_47 round_48)

lemma gamma_64:
  "51269458 / 1000000000 \<le> gammaCorrect (64 / 255) \<and> gammaCorrect (64 / 255) \<le> 51269459 / 1000000000"
  by (rule gammaCorrect_between) (simp_all add: power_divide divide_le_eq le_divide_eq)

lemma lum_404040:
  "51269458 / 1000000000 \<le> luminanceOfRgb \<lparr> r = 64, g = 64, b = 64 \<rparr> \<and> luminanceOfRgb \<lparr> r = 64, g = 64, b = 64 \<rparr> \<le> 51269459 / 1000000000"
  using gamma_64 by (simp add: luminanceOfRgb_def)

lemma ratio_404040_B3B3B3_large:
  "LARGE_TEXT_THRESHOLD \<le> ratioOfRgb \<lparr> r = 64, g = 64, b = 64 \<rparr> \<lparr> r = 179, g = 179, b = 179 \<rparr>"
  by (rule ratio_ge_from_bounds [OF lum_404040 lum_B3B3B3]) (simp_all add: LARGE_TEXT_THRESHOLD_def NORMAL_TEXT_THRESHOLD_def EPSILON_def)

lemma canon_404040: "canonRgb \<lparr> r = 64, g = 64, b = 64 \<rparr> = \<lparr> r = 64, g = 64, b = 64 \<rparr>"
  by (simp add: canonRgb_def channelByte_def mathRound_def)

lemma gray_fg_darken_step_1:
  "searchBody \<lparr> h = 0, s = 0, l = 7064470003718425 / 140737488355328 \<rparr> \<lparr> r = 179, g = 179, b = 179 \<rparr> LARGE_TEXT_THRESHOLD True False
     \<lparr> minL = 0, maxL = 7064470003718425 / 140737488355328, bestRgb = \<lparr> r = 128, g = 128, b = 128 \<rparr>,
       bestRatio = ratioOfRgb \<lparr> r = 128, g = 128, b = 128 \<rparr> \<lparr> r = 179, g = 179, b = 179 \<rparr>, iterationCount = 0 \<rparr> =
   Inr \<lparr> minL = 7064470003718425 / 281474976710656, maxL = 7064470003718425 / 140737488355328, bestRgb = \<lparr> r = 64, g = 64, b = 64 \<rparr>,
       bestRatio = ratioOfRgb \<lparr> r = 64, g = 64, b = 64 \<rparr> \<lparr> r = 179, g = 179, b = 179 \<rparr>, iterationCount = Suc 0 \<rparr>"
  unfolding searchBody_def Let_def
  by (simp add: bindE_def contrastRatio_rgbToHex addD_def divD_def toDouble_zero
      round_4 round_46 rgb_of_hsl_9 canon_404040 canon_B3B3B3 ratio_404040_B3B3B3_large)

lemma round_49: "toDouble (21193410011155275 / 281474976710656) = 5298352502788819 / 70368744177664"
  using toDouble_normal [of "6" "21193410011155275 / 281474976710656"] by (simp add: roundTiesToEven_def Let_def)

lemma round_50: "toDouble (5298352502788819 / 140737488355328) = 5298352502788819 / 140737488355328"
  using toDouble_normal [of "5" "5298352502788819 / 140737488355328"] by (simp add: roundTiesToEven_def Let_def)

lemma round_51: "toDouble (5298352502788819 / 14073748835532800) = 847736400446211 / 2251799813685248"
  using toDouble_normal [of "-2" "5298352502788819 / 14073748835532800"] by (simp add: roundTiesToEven_def Let_def)

lemma round_52: "toDouble (216172782113783805 / 2251799813685248) = 96"
  using toDouble_normal [of "6" "216172782113783805 / 2251799813685248"] by (simp add: roundTiesToEven_def Let_def)

lemma rgb_of_hsl_10:
  "hslToRgb \<lparr> h = 0, s = 0, l = 5298352502788819 / 140737488355328 \<rparr> =
     \<lparr> r = 96, g = 96, b = 96 \<rparr>"
  unfolding hslToRgb_def hue2rgb_def Let_def
  by (simp add: mathRound_def addD_def subD_def mulD_def divD_def toDouble_zero toDouble_minus
      round_51 round_52)

lemma gamma_96:
  "116970667 / 1000000000 \<le> gammaCorrect (96 / 255) \<and> gammaCorrect (96 / 255) \<le> 116970668 / 1000000000"
  by (rule gammaCorrect_between) (simp_all add: power_divide divide_le_eq le_divide_eq)

lemma lum_606060:
  "116970667 / 1000000000 \<le> luminanceOfRgb \<lparr> r = 96, g = 96, b = 96 \<rparr> \<and> luminanceOfRgb \<lparr> r = 96, g = 96, b = 96 \<rparr> \<le> 116970668 / 1000000000"
  using gamma_96 by (simp add: luminanceOfRgb_def)

lemma ratio_606060_B3B3B3_large:
  "\<not> LARGE_TEXT_THRESHOLD \<le> ratioOfRgb \<lparr> r = 96, g = 96, b = 96 \<rparr> \<lparr> r = 179, g = 179, b = 179 \<rparr>"
  by (rule ratio_lt_from_bounds [OF lum_606060 lum_B3B3B3]) (simp_all add: LARGE_TEXT_THRESHOLD_def NORMAL_TEXT_THRESHOLD_def EPSILON_def)

lemma canon_606060: "canonRgb \<lparr> r = 96, g = 96, b = 96 \<rparr> = \<lparr> r = 96, g = 96, b = 96 \<rparr>"
  by (simp add: canonRgb_def channelByte_def mathRound_def)

lemma gray_fg_darken_step_2:
  "searchBody \<lparr> h = 0, s = 0, l = 7064470003718425 / 140737488355328 \<rparr> \<lparr> r = 179, g = 179, b = 179 \<rparr> LARGE_TEXT_THRESHOLD True False
     \<lparr> minL = 7064470003718425 / 281474976710656, maxL = 7064470003718425 / 140737488355328, bestRgb = \<lparr> r = 64, g = 64, b = 64 \<rparr>,
       bestRatio = ratioOfRgb \<lparr> r = 64, g = 64, b = 64 \<rparr> \<lparr> r = 179, g = 179, b = 179 \<rparr>, iterationCount = Suc 0 \<rparr> =
   Inr \<lparr> minL = 7064470003718425 / 281474976710656, maxL = 5298352502788819 / 140737488355328, bestRgb = \<lparr> r = 64, g = 64, b = 64 \<rparr>,
       bestRatio = ratioOfRgb \<lparr> r = 64, g = 64, b = 64 \<rparr> \<lparr> r = 179, g = 179, b = 179 \<rparr>, iterationCount = 2 \<rparr>"
  unfolding searchBody_def Let_def
  by (simp add: bindE_def contrastRatio_rgbToHex addD_def divD_def toDouble_zero
      round_49 round_50 rgb_of_hsl_10 canon_606060 canon_B3B3B3 ratio_606060_B3B3B3_large)

lemma round_53: "toDouble (3532235001859213 / 281474976710656) = 3532235001859213 / 281474976710656"
  using toDouble_normal [of "3" "3532235001859213 / 281474976710656"] by (simp add: roundTiesToEven_def Let_def)

lemma round_54: "toDouble (17661175009296063 / 281474976710656) = 275955859520251 / 4398046511104"
  using toDouble_normal [of "5" "17661175009296063 / 281474976710656"] by (simp add: roundTiesToEven_def Let_def)

lemma round_55: "toDouble (275955859520251 / 8796093022208) = 275955859520251 / 8796093022208"
  using toDouble_normal [of "4" "275955859520251 / 8796093022208"] by (simp add: roundTiesToEven_def Let_def)

lemma round_56: "toDouble (275955859520251 / 879609302220800) = 1412894000743685 / 4503599627370496"
  using toDouble_normal [of "-2" "275955859520251 / 879609302220800"] by (simp add: roundTiesToEven_def Let_def)

lemma round_57: "toDouble (360287970189639675 / 4503599627370496) = 80"
  using toDouble_normal [of "6" "360287970189639675 / 4503599627370496"] by (simp add: roundTiesToEven_def Let_def)

lemma rgb_of_hsl_11:
  "hslToRgb \<lparr> h = 0, s = 0, l = 275955859520251 / 8796093022208 \<rparr> =
     \<lparr> r = 80, g = 80, b = 80 \<rparr>"
  unfolding hslToRgb_def hue2rgb_def Let_def
  by (simp add: mathRound_def addD_def subD_def mulD_def divD_def toDouble_zero toDouble_minus
      round_56 round_57)

lemma gamma_80:
  "80219820 / 1000000000 \<le> gammaCorrect (80 / 255) \<and> gammaCorrect (80 / 255) \<le> 80219821 / 1000000000"
  by (rule gammaCorrect_between) (simp_all add: power_divide divide_le_eq le_divide_eq)

lemma lum_505050:
  "80219820 / 1000000000 \<le> luminanceOfRgb \<lparr> r = 80, g = 80, b = 80 \<rparr> \<and> luminanceOfRgb \<lparr> r = 80, g = 80, b = 80 \<rparr> \<le> 80219821 / 1000000000"
  using gamma_80 by (simp add: luminanceOfRgb_def)

lemma ratio_505050_B3B3B3_large:
  "LARGE_TEXT_THRESHOLD \<le> ratioOfRgb \<lparr> r = 80, g = 80, b = 80 \<rparr> \<lparr> r = 179, g = 179, b = 179 \<rparr>"
  by (rule ratio_ge_from_bounds [OF lum_505050 lum_B3B3B3]) (simp_all add: LARGE_TEXT_THRESHOLD_def NORMAL_TEXT_THRESHOLD_def EPSILON_def)

lemma canon_505050: "canonRgb \<lparr> r = 80, g = 80, b = 80 \<rparr> = \<lparr> r = 80, g = 80, b = 80 \<rparr>"
  by (simp add: canonRgb_def channelByte_def mathRound_def)

lemma gray_fg_darken_step_3:
  "searchBody \<lparr> h = 0, s = 0, l = 7064470003718425 / 140737488355328 \<rparr> \<lparr> r = 179, g = 179, b = 179 \<rparr> LARGE_TEXT_THRESHOLD True False
     \<lparr> minL = 7064470003718425 / 281474976710656, maxL = 5298352502788819 / 140737488355328, bestRgb = \<lparr> r = 64, g = 64, b = 64 \<rparr>,
       bestRatio = ratioOfRgb \<lparr> r = 64, g = 64, b = 64 \<rparr> \<lparr> r = 179, g = 179, b = 179 \<rparr>, iterationCount = 2 \<rparr> =
   Inr \<lparr> minL = 275955859520251 / 8796093022208, maxL = 5298352502788819 / 140737488355328, bestRgb = \<lparr> r = 80, g = 80, b = 80 \<rparr>,
       bestRatio = ratioOfRgb \<lparr> r = 80, g = 80, b = 80 \<rparr> \<lparr> r = 179, g = 179, b = 179 \<rparr>, iterationCount = 3 \<rparr>"
  unfolding searchBody_def Let_def
  by (simp add: bindE_def contrastRatio_rgbToHex addD_def divD_def toDouble_zero
      round_54 round_55 rgb_of_hsl_11 canon_505050 canon_B3B3B3 ratio_505050_B3B3B3_large)

lemma round_58: "toDouble (883058750464803 / 140737488355328) = 883058750464803 / 140737488355328"
  using toDouble_normal [of "2" "883058750464803 / 140737488355328"] by (simp add: roundTiesToEven_def Let_def)

lemma round_59: "toDouble (9713646255112835 / 140737488355328) = 2428411563778209 / 35184372088832"
  using toDouble_normal [of "6" "9713646255112835 / 140737488355328"] by (simp add: roundTiesToEven_def Let_def)

lemma round_60: "toDouble (2428411563778209 / 70368744177664) = 2428411563778209 / 70368744177664"
  using toDouble_normal [of "5" "2428411563778209 / 70368744177664"] by (simp add: roundTiesToEven_def Let_def)

lemma round_61: "toDouble (2428411563778209 / 7036874417766400) = 6216733603272215 / 18014398509481984"
  using toDouble_normal [of "-2" "2428411563778209 / 7036874417766400"] by (simp add: roundTiesToEven_def Let_def)

lemma round_62: "toDouble (1585267068834414825 / 18014398509481984) = 6192449487634433 / 70368744177664"
  using toDouble_normal [of "6" "1585267068834414825 / 18014398509481984"] by (simp add: roundTiesToEven_def Let_def)

lemma rgb_of_hsl_12:
  "hslToRgb \<lparr> h = 0, s = 0, l = 2428411563778209 / 70368744177664 \<rparr> =
     \<lparr> r = 88, g = 88, b = 88 \<rparr>"
  unfolding hslToRgb_def hue2rgb_def Let_def
  by (simp add: mathRound_def addD_def subD_def mulD_def divD_def toDouble_zero toDouble_minus
      round_61 round_62)

lemma gamma_88:
  "97587347 / 1000000000 \<le> gammaCorrect (88 / 255) \<and> gammaCorrect (88 / 255) \<le> 97587348 / 1000000000"
  by (rule gammaCorrect_between) (simp_all add: power_divide divide_le_eq le_divide_eq)

lemma lum_585858:
  "97587347 / 1000000000 \<le> luminanceOfRgb \<lparr> r = 88, g = 88, b = 88 \<rparr> \<and> luminanceOfRgb \<lparr> r = 88, g = 88, b = 88 \<rparr> \<le> 97587348 / 1000000000"
  using gamma_88 by (simp add: luminanceOfRgb_def)

lemma ratio_585858_B3B3B3_large:
  "LARGE_TEXT_THRESHOLD \<le> ratioOfRgb \<lparr> r = 88, g = 88, b = 88 \<rparr> \<lparr> r = 179, g = 179, b = 179 \<rparr>"
  by (rule ratio_ge_from_bounds [OF lum_585858 lum_B3B3B3]) (simp_all add: LARGE_TEXT_THRESHOLD_def NORMAL_TEXT_THRESHOLD_def EPSILON_def)

lemma canon_585858: "canonRgb \<lparr> r = 88, g = 88, b = 88 \<rparr> = \<lparr> r = 88, g = 88, b = 88 \<rparr>"
  by (simp add: canonRgb_def channelByte_def mathRound_def)

lemma gray_fg_darken_step_4:
  "searchBody \<lparr> h = 0, s = 0, l = 7064470003718425 / 140737488355328 \<rparr> \<lparr> r = 179, g = 179, b = 179 \<rparr> LARGE_TEXT_THRESHOLD True False
     \<lparr> minL = 275955859520251 / 8796093022208, maxL = 5298352502788819 / 140737488355328, bestRgb = \<lparr> r = 80, g = 80, b = 80 \<rparr>,
       bestRatio = ratioOfRgb \<lparr> r = 80, g = 80, b = 80 \<rparr> \<lparr> r = 179, g = 179, b = 179 \<rparr>, iterationCount = 3 \<rparr> =
   Inr \<lparr> minL = 2428411563778209 / 70368744177664, maxL = 5298352502788819 / 140737488355328, bestRgb = \<lparr> r = 88, g = 88, b = 88 \<rparr>,
       bestRatio = ratioOfRgb \<lparr> r = 88, g = 88, b = 88 \<rparr> \<lparr> r = 179, g = 179, b = 179 \<rparr>, iterationCount = 4 \<rparr>"
  unfolding searchBody_def Let_def
  by (simp add: bindE_def contrastRatio_rgbToHex addD_def divD_def toDouble_zero
      round_59 round_60 rgb_of_hsl_12 canon_585858 canon_B3B3B3 ratio_585858_B3B3B3_large)

lemma round_63: "toDouble (441529375232401 / 140737488355328) = 441529375232401 / 140737488355328"
  using toDouble_normal [of "1" "441529375232401 / 140737488355328"] by (simp add: roundTiesToEven_def Let_def)

lemma round_64: "toDouble (10155175630345237 / 140737488355328) = 2538793907586309 / 35184372088832"
  using toDouble_normal [of "6" "10155175630345237 / 140737488355328"] by (simp add: roundTiesToEven_def Let_def)

lemma round_65: "toDouble (2538793907586309 / 70368744177664) = 2538793907586309 / 70368744177664"
  using toDouble_normal [of "5" "2538793907586309 / 70368744177664"] by (simp add: roundTiesToEven_def Let_def)

lemma round_66: "toDouble (2538793907586309 / 7036874417766400) = 6499312403420951 / 18014398509481984"
  using toDouble_normal [of "-2" "2538793907586309 / 7036874417766400"] by (simp add: roundTiesToEven_def Let_def)

lemma round_67: "toDouble (1657324662872342505 / 18014398509481984) = 92"
  using toDouble_normal [of "6" "1657324662872342505 / 18014398509481984"] by (simp add: roundTiesToEven_def Let_def)

lemma rgb_of_hsl_13:
  "hslToRgb \<lparr> h = 0, s = 0, l = 2538793907586309 / 70368744177664 \<rparr> =
     \<lparr> r = 92, g = 92, b = 92 \<rparr>"
  unfolding hslToRgb_def hue2rgb_def Let_def
  by (simp add: mathRound_def addD_def subD_def mulD_def divD_def toDouble_zero toDouble_minus
      round_66 round_67)

lemma gamma_92:
  "107023102 / 1000000000 \<le> gammaCorrect (92 / 255) \<and> gammaCorrect (92 / 255) \<le> 107023103 / 1000000000"
  by (rule gammaCorrect_between) (simp_all add: power_divide divide_le_eq le_divide_eq)

lemma lum_5C5C5C:
  "107023102 / 1000000000 \<le> luminanceOfRgb \<lparr> r = 92, g = 92, b = 92 \<rparr> \<and> luminanceOfRgb \<lparr> r = 92, g = 92, b = 92 \<rparr> \<le> 107023103 / 1000000000"
  using gamma_92 by (simp add: luminanceOfRgb_def)

lemma ratio_5C5C5C_B3B3B3_large:
  "LARGE_TEXT_THRESHOLD \<le> ratioOfRgb \<lparr> r = 92, g = 92, b = 92 \<rparr> \<lparr> r = 179, g = 179, b = 179 \<rparr>"
  by (rule ratio_ge_from_bounds [OF lum_5C5C5C lum_B3B3B3]) (simp_all add: LARGE_TEXT_THRESHOLD_def NORMAL_TEXT_THRESHOLD_def EPSILON_def)

lemma canon_5C5C5C: "canonRgb \<lparr> r = 92, g = 92, b = 92 \<rparr> = \<lparr> r = 92, g = 92, b = 92 \<rparr>"
  by (simp add: canonRgb_def channelByte_def mathRound_def)

lemma gray_fg_darken_step_5:
  "searchBody \<lparr> h = 0, s = 0, l = 7064470003718425 / 140737488355328 \<rparr> \<lparr> r = 179, g = 179, b = 179 \<rparr> LARGE_TEXT_THRESHOLD True False
     \<lparr> minL = 2428411563778209 / 70368744177664, maxL = 5298352502788819 / 140737488355328, bestRgb = \<lparr> r = 88, g = 88, b = 88 \<rparr>,
       bestRatio = ratioOfRgb \<lparr> r = 88, g = 88, b = 88 \<rparr> \<lparr> r = 179, g = 179, b = 179 \<rparr>, iterationCount = 4 \<rparr> =
   Inr \<lparr> minL = 2538793907586309 / 70368744177664, maxL = 5298352502788819 / 140737488355328, bestRgb = \<lparr> r = 92, g = 92, b = 92 \<rparr>,
       bestRatio = ratioOfRgb \<lparr> r = 92, g = 92, b = 92 \<rparr> \<lparr> r = 179, g = 179, b = 179 \<rparr>, iterationCount = 5 \<rparr>"
  unfolding searchBody_def Let_def
  by (simp add: bindE_def contrastRatio_rgbToHex addD_def divD_def toDouble_zero
      round_64 round_65 rgb_of_hsl_13 canon_5C5C5C canon_B3B3B3 ratio_5C5C5C_B3B3B3_large)

lemma round_68: "toDouble (220764687616201 / 140737488355328) = 220764687616201 / 140737488355328"
  using toDouble_normal [of "0" "220764687616201 / 140737488355328"] by (simp add: roundTiesToEven_def Let_def)

lemma round_69: "toDouble (10375940317961437 / 140737488355328) = 2593985079490359 / 35184372088832"
  using toDouble_normal [of "6" "10375940317961437 / 140737488355328"] by (simp add: roundTiesToEven_def Let_def)

lemma round_70: "toDouble (2593985079490359 / 70368744177664) = 2593985079490359 / 70368744177664"
  using toDouble_normal [of "5" "2593985079490359 / 70368744177664"] by (simp add: roundTiesToEven_def Let_def)

lemma round_71: "toDouble (2593985079490359 / 7036874417766400) = 6640601803495319 / 18014398509481984"
  using toDouble_normal [of "-2" "2593985079490359 / 7036874417766400"] by (simp add: roundTiesToEven_def Let_def)

lemma round_72: "toDouble (1693353459891306345 / 18014398509481984) = 6614661952700415 / 70368744177664"
  using toDouble_normal [of "6" "1693353459891306345 / 18014398509481984"] by (simp add: roundTiesToEven_def Let_def)

lemma rgb_of_hsl_14:
  "hslToRgb \<lparr> h = 0, s = 0, l = 2593985079490359 / 70368744177664 \<rparr> =
     \<lparr> r = 94, g = 94, b = 94 \<rparr>"
  unfolding hslToRgb_def hue2rgb_def Let_def
  by (simp add: mathRound_def addD_def subD_def mulD_def divD_def toDouble_zero toDouble_minus
      round_71 round_72)

lemma gamma_94:
  "111932427 / 1000000000 \<le> gammaCorrect (94 / 255) \<and> gammaCorrect (94 / 255) \<le> 111932428 / 1000000000"
  by (rule gammaCorrect_between) (simp_all add: power_divide divide_le_eq le_divide_eq)

lemma lum_5E5E5E:
  "111932427 / 1000000000 \<le> luminanceOfRgb \<lparr> r = 94, g = 94, b = 94 \<rparr> \<and> luminanceOfRgb \<lparr> r = 94, g = 94, b = 94 \<rparr> \<le> 111932428 / 1000000000"
  using gamma_94 by (simp add: luminanceOfRgb_def)

lemma ratio_5E5E5E_B3B3B3_large:
  "LARGE_TEXT_THRESHOLD \<le> ratioOfRgb \<lparr> r = 94, g = 94, b = 94 \<rparr> \<lparr> r = 179, g = 179, b = 179 \<rparr>"
  by (rule ratio_ge_from_bounds [OF lum_5E5E5E lum_B3B3B3]) (simp_all add: LARGE_TEXT_THRESHOLD_def NORMAL_TEXT_THRESHOLD_def EPSILON_def)

lemma canon_5E5E5E: "canonRgb \<lparr> r = 94, g = 94, b = 94 \<rparr> = \<lparr> r = 94, g = 94, b = 94 \<rparr>"
  by (simp add: canonRgb_def channelByte_def mathRound_def)

lemma gray_fg_darken_step_6:
  "searchBody \<lparr> h = 0, s = 0, l = 7064470003718425 / 140737488355328 \<rparr> \<lparr> r = 179, g = 179, b = 179 \<rparr> LARGE_TEXT_THRESHOLD True False
     \<lparr> minL = 2538793907586309 / 70368744177664, maxL = 5298352502788819 / 140737488355328, bestRgb = \<lparr> r = 92, g = 92, b = 92 \<rparr>,
       bestRatio = ratioOfRgb \<lparr> r = 92, g = 92, b = 92 \<rparr> \<lparr> r = 179, g = 179, b = 179 \<rparr>, iterationCount = 5 \<rparr> =
   Inr \<lparr> minL = 2593985079490359 / 70368744177664, maxL = 5298352502788819 / 140737488355328, bestRgb = \<lparr> r = 94, g = 94, b = 94 \<rparr>,
       bestRatio = ratioOfRgb \<lparr> r = 94, g = 94, b = 94 \<rparr> \<lparr> r = 179, g = 179, b = 179 \<rparr>, iterationCount = 6 \<rparr>"
  unfolding searchBody_def Let_def
  by (simp add: bindE_def contrastRatio_rgbToHex addD_def divD_def toDouble_zero
      round_69 round_70 rgb_of_hsl_14 canon_5E5E5E canon_B3B3B3 ratio_5E5E5E_B3B3B3_large)

lemma round_73: "toDouble (110382343808101 / 140737488355328) = 110382343808101 / 140737488355328"
  using toDouble_normal [of "-1" "110382343808101 / 140737488355328"] by (simp add: roundTiesToEven_def Let_def)

lemma round_74: "toDouble (10486322661769537 / 140737488355328) = 163848791590149 / 2199023255552"
  using toDouble_normal [of "6" "10486322661769537 / 140737488355328"] by (simp add: roundTiesToEven_def Let_def)

lemma round_75: "toDouble (163848791590149 / 4398046511104) = 163848791590149 / 4398046511104"
  using toDouble_normal [of "5" "163848791590149 / 4398046511104"] by (simp add: roundTiesToEven_def Let_def)

lemma round_76: "toDouble (163848791590149 / 439804651110400) = 6711246503532503 / 18014398509481984"
  using toDouble_normal [of "-2" "163848791590149 / 439804651110400"] by (simp add: roundTiesToEven_def Let_def)

lemma round_77: "toDouble (1711367858400788265 / 18014398509481984) = 6685030696878079 / 70368744177664"
  using toDouble_normal [of "6" "1711367858400788265 / 18014398509481984"] by (simp add: roundTiesToEven_def Let_def)

lemma rgb_of_hsl_15:
  "hslToRgb \<lparr> h = 0, s = 0, l = 163848791590149 / 4398046511104 \<rparr> =
     \<lparr> r = 95, g = 95, b = 95 \<rparr>"
  unfolding hslToRgb_def hue2rgb_def Let_def
  by (simp add: mathRound_def addD_def subD_def mulD_def divD_def toDouble_zero toDouble_minus
      round_76 round_77)

lemma gamma_95:
  "114435373 / 1000000000 \<le> gammaCorrect (95 / 255) \<and> gammaCorrect (95 / 255) \<le> 114435374 / 1000000000"
  by (rule gammaCorrect_between) (simp_all add: power_divide divide_le_eq le_divide_eq)

lemma lum_5F5F5F:
  "114435373 / 1000000000 \<le> luminanceOfRgb \<lparr> r = 95, g = 95, b = 95 \<rparr> \<and> luminanceOfRgb \<lparr> r = 95, g = 95, b = 95 \<rparr> \<le> 114435374 / 1000000000"
  using gamma_95 by (simp add: luminanceOfRgb_def)

lemma ratio_5F5F5F_B3B3B3_large:
  "LARGE_TEXT_THRESHOLD \<le> ratioOfRgb \<lparr> r = 95, g = 95, b = 95 \<rparr> \<lparr> r = 179, g = 179, b = 179 \<rparr>"
  by (rule ratio_ge_from_bounds [OF lum_5F5F5F lum_B3B3B3]) (simp_all add: LARGE_TEXT_THRESHOLD_def NORMAL_TEXT_THRESHOLD_def EPSILON_def)

lemma canon_5F5F5F: "canonRgb \<lparr> r = 95, g = 95, b = 95 \<rparr> = \<lparr> r = 95, g = 95, b = 95 \<rparr>"
  by (simp add: canonRgb_def channelByte_def mathRound_def)

lemma gray_fg_darken_step_7:
  "searchBody \<lparr> h = 0, s = 0, l = 7064470003718425 / 140737488355328 \<rparr> \<lparr> r = 179, g = 179, b = 179 \<rparr> LARGE_TEXT_THRESHOLD True False
     \<lparr> minL = 2593985079490359 / 70368744177664, maxL = 5298352502788819 / 140737488355328, bestRgb = \<lparr> r = 94, g = 94, b = 94 \<rparr>,
       bestRatio = ratioOfRgb \<lparr> r = 94, g = 94, b = 94 \<rparr> \<lparr> r = 179, g = 179, b = 179 \<rparr>, iterationCount = 6 \<rparr> =
   Inr \<lparr> minL = 163848791590149 / 4398046511104, maxL = 5298352502788819 / 140737488355328, bestRgb = \<lparr> r = 95, g = 95, b = 95 \<rparr>,
       bestRatio = ratioOfRgb \<lparr> r = 95, g = 95, b = 95 \<rparr> \<lparr> r = 179, g = 179, b = 179 \<rparr>, iterationCount = 7 \<rparr>"
  unfolding searchBody_def Let_def
  by (simp add: bindE_def contrastRatio_rgbToHex addD_def divD_def toDouble_zero
      round_74 round_75 rgb_of_hsl_15 canon_5F5F5F canon_B3B3B3 ratio_5F5F5F_B3B3B3_large)

lemma round_78: "toDouble (55191171904051 / 140737488355328) = 55191171904051 / 140737488355328"
  using toDouble_normal [of "-2" "55191171904051 / 140737488355328"] by (simp add: roundTiesToEven_def Let_def)

lemma gray_fg_darken_loop:
  "searchLoop 7 \<lparr> h = 0, s = 0, l = 7064470003718425 / 140737488355328 \<rparr> \<lparr> r = 179, g = 179, b = 179 \<rparr> LARGE_TEXT_THRESHOLD True False
     \<lparr> minL = 0, maxL = 7064470003718425 / 140737488355328, bestRgb = \<lparr> r = 128, g = 128, b = 128 \<rparr>,
       bestRatio = ratioOfRgb \<lparr> r = 128, g = 128, b = 128 \<rparr> \<lparr> r = 179, g = 179, b = 179 \<rparr>, iterationCount = 0 \<rparr> =
   Inr \<lparr> minL = 163848791590149 / 4398046511104, maxL = 5298352502788819 / 140737488355328, bestRgb = \<lparr> r = 95, g = 95, b = 95 \<rparr>,
       bestRatio = ratioOfRgb \<lparr> r = 95, g = 95, b = 95 \<rparr> \<lparr> r = 179, g = 179, b = 179 \<rparr>, iterationCount = 7 \<rparr>"
  by (simp add: searchLoop_numeral bindE_def subD_def toDouble_zero toDouble_minus
      round_15 round_46 round_53 round_58 round_63 round_68 round_73 round_78
      gray_fg_darken_step_1 gray_fg_darken_step_2 gray_fg_darken_step_3 gray_fg_darken_step_4
      gray_fg_darken_step_5 gray_fg_darken_step_6 gray_fg_darken_step_7)

lemma gray_fg_darken_search:
  "binarySearchLightness \<lparr> h = 0, s = 0, l = 7064470003718425 / 140737488355328 \<rparr> \<lparr> r = 179, g = 179, b = 179 \<rparr> LARGE_TEXT_THRESHOLD True False 7 =
   Inr \<lparr> rgb = \<lparr> r = 95, g = 95, b = 95 \<rparr>, ratio = ratioOfRgb \<lparr> r = 95, g = 95, b = 95 \<rparr> \<lparr> r = 179, g = 179, b = 179 \<rparr>, iterations = 7 \<rparr>"
  unfolding binarySearchLightness_def Let_def
  by (simp add: bindE_def contrastRatio_rgbToHex rgb_of_hsl_1 canon_808080 canon_B3B3B3 gray_fg_darken_loop)

lemma round_79: "toDouble (1234902471353123 / 1759218604441600) = 3161350326663995 / 4503599627370496"
  using toDouble_normal [of "-1" "1234902471353123 / 1759218604441600"] by (simp add: roundTiesToEven_def Let_def)

lemma round_80: "toDouble (806144333299318725 / 4503599627370496) = 179"
  using toDouble_normal [of "7" "806144333299318725 / 4503599627370496"] by (simp add: roundTiesToEven_def Let_def)

lemma rgb_of_hsl_16:
  "hslToRgb \<lparr> h = 0, s = 0, l = 1234902471353123 / 17592186044416 \<rparr> =
     \<lparr> r = 179, g = 179, b = 179 \<rparr>"
  unfolding hslToRgb_def hue2rgb_def Let_def
  by (simp add: mathRound_def addD_def subD_def mulD_def divD_def toDouble_zero toDouble_minus
      round_79 round_80)

lemma round_81: "toDouble (1234902471353123 / 17592186044416) = 1234902471353123 / 17592186044416"
  using toDouble_normal [of "6" "1234902471353123 / 17592186044416"] by (simp add: roundTiesToEven_def Let_def)

lemma round_82: "toDouble (1234902471353123 / 35184372088832) = 1234902471353123 / 35184372088832"
  using toDouble_normal [of "5" "1234902471353123 / 35184372088832"] by (simp add: roundTiesToEven_def Let_def)

lemma round_83: "toDouble (1234902471353123 / 3518437208883200) = 3161350326663995 / 9007199254740992"
  using toDouble_normal [of "-2" "1234902471353123 / 3518437208883200"] by (simp add: roundTiesToEven_def Let_def)

lemma round_84: "toDouble (806144333299318725 / 9007199254740992) = 179 / 2"
  using toDouble_normal [of "6" "806144333299318725 / 9007199254740992"] by (simp add: roundTiesToEven_def Let_def)

lemma rgb_of_hsl_17:
  "hslToRgb \<lparr> h = 0, s = 0, l = 1234902471353123 / 35184372088832 \<rparr> =
     \<lparr> r = 90, g = 90, b = 90 \<rparr>"
  unfolding hslToRgb_def hue2rgb_def Let_def
  by (simp add: mathRound_def addD_def subD_def mulD_def divD_def toDouble_zero toDouble_minus
      round_83 round_84)

lemma gamma_90:
  "102241733 / 1000000000 \<le> gammaCorrect (90 / 255) \<and> gammaCorrect (90 / 255) \<le> 102241734 / 1000000000"
  by (rule gammaCorrect_between) (simp_all add: power_divide divide_le_eq le_divide_eq)

lemma lum_5A5A5A:
  "102241733 / 1000000000 \<le> luminanceOfRgb \<lparr> r = 90, g = 90, b = 90 \<rparr> \<and> luminanceOfRgb \<lparr> r = 90, g = 90, b = 90 \<rparr> \<le> 102241734 / 1000000000"
  using gamma_90 by (simp add: luminanceOfRgb_def)

lemma ratio_808080_5A5A5A_large:
  "\<not> LARGE_TEXT_THRESHOLD \<le> ratioOfRgb \<lparr> r = 128, g = 128, b = 128 \<rparr> \<lparr> r = 90, g = 90, b = 90 \<rparr>"
  by (rule ratio_lt_from_bounds [OF lum_808080 lum_5A5A5A]) (simp_all add: LARGE_TEXT_THRESHOLD_def NORMAL_TEXT_THRESHOLD_def EPSILON_def)

lemma canon_5A5A5A: "canonRgb \<lparr> r = 90, g = 90, b = 90 \<rparr> = \<lparr> r = 90, g = 90, b = 90 \<rparr>"
  by (simp add: canonRgb_def channelByte_def mathRound_def)

lemma gray_bg_darken_step_1:
  "searchBody \<lparr> h = 0, s = 0, l = 1234902471353123 / 17592186044416 \<rparr> \<lparr> r = 128, g = 128, b = 128 \<rparr> LARGE_TEXT_THRESHOLD False False
     \<lparr> minL = 0, maxL = 1234902471353123 / 17592186044416, bestRgb = \<lparr> r = 179, g = 179, b = 179 \<rparr>,
       bestRatio = ratioOfRgb \<lparr> r = 179, g = 179, b = 179 \<rparr> \<lparr> r = 128, g = 128, b = 128 \<rparr>, iterationCount = 0 \<rparr> =
   Inr \<lparr> minL = 0, maxL = 1234902471353123 / 35184372088832, bestRgb = \<lparr> r = 179, g = 179, b = 179 \<rparr>,
       bestRatio = ratioOfRgb \<lparr> r = 179, g = 179, b = 179 \<rparr> \<lparr> r = 128, g = 128, b = 128 \<rparr>, iterationCount = Suc 0 \<rparr>"
  unfolding searchBody_def Let_def
  by (simp add: bindE_def contrastRatio_rgbToHex addD_def divD_def toDouble_zero
      round_81 round_82 rgb_of_hsl_17 canon_5A5A5A canon_808080 ratio_808080_5A5A5A_large)

lemma round_85: "toDouble (1234902471353123 / 70368744177664) = 1234902471353123 / 70368744177664"
  using toDouble_normal [of "4" "1234902471353123 / 70368744177664"] by (simp add: roundTiesToEven_def Let_def)

lemma round_86: "toDouble (1234902471353123 / 7036874417766400) = 3161350326663995 / 18014398509481984"
  using toDouble_normal [of "-3" "1234902471353123 / 7036874417766400"] by (simp add: roundTiesToEven_def Let_def)

lemma round_87: "toDouble (806144333299318725 / 18014398509481984) = 179 / 4"
  using toDouble_normal [of "5" "806144333299318725 / 18014398509481984"] by (simp add: roundTiesToEven_def Let_def)

lemma rgb_of_hsl_18:
  "hslToRgb \<lparr> h = 0, s = 0, l = 1234902471353123 / 70368744177664 \<rparr> =
     \<lparr> r = 45, g = 45, b = 45 \<rparr>"
  unfolding hslToRgb_def hue2rgb_def Let_def
  by (simp add: mathRound_def addD_def subD_def mulD_def divD_def toDouble_zero toDouble_minus
      round_86 round_87)

lemma gamma_45:
  "26241221 / 1000000000 \<le> gammaCorrect (45 / 255) \<and> gammaCorrect (45 / 255) \<le> 26241222 / 1000000000"
  by (rule gammaCorrect_between) (simp_all add: power_divide divide_le_eq le_divide_eq)

lemma lum_2D2D2D:
  "26241221 / 1000000000 \<le> luminanceOfRgb \<lparr> r = 45, g = 45, b = 45 \<rparr> \<and> luminanceOfRgb \<lparr> r = 45, g = 45, b = 45 \<rparr> \<le> 26241222 / 1000000000"
  using gamma_45 by (simp add: luminanceOfRgb_def)

lemma ratio_808080_2D2D2D_large:
  "LARGE_TEXT_THRESHOLD \<le> ratioOfRgb \<lparr> r = 128, g = 128, b = 128 \<rparr> \<lparr> r = 45, g = 45, b = 45 \<rparr>"
  by (rule ratio_ge_from_bounds [OF lum_808080 lum_2D2D2D]) (simp_all add: LARGE_TEXT_THRESHOLD_def NORMAL_TEXT_THRESHOLD_def EPSILON_def)

lemma canon_2D2D2D: "canonRgb \<lparr> r = 45, g = 45, b = 45 \<rparr> = \<lparr> r = 45, g = 45, b = 45 \<rparr>"
  by (simp add: canonRgb_def channelByte_def mathRound_def)

lemma gray_bg_darken_step_2:
  "searchBody \<lparr> h = 0, s = 0, l = 1234902471353123 / 17592186044416 \<rparr> \<lparr> r = 128, g = 128, b = 128 \<rparr> LARGE_TEXT_THRESHOLD False False
     \<lparr> minL = 0, maxL = 1234902471353123 / 35184372088832, bestRgb = \<lparr> r = 179, g = 179, b = 179 \<rparr>,
       bestRatio = ratioOfRgb \<lparr> r = 179, g = 179, b = 179 \<rparr> \<lparr> r = 128, g = 128, b = 128 \<rparr>, iterationCount = Suc 0 \<rparr> =
   Inr \<lparr> minL = 1234902471353123 / 70368744177664, maxL = 1234902471353123 / 35184372088832, bestRgb = \<lparr> r = 45, g = 45, b = 45 \<rparr>,
       bestRatio = ratioOfRgb \<lparr> r = 128, g = 128, b = 128 \<rparr> \<lparr> r = 45, g = 45, b = 45 \<rparr>, iterationCount = 2 \<rparr>"
  unfolding searchBody_def Let_def
  by (simp add: bindE_def contrastRatio_rgbToHex addD_def divD_def toDouble_zero
      round_82 round_85 rgb_of_hsl_18 canon_2D2D2D canon_808080 ratio_808080_2D2D2D_large)

lemma round_88: "toDouble (3704707414059369 / 70368744177664) = 3704707414059369 / 70368744177664"
  using toDouble_normal [of "5" "3704707414059369 / 70368744177664"] by (simp add: roundTiesToEven_def Let_def)

lemma round_89: "toDouble (3704707414059369 / 140737488355328) = 3704707414059369 / 140737488355328"
  using toDouble_normal [of "4" "3704707414059369 / 140737488355328"] by (simp add: roundTiesToEven_def Let_def)

lemma round_90: "toDouble (3704707414059369 / 14073748835532800) = 592753186249499 / 2251799813685248"
  using toDouble_normal [of "-2" "3704707414059369 / 14073748835532800"] by (simp add: roundTiesToEven_def Let_def)

lemma round_91: "toDouble (151152062493622245 / 2251799813685248) = 4723501952925695 / 70368744177664"
  using toDouble_normal [of "6" "151152062493622245 / 2251799813685248"] by (simp add: roundTiesToEven_def Let_def)

lemma rgb_of_hsl_19:
  "hslToRgb \<lparr> h = 0, s = 0, l = 3704707414059369 / 140737488355328 \<rparr> =
     \<lparr> r = 67, g = 67, b = 67 \<rparr>"
  unfolding hslToRgb_def hue2rgb_def Let_def
  by (simp add: mathRound_def addD_def subD_def mulD_def divD_def toDouble_zero toDouble_minus
      round_90 round_91)

lemma gamma_67:
  "56128490 / 1000000000 \<le> gammaCorrect (67 / 255) \<and> gammaCorrect (67 / 255) \<le> 56128491 / 1000000000"
  by (rule gammaCorrect_between) (simp_all add: power_divide divide_le_eq le_divide_eq)

lemma lum_434343:
  "56128490 / 1000000000 \<le> luminanceOfRgb \<lparr> r = 67, g = 67, b = 67 \<rparr> \<and> luminanceOfRgb \<lparr> r = 67, g = 67, b = 67 \<rparr> \<le> 56128491 / 1000000000"
  using gamma_67 by (simp add: luminanceOfRgb_def)

lemma ratio_808080_434343_large:
  "\<not> LARGE_TEXT_THRESHOLD \<le> ratioOfRgb \<lparr> r = 128, g = 128, b = 128 \<rparr> \<lparr> r = 67, g = 67, b = 67 \<rparr>"
  by (rule ratio_lt_from_bounds [OF lum_808080 lum_434343]) (simp_all add: LARGE_TEXT_THRESHOLD_def NORMAL_TEXT_THRESHOLD_def EPSILON_def)

lemma canon_434343: "canonRgb \<lparr> r = 67, g = 67, b = 67 \<rparr> = \<lparr> r = 67, g = 67, b = 67 \<rparr>"
  by (simp add: canonRgb_def channelByte_def mathRound_def)

lemma gray_bg_darken_step_3:
  "searchBody \<lparr> h = 0, s = 0, l = 1234902471353123 / 17592186044416 \<rparr> \<lparr> r = 128, g = 128, b = 128 \<rparr> LARGE_TEXT_THRESHOLD False False
     \<lparr> minL = 1234902471353123 / 70368744177664, maxL = 1234902471353123 / 35184372088832, bestRgb = \<lparr> r = 45, g = 45, b = 45 \<rparr>,
       bestRatio = ratioOfRgb \<lparr> r = 128, g = 128, b = 128 \<rparr> \<lparr> r = 45, g = 45, b = 45 \<rparr>, iterationCount = 2 \<rparr> =
   Inr \<lparr> minL = 1234902471353123 / 70368744177664, maxL = 3704707414059369 / 140737488355328, bestRgb = \<lparr> r = 45, g = 45, b = 45 \<rparr>,
       bestRatio = ratioOfRgb \<lparr> r = 128, g = 128, b = 128 \<rparr> \<lparr> r = 45, g = 45, b = 45 \<rparr>, iterationCount = 3 \<rparr>"
  unfolding searchBody_def Let_def
  by (simp add: bindE_def contrastRatio_rgbToHex addD_def divD_def toDouble_zero
      round_88 round_89 rgb_of_hsl_19 canon_434343 canon_808080 ratio_808080_434343_large)

lemma round_92: "toDouble (1234902471353123 / 140737488355328) = 1234902471353123 / 140737488355328"
  using toDouble_normal [of "3" "1234902471353123 / 140737488355328"] by (simp add: roundTiesToEven_def Let_def)

lemma round_93: "toDouble (6174512356765615 / 140737488355328) = 6174512356765615 / 140737488355328"
  using toDouble_normal [of "5" "6174512356765615 / 140737488355328"] by (simp add: roundTiesToEven_def Let_def)

lemma round_94: "toDouble (6174512356765615 / 281474976710656) = 6174512356765615 / 281474976710656"
  using toDouble_normal [of "4" "6174512356765615 / 281474976710656"] by (simp add: roundTiesToEven_def Let_def)

lemma round_95: "toDouble (1234902471353123 / 5629499534213120) = 7903375816659987 / 36028797018963968"
  using toDouble_normal [of "-3" "1234902471353123 / 5629499534213120"] by (simp add: roundTiesToEven_def Let_def)

lemma round_96: "toDouble (2015360833248296685 / 36028797018963968) = 7872503254876159 / 140737488355328"
  using toDouble_normal [of "5" "2015360833248296685 / 36028797018963968"] by (simp add: roundTiesToEven_def Let_def)

lemma rgb_of_hsl_20:
  "hslToRgb \<lparr> h = 0, s = 0, l = 6174512356765615 / 281474976710656 \<rparr> =
     \<lparr> r = 56, g = 56, b = 56 \<rparr>"
  unfolding hslToRgb_def hue2rgb_def Let_def
  by (simp add: mathRound_def addD_def subD_def mulD_def divD_def toDouble_zero toDouble_minus
      round_95 round_96)

lemma gamma_56:
  "39546235 / 1000000000 \<le> gammaCorrect (56 / 255) \<and> gammaCorrect (56 / 255) \<le> 39546236 / 1000000000"
  by (rule gammaCorrect_between) (simp_all add: power_divide divide_le_eq le_divide_eq)

lemma lum_383838:
  "39546235 / 1000000000 \<le> luminanceOfRgb \<lparr> r = 56, g = 56, b = 56 \<rparr> \<and> luminanceOfRgb \<lparr> r = 56, g = 56, b = 56 \<rparr> \<le> 39546236 / 1000000000"
  using gamma_56 by (simp add: luminanceOfRgb_def)

lemma ratio_808080_383838_large:
  "\<not> LARGE_TEXT_THRESHOLD \<le> ratioOfRgb \<lparr> r = 128, g = 128, b = 128 \<rparr> \<lparr> r = 56, g = 56, b = 56 \<rparr>"
  by (rule ratio_lt_from_bounds [OF lum_808080 lum_383838]) (simp_all add: LARGE_TEXT_THRESHOLD_def NORMAL_TEXT_THRESHOLD_def EPSILON_def)

lemma canon_383838: "canonRgb \<lparr> r = 56, g = 56, b = 56 \<rparr> = \<lparr> r = 56, g = 56, b = 56 \<rparr>"
  by (simp add: canonRgb_def channelByte_def mathRound_def)

lemma gray_bg_darken_step_4:
  "searchBody \<lparr> h = 0, s = 0, l = 1234902471353123 / 17592186044416 \<rparr> \<lparr> r = 128, g = 128, b = 128 \<rparr> LARGE_TEXT_THRESHOLD False False
     \<lparr> minL = 1234902471353123 / 70368744177664, maxL = 3704707414059369 / 140737488355328, bestRgb = \<lparr> r = 45, g = 45, b = 45 \<rparr>,
       bestRatio = ratioOfRgb \<lparr> r = 128, g = 128, b = 128 \<rparr> \<lparr> r = 45, g = 45, b = 45 \<rparr>, iterationCount = 3 \<rparr> =
   Inr \<lparr> minL = 1234902471353123 / 70368744177664, maxL = 6174512356765615 / 281474976710656, bestRgb = \<lparr> r = 45, g = 45, b = 45 \<rparr>,
       bestRatio = ratioOfRgb \<lparr> r = 128, g = 128, b = 128 \<rparr> \<lparr> r = 45, g = 45, b = 45 \<rparr>, iterationCount = 4 \<rparr>"
  unfolding searchBody_def Let_def
  by (simp add: bindE_def contrastRatio_rgbToHex addD_def divD_def toDouble_zero
      round_93 round_94 rgb_of_hsl_20 canon_383838 canon_808080 ratio_808080_383838_large)

lemma round_97: "toDouble (1234902471353123 / 281474976710656) = 1234902471353123 / 281474976710656"
  using toDouble_normal [of "2" "1234902471353123 / 281474976710656"] by (simp add: roundTiesToEven_def Let_def)

lemma round_98: "toDouble (11114122242178107 / 281474976710656) = 2778530560544527 / 70368744177664"
  using toDouble_normal [of "5" "11114122242178107 / 281474976710656"] by (simp add: roundTiesToEven_def Let_def)

lemma round_99: "toDouble (2778530560544527 / 140737488355328) = 2778530560544527 / 140737488355328"
  using toDouble_normal [of "4" "2778530560544527 / 140737488355328"] by (simp add: roundTiesToEven_def Let_def)

lemma round_100: "toDouble (2778530560544527 / 14073748835532800) = 7113038234993989 / 36028797018963968"
  using toDouble_normal [of "-3" "2778530560544527 / 14073748835532800"] by (simp add: roundTiesToEven_def Let_def)

lemma round_101: "toDouble (1813824749923467195 / 36028797018963968) = 1611 / 32"
  using toDouble_normal [of "5" "1813824749923467195 / 36028797018963968"] by (simp add: roundTiesToEven_def Let_def)

lemma rgb_of_hsl_21:
  "hslToRgb \<lparr> h = 0, s = 0, l = 2778530560544527 / 140737488355328 \<rparr> =
     \<lparr> r = 50, g = 50, b = 50 \<rparr>"
  unfolding hslToRgb_def hue2rgb_def Let_def
  by (simp add: mathRound_def addD_def subD_def mulD_def divD_def toDouble_zero toDouble_minus
      round_100 round_101)

lemma gamma_50:
  "31896033 / 1000000000 \<le> gammaCorrect (50 / 255) \<and> gammaCorrect (50 / 255) \<le> 31896034 / 1000000000"
  by (rule gammaCorrect_between) (simp_all add: power_divide divide_le_eq le_divide_eq)

lemma lum_323232:
  "31896033 / 1000000000 \<le> luminanceOfRgb \<lparr> r = 50, g = 50, b = 50 \<rparr> \<and> luminanceOfRgb \<lparr> r = 50, g = 50, b = 50 \<rparr> \<le> 31896034 / 1000000000"
  using gamma_50 by (simp add: luminanceOfRgb_def)

lemma ratio_808080_323232_large:
  "LARGE_TEXT_THRESHOLD \<le> ratioOfRgb \<lparr> r = 128, g = 128, b = 128 \<rparr> \<lparr> r = 50, g = 50, b = 50 \<rparr>"
  by (rule ratio_ge_from_bounds [OF lum_808080 lum_323232]) (simp_all add: LARGE_TEXT_THRESHOLD_def NORMAL_TEXT_THRESHOLD_def EPSILON_def)

lemma canon_323232: "canonRgb \<lparr> r = 50, g = 50, b = 50 \<rparr> = \<lparr> r = 50, g = 50, b = 50 \<rparr>"
  by (simp add: canonRgb_def channelByte_def mathRound_def)

lemma gray_bg_darken_step_5:
  "searchBody \<lparr> h = 0, s = 0, l = 1234902471353123 / 17592186044416 \<rparr> \<lparr> r = 128, g = 128, b = 128 \<rparr> LARGE_TEXT_THRESHOLD False False
     \<lparr> minL = 1234902471353123 / 70368744177664, maxL = 6174512356765615 / 281474976710656, bestRgb = \<lparr> r = 45, g = 45, b = 45 \<rparr>,
       bestRatio = ratioOfRgb \<lparr> r = 128, g = 128, b = 128 \<rparr> \<lparr> r = 45, g = 45, b = 45 \<rparr>, iterationCount = 4 \<rparr> =
   Inr \<lparr> minL = 2778530560544527 / 140737488355328, maxL = 6174512356765615 / 281474976710656, bestRgb = \<lparr> r = 50, g = 50, b = 50 \<rparr>,
       bestRatio = ratioOfRgb \<lparr> r = 128, g = 128, b = 128 \<rparr> \<lparr> r = 50, g = 50, b = 50 \<rparr>, iterationCount = 5 \<rparr>"
  unfolding searchBody_def Let_def
  by (simp add: bindE_def contrastRatio_rgbToHex addD_def divD_def toDouble_zero
      round_98 round_99 rgb_of_hsl_21 canon_323232 canon_808080 ratio_808080_323232_large)

lemma round_102: "toDouble (617451235676561 / 281474976710656) = 617451235676561 / 281474976710656"
  using toDouble_normal [of "1" "617451235676561 / 281474976710656"] by (simp add: roundTiesToEven_def Let_def)

lemma round_103: "toDouble (11731573477854669 / 281474976710656) = 2932893369463667 / 70368744177664"
  using toDouble_normal [of "5" "11731573477854669 / 281474976710656"] by (simp add: roundTiesToEven_def Let_def)

lemma round_104: "toDouble (2932893369463667 / 140737488355328) = 2932893369463667 / 140737488355328"
  using toDouble_normal [of "4" "2932893369463667 / 140737488355328"] by (simp add: roundTiesToEven_def Let_def)

lemma round_105: "toDouble (2932893369463667 / 14073748835532800) = 1877051756456747 / 9007199254740992"
  using toDouble_normal [of "-3" "2932893369463667 / 14073748835532800"] by (simp add: roundTiesToEven_def Let_def)

lemma round_106: "toDouble (478648197896470485 / 9007199254740992) = 7478878092132351 / 140737488355328"
  using toDouble_normal [of "5" "478648197896470485 / 9007199254740992"] by (simp add: roundTiesToEven_def Let_def)

lemma rgb_of_hsl_22:
  "hslToRgb \<lparr> h = 0, s = 0, l = 2932893369463667 / 140737488355328 \<rparr> =
     \<lparr> r = 53, g = 53, b = 53 \<rparr>"
  unfolding hslToRgb_def hue2rgb_def Let_def
  by (simp add: mathRound_def addD_def subD_def mulD_def divD_def toDouble_zero toDouble_minus
      round_105 round_106)

lemma gamma_53:
  "35601314 / 1000000000 \<le> gammaCorrect (53 / 255) \<and> gammaCorrect (53 / 255) \<le> 35601315 / 1000000000"
  by (rule gammaCorrect_between) (simp_all add: power_divide divide_le_eq le_divide_eq)

lemma lum_353535:
  "35601314 / 1000000000 \<le> luminanceOfRgb \<lparr> r = 53, g = 53, b = 53 \<rparr> \<and> luminanceOfRgb \<lparr> r = 53, g = 53, b = 53 \<rparr> \<le> 35601315 / 1000000000"
  using gamma_53 by (simp add: luminanceOfRgb_def)

lemma ratio_808080_353535_large:
  "LARGE_TEXT_THRESHOLD \<le> ratioOfRgb \<lparr> r = 128, g = 128, b = 128 \<rparr> \<lparr> r = 53, g = 53, b = 53 \<rparr>"
  by (rule ratio_ge_from_bounds [OF lum_808080 lum_353535]) (simp_all add: LARGE_TEXT_THRESHOLD_def NORMAL_TEXT_THRESHOLD_def EPSILON_def)

lemma canon_353535: "canonRgb \<lparr> r = 53, g = 53, b = 53 \<rparr> = \<lparr> r = 53, g = 53, b = 53 \<rparr>"
  by (simp add: canonRgb_def channelByte_def mathRound_def)

lemma gray_bg_darken_step_6:
  "searchBody \<lparr> h = 0, s = 0, l = 1234902471353123 / 17592186044416 \<rparr> \<lparr> r = 128, g = 128, b = 128 \<rparr> LARGE_TEXT_THRESHOLD False False
     \<lparr> minL = 2778530560544527 / 140737488355328, maxL = 6174512356765615 / 281474976710656, bestRgb = \<lparr> r = 50, g = 50, b = 50 \<rparr>,
       bestRatio = ratioOfRgb \<lparr> r = 128, g = 128, b = 128 \<rparr> \<lparr> r = 50, g = 50, b = 50 \<rparr>, iterationCount = 5 \<rparr> =
   Inr \<lparr> minL = 2932893369463667 / 140737488355328, maxL = 6174512356765615 / 281474976710656, bestRgb = \<lparr> r = 53, g = 53, b = 53 \<rparr>,
       bestRatio = ratioOfRgb \<lparr> r = 128, g = 128, b = 128 \<rparr> \<lparr> r = 53, g = 53, b = 53 \<rparr>, iterationCount = 6 \<rparr>"
  unfolding searchBody_def Let_def
  by (simp add: bindE_def contrastRatio_rgbToHex addD_def divD_def toDouble_zero
      round_103 round_104 rgb_of_hsl_22 canon_353535 canon_808080 ratio_808080_353535_large)

lemma round_107: "toDouble (308725617838281 / 281474976710656) = 308725617838281 / 281474976710656"
  using toDouble_normal [of "0" "308725617838281 / 281474976710656"] by (simp add: roundTiesToEven_def Let_def)

lemma round_108: "toDouble (12040299095692949 / 281474976710656) = 3010074773923237 / 70368744177664"
  using toDouble_normal [of "5" "12040299095692949 / 281474976710656"] by (simp add: roundTiesToEven_def Let_def)

lemma round_109: "toDouble (3010074773923237 / 140737488355328) = 3010074773923237 / 140737488355328"
  using toDouble_normal [of "4" "3010074773923237 / 140737488355328"] by (simp add: roundTiesToEven_def Let_def)

lemma round_110: "toDouble (3010074773923237 / 14073748835532800) = 7705791421243487 / 36028797018963968"
  using toDouble_normal [of "-3" "3010074773923237 / 14073748835532800"] by (simp add: roundTiesToEven_def Let_def)

lemma round_111: "toDouble (1964976812417089185 / 36028797018963968) = 7675690673504255 / 140737488355328"
  using toDouble_normal [of "5" "1964976812417089185 / 36028797018963968"] by (simp add: roundTiesToEven_def Let_def)

lemma rgb_of_hsl_23:
  "hslToRgb \<lparr> h = 0, s = 0, l = 3010074773923237 / 140737488355328 \<rparr> =
     \<lparr> r = 55, g = 55, b = 55 \<rparr>"
  unfolding hslToRgb_def hue2rgb_def Let_def
  by (simp add: mathRound_def addD_def subD_def mulD_def divD_def toDouble_zero toDouble_minus
      round_110 round_111)

lemma gamma_55:
  "38204371 / 1000000000 \<le> gammaCorrect (55 / 255) \<and> gammaCorrect (55 / 255) \<le> 38204372 / 1000000000"
  by (rule gammaCorrect_between) (simp_all add: power_divide divide_le_eq le_divide_eq)

lemma lum_373737:
  "38204371 / 1000000000 \<le> luminanceOfRgb \<lparr> r = 55, g = 55, b = 55 \<rparr> \<and> luminanceOfRgb \<lparr> r = 55, g = 55, b = 55 \<rparr> \<le> 38204372 / 1000000000"
  using gamma_55 by (simp add: luminanceOfRgb_def)

lemma ratio_808080_373737_large:
  "LARGE_TEXT_THRESHOLD \<le> ratioOfRgb \<lparr> r = 128, g = 128, b = 128 \<rparr> \<lparr> r = 55, g = 55, b = 55 \<rparr>"
  by (rule ratio_ge_from_bounds [OF lum_808080 lum_373737]) (simp_all add: LARGE_TEXT_THRESHOLD_def NORMAL_TEXT_THRESHOLD_def EPSILON_def)

lemma canon_373737: "canonRgb \<lparr> r = 55, g = 55, b = 55 \<rparr> = \<lparr> r = 55, g = 55, b = 55 \<rparr>"
  by (simp add: canonRgb_def channelByte_def mathRound_def)

lemma gray_bg_darken_step_7:
  "searchBody \<lparr> h = 0, s = 0, l = 1234902471353123 / 17592186044416 \<rparr> \<lparr> r = 128, g = 128, b = 128 \<rparr> LARGE_TEXT_THRESHOLD False False
     \<lparr> minL = 2932893369463667 / 140737488355328, maxL = 6174512356765615 / 281474976710656, bestRgb = \<lparr> r = 53, g = 53, b = 53 \<rparr>,
       bestRatio = ratioOfRgb \<lparr> r = 128, g = 128, b = 128 \<rparr> \<lparr> r = 53, g = 53, b = 53 \<rparr>, iterationCount = 6 \<rparr> =
   Inr \<lparr> minL = 3010074773923237 / 140737488355328, maxL = 6174512356765615 / 281474976710656, bestRgb = \<lparr> r = 55, g = 55, b = 55 \<rparr>,
       bestRatio = ratioOfRgb \<lparr> r = 128, g = 128, b = 128 \<rparr> \<lparr> r = 55, g = 55, b = 55 \<rparr>, iterationCount = 7 \<rparr>"
  unfolding searchBody_def Let_def
  by (simp add: bindE_def contrastRatio_rgbToHex addD_def divD_def toDouble_zero
      round_108 round_109 rgb_of_hsl_23 canon_373737 canon_808080 ratio_808080_373737_large)

lemma round_112: "toDouble (154362808919141 / 281474976710656) = 154362808919141 / 281474976710656"
  using toDouble_normal [of "-1" "154362808919141 / 281474976710656"] by (simp add: roundTiesToEven_def Let_def)

lemma gray_bg_darken_loop:
  "searchLoop 7 \<lparr> h = 0, s = 0, l = 1234902471353123 / 17592186044416 \<rparr> \<lparr> r = 128, g = 128, b = 128 \<rparr> LARGE_TEXT_THRESHOLD False False
     \<lparr> minL = 0, maxL = 1234902471353123 / 17592186044416, bestRgb = \<lparr> r = 179, g = 179, b = 179 \<rparr>,
       bestRatio = ratioOfRgb \<lparr> r = 179, g = 179, b = 179 \<rparr> \<lparr> r = 128, g = 128, b = 128 \<rparr>, iterationCount = 0 \<rparr> =
   Inr \<lparr> minL = 3010074773923237 / 140737488355328, maxL = 6174512356765615 / 281474976710656, bestRgb = \<lparr> r = 55, g = 55, b = 55 \<rparr>,
       bestRatio = ratioOfRgb \<lparr> r = 128, g = 128, b = 128 \<rparr> \<lparr> r = 55, g = 55, b = 55 \<rparr>, iterationCount = 7 \<rparr>"
  by (simp add: searchLoop_numeral bindE_def subD_def toDouble_zero toDouble_minus
      round_15 round_82 round_85 round_92 round_97 round_102 round_107 round_112
      gray_bg_darken_step_1 gray_bg_darken_step_2 gray_bg_darken_step_3 gray_bg_darken_step_4
      gray_bg_darken_step_5 gray_bg_darken_step_6 gray_bg_darken_step_7)

lemma gray_bg_darken_search:
  "binarySearchLightness \<lparr> h = 0, s = 0, l = 1234902471353123 / 17592186044416 \<rparr> \<lparr> r = 128, g = 128, b = 128 \<rparr> LARGE_TEXT_THRESHOLD False False 7 =
   Inr \<lparr> rgb = \<lparr> r = 55, g = 55, b = 55 \<rparr>, ratio = ratioOfRgb \<lparr> r = 128, g = 128, b = 128 \<rparr> \<lparr> r = 55, g = 55, b = 55 \<rparr>, iterations = 7 \<rparr>"
  unfolding binarySearchLightness_def Let_def
  by (simp add: bindE_def contrastRatio_rgbToHex rgb_of_hsl_16 canon_B3B3B3 canon_808080 gray_bg_darken_loop)

lemma round_113: "toDouble (2994121075794723 / 17592186044416) = 2994121075794723 / 17592186044416"
  using toDouble_normal [of "7" "2994121075794723 / 17592186044416"] by (simp add: roundTiesToEven_def Let_def)

lemma round_114: "toDouble (2994121075794723 / 35184372088832) = 2994121075794723 / 35184372088832"
  using toDouble_normal [of "6" "2994121075794723 / 35184372088832"] by (simp add: roundTiesToEven_def Let_def)

lemma round_115: "toDouble (2994121075794723 / 3518437208883200) = 7664949954034491 / 9007199254740992"
  using toDouble_normal [of "-1" "2994121075794723 / 3518437208883200"] by (simp add: roundTiesToEven_def Let_def)

lemma round_116: "toDouble (1954562238278795205 / 9007199254740992) = 217"
  using toDouble_normal [of "7" "1954562238278795205 / 9007199254740992"] by (simp add: roundTiesToEven_def Let_def)

lemma rgb_of_hsl_24:
  "hslToRgb \<lparr> h = 0, s = 0, l = 2994121075794723 / 35184372088832 \<rparr> =
     \<lparr> r = 217, g = 217, b = 217 \<rparr>"
  unfolding hslToRgb_def hue2rgb_def Let_def
  by (simp add: mathRound_def addD_def subD_def mulD_def divD_def toDouble_zero toDouble_minus
      round_115 round_116)

lemma gamma_217:
  "693871761 / 1000000000 \<le> gammaCorrect (217 / 255) \<and> gammaCorrect (217 / 255) \<le> 693871762 / 1000000000"
  by (rule gammaCorrect_between) (simp_all add: power_divide divide_le_eq le_divide_eq)

lemma lum_D9D9D9:
  "693871761 / 1000000000 \<le> luminanceOfRgb \<lparr> r = 217, g = 217, b = 217 \<rparr> \<and> luminanceOfRgb \<lparr> r = 217, g = 217, b = 217 \<rparr> \<le> 693871762 / 1000000000"
  using gamma_217 by (simp add: luminanceOfRgb_def)

lemma ratio_808080_D9D9D9_large:
  "\<not> LARGE_TEXT_THRESHOLD \<le> ratioOfRgb \<lparr> r = 128, g = 128, b = 128 \<rparr> \<lparr> r = 217, g = 217, b = 217 \<rparr>"
  by (rule ratio_lt_from_bounds [OF lum_808080 lum_D9D9D9]) (simp_all add: LARGE_TEXT_THRESHOLD_def NORMAL_TEXT_THRESHOLD_def EPSILON_def)

lemma canon_D9D9D9: "canonRgb \<lparr> r = 217, g = 217, b = 217 \<rparr> = \<lparr> r = 217, g = 217, b = 217 \<rparr>"
  by (simp add: canonRgb_def channelByte_def mathRound_def)

lemma gray_bg_lighten_step_1:
  "searchBody \<lparr> h = 0, s = 0, l = 1234902471353123 / 17592186044416 \<rparr> \<lparr> r = 128, g = 128, b = 128 \<rparr> LARGE_TEXT_THRESHOLD False True
     \<lparr> minL = 1234902471353123 / 17592186044416, maxL = 100, bestRgb = \<lparr> r = 179, g = 179, b = 179 \<rparr>,
       bestRatio = ratioOfRgb \<lparr> r = 179, g = 179, b = 179 \<rparr> \<lparr> r = 128, g = 128, b = 128 \<rparr>, iterationCount = 0 \<rparr> =
   Inr \<lparr> minL = 2994121075794723 / 35184372088832, maxL = 100, bestRgb = \<lparr> r = 179, g = 179, b = 179 \<rparr>,
       bestRatio = ratioOfRgb \<lparr> r = 179, g = 179, b = 179 \<rparr> \<lparr> r = 128, g = 128, b = 128 \<rparr>, iterationCount = Suc 0 \<rparr>"
  unfolding searchBody_def Let_def
  by (simp add: bindE_def contrastRatio_rgbToHex addD_def divD_def toDouble_zero
      round_113 round_114 rgb_of_hsl_24 canon_D9D9D9 canon_808080 ratio_808080_D9D9D9_large)

lemma round_117: "toDouble (524316133088477 / 35184372088832) = 524316133088477 / 35184372088832"
  using toDouble_normal [of "3" "524316133088477 / 35184372088832"] by (simp add: roundTiesToEven_def Let_def)

lemma round_118: "toDouble (6512558284677923 / 35184372088832) = 6512558284677923 / 35184372088832"
  using toDouble_normal [of "7" "6512558284677923 / 35184372088832"] by (simp add: roundTiesToEven_def Let_def)

lemma round_119: "toDouble (6512558284677923 / 70368744177664) = 6512558284677923 / 70368744177664"
  using toDouble_normal [of "6" "6512558284677923 / 70368744177664"] by (simp add: roundTiesToEven_def Let_def)

lemma round_120: "toDouble (6512558284677923 / 7036874417766400) = 8336074604387741 / 9007199254740992"
  using toDouble_normal [of "-1" "6512558284677923 / 7036874417766400"] by (simp add: roundTiesToEven_def Let_def)

lemma round_121: "toDouble (2125699024118873955 / 9007199254740992) = 8303511812964351 / 35184372088832"
  using toDouble_normal [of "7" "2125699024118873955 / 9007199254740992"] by (simp add: roundTiesToEven_def Let_def)

lemma rgb_of_hsl_25:
  "hslToRgb \<lparr> h = 0, s = 0, l = 6512558284677923 / 70368744177664 \<rparr> =
     \<lparr> r = 236, g = 236, b = 236 \<rparr>"
  unfolding hslToRgb_def hue2rgb_def Let_def
  by (simp add: mathRound_def addD_def subD_def mulD_def divD_def toDouble_zero toDouble_minus
      round_120 round_121)

lemma gamma_236:
  "838799011 / 1000000000 \<le> gammaCorrect (236 / 255) \<and> gammaCorrect (236 / 255) \<le> 838799012 / 1000000000"
  by (rule gammaCorrect_between) (simp_all add: power_divide divide_le_eq le_divide_eq)

lemma lum_ECECEC:
  "838799011 / 1000000000 \<le> luminanceOfRgb \<lparr> r = 236, g = 236, b = 236 \<rparr> \<and> luminanceOfRgb \<lparr> r = 236, g = 236, b = 236 \<rparr> \<le> 838799012 / 1000000000"
  using gamma_236 by (simp add: luminanceOfRgb_def)

lemma ratio_808080_ECECEC_large:
  "LARGE_TEXT_THRESHOLD \<le> ratioOfRgb \<lparr> r = 128, g = 128, b = 128 \<rparr> \<lparr> r = 236, g = 236, b = 236 \<rparr>"
  by (rule ratio_ge_from_bounds [OF lum_808080 lum_ECECEC]) (simp_all add: LARGE_TEXT_THRESHOLD_def NORMAL_TEXT_THRESHOLD_def EPSILON_def)

lemma canon_ECECEC: "canonRgb \<lparr> r = 236, g = 236, b = 236 \<rparr> = \<lparr> r = 236, g = 236, b = 236 \<rparr>"
  by (simp add: canonRgb_def channelByte_def mathRound_def)

lemma gray_bg_lighten_step_2:
  "searchBody \<lparr> h = 0, s = 0, l = 1234902471353123 / 17592186044416 \<rparr> \<lparr> r = 128, g = 128, b = 128 \<rparr> LARGE_TEXT_THRESHOLD False True
     \<lparr> minL = 2994121075794723 / 35184372088832, maxL = 100, bestRgb = \<lparr> r = 179, g = 179, b = 179 \<rparr>,
       bestRatio = ratioOfRgb \<lparr> r = 179, g = 179, b = 179 \<rparr> \<lparr> r = 128, g = 128, b = 128 \<rparr>, iterationCount = Suc 0 \<rparr> =
   Inr \<lparr> minL = 2994121075794723 / 35184372088832, maxL = 6512558284677923 / 70368744177664, bestRgb = \<lparr> r = 236, g = 236, b = 236 \<rparr>,
       bestRatio = ratioOfRgb \<lparr> r = 128, g = 128, b = 128 \<rparr> \<lparr> r = 236, g = 236, b = 236 \<rparr>, iterationCount = 2 \<rparr>"
  unfolding searchBody_def Let_def
  by (simp add: bindE_def contrastRatio_rgbToHex addD_def divD_def toDouble_zero
      round_118 round_119 rgb_of_hsl_25 canon_ECECEC canon_808080 ratio_808080_ECECEC_large)

lemma round_122: "toDouble (524316133088477 / 70368744177664) = 524316133088477 / 70368744177664"
  using toDouble_normal [of "2" "524316133088477 / 70368744177664"] by (simp add: roundTiesToEven_def Let_def)

lemma round_123: "toDouble (12500800436267369 / 70368744177664) = 1562600054533421 / 8796093022208"
  using toDouble_normal [of "7" "12500800436267369 / 70368744177664"] by (simp add: roundTiesToEven_def Let_def)

lemma round_124: "toDouble (1562600054533421 / 17592186044416) = 1562600054533421 / 17592186044416"
  using toDouble_normal [of "6" "1562600054533421 / 17592186044416"] by (simp add: roundTiesToEven_def Let_def)

lemma round_125: "toDouble (1562600054533421 / 1759218604441600) = 2000128069802779 / 2251799813685248"
  using toDouble_normal [of "-1" "1562600054533421 / 1759218604441600"] by (simp add: roundTiesToEven_def Let_def)

lemma round_126: "toDouble (510032657799708645 / 2251799813685248) = 453 / 2"
  using toDouble_normal [of "7" "510032657799708645 / 2251799813685248"] by (simp add: roundTiesToEven_def Let_def)

lemma rgb_of_hsl_26:
  "hslToRgb \<lparr> h = 0, s = 0, l = 1562600054533421 / 17592186044416 \<rparr> =
     \<lparr> r = 227, g = 227, b = 227 \<rparr>"
  unfolding hslToRgb_def hue2rgb_def Let_def
  by (simp add: mathRound_def addD_def subD_def mulD_def divD_def toDouble_zero toDouble_minus
      round_125 round_126)

lemma gamma_227:
  "768151147 / 1000000000 \<le> gammaCorrect (227 / 255) \<and> gammaCorrect (227 / 255) \<le> 768151148 / 1000000000"
  by (rule gammaCorrect_between) (simp_all add: power_divide divide_le_eq le_divide_eq)

lemma lum_E3E3E3:
  "768151147 / 1000000000 \<le> luminanceOfRgb \<lparr> r = 227, g = 227, b = 227 \<rparr> \<and> luminanceOfRgb \<lparr> r = 227, g = 227, b = 227 \<rparr> \<le> 768151148 / 1000000000"
  using gamma_227 by (simp add: luminanceOfRgb_def)

lemma ratio_808080_E3E3E3_large:
  "LARGE_TEXT_THRESHOLD \<le> ratioOfRgb \<lparr> r = 128, g = 128, b = 128 \<rparr> \<lparr> r = 227, g = 227, b = 227 \<rparr>"
  by (rule ratio_ge_from_bounds [OF lum_808080 lum_E3E3E3]) (simp_all add: LARGE_TEXT_THRESHOLD_def NORMAL_TEXT_THRESHOLD_def EPSILON_def)

lemma canon_E3E3E3: "canonRgb \<lparr> r = 227, g = 227, b = 227 \<rparr> = \<lparr> r = 227, g = 227, b = 227 \<rparr>"
  by (simp add: canonRgb_def channelByte_def mathRound_def)

lemma gray_bg_lighten_step_3:
  "searchBody \<lparr> h = 0, s = 0, l = 1234902471353123 / 17592186044416 \<rparr> \<lparr> r = 128, g = 128, b = 128 \<rparr> LARGE_TEXT_THRESHOLD False True
     \<lparr> minL = 2994121075794723 / 35184372088832, maxL = 6512558284677923 / 70368744177664, bestRgb = \<lparr> r = 236, g = 236, b = 236 \<rparr>,
       bestRatio = ratioOfRgb \<lparr> r = 128, g = 128, b = 128 \<rparr> \<lparr> r = 236, g = 236, b = 236 \<rparr>, iterationCount = 2 \<rparr> =
   Inr \<lparr> minL = 2994121075794723 / 35184372088832, maxL = 1562600054533421 / 17592186044416, bestRgb = \<lparr> r = 227, g = 227, b = 227 \<rparr>,
       bestRatio = ratioOfRgb \<lparr> r = 128, g = 128, b = 128 \<rparr> \<lparr> r = 227, g = 227, b = 227 \<rparr>, iterationCount = 3 \<rparr>"
  unfolding searchBody_def Let_def
  by (simp add: bindE_def contrastRatio_rgbToHex addD_def divD_def toDouble_zero
      round_123 round_124 rgb_of_hsl_26 canon_E3E3E3 canon_808080 ratio_808080_E3E3E3_large)

lemma round_127: "toDouble (131079033272119 / 35184372088832) = 131079033272119 / 35184372088832"
  using toDouble_normal [of "1" "131079033272119 / 35184372088832"] by (simp add: roundTiesToEven_def Let_def)

lemma round_128: "toDouble (6119321184861565 / 35184372088832) = 6119321184861565 / 35184372088832"
  using toDouble_normal [of "7" "6119321184861565 / 35184372088832"] by (simp add: roundTiesToEven_def Let_def)

lemma round_129: "toDouble (6119321184861565 / 70368744177664) = 6119321184861565 / 70368744177664"
  using toDouble_normal [of "6" "6119321184861565 / 70368744177664"] by (simp add: roundTiesToEven_def Let_def)

lemma round_130: "toDouble (1223864236972313 / 1407374883553280) = 7832731116622803 / 9007199254740992"
  using toDouble_normal [of "-1" "1223864236972313 / 1407374883553280"] by (simp add: roundTiesToEven_def Let_def)

lemma round_131: "toDouble (1997346434738814765 / 9007199254740992) = 7802134510698495 / 35184372088832"
  using toDouble_normal [of "7" "1997346434738814765 / 9007199254740992"] by (simp add: roundTiesToEven_def Let_def)

lemma rgb_of_hsl_27:
  "hslToRgb \<lparr> h = 0, s = 0, l = 6119321184861565 / 70368744177664 \<rparr> =
     \<lparr> r = 222, g = 222, b = 222 \<rparr>"
  unfolding hslToRgb_def hue2rgb_def Let_def
  by (simp add: mathRound_def addD_def subD_def mulD_def divD_def toDouble_zero toDouble_minus
      round_130 round_131)

lemma gamma_222:
  "730460740 / 1000000000 \<le> gammaCorrect (222 / 255) \<and> gammaCorrect (222 / 255) \<le> 730460741 / 1000000000"
  by (rule gammaCorrect_between) (simp_all add: power_divide divide_le_eq le_divide_eq)

lemma lum_DEDEDE:
  "730460740 / 1000000000 \<le> luminanceOfRgb \<lparr> r = 222, g = 222, b = 222 \<rparr> \<and> luminanceOfRgb \<lparr> r = 222, g = 222, b = 222 \<rparr> \<le> 730460741 / 1000000000"
  using gamma_222 by (simp add: luminanceOfRgb_def)

lemma ratio_808080_DEDEDE_large:
  "\<not> LARGE_TEXT_THRESHOLD \<le> ratioOfRgb \<lparr> r = 128, g = 128, b = 128 \<rparr> \<lparr> r = 222, g = 222, b = 222 \<rparr>"
  by (rule ratio_lt_from_bounds [OF lum_808080 lum_DEDEDE]) (simp_all add: LARGE_TEXT_THRESHOLD_def NORMAL_TEXT_THRESHOLD_def EPSILON_def)

lemma canon_DEDEDE: "canonRgb \<lparr> r = 222, g = 222, b = 222 \<rparr> = \<lparr> r = 222, g = 222, b = 222 \<rparr>"
  by (simp add: canonRgb_def channelByte_def mathRound_def)

lemma gray_bg_lighten_step_4:
  "searchBody \<lparr> h = 0, s = 0, l = 1234902471353123 / 17592186044416 \<rparr> \<lparr> r = 128, g = 128, b = 128 \<rparr> LARGE_TEXT_THRESHOLD False True
     \<lparr> minL = 2994121075794723 / 35184372088832, maxL = 1562600054533421 / 17592186044416, bestRgb = \<lparr> r = 227, g = 227, b = 227 \<rparr>,
       bestRatio = ratioOfRgb \<lparr> r = 128, g = 128, b = 128 \<rparr> \<lparr> r = 227, g = 227, b = 227 \<rparr>, iterationCount = 3 \<rparr> =
   Inr \<lparr> minL = 6119321184861565 / 70368744177664, maxL = 1562600054533421 / 17592186044416, bestRgb = \<lparr> r = 227, g = 227, b = 227 \<rparr>,
       bestRatio = ratioOfRgb \<lparr> r = 128, g = 128, b = 128 \<rparr> \<lparr> r = 227, g = 227, b = 227 \<rparr>, iterationCount = 4 \<rparr>"
  unfolding searchBody_def Let_def
  by (simp add: bindE_def contrastRatio_rgbToHex addD_def divD_def toDouble_zero
      round_128 round_129 rgb_of_hsl_27 canon_DEDEDE canon_808080 ratio_808080_DEDEDE_large)

lemma round_132: "toDouble (131079033272119 / 70368744177664) = 131079033272119 / 70368744177664"
  using toDouble_normal [of "0" "131079033272119 / 70368744177664"] by (simp add: roundTiesToEven_def Let_def)

lemma round_133: "toDouble (12369721402995249 / 70368744177664) = 773107587687203 / 4398046511104"
  using toDouble_normal [of "7" "12369721402995249 / 70368744177664"] by (simp add: roundTiesToEven_def Let_def)

lemma round_134: "toDouble (773107587687203 / 8796093022208) = 773107587687203 / 8796093022208"
  using toDouble_normal [of "6" "773107587687203 / 8796093022208"] by (simp add: roundTiesToEven_def Let_def)

lemma round_135: "toDouble (773107587687203 / 879609302220800) = 7916621697916959 / 9007199254740992"
  using toDouble_normal [of "-1" "773107587687203 / 879609302220800"] by (simp add: roundTiesToEven_def Let_def)

lemma round_136: "toDouble (2018738532968824545 / 9007199254740992) = 7885697394409471 / 35184372088832"
  using toDouble_normal [of "7" "2018738532968824545 / 9007199254740992"] by (simp add: roundTiesToEven_def Let_def)

lemma rgb_of_hsl_28:
  "hslToRgb \<lparr> h = 0, s = 0, l = 773107587687203 / 8796093022208 \<rparr> =
     \<lparr> r = 224, g = 224, b = 224 \<rparr>"
  unfolding hslToRgb_def hue2rgb_def Let_def
  by (simp add: mathRound_def addD_def subD_def mulD_def divD_def toDouble_zero toDouble_minus
      round_135 round_136)

lemma gamma_224:
  "745404209 / 1000000000 \<le> gammaCorrect (224 / 255) \<and> gammaCorrect (224 / 255) \<le> 745404210 / 1000000000"
  by (rule gammaCorrect_between) (simp_all add: power_divide divide_le_eq le_divide_eq)

lemma lum_E0E0E0:
  "745404209 / 1000000000 \<le> luminanceOfRgb \<lparr> r = 224, g = 224, b = 224 \<rparr> \<and> luminanceOfRgb \<lparr> r = 224, g = 224, b = 224 \<rparr> \<le> 745404210 / 1000000000"
  using gamma_224 by (simp add: luminanceOfRgb_def)

lemma ratio_808080_E0E0E0_large:
  "\<not> LARGE_TEXT_THRESHOLD \<le> ratioOfRgb \<lparr> r = 128, g = 128, b = 128 \<rparr> \<lparr> r = 224, g = 224, b = 224 \<rparr>"
  by (rule ratio_lt_from_bounds [OF lum_808080 lum_E0E0E0]) (simp_all add: LARGE_TEXT_THRESHOLD_def NORMAL_TEXT_THRESHOLD_def EPSILON_def)

lemma canon_E0E0E0: "canonRgb \<lparr> r = 224, g = 224, b = 224 \<rparr> = \<lparr> r = 224, g = 224, b = 224 \<rparr>"
  by (simp add: canonRgb_def channelByte_def mathRound_def)

lemma gray_bg_lighten_step_5:
  "searchBody \<lparr> h = 0, s = 0, l = 1234902471353123 / 17592186044416 \<rparr> \<lparr> r = 128, g = 128, b = 128 \<rparr> LARGE_TEXT_THRESHOLD False True
     \<lparr> minL = 6119321184861565 / 70368744177664, maxL = 1562600054533421 / 17592186044416, bestRgb = \<lparr> r = 227, g = 227, b = 227 \<rparr>,
       bestRatio = ratioOfRgb \<lparr> r = 128, g = 128, b = 128 \<rparr> \<lparr> r = 227, g = 227, b = 227 \<rparr>, iterationCount = 4 \<rparr> =
   Inr \<lparr> minL = 773107587687203 / 8796093022208, maxL = 1562600054533421 / 17592186044416, bestRgb = \<lparr> r = 227, g = 227, b = 227 \<rparr>,
       bestRatio = ratioOfRgb \<lparr> r = 128, g = 128, b = 128 \<rparr> \<lparr> r = 227, g = 227, b = 227 \<rparr>, iterationCount = 5 \<rparr>"
  unfolding searchBody_def Let_def
  by (simp add: bindE_def contrastRatio_rgbToHex addD_def divD_def toDouble_zero
      round_133 round_134 rgb_of_hsl_28 canon_E0E0E0 canon_808080 ratio_808080_E0E0E0_large)

lemma round_137: "toDouble (16384879159015 / 17592186044416) = 16384879159015 / 17592186044416"
  using toDouble_normal [of "-1" "16384879159015 / 17592186044416"] by (simp add: roundTiesToEven_def Let_def)

lemma round_138: "toDouble (3108815229907827 / 17592186044416) = 3108815229907827 / 17592186044416"
  using toDouble_normal [of "7" "3108815229907827 / 17592186044416"] by (simp add: roundTiesToEven_def Let_def)

lemma round_139: "toDouble (3108815229907827 / 35184372088832) = 3108815229907827 / 35184372088832"
  using toDouble_normal [of "6" "3108815229907827 / 35184372088832"] by (simp add: roundTiesToEven_def Let_def)

lemma round_140: "toDouble (3108815229907827 / 3518437208883200) = 7958566988564037 / 9007199254740992"
  using toDouble_normal [of "-1" "3108815229907827 / 3518437208883200"] by (simp add: roundTiesToEven_def Let_def)

lemma round_141: "toDouble (2029434582083829435 / 9007199254740992) = 7927478836264959 / 35184372088832"
  using toDouble_normal [of "7" "2029434582083829435 / 9007199254740992"] by (simp add: roundTiesToEven_def Let_def)

lemma rgb_of_hsl_29:
  "hslToRgb \<lparr> h = 0, s = 0, l = 3108815229907827 / 35184372088832 \<rparr> =
     \<lparr> r = 225, g = 225, b = 225 \<rparr>"
  unfolding hslToRgb_def hue2rgb_def Let_def
  by (simp add: mathRound_def addD_def subD_def mulD_def divD_def toDouble_zero toDouble_minus
      round_140 round_141)

lemma gamma_225:
  "752942216 / 1000000000 \<le> gammaCorrect (225 / 255) \<and> gammaCorrect (225 / 255) \<le> 752942217 / 1000000000"
  by (rule gammaCorrect_between) (simp_all add: power_divide divide_le_eq le_divide_eq)

lemma lum_E1E1E1:
  "752942216 / 1000000000 \<le> luminanceOfRgb \<lparr> r = 225, g = 225, b = 225 \<rparr> \<and> luminanceOfRgb \<lparr> r = 225, g = 225, b = 225 \<rparr> \<le> 752942217 / 1000000000"
  using gamma_225 by (simp add: luminanceOfRgb_def)

lemma ratio_808080_E1E1E1_large:
  "LARGE_TEXT_THRESHOLD \<le> ratioOfRgb \<lparr> r = 128, g = 128, b = 128 \<rparr> \<lparr> r = 225, g = 225, b = 225 \<rparr>"
  by (rule ratio_ge_from_bounds [OF lum_808080 lum_E1E1E1]) (simp_all add: LARGE_TEXT_THRESHOLD_def NORMAL_TEXT_THRESHOLD_def EPSILON_def)

lemma canon_E1E1E1: "canonRgb \<lparr> r = 225, g = 225, b = 225 \<rparr> = \<lparr> r = 225, g = 225, b = 225 \<rparr>"
  by (simp add: canonRgb_def channelByte_def mathRound_def)

lemma gray_bg_lighten_step_6:
  "searchBody \<lparr> h = 0, s = 0, l = 1234902471353123 / 17592186044416 \<rparr> \<lparr> r = 128, g = 128, b = 128 \<rparr> LARGE_TEXT_THRESHOLD False True
     \<lparr> minL = 773107587687203 / 8796093022208, maxL = 1562600054533421 / 17592186044416, bestRgb = \<lparr> r = 227, g = 227, b = 227 \<rparr>,
       bestRatio = ratioOfRgb \<lparr> r = 128, g = 128, b = 128 \<rparr> \<lparr> r = 227, g = 227, b = 227 \<rparr>, iterationCount = 5 \<rparr> =
   Inr \<lparr> minL = 773107587687203 / 8796093022208, maxL = 3108815229907827 / 35184372088832, bestRgb = \<lparr> r = 225, g = 225, b = 225 \<rparr>,
       bestRatio = ratioOfRgb \<lparr> r = 128, g = 128, b = 128 \<rparr> \<lparr> r = 225, g = 225, b = 225 \<rparr>, iterationCount = 6 \<rparr>"
  unfolding searchBody_def Let_def
  by (simp add: bindE_def contrastRatio_rgbToHex addD_def divD_def toDouble_zero
      round_138 round_139 rgb_of_hsl_29 canon_E1E1E1 canon_808080 ratio_808080_E1E1E1_large)

lemma round_142: "toDouble (16384879159015 / 35184372088832) = 16384879159015 / 35184372088832"
  using toDouble_normal [of "-2" "16384879159015 / 35184372088832"] by (simp add: roundTiesToEven_def Let_def)

lemma round_143: "toDouble (6201245580656639 / 35184372088832) = 6201245580656639 / 35184372088832"
  using toDouble_normal [of "7" "6201245580656639 / 35184372088832"] by (simp add: roundTiesToEven_def Let_def)

lemma round_144: "toDouble (6201245580656639 / 70368744177664) = 6201245580656639 / 70368744177664"
  using toDouble_normal [of "6" "6201245580656639 / 70368744177664"] by (simp add: roundTiesToEven_def Let_def)

lemma round_145: "toDouble (6201245580656639 / 7036874417766400) = 3968797171620249 / 4503599627370496"
  using toDouble_normal [of "-1" "6201245580656639 / 7036874417766400"] by (simp add: roundTiesToEven_def Let_def)

lemma round_146: "toDouble (1012043278763163495 / 4503599627370496) = 7906588115337215 / 35184372088832"
  using toDouble_normal [of "7" "1012043278763163495 / 4503599627370496"] by (simp add: roundTiesToEven_def Let_def)

lemma rgb_of_hsl_30:
  "hslToRgb \<lparr> h = 0, s = 0, l = 6201245580656639 / 70368744177664 \<rparr> =
     \<lparr> r = 225, g = 225, b = 225 \<rparr>"
  unfolding hslToRgb_def hue2rgb_def Let_def
  by (simp add: mathRound_def addD_def subD_def mulD_def divD_def toDouble_zero toDouble_minus
      round_145 round_146)

lemma gray_bg_lighten_step_7:
  "searchBody \<lparr> h = 0, s = 0, l = 1234902471353123 / 17592186044416 \<rparr> \<lparr> r = 128, g = 128, b = 128 \<rparr> LARGE_TEXT_THRESHOLD False True
     \<lparr> minL = 773107587687203 / 8796093022208, maxL = 3108815229907827 / 35184372088832, bestRgb = \<lparr> r = 225, g = 225, b = 225 \<rparr>,
       bestRatio = ratioOfRgb \<lparr> r = 128, g = 128, b = 128 \<rparr> \<lparr> r = 225, g = 225, b = 225 \<rparr>, iterationCount = 6 \<rparr> =
   Inr \<lparr> minL = 773107587687203 / 8796093022208, maxL = 6201245580656639 / 70368744177664, bestRgb = \<lparr> r = 225, g = 225, b = 225 \<rparr>,
       bestRatio = ratioOfRgb \<lparr> r = 128, g = 128, b = 128 \<rparr> \<lparr> r = 225, g = 225, b = 225 \<rparr>, iterationCount = 7 \<rparr>"
  unfolding searchBody_def Let_def
  by (simp add: bindE_def contrastRatio_rgbToHex addD_def divD_def toDouble_zero
      round_143 round_144 rgb_of_hsl_30 canon_E1E1E1 canon_808080 ratio_808080_E1E1E1_large)

lemma round_147: "toDouble (16384879159015 / 70368744177664) = 16384879159015 / 70368744177664"
  using toDouble_normal [of "-3" "16384879159015 / 70368744177664"] by (simp add: roundTiesToEven_def Let_def)

lemma gray_bg_lighten_loop:
  "searchLoop 7 \<lparr> h = 0, s = 0, l = 1234902471353123 / 17592186044416 \<rparr> \<lparr> r = 128, g = 128, b = 128 \<rparr> LARGE_TEXT_THRESHOLD False True
     \<lparr> minL = 1234902471353123 / 17592186044416, maxL = 100, bestRgb = \<lparr> r = 179, g = 179, b = 179 \<rparr>,
       bestRatio = ratioOfRgb \<lparr> r = 179, g = 179, b = 179 \<rparr> \<lparr> r = 128, g = 128, b = 128 \<rparr>, iterationCount = 0 \<rparr> =
   Inr \<lparr> minL = 773107587687203 / 8796093022208, maxL = 6201245580656639 / 70368744177664, bestRgb = \<lparr> r = 225, g = 225, b = 225 \<rparr>,
       bestRatio = ratioOfRgb \<lparr> r = 128, g = 128, b = 128 \<rparr> \<lparr> r = 225, g = 225, b = 225 \<rparr>, iterationCount = 7 \<rparr>"
  by (simp add: searchLoop_numeral bindE_def subD_def toDouble_zero toDouble_minus
      round_15 round_117 round_122 round_127 round_132 round_137 round_142 round_147
      gray_bg_lighten_step_1 gray_bg_lighten_step_2 gray_bg_lighten_step_3 gray_bg_lighten_step_4
      gray_bg_lighten_step_5 gray_bg_lighten_step_6 gray_bg_lighten_step_7)

lemma gray_bg_lighten_search:
  "binarySearchLightness \<lparr> h = 0, s = 0, l = 1234902471353123 / 17592186044416 \<rparr> \<lparr> r = 128, g = 128, b = 128 \<rparr> LARGE_TEXT_THRESHOLD False True 7 =
   Inr \<lparr> rgb = \<lparr> r = 225, g = 225, b = 225 \<rparr>, ratio = ratioOfRgb \<lparr> r = 128, g = 128, b = 128 \<rparr> \<lparr> r = 225, g = 225, b = 225 \<rparr>, iterations = 7 \<rparr>"
  unfolding binarySearchLightness_def Let_def
  by (simp add: bindE_def contrastRatio_rgbToHex rgb_of_hsl_16 canon_B3B3B3 canon_808080 gray_bg_lighten_loop)

lemma gray_candidates:
  "snapCandidates \<lparr> r = 128, g = 128, b = 128 \<rparr> \<lparr> r = 179, g = 179, b = 179 \<rparr> LARGE_TEXT_THRESHOLD =
   Inr [\<lparr> rgb = \<lparr> r = 128, g = 128, b = 128 \<rparr>, ratio = ratioOfRgb \<lparr> r = 128, g = 128, b = 128 \<rparr> \<lparr> r = 179, g = 179, b = 179 \<rparr>,
        iterations = 7, path = ''fg-lighten'' \<rparr>,
      \<lparr> rgb = \<lparr> r = 95, g = 95, b = 95 \<rparr>, ratio = ratioOfRgb \<lparr> r = 95, g = 95, b = 95 \<rparr> \<lparr> r = 179, g = 179, b = 179 \<rparr>,
        iterations = 7, path = ''fg-darken'' \<rparr>,
      \<lparr> rgb = \<lparr> r = 55, g = 55, b = 55 \<rparr>, ratio = ratioOfRgb \<lparr> r = 128, g = 128, b = 128 \<rparr> \<lparr> r = 55, g = 55, b = 55 \<rparr>,
        iterations = 7, path = ''bg-darken'' \<rparr>,
      \<lparr> rgb = \<lparr> r = 225, g = 225, b = 225 \<rparr>, ratio = ratioOfRgb \<lparr> r = 128, g = 128, b = 128 \<rparr> \<lparr> r = 225, g = 225, b = 225 \<rparr>,
        iterations = 7, path = ''bg-lighten'' \<rparr>]"
  unfolding snapCandidates_def Let_def
  by (simp add: bindE_def withPath_def hsl_of_808080 hsl_of_B3B3B3 gray_fg_lighten_search gray_fg_darken_search gray_bg_darken_search gray_bg_lighten_search)

lemma ratio_5F5F5F_B3B3B3_large_eps:
  "LARGE_TEXT_THRESHOLD - EPSILON \<le> ratioOfRgb \<lparr> r = 95, g = 95, b = 95 \<rparr> \<lparr> r = 179, g = 179, b = 179 \<rparr>"
  by (rule ratio_ge_from_bounds [OF lum_5F5F5F lum_B3B3B3]) (simp_all add: LARGE_TEXT_THRESHOLD_def NORMAL_TEXT_THRESHOLD_def EPSILON_def)

lemma ratio_808080_373737_large_eps:
  "LARGE_TEXT_THRESHOLD - EPSILON \<le> ratioOfRgb \<lparr> r = 128, g = 128, b = 128 \<rparr> \<lparr> r = 55, g = 55, b = 55 \<rparr>"
  by (rule ratio_ge_from_bounds [OF lum_808080 lum_373737]) (simp_all add: LARGE_TEXT_THRESHOLD_def NORMAL_TEXT_THRESHOLD_def EPSILON_def)

lemma ratio_808080_E1E1E1_large_eps:
  "LARGE_TEXT_THRESHOLD - EPSILON \<le> ratioOfRgb \<lparr> r = 128, g = 128, b = 128 \<rparr> \<lparr> r = 225, g = 225, b = 225 \<rparr>"
  by (rule ratio_ge_from_bounds [OF lum_808080 lum_E1E1E1]) (simp_all add: LARGE_TEXT_THRESHOLD_def NORMAL_TEXT_THRESHOLD_def EPSILON_def)

lemma gray_passing:
  "filter (\<lambda>c. ratio c \<ge> LARGE_TEXT_THRESHOLD - EPSILON)
     [\<lparr> rgb = \<lparr> r = 128, g = 128, b = 128 \<rparr>, ratio = ratioOfRgb \<lparr> r = 128, g = 128, b = 128 \<rparr> \<lparr> r = 179, g = 179, b = 179 \<rparr>,
        iterations = 7, path = ''fg-lighten'' \<rparr>,
      \<lparr> rgb = \<lparr> r = 95, g = 95, b = 95 \<rparr>, ratio = ratioOfRgb \<lparr> r = 95, g = 95, b = 95 \<rparr> \<lparr> r = 179, g = 179, b = 179 \<rparr>,
        iterations = 7, path = ''fg-darken'' \<rparr>,
      \<lparr> rgb = \<lparr> r = 55, g = 55, b = 55 \<rparr>, ratio = ratioOfRgb \<lparr> r = 128, g = 128, b = 128 \<rparr> \<lparr> r = 55, g = 55, b = 55 \<rparr>,
        iterations = 7, path = ''bg-darken'' \<rparr>,
      \<lparr> rgb = \<lparr> r = 225, g = 225, b = 225 \<rparr>, ratio = ratioOfRgb \<lparr> r = 128, g = 128, b = 128 \<rparr> \<lparr> r = 225, g = 225, b = 225 \<rparr>,
        iterations = 7, path = ''bg-lighten'' \<rparr>] =
   [\<lparr> rgb = \<lparr> r = 95, g = 95, b = 95 \<rparr>, ratio = ratioOfRgb \<lparr> r = 95, g = 95, b = 95 \<rparr> \<lparr> r = 179, g = 179, b = 179 \<rparr>,
        iterations = 7, path = ''fg-darken'' \<rparr>,
      \<lparr> rgb = \<lparr> r = 55, g = 55, b = 55 \<rparr>, ratio = ratioOfRgb \<lparr> r = 128, g = 128, b = 128 \<rparr> \<lparr> r = 55, g = 55, b = 55 \<rparr>,
        iterations = 7, path = ''bg-darken'' \<rparr>,
      \<lparr> rgb = \<lparr> r = 225, g = 225, b = 225 \<rparr>, ratio = ratioOfRgb \<lparr> r = 128, g = 128, b = 128 \<rparr> \<lparr> r = 225, g = 225, b = 225 \<rparr>,
        iterations = 7, path = ''bg-lighten'' \<rparr>]"
  by (simp add: ratio_808080_B3B3B3_large_eps ratio_5F5F5F_B3B3B3_large_eps ratio_808080_373737_large_eps ratio_808080_E1E1E1_large_eps)

lemma round_148: "toDouble (19 / 51) = 838905812941563 / 2251799813685248"
  using toDouble_normal [of "-2" "19 / 51"] by (simp add: roundTiesToEven_def Let_def)

lemma round_149: "toDouble (838905812941563 / 1125899906842624) = 838905812941563 / 1125899906842624"
  using toDouble_normal [of "-1" "838905812941563 / 1125899906842624"] by (simp add: roundTiesToEven_def Let_def)

lemma round_150: "toDouble (838905812941563 / 2251799813685248) = 838905812941563 / 2251799813685248"
  using toDouble_normal [of "-2" "838905812941563 / 2251799813685248"] by (simp add: roundTiesToEven_def Let_def)

lemma round_151: "toDouble (20972645323539075 / 562949953421312) = 5243161330884769 / 140737488355328"
  using toDouble_normal [of "5" "20972645323539075 / 562949953421312"] by (simp add: roundTiesToEven_def Let_def)

lemma hsl_of_5F5F5F:
  "rgbToHsl \<lparr> r = 95, g = 95, b = 95 \<rparr> =
     \<lparr> h = 0, s = 0, l = 5243161330884769 / 140737488355328 \<rparr>"
  unfolding rgbToHsl_def Let_def
  by (simp add: addD_def subD_def mulD_def divD_def toDouble_zero toDouble_minus
      round_148 round_149 round_150 round_151)

lemma round_152: "toDouble (11 / 51) = 1942729251022567 / 9007199254740992"
  using toDouble_normal [of "-3" "11 / 51"] by (simp add: roundTiesToEven_def Let_def)

lemma round_153: "toDouble (1942729251022567 / 4503599627370496) = 1942729251022567 / 4503599627370496"
  using toDouble_normal [of "-2" "1942729251022567 / 4503599627370496"] by (simp add: roundTiesToEven_def Let_def)

lemma round_154: "toDouble (1942729251022567 / 9007199254740992) = 1942729251022567 / 9007199254740992"
  using toDouble_normal [of "-3" "1942729251022567 / 9007199254740992"] by (simp add: roundTiesToEven_def Let_def)

lemma round_155: "toDouble (48568231275564175 / 2251799813685248) = 3035514454722761 / 140737488355328"
  using toDouble_normal [of "4" "48568231275564175 / 2251799813685248"] by (simp add: roundTiesToEven_def Let_def)

lemma hsl_of_373737:
  "rgbToHsl \<lparr> r = 55, g = 55, b = 55 \<rparr> =
     \<lparr> h = 0, s = 0, l = 3035514454722761 / 140737488355328 \<rparr>"
  unfolding rgbToHsl_def Let_def
  by (simp add: addD_def subD_def mulD_def divD_def toDouble_zero toDouble_minus
      round_152 round_153 round_154 round_155)

lemma round_156: "toDouble (15 / 17) = 1986882188545807 / 2251799813685248"
  using toDouble_normal [of "-1" "15 / 17"] by (simp add: roundTiesToEven_def Let_def)

lemma round_157: "toDouble (1986882188545807 / 1125899906842624) = 1986882188545807 / 1125899906842624"
  using toDouble_normal [of "0" "1986882188545807 / 1125899906842624"] by (simp add: roundTiesToEven_def Let_def)

lemma round_158: "toDouble (1986882188545807 / 2251799813685248) = 1986882188545807 / 2251799813685248"
  using toDouble_normal [of "-1" "1986882188545807 / 2251799813685248"] by (simp add: roundTiesToEven_def Let_def)

lemma round_159: "toDouble (49672054713645175 / 562949953421312) = 6209006839205647 / 70368744177664"
  using toDouble_normal [of "6" "49672054713645175 / 562949953421312"] by (simp add: roundTiesToEven_def Let_def)

lemma hsl_of_E1E1E1:
  "rgbToHsl \<lparr> r = 225, g = 225, b = 225 \<rparr> =
     \<lparr> h = 0, s = 0, l = 6209006839205647 / 70368744177664 \<rparr>"
  unfolding rgbToHsl_def Let_def
  by (simp add: addD_def subD_def mulD_def divD_def toDouble_zero toDouble_minus
      round_156 round_157 round_158 round_159)

lemma round_160: "toDouble (227663584104207 / 17592186044416) = 227663584104207 / 17592186044416"
  using toDouble_normal [of "3" "227663584104207 / 17592186044416"] by (simp add: roundTiesToEven_def Let_def)

lemma round_161: "toDouble (6843705316102223 / 140737488355328) = 6843705316102223 / 140737488355328"
  using toDouble_normal [of "5" "6843705316102223 / 140737488355328"] by (simp add: roundTiesToEven_def Let_def)

lemma round_162: "toDouble (1269396953793155 / 70368744177664) = 1269396953793155 / 70368744177664"
  using toDouble_normal [of "4" "1269396953793155 / 70368744177664"] by (simp add: roundTiesToEven_def Let_def)

lemma round_163: "toDouble (358742617376327 / 70368744177664) = 358742617376327 / 70368744177664"
  using toDouble_normal [of "2" "358742617376327 / 70368744177664"] by (simp add: roundTiesToEven_def Let_def)

lemma round_164: "toDouble (5022396643268567 / 140737488355328) = 5022396643268567 / 140737488355328"
  using toDouble_normal [of "5" "5022396643268567 / 140737488355328"] by (simp add: roundTiesToEven_def Let_def)

lemma gray_tie_zone:
  "similarCandidates (sortedByChange \<lparr> h = 0, s = 0, l = 7064470003718425 / 140737488355328 \<rparr> \<lparr> h = 0, s = 0, l = 1234902471353123 / 17592186044416 \<rparr>
     [\<lparr> rgb = \<lparr> r = 95, g = 95, b = 95 \<rparr>, ratio = ratioOfRgb \<lparr> r = 95, g = 95, b = 95 \<rparr> \<lparr> r = 179, g = 179, b = 179 \<rparr>,
        iterations = 7, path = ''fg-darken'' \<rparr>,
      \<lparr> rgb = \<lparr> r = 55, g = 55, b = 55 \<rparr>, ratio = ratioOfRgb \<lparr> r = 128, g = 128, b = 128 \<rparr> \<lparr> r = 55, g = 55, b = 55 \<rparr>,
        iterations = 7, path = ''bg-darken'' \<rparr>,
      \<lparr> rgb = \<lparr> r = 225, g = 225, b = 225 \<rparr>, ratio = ratioOfRgb \<lparr> r = 128, g = 128, b = 128 \<rparr> \<lparr> r = 225, g = 225, b = 225 \<rparr>,
        iterations = 7, path = ''bg-lighten'' \<rparr>]) =
   [\<lparr> rgb = \<lparr> r = 95, g = 95, b = 95 \<rparr>, ratio = ratioOfRgb \<lparr> r = 95, g = 95, b = 95 \<rparr> \<lparr> r = 179, g = 179, b = 179 \<rparr>,
        iterations = 7, path = ''fg-darken'',
        change = 227663584104207 / 17592186044416 \<rparr>]"
  unfolding similarCandidates_def sortedByChange_def Let_def
  by (simp add: withChange_def startsWith_def
      subD_def toDouble_zero toDouble_minus hsl_of_5F5F5F hsl_of_373737 hsl_of_E1E1E1
      round_160 round_161 round_162 round_163 round_164)

lemma gray_select:
  "selectBest largeTextOptions \<lparr> h = 0, s = 0, l = 7064470003718425 / 140737488355328 \<rparr> \<lparr> h = 0, s = 0, l = 1234902471353123 / 17592186044416 \<rparr> LARGE_TEXT_THRESHOLD
     [\<lparr> rgb = \<lparr> r = 128, g = 128, b = 128 \<rparr>, ratio = ratioOfRgb \<lparr> r = 128, g = 128, b = 128 \<rparr> \<lparr> r = 179, g = 179, b = 179 \<rparr>,
        iterations = 7, path = ''fg-lighten'' \<rparr>,
      \<lparr> rgb = \<lparr> r = 95, g = 95, b = 95 \<rparr>, ratio = ratioOfRgb \<lparr> r = 95, g = 95, b = 95 \<rparr> \<lparr> r = 179, g = 179, b = 179 \<rparr>,
        iterations = 7, path = ''fg-darken'' \<rparr>,
      \<lparr> rgb = \<lparr> r = 55, g = 55, b = 55 \<rparr>, ratio = ratioOfRgb \<lparr> r = 128, g = 128, b = 128 \<rparr> \<lparr> r = 55, g = 55, b = 55 \<rparr>,
        iterations = 7, path = ''bg-darken'' \<rparr>,
      \<lparr> rgb = \<lparr> r = 225, g = 225, b = 225 \<rparr>, ratio = ratioOfRgb \<lparr> r = 128, g = 128, b = 128 \<rparr> \<lparr> r = 225, g = 225, b = 225 \<rparr>,
        iterations = 7, path = ''bg-lighten'' \<rparr>] =
   (\<lparr> rgb = \<lparr> r = 95, g = 95, b = 95 \<rparr>, ratio = ratioOfRgb \<lparr> r = 95, g = 95, b = 95 \<rparr> \<lparr> r = 179, g = 179, b = 179 \<rparr>,
        iterations = 7, path = ''fg-darken'' \<rparr>, False)"
  unfolding selectBest_def Let_def gray_passing gray_tie_zone
  by (simp add: tieBreak_def findOrFirst_def startsWith_def Candidate.truncate_def truthy_def largeTextOptions_def)

lemma gray_snap:
  "snapToPassingColor ''#808080'' ''#B3B3B3'' largeTextOptions =
     Inr \<lparr> fg = ''#5F5F5F'', bg = ''#B3B3B3'',
         ratio = ratioOfRgb \<lparr> r = 95, g = 95, b = 95 \<rparr> \<lparr> r = 179, g = 179, b = 179 \<rparr>,
         clamped = Some False, adjusted = Some ''fg'', iterations = Some 7 \<rparr>"
proof -
  let ?cands = "[\<lparr> rgb = \<lparr> r = 128, g = 128, b = 128 \<rparr>, ratio = ratioOfRgb \<lparr> r = 128, g = 128, b = 128 \<rparr> \<lparr> r = 179, g = 179, b = 179 \<rparr>,
        iterations = 7, path = ''fg-lighten'' \<rparr>,
      \<lparr> rgb = \<lparr> r = 95, g = 95, b = 95 \<rparr>, ratio = ratioOfRgb \<lparr> r = 95, g = 95, b = 95 \<rparr> \<lparr> r = 179, g = 179, b = 179 \<rparr>,
        iterations = 7, path = ''fg-darken'' \<rparr>,
      \<lparr> rgb = \<lparr> r = 55, g = 55, b = 55 \<rparr>, ratio = ratioOfRgb \<lparr> r = 128, g = 128, b = 128 \<rparr> \<lparr> r = 55, g = 55, b = 55 \<rparr>,
        iterations = 7, path = ''bg-darken'' \<rparr>,
      \<lparr> rgb = \<lparr> r = 225, g = 225, b = 225 \<rparr>, ratio = ratioOfRgb \<lparr> r = 128, g = 128, b = 128 \<rparr> \<lparr> r = 225, g = 225, b = 225 \<rparr>,
        iterations = 7, path = ''bg-lighten'' \<rparr>]"
  let ?best = "\<lparr> rgb = \<lparr> r = 95, g = 95, b = 95 \<rparr>, ratio = ratioOfRgb \<lparr> r = 95, g = 95, b = 95 \<rparr> \<lparr> r = 179, g = 179, b = 179 \<rparr>,
        iterations = 7, path = ''fg-darken'' \<rparr>"
  have T: "requiredThreshold largeTextOptions = LARGE_TEXT_THRESHOLD"
    by (simp add: requiredThreshold_def truthy_def largeTextOptions_def)
  have sound: "\<forall>c \<in> set ?cands. candidateSound \<lparr> r = 128, g = 128, b = 128 \<rparr> \<lparr> r = 179, g = 179, b = 179 \<rparr> c"
    using snapCandidates_returns [of "\<lparr> r = 128, g = 128, b = 128 \<rparr>" "\<lparr> r = 179, g = 179, b = 179 \<rparr>" LARGE_TEXT_THRESHOLD]
    by (simp add: gray_candidates)
  have "snapToPassingColor ''#808080'' ''#B3B3B3'' largeTextOptions =
          Inr (resultOf \<lparr> r = 128, g = 128, b = 128 \<rparr> \<lparr> r = 179, g = 179, b = 179 \<rparr> ?best False)"
  proof (rule snap_searched [OF gray_parse_fg gray_parse_bg, where cands = ?cands])
    show "\<not> ratioOfRgb \<lparr> r = 128, g = 128, b = 128 \<rparr> \<lparr> r = 179, g = 179, b = 179 \<rparr> \<ge> requiredThreshold largeTextOptions - EPSILON"
      unfolding T by (rule ratio_808080_B3B3B3_large_eps)
    show "ratioOfRgb \<lparr> r = 128, g = 128, b = 128 \<rparr> \<lparr> r = 179, g = 179, b = 179 \<rparr> \<noteq> 1"
      by (rule ratio_808080_B3B3B3_not_1)
    show "snapCandidates \<lparr> r = 128, g = 128, b = 128 \<rparr> \<lparr> r = 179, g = 179, b = 179 \<rparr> (requiredThreshold largeTextOptions) = Inr ?cands"
      unfolding T by (rule gray_candidates)
    show "\<forall>c \<in> set ?cands. candidateSound \<lparr> r = 128, g = 128, b = 128 \<rparr> \<lparr> r = 179, g = 179, b = 179 \<rparr> c"
      by (rule sound)
    show "selectBest largeTextOptions (rgbToHsl \<lparr> r = 128, g = 128, b = 128 \<rparr>) (rgbToHsl \<lparr> r = 179, g = 179, b = 179 \<rparr>) (requiredThreshold largeTextOptions) ?cands = (?best, False)"
      unfolding T hsl_of_808080 hsl_of_B3B3B3 by (rule gray_select)
    show "?best \<in> set ?cands"
      by simp
  qed
  then show ?thesis
    by (simp add: resultOf_def startsWith_def rgbToHexEval)
qed

lemma ratio_606060_B3B3B3_large_eps:
  "LARGE_TEXT_THRESHOLD - EPSILON \<le> ratioOfRgb \<lparr> r = 96, g = 96, b = 96 \<rparr> \<lparr> r = 179, g = 179, b = 179 \<rparr>"
  by (rule ratio_ge_from_bounds [OF lum_606060 lum_B3B3B3]) (simp_all add: LARGE_TEXT_THRESHOLD_def NORMAL_TEXT_THRESHOLD_def EPSILON_def)

subsection \<open>snapToPassingColor('#97A000', '#E244E3', { isLargeText: true })\<close>

lemma tie_parse_fg: "hexToRgb ''#97A000'' = Inr \<lparr> r = 151, g = 160, b = 0 \<rparr>"
  by (simp add: hexEval)

lemma tie_parse_bg: "hexToRgb ''#E244E3'' = Inr \<lparr> r = 226, g = 68, b = 227 \<rparr>"
  by (simp add: hexEval)

lemma gamma_151:
  "309468922 / 1000000000 \<le> gammaCorrect (151 / 255) \<and> gammaCorrect (151 / 255) \<le> 309468923 / 1000000000"
  by (rule gammaCorrect_between) (simp_all add: power_divide divide_le_eq le_divide_eq)

lemma gamma_160:
  "351532599 / 1000000000 \<le> gammaCorrect (160 / 255) \<and> gammaCorrect (160 / 255) \<le> 351532600 / 1000000000"
  by (rule gammaCorrect_between) (simp_all add: power_divide divide_le_eq le_divide_eq)

lemma gamma_0:
  "0 / 1000000000 \<le> gammaCorrect (0 / 255) \<and> gammaCorrect (0 / 255) \<le> 0 / 1000000000"
  by (simp add: gammaCorrect_def)

lemma lum_97A000:
  "317209207 / 1000000000 \<le> luminanceOfRgb \<lparr> r = 151, g = 160, b = 0 \<rparr> \<and> luminanceOfRgb \<lparr> r = 151, g = 160, b = 0 \<rparr> \<le> 317209209 / 1000000000"
  using gamma_0 gamma_151 gamma_160 by (simp add: luminanceOfRgb_def)

lemma gamma_226:
  "760524504 / 1000000000 \<le> gammaCorrect (226 / 255) \<and> gammaCorrect (226 / 255) \<le> 760524505 / 1000000000"
  by (rule gammaCorrect_between) (simp_all add: power_divide divide_le_eq le_divide_eq)

lemma gamma_68:
  "57805430 / 1000000000 \<le> gammaCorrect (68 / 255) \<and> gammaCorrect (68 / 255) \<le> 57805431 / 1000000000"
  by (rule gammaCorrect_between) (simp_all add: power_divide divide_le_eq le_divide_eq)

lemma lum_E244E3:
  "258490465 / 1000000000 \<le> luminanceOfRgb \<lparr> r = 226, g = 68, b = 227 \<rparr> \<and> luminanceOfRgb \<lparr> r = 226, g = 68, b = 227 \<rparr> \<le> 258490467 / 1000000000"
  using gamma_68 gamma_226 gamma_227 by (simp add: luminanceOfRgb_def)

lemma ratio_97A000_E244E3_large_eps:
  "\<not> LARGE_TEXT_THRESHOLD - EPSILON \<le> ratioOfRgb \<lparr> r = 151, g = 160, b = 0 \<rparr> \<lparr> r = 226, g = 68, b = 227 \<rparr>"
  by (rule ratio_lt_from_bounds [OF lum_97A000 lum_E244E3]) (simp_all add: LARGE_TEXT_THRESHOLD_def NORMAL_TEXT_THRESHOLD_def EPSILON_def)

lemma ratio_97A000_E244E3_not_1:
  "ratioOfRgb \<lparr> r = 151, g = 160, b = 0 \<rparr> \<lparr> r = 226, g = 68, b = 227 \<rparr> \<noteq> 1"
  by (rule ratio_ne_1_from_bounds [OF lum_97A000 lum_E244E3]) simp_all

lemma round_165: "toDouble (151 / 255) = 5333674852807411 / 9007199254740992"
  using toDouble_normal [of "-1" "151 / 255"] by (simp add: roundTiesToEven_def Let_def)

lemma round_166: "toDouble (32 / 51) = 1412894000743685 / 2251799813685248"
  using toDouble_normal [of "-1" "32 / 51"] by (simp add: roundTiesToEven_def Let_def)

lemma round_167: "toDouble (1412894000743685 / 2251799813685248) = 1412894000743685 / 2251799813685248"
  using toDouble_normal [of "-1" "1412894000743685 / 2251799813685248"] by (simp add: roundTiesToEven_def Let_def)

lemma round_168: "toDouble (1412894000743685 / 4503599627370496) = 1412894000743685 / 4503599627370496"
  using toDouble_normal [of "-2" "1412894000743685 / 4503599627370496"] by (simp add: roundTiesToEven_def Let_def)

lemma round_169: "toDouble (1) = 1"
  using toDouble_normal [of "0" "1"] by (simp add: roundTiesToEven_def Let_def)

lemma round_170: "toDouble (5333674852807411 / 9007199254740992) = 5333674852807411 / 9007199254740992"
  using toDouble_normal [of "-1" "5333674852807411 / 9007199254740992"] by (simp add: roundTiesToEven_def Let_def)

lemma round_171: "toDouble (5333674852807411 / 5651576002974740) = 8500544296661811 / 9007199254740992"
  using toDouble_normal [of "-1" "5333674852807411 / 5651576002974740"] by (simp add: roundTiesToEven_def Let_def)

lemma round_172: "toDouble (9513854212820173 / 9007199254740992) = 2378463553205043 / 2251799813685248"
  using toDouble_normal [of "0" "9513854212820173 / 9007199254740992"] by (simp add: roundTiesToEven_def Let_def)

lemma round_173: "toDouble (792821184401681 / 4503599627370496) = 792821184401681 / 4503599627370496"
  using toDouble_normal [of "-3" "792821184401681 / 4503599627370496"] by (simp add: roundTiesToEven_def Let_def)

lemma round_174: "toDouble (35676953298075645 / 562949953421312) = 8919238324518911 / 140737488355328"
  using toDouble_normal [of "5" "35676953298075645 / 562949953421312"] by (simp add: roundTiesToEven_def Let_def)

lemma round_175: "toDouble (100) = 100"
  using toDouble_normal [of "6" "100"] by (simp add: roundTiesToEven_def Let_def)

lemma round_176: "toDouble (35322350018592125 / 1125899906842624) = 8830587504648031 / 281474976710656"
  using toDouble_normal [of "4" "35322350018592125 / 1125899906842624"] by (simp add: roundTiesToEven_def Let_def)

lemma hsl_of_97A000:
  "rgbToHsl \<lparr> r = 151, g = 160, b = 0 \<rparr> =
     \<lparr> h = 8919238324518911 / 140737488355328, s = 100, l = 8830587504648031 / 281474976710656 \<rparr>"
  unfolding rgbToHsl_def Let_def
  by (simp add: addD_def subD_def mulD_def divD_def toDouble_zero toDouble_minus
      round_165 round_166 round_167 round_168 round_169 round_170 round_171 round_172 round_173
      round_174 round_175 round_176)

lemma round_177: "toDouble (226 / 255) = 1995712776050455 / 2251799813685248"
  using toDouble_normal [of "-1" "226 / 255"] by (simp add: roundTiesToEven_def Let_def)

lemma round_178: "toDouble (4 / 15) = 4803839602528529 / 18014398509481984"
  using toDouble_normal [of "-2" "4 / 15"] by (simp add: roundTiesToEven_def Let_def)

lemma round_179: "toDouble (227 / 255) = 2004543363555103 / 2251799813685248"
  using toDouble_normal [of "-1" "227 / 255"] by (simp add: roundTiesToEven_def Let_def)

lemma round_180: "toDouble (11232507305912295 / 18014398509481984) = 1404063413239037 / 2251799813685248"
  using toDouble_normal [of "-1" "11232507305912295 / 18014398509481984"] by (simp add: roundTiesToEven_def Let_def)

lemma round_181: "toDouble (20840186510969353 / 18014398509481984) = 2605023313871169 / 2251799813685248"
  using toDouble_normal [of "0" "20840186510969353 / 18014398509481984"] by (simp add: roundTiesToEven_def Let_def)

lemma round_182: "toDouble (2605023313871169 / 4503599627370496) = 2605023313871169 / 4503599627370496"
  using toDouble_normal [of "-1" "2605023313871169 / 4503599627370496"] by (simp add: roundTiesToEven_def Let_def)

lemma round_183: "toDouble (2499056263815393 / 2251799813685248) = 2499056263815393 / 2251799813685248"
  using toDouble_normal [of "0" "2499056263815393 / 2251799813685248"] by (simp add: roundTiesToEven_def Let_def)

lemma round_184: "toDouble (15188610507994615 / 18014398509481984) = 1898576313499327 / 2251799813685248"
  using toDouble_normal [of "-1" "15188610507994615 / 18014398509481984"] by (simp add: roundTiesToEven_def Let_def)

lemma round_185: "toDouble (1404063413239037 / 1898576313499327) = 416321128344133 / 562949953421312"
  using toDouble_normal [of "-1" "1404063413239037 / 1898576313499327"] by (simp add: roundTiesToEven_def Let_def)

lemma round_186: "toDouble (11161862605875111 / 18014398509481984) = 1395232825734389 / 2251799813685248"
  using toDouble_normal [of "-1" "11161862605875111 / 18014398509481984"] by (simp add: roundTiesToEven_def Let_def)

lemma round_187: "toDouble (1395232825734389 / 1404063413239037) = 4475275101412191 / 4503599627370496"
  using toDouble_normal [of "-1" "1395232825734389 / 1404063413239037"] by (simp add: roundTiesToEven_def Let_def)

lemma round_188: "toDouble (22489673610894175 / 4503599627370496) = 702802300340443 / 140737488355328"
  using toDouble_normal [of "2" "22489673610894175 / 4503599627370496"] by (simp add: roundTiesToEven_def Let_def)

lemma round_189: "toDouble (702802300340443 / 844424930131968) = 7496557870298059 / 9007199254740992"
  using toDouble_normal [of "-1" "702802300340443 / 844424930131968"] by (simp add: roundTiesToEven_def Let_def)

lemma round_190: "toDouble (337345104163412655 / 1125899906842624) = 5271017252553323 / 17592186044416"
  using toDouble_normal [of "8" "337345104163412655 / 1125899906842624"] by (simp add: roundTiesToEven_def Let_def)

lemma round_191: "toDouble (10408028208603325 / 140737488355328) = 2602007052150831 / 35184372088832"
  using toDouble_normal [of "6" "10408028208603325 / 140737488355328"] by (simp add: roundTiesToEven_def Let_def)

lemma round_192: "toDouble (65125582846779225 / 1125899906842624) = 8140697855847403 / 140737488355328"
  using toDouble_normal [of "5" "65125582846779225 / 1125899906842624"] by (simp add: roundTiesToEven_def Let_def)

lemma hsl_of_E244E3:
  "rgbToHsl \<lparr> r = 226, g = 68, b = 227 \<rparr> =
     \<lparr> h = 5271017252553323 / 17592186044416, s = 2602007052150831 / 35184372088832, l = 8140697855847403 / 140737488355328 \<rparr>"
  unfolding rgbToHsl_def Let_def
  by (simp add: addD_def subD_def mulD_def divD_def toDouble_zero toDouble_minus
      round_177 round_178 round_179 round_180 round_181 round_182 round_183 round_184 round_185
      round_186 round_187 round_188 round_189 round_190 round_191 round_192)

lemma round_193: "toDouble (8919238324518911 / 50665495807918080) = 792821184401681 / 4503599627370496"
  using toDouble_normal [of "-3" "8919238324518911 / 50665495807918080"] by (simp add: roundTiesToEven_def Let_def)

lemma round_194: "toDouble (8830587504648031 / 28147497671065600) = 1412894000743685 / 4503599627370496"
  using toDouble_normal [of "-2" "8830587504648031 / 28147497671065600"] by (simp add: roundTiesToEven_def Let_def)

lemma round_195: "toDouble (2) = 2"
  using toDouble_normal [of "1" "2"] by (simp add: roundTiesToEven_def Let_def)

lemma round_196: "toDouble (1 / 3) = 6004799503160661 / 18014398509481984"
  using toDouble_normal [of "-2" "1 / 3"] by (simp add: roundTiesToEven_def Let_def)

lemma round_197: "toDouble (9176084240767385 / 18014398509481984) = 1147010530095923 / 2251799813685248"
  using toDouble_normal [of "-1" "9176084240767385 / 18014398509481984"] by (simp add: roundTiesToEven_def Let_def)

lemma round_198: "toDouble (1 / 6) = 6004799503160661 / 36028797018963968"
  using toDouble_normal [of "-3" "1 / 6"] by (simp add: roundTiesToEven_def Let_def)

lemma round_199: "toDouble (1 / 2) = 1 / 2"
  using toDouble_normal [of "-1" "1 / 2"] by (simp add: roundTiesToEven_def Let_def)

lemma round_200: "toDouble (2 / 3) = 6004799503160661 / 9007199254740992"
  using toDouble_normal [of "-1" "2 / 3"] by (simp add: roundTiesToEven_def Let_def)

lemma round_201: "toDouble (1416757382776969 / 9007199254740992) = 1416757382776969 / 9007199254740992"
  using toDouble_normal [of "-3" "1416757382776969 / 9007199254740992"] by (simp add: roundTiesToEven_def Let_def)

lemma round_202: "toDouble (2001728006634904052496490190765 / 20282409603651670423947251286016) = 1777891617602471 / 18014398509481984"
  using toDouble_normal [of "-4" "2001728006634904052496490190765 / 20282409603651670423947251286016"] by (simp add: roundTiesToEven_def Let_def)

lemma round_203: "toDouble (5333674852807413 / 9007199254740992) = 5333674852807413 / 9007199254740992"
  using toDouble_normal [of "-1" "5333674852807413 / 9007199254740992"] by (simp add: roundTiesToEven_def Let_def)

lemma round_204: "toDouble (2833514765553937 / 18014398509481984) = 2833514765553937 / 18014398509481984"
  using toDouble_normal [of "-3" "2833514765553937 / 18014398509481984"] by (simp add: roundTiesToEven_def Let_def)

lemma round_205: "toDouble (15180883743928047 / 18014398509481984) = 948805233995503 / 1125899906842624"
  using toDouble_normal [of "-1" "15180883743928047 / 18014398509481984"] by (simp add: roundTiesToEven_def Let_def)

lemma round_206: "toDouble (1360087087465890315 / 9007199254740992) = 2656420092706817 / 17592186044416"
  using toDouble_normal [of "7" "1360087087465890315 / 9007199254740992"] by (simp add: roundTiesToEven_def Let_def)

lemma round_207: "toDouble (360287970189639675 / 2251799813685248) = 160"
  using toDouble_normal [of "7" "360287970189639675 / 2251799813685248"] by (simp add: roundTiesToEven_def Let_def)

lemma rgb_of_hsl_31:
  "hslToRgb \<lparr> h = 8919238324518911 / 140737488355328, s = 100, l = 8830587504648031 / 281474976710656 \<rparr> =
     \<lparr> r = 151, g = 160, b = 0 \<rparr>"
  unfolding hslToRgb_def hue2rgb_def Let_def
  by (simp add: mathRound_def addD_def subD_def mulD_def divD_def toDouble_zero toDouble_minus
      round_167 round_169 round_193 round_194 round_195 round_196 round_197 round_198 round_199
      round_200 round_201 round_202 round_203 round_204 round_205 round_206 round_207)

lemma round_208: "toDouble (36978085175713631 / 281474976710656) = 1155565161741051 / 8796093022208"
  using toDouble_normal [of "7" "36978085175713631 / 281474976710656"] by (simp add: roundTiesToEven_def Let_def)

lemma round_209: "toDouble (1155565161741051 / 17592186044416) = 1155565161741051 / 17592186044416"
  using toDouble_normal [of "6" "1155565161741051 / 17592186044416"] by (simp add: roundTiesToEven_def Let_def)

lemma round_210: "toDouble (1155565161741051 / 1759218604441600) = 5916493628114181 / 9007199254740992"
  using toDouble_normal [of "-1" "1155565161741051 / 1759218604441600"] by (simp add: roundTiesToEven_def Let_def)

lemma round_211: "toDouble (14923692882855173 / 9007199254740992) = 3730923220713793 / 2251799813685248"
  using toDouble_normal [of "0" "14923692882855173 / 9007199254740992"] by (simp add: roundTiesToEven_def Let_def)

lemma round_212: "toDouble (5916493628114181 / 9007199254740992) = 5916493628114181 / 9007199254740992"
  using toDouble_normal [of "-1" "5916493628114181 / 9007199254740992"] by (simp add: roundTiesToEven_def Let_def)

lemma round_213: "toDouble (9007199254740991 / 9007199254740992) = 9007199254740991 / 9007199254740992"
  using toDouble_normal [of "-1" "9007199254740991 / 9007199254740992"] by (simp add: roundTiesToEven_def Let_def)

lemma round_214: "toDouble (5916493628114181 / 4503599627370496) = 5916493628114181 / 4503599627370496"
  using toDouble_normal [of "0" "5916493628114181 / 4503599627370496"] by (simp add: roundTiesToEven_def Let_def)

lemma round_215: "toDouble (2825788001487371 / 9007199254740992) = 2825788001487371 / 9007199254740992"
  using toDouble_normal [of "-2" "2825788001487371 / 9007199254740992"] by (simp add: roundTiesToEven_def Let_def)

lemma round_216: "toDouble (1545352813313405 / 2251799813685248) = 1545352813313405 / 2251799813685248"
  using toDouble_normal [of "-1" "1545352813313405 / 2251799813685248"] by (simp add: roundTiesToEven_def Let_def)

lemma round_217: "toDouble (2189390007256925643313012969445 / 20282409603651670423947251286016) = 972284478376351 / 9007199254740992"
  using toDouble_normal [of "-4" "2189390007256925643313012969445 / 20282409603651670423947251286016"] by (simp add: roundTiesToEven_def Let_def)

lemma round_218: "toDouble (2916853435129053 / 4503599627370496) = 2916853435129053 / 4503599627370496"
  using toDouble_normal [of "-1" "2916853435129053 / 4503599627370496"] by (simp add: roundTiesToEven_def Let_def)

lemma round_219: "toDouble (8659494871745477 / 9007199254740992) = 8659494871745477 / 9007199254740992"
  using toDouble_normal [of "-1" "8659494871745477 / 9007199254740992"] by (simp add: roundTiesToEven_def Let_def)

lemma round_220: "toDouble (2208171192295096635 / 9007199254740992) = 8625668719902721 / 35184372088832"
  using toDouble_normal [of "7" "2208171192295096635 / 9007199254740992"] by (simp add: roundTiesToEven_def Let_def)

lemma round_221: "toDouble (2296835809958952705 / 9007199254740992) = 8972014882652159 / 35184372088832"
  using toDouble_normal [of "7" "2296835809958952705 / 9007199254740992"] by (simp add: roundTiesToEven_def Let_def)

lemma round_222: "toDouble (720575940379279605 / 9007199254740992) = 2814749767106561 / 35184372088832"
  using toDouble_normal [of "6" "720575940379279605 / 9007199254740992"] by (simp add: roundTiesToEven_def Let_def)

lemma rgb_of_hsl_32:
  "hslToRgb \<lparr> h = 8919238324518911 / 140737488355328, s = 100, l = 1155565161741051 / 17592186044416 \<rparr> =
     \<lparr> r = 245, g = 255, b = 80 \<rparr>"
  unfolding hslToRgb_def hue2rgb_def Let_def
  by (simp add: mathRound_def addD_def subD_def mulD_def divD_def toDouble_zero toDouble_minus
      round_169 round_193 round_196 round_197 round_198 round_199 round_200 round_201 round_204
      round_205 round_210 round_211 round_212 round_213 round_214 round_215 round_216 round_217
      round_218 round_219 round_220 round_221 round_222)

lemma gamma_245:
  "913098651 / 1000000000 \<le> gammaCorrect (245 / 255) \<and> gammaCorrect (245 / 255) \<le> 913098652 / 1000000000"
  by (rule gammaCorrect_between) (simp_all add: power_divide divide_le_eq le_divide_eq)

lemma gamma_255:
  "1000000000 / 1000000000 \<le> gammaCorrect (255 / 255) \<and> gammaCorrect (255 / 255) \<le> 1000000001 / 1000000000"
  by (rule gammaCorrect_between) (simp_all add: power_divide divide_le_eq le_divide_eq)

lemma lum_F5FF50:
  "915116644 / 1000000000 \<le> luminanceOfRgb \<lparr> r = 245, g = 255, b = 80 \<rparr> \<and> luminanceOfRgb \<lparr> r = 245, g = 255, b = 80 \<rparr> \<le> 915116646 / 1000000000"
  using gamma_80 gamma_245 gamma_255 by (simp add: luminanceOfRgb_def)

lemma ratio_F5FF50_E244E3_large:
  "LARGE_TEXT_THRESHOLD \<le> ratioOfRgb \<lparr> r = 245, g = 255, b = 80 \<rparr> \<lparr> r = 226, g = 68, b = 227 \<rparr>"
  by (rule ratio_ge_from_bounds [OF lum_F5FF50 lum_E244E3]) (simp_all add: LARGE_TEXT_THRESHOLD_def NORMAL_TEXT_THRESHOLD_def EPSILON_def)

lemma canon_F5FF50: "canonRgb \<lparr> r = 245, g = 255, b = 80 \<rparr> = \<lparr> r = 245, g = 255, b = 80 \<rparr>"
  by (simp add: canonRgb_def channelByte_def mathRound_def)

lemma canon_E244E3: "canonRgb \<lparr> r = 226, g = 68, b = 227 \<rparr> = \<lparr> r = 226, g = 68, b = 227 \<rparr>"
  by (simp add: canonRgb_def channelByte_def mathRound_def)

lemma tie_fg_lighten_step_1:
  "searchBody \<lparr> h = 8919238324518911 / 140737488355328, s = 100, l = 8830587504648031 / 281474976710656 \<rparr> \<lparr> r = 226, g = 68, b = 227 \<rparr> LARGE_TEXT_THRESHOLD True True
     \<lparr> minL = 8830587504648031 / 281474976710656, maxL = 100, bestRgb = \<lparr> r = 151, g = 160, b = 0 \<rparr>,
       bestRatio = ratioOfRgb \<lparr> r = 151, g = 160, b = 0 \<rparr> \<lparr> r = 226, g = 68, b = 227 \<rparr>, iterationCount = 0 \<rparr> =
   Inr \<lparr> minL = 8830587504648031 / 281474976710656, maxL = 1155565161741051 / 17592186044416, bestRgb = \<lparr> r = 245, g = 255, b = 80 \<rparr>,
       bestRatio = ratioOfRgb \<lparr> r = 245, g = 255, b = 80 \<rparr> \<lparr> r = 226, g = 68, b = 227 \<rparr>, iterationCount = Suc 0 \<rparr>"
  unfolding searchBody_def Let_def
  by (simp add: bindE_def contrastRatio_rgbToHex addD_def divD_def toDouble_zero
      round_208 round_209 rgb_of_hsl_32 canon_F5FF50 canon_E244E3 ratio_F5FF50_E244E3_large)

lemma round_223: "toDouble (9658455083208785 / 281474976710656) = 603653442700549 / 17592186044416"
  using toDouble_normal [of "5" "9658455083208785 / 281474976710656"] by (simp add: roundTiesToEven_def Let_def)

lemma round_224: "toDouble (27319630092504847 / 281474976710656) = 1707476880781553 / 17592186044416"
  using toDouble_normal [of "6" "27319630092504847 / 281474976710656"] by (simp add: roundTiesToEven_def Let_def)

lemma round_225: "toDouble (1707476880781553 / 35184372088832) = 1707476880781553 / 35184372088832"
  using toDouble_normal [of "5" "1707476880781553 / 35184372088832"] by (simp add: roundTiesToEven_def Let_def)

lemma round_226: "toDouble (1707476880781553 / 3518437208883200) = 8742281629601551 / 18014398509481984"
  using toDouble_normal [of "-2" "1707476880781553 / 3518437208883200"] by (simp add: roundTiesToEven_def Let_def)

lemma round_227: "toDouble (8742281629601551 / 9007199254740992) = 8742281629601551 / 9007199254740992"
  using toDouble_normal [of "-1" "8742281629601551 / 9007199254740992"] by (simp add: roundTiesToEven_def Let_def)

lemma round_228: "toDouble (12385692041053468913369369478919 / 81129638414606681695789005144064) = 1375088047989411 / 9007199254740992"
  using toDouble_normal [of "-3" "12385692041053468913369369478919 / 81129638414606681695789005144064"] by (simp add: roundTiesToEven_def Let_def)

lemma round_229: "toDouble (4125264143968233 / 4503599627370496) = 4125264143968233 / 4503599627370496"
  using toDouble_normal [of "-1" "4125264143968233 / 4503599627370496"] by (simp add: roundTiesToEven_def Let_def)

lemma round_230: "toDouble (1051942356711899415 / 4503599627370496) = 4109149830905857 / 17592186044416"
  using toDouble_normal [of "7" "1051942356711899415 / 4503599627370496"] by (simp add: roundTiesToEven_def Let_def)

lemma round_231: "toDouble (2229281815548395505 / 9007199254740992) = 495 / 2"
  using toDouble_normal [of "7" "2229281815548395505 / 9007199254740992"] by (simp add: roundTiesToEven_def Let_def)

lemma rgb_of_hsl_33:
  "hslToRgb \<lparr> h = 8919238324518911 / 140737488355328, s = 100, l = 1707476880781553 / 35184372088832 \<rparr> =
     \<lparr> r = 234, g = 248, b = 0 \<rparr>"
  unfolding hslToRgb_def hue2rgb_def Let_def
  by (simp add: mathRound_def addD_def subD_def mulD_def divD_def toDouble_zero toDouble_minus
      round_169 round_193 round_195 round_196 round_197 round_198 round_199 round_200 round_201
      round_204 round_205 round_226 round_227 round_228 round_229 round_230 round_231)

lemma gamma_234:
  "822785754 / 1000000000 \<le> gammaCorrect (234 / 255) \<and> gammaCorrect (234 / 255) \<le> 822785755 / 1000000000"
  by (rule gammaCorrect_between) (simp_all add: power_divide divide_le_eq le_divide_eq)

lemma gamma_248:
  "938685728 / 1000000000 \<le> gammaCorrect (248 / 255) \<and> gammaCorrect (248 / 255) \<le> 938685729 / 1000000000"
  by (rule gammaCorrect_between) (simp_all add: power_divide divide_le_eq le_divide_eq)

lemma lum_EAF800:
  "846272283 / 1000000000 \<le> luminanceOfRgb \<lparr> r = 234, g = 248, b = 0 \<rparr> \<and> luminanceOfRgb \<lparr> r = 234, g = 248, b = 0 \<rparr> \<le> 846272285 / 1000000000"
  using gamma_0 gamma_234 gamma_248 by (simp add: luminanceOfRgb_def)

lemma ratio_EAF800_E244E3_large:
  "\<not> LARGE_TEXT_THRESHOLD \<le> ratioOfRgb \<lparr> r = 234, g = 248, b = 0 \<rparr> \<lparr> r = 226, g = 68, b = 227 \<rparr>"
  by (rule ratio_lt_from_bounds [OF lum_EAF800 lum_E244E3]) (simp_all add: LARGE_TEXT_THRESHOLD_def NORMAL_TEXT_THRESHOLD_def EPSILON_def)

lemma canon_EAF800: "canonRgb \<lparr> r = 234, g = 248, b = 0 \<rparr> = \<lparr> r = 234, g = 248, b = 0 \<rparr>"
  by (simp add: canonRgb_def channelByte_def mathRound_def)

lemma tie_fg_lighten_step_2:
  "searchBody \<lparr> h = 8919238324518911 / 140737488355328, s = 100, l = 8830587504648031 / 281474976710656 \<rparr> \<lparr> r = 226, g = 68, b = 227 \<rparr> LARGE_TEXT_THRESHOLD True True
     \<lparr> minL = 8830587504648031 / 281474976710656, maxL = 1155565161741051 / 17592186044416, bestRgb = \<lparr> r = 245, g = 255, b = 80 \<rparr>,
       bestRatio = ratioOfRgb \<lparr> r = 245, g = 255, b = 80 \<rparr> \<lparr> r = 226, g = 68, b = 227 \<rparr>, iterationCount = Suc 0 \<rparr> =
   Inr \<lparr> minL = 1707476880781553 / 35184372088832, maxL = 1155565161741051 / 17592186044416, bestRgb = \<lparr> r = 245, g = 255, b = 80 \<rparr>,
       bestRatio = ratioOfRgb \<lparr> r = 245, g = 255, b = 80 \<rparr> \<lparr> r = 226, g = 68, b = 227 \<rparr>, iterationCount = 2 \<rparr>"
  unfolding searchBody_def Let_def
  by (simp add: bindE_def contrastRatio_rgbToHex addD_def divD_def toDouble_zero
      round_224 round_225 rgb_of_hsl_33 canon_EAF800 canon_E244E3 ratio_EAF800_E244E3_large)

lemma round_232: "toDouble (603653442700549 / 35184372088832) = 603653442700549 / 35184372088832"
  using toDouble_normal [of "4" "603653442700549 / 35184372088832"] by (simp add: roundTiesToEven_def Let_def)

lemma round_233: "toDouble (4018607204263655 / 35184372088832) = 4018607204263655 / 35184372088832"
  using toDouble_normal [of "6" "4018607204263655 / 35184372088832"] by (simp add: roundTiesToEven_def Let_def)

lemma round_234: "toDouble (4018607204263655 / 70368744177664) = 4018607204263655 / 70368744177664"
  using toDouble_normal [of "5" "4018607204263655 / 70368744177664"] by (simp add: roundTiesToEven_def Let_def)

lemma round_235: "toDouble (803721440852731 / 1407374883553280) = 2571908610728739 / 4503599627370496"
  using toDouble_normal [of "-1" "803721440852731 / 1407374883553280"] by (simp add: roundTiesToEven_def Let_def)

lemma round_236: "toDouble (7075508238099235 / 4503599627370496) = 7075508238099235 / 4503599627370496"
  using toDouble_normal [of "0" "7075508238099235 / 4503599627370496"] by (simp add: roundTiesToEven_def Let_def)

lemma round_237: "toDouble (2571908610728739 / 4503599627370496) = 2571908610728739 / 4503599627370496"
  using toDouble_normal [of "-1" "2571908610728739 / 4503599627370496"] by (simp add: roundTiesToEven_def Let_def)

lemma round_238: "toDouble (2571908610728739 / 2251799813685248) = 2571908610728739 / 2251799813685248"
  using toDouble_normal [of "0" "2571908610728739 / 2251799813685248"] by (simp add: roundTiesToEven_def Let_def)

lemma round_239: "toDouble (320108797043491 / 2251799813685248) = 320108797043491 / 2251799813685248"
  using toDouble_normal [of "-3" "320108797043491 / 2251799813685248"] by (simp add: roundTiesToEven_def Let_def)

lemma round_240: "toDouble (1931691016641757 / 2251799813685248) = 1931691016641757 / 2251799813685248"
  using toDouble_normal [of "-1" "1931691016641757 / 2251799813685248"] by (simp add: roundTiesToEven_def Let_def)

lemma round_241: "toDouble (2736737509071158116709303294533 / 20282409603651670423947251286016) = 4861422391881757 / 36028797018963968"
  using toDouble_normal [of "-3" "2736737509071158116709303294533 / 20282409603651670423947251286016"] by (simp add: roundTiesToEven_def Let_def)

lemma round_242: "toDouble (14584267175645271 / 18014398509481984) = 1823033396955659 / 2251799813685248"
  using toDouble_normal [of "-1" "14584267175645271 / 18014398509481984"] by (simp add: roundTiesToEven_def Let_def)

lemma round_243: "toDouble (1071571096999575 / 1125899906842624) = 1071571096999575 / 1125899906842624"
  using toDouble_normal [of "-1" "1071571096999575 / 1125899906842624"] by (simp add: roundTiesToEven_def Let_def)

lemma round_244: "toDouble (273250629734891625 / 1125899906842624) = 8539082179215363 / 35184372088832"
  using toDouble_normal [of "7" "273250629734891625 / 1125899906842624"] by (simp add: roundTiesToEven_def Let_def)

lemma round_245: "toDouble (255) = 255"
  using toDouble_normal [of "7" "255"] by (simp add: roundTiesToEven_def Let_def)

lemma round_246: "toDouble (81627743246090205 / 2251799813685248) = 2550866976440319 / 70368744177664"
  using toDouble_normal [of "5" "81627743246090205 / 2251799813685248"] by (simp add: roundTiesToEven_def Let_def)

lemma rgb_of_hsl_34:
  "hslToRgb \<lparr> h = 8919238324518911 / 140737488355328, s = 100, l = 4018607204263655 / 70368744177664 \<rparr> =
     \<lparr> r = 243, g = 255, b = 36 \<rparr>"
  unfolding hslToRgb_def hue2rgb_def Let_def
  by (simp add: mathRound_def addD_def subD_def mulD_def divD_def toDouble_zero toDouble_minus
      round_169 round_193 round_196 round_197 round_198 round_199 round_200 round_201 round_204
      round_205 round_235 round_236 round_237 round_238 round_239 round_240 round_241 round_242
      round_243 round_244 round_245 round_246)

lemma gamma_243:
  "896269353 / 1000000000 \<le> gammaCorrect (243 / 255) \<and> gammaCorrect (243 / 255) \<le> 896269354 / 1000000000"
  by (rule gammaCorrect_between) (simp_all add: power_divide divide_le_eq le_divide_eq)

lemma gamma_36:
  "17641954 / 1000000000 \<le> gammaCorrect (36 / 255) \<and> gammaCorrect (36 / 255) \<le> 17641955 / 1000000000"
  by (rule gammaCorrect_between) (simp_all add: power_divide divide_le_eq le_divide_eq)

lemma lum_F3FF24:
  "907020613 / 1000000000 \<le> luminanceOfRgb \<lparr> r = 243, g = 255, b = 36 \<rparr> \<and> luminanceOfRgb \<lparr> r = 243, g = 255, b = 36 \<rparr> \<le> 907020615 / 1000000000"
  using gamma_36 gamma_243 gamma_255 by (simp add: luminanceOfRgb_def)

lemma ratio_F3FF24_E244E3_large:
  "LARGE_TEXT_THRESHOLD \<le> ratioOfRgb \<lparr> r = 243, g = 255, b = 36 \<rparr> \<lparr> r = 226, g = 68, b = 227 \<rparr>"
  by (rule ratio_ge_from_bounds [OF lum_F3FF24 lum_E244E3]) (simp_all add: LARGE_TEXT_THRESHOLD_def NORMAL_TEXT_THRESHOLD_def EPSILON_def)

lemma canon_F3FF24: "canonRgb \<lparr> r = 243, g = 255, b = 36 \<rparr> = \<lparr> r = 243, g = 255, b = 36 \<rparr>"
  by (simp add: canonRgb_def channelByte_def mathRound_def)

lemma tie_fg_lighten_step_3:
  "searchBody \<lparr> h = 8919238324518911 / 140737488355328, s = 100, l = 8830587504648031 / 281474976710656 \<rparr> \<lparr> r = 226, g = 68, b = 227 \<rparr> LARGE_TEXT_THRESHOLD True True
     \<lparr> minL = 1707476880781553 / 35184372088832, maxL = 1155565161741051 / 17592186044416, bestRgb = \<lparr> r = 245, g = 255, b = 80 \<rparr>,
       bestRatio = ratioOfRgb \<lparr> r = 245, g = 255, b = 80 \<rparr> \<lparr> r = 226, g = 68, b = 227 \<rparr>, iterationCount = 2 \<rparr> =
   Inr \<lparr> minL = 1707476880781553 / 35184372088832, maxL = 4018607204263655 / 70368744177664, bestRgb = \<lparr> r = 243, g = 255, b = 36 \<rparr>,
       bestRatio = ratioOfRgb \<lparr> r = 243, g = 255, b = 36 \<rparr> \<lparr> r = 226, g = 68, b = 227 \<rparr>, iterationCount = 3 \<rparr>"
  unfolding searchBody_def Let_def
  by (simp add: bindE_def contrastRatio_rgbToHex addD_def divD_def toDouble_zero
      round_233 round_234 rgb_of_hsl_34 canon_F3FF24 canon_E244E3 ratio_F3FF24_E244E3_large)

lemma round_247: "toDouble (603653442700549 / 70368744177664) = 603653442700549 / 70368744177664"
  using toDouble_normal [of "3" "603653442700549 / 70368744177664"] by (simp add: roundTiesToEven_def Let_def)

lemma round_248: "toDouble (7433560965826761 / 70368744177664) = 7433560965826761 / 70368744177664"
  using toDouble_normal [of "6" "7433560965826761 / 70368744177664"] by (simp add: roundTiesToEven_def Let_def)

lemma round_249: "toDouble (7433560965826761 / 140737488355328) = 7433560965826761 / 140737488355328"
  using toDouble_normal [of "5" "7433560965826761 / 140737488355328"] by (simp add: roundTiesToEven_def Let_def)

lemma round_250: "toDouble (7433560965826761 / 14073748835532800) = 4757479018129127 / 9007199254740992"
  using toDouble_normal [of "-1" "7433560965826761 / 14073748835532800"] by (simp add: roundTiesToEven_def Let_def)

lemma round_251: "toDouble (13764678272870119 / 9007199254740992) = 1720584784108765 / 1125899906842624"
  using toDouble_normal [of "0" "13764678272870119 / 9007199254740992"] by (simp add: roundTiesToEven_def Let_def)

lemma round_252: "toDouble (4757479018129127 / 9007199254740992) = 4757479018129127 / 9007199254740992"
  using toDouble_normal [of "-1" "4757479018129127 / 9007199254740992"] by (simp add: roundTiesToEven_def Let_def)

lemma round_253: "toDouble (9007199254740993 / 9007199254740992) = 1"
  using toDouble_normal [of "0" "9007199254740993 / 9007199254740992"] by (simp add: roundTiesToEven_def Let_def)

lemma round_254: "toDouble (4757479018129127 / 4503599627370496) = 4757479018129127 / 4503599627370496"
  using toDouble_normal [of "0" "4757479018129127 / 4503599627370496"] by (simp add: roundTiesToEven_def Let_def)

lemma round_255: "toDouble (253879390758631 / 4503599627370496) = 253879390758631 / 4503599627370496"
  using toDouble_normal [of "-5" "253879390758631 / 4503599627370496"] by (simp add: roundTiesToEven_def Let_def)

lemma round_256: "toDouble (4249720236611865 / 4503599627370496) = 4249720236611865 / 4503599627370496"
  using toDouble_normal [of "-1" "4249720236611865 / 4503599627370496"] by (simp add: roundTiesToEven_def Let_def)

lemma round_257: "toDouble (6020822519956547290057514137185 / 40564819207303340847894502572032) = 1336891157767483 / 9007199254740992"
  using toDouble_normal [of "-3" "6020822519956547290057514137185 / 40564819207303340847894502572032"] by (simp add: roundTiesToEven_def Let_def)

lemma round_258: "toDouble (4010673473302449 / 4503599627370496) = 4010673473302449 / 4503599627370496"
  using toDouble_normal [of "-1" "4010673473302449 / 4503599627370496"] by (simp add: roundTiesToEven_def Let_def)

lemma round_259: "toDouble (533069108007635 / 562949953421312) = 533069108007635 / 562949953421312"
  using toDouble_normal [of "-1" "533069108007635 / 562949953421312"] by (simp add: roundTiesToEven_def Let_def)

lemma round_260: "toDouble (135932622541946925 / 562949953421312) = 8495788908871683 / 35184372088832"
  using toDouble_normal [of "7" "135932622541946925 / 562949953421312"] by (simp add: roundTiesToEven_def Let_def)

lemma round_261: "toDouble (64739244643450905 / 4503599627370496) = 8092405580431363 / 562949953421312"
  using toDouble_normal [of "3" "64739244643450905 / 4503599627370496"] by (simp add: roundTiesToEven_def Let_def)

lemma rgb_of_hsl_35:
  "hslToRgb \<lparr> h = 8919238324518911 / 140737488355328, s = 100, l = 7433560965826761 / 140737488355328 \<rparr> =
     \<lparr> r = 241, g = 255, b = 14 \<rparr>"
  unfolding hslToRgb_def hue2rgb_def Let_def
  by (simp add: mathRound_def addD_def subD_def mulD_def divD_def toDouble_zero toDouble_minus
      round_169 round_193 round_196 round_197 round_198 round_199 round_200 round_201 round_204
      round_205 round_245 round_250 round_251 round_252 round_253 round_254 round_255 round_256
      round_257 round_258 round_259 round_260 round_261)

lemma gamma_241:
  "879622396 / 1000000000 \<le> gammaCorrect (241 / 255) \<and> gammaCorrect (241 / 255) \<le> 879622397 / 1000000000"
  by (rule gammaCorrect_between) (simp_all add: power_divide divide_le_eq le_divide_eq)

lemma gamma_14:
  "4391442 / 1000000000 \<le> gammaCorrect (14 / 255) \<and> gammaCorrect (14 / 255) \<le> 4391443 / 1000000000"
  by (rule gammaCorrect_between) (simp_all add: power_divide divide_le_eq le_divide_eq)

lemma lum_F1FF0E:
  "902524783 / 1000000000 \<le> luminanceOfRgb \<lparr> r = 241, g = 255, b = 14 \<rparr> \<and> luminanceOfRgb \<lparr> r = 241, g = 255, b = 14 \<rparr> \<le> 902524785 / 1000000000"
  using gamma_14 gamma_241 gamma_255 by (simp add: luminanceOfRgb_def)

lemma ratio_F1FF0E_E244E3_large:
  "LARGE_TEXT_THRESHOLD \<le> ratioOfRgb \<lparr> r = 241, g = 255, b = 14 \<rparr> \<lparr> r = 226, g = 68, b = 227 \<rparr>"
  by (rule ratio_ge_from_bounds [OF lum_F1FF0E lum_E244E3]) (simp_all add: LARGE_TEXT_THRESHOLD_def NORMAL_TEXT_THRESHOLD_def EPSILON_def)

lemma canon_F1FF0E: "canonRgb \<lparr> r = 241, g = 255, b = 14 \<rparr> = \<lparr> r = 241, g = 255, b = 14 \<rparr>"
  by (simp add: canonRgb_def channelByte_def mathRound_def)

lemma tie_fg_lighten_step_4:
  "searchBody \<lparr> h = 8919238324518911 / 140737488355328, s = 100, l = 8830587504648031 / 281474976710656 \<rparr> \<lparr> r = 226, g = 68, b = 227 \<rparr> LARGE_TEXT_THRESHOLD True True
     \<lparr> minL = 1707476880781553 / 35184372088832, maxL = 4018607204263655 / 70368744177664, bestRgb = \<lparr> r = 243, g = 255, b = 36 \<rparr>,
       bestRatio = ratioOfRgb \<lparr> r = 243, g = 255, b = 36 \<rparr> \<lparr> r = 226, g = 68, b = 227 \<rparr>, iterationCount = 3 \<rparr> =
   Inr \<lparr> minL = 1707476880781553 / 35184372088832, maxL = 7433560965826761 / 140737488355328, bestRgb = \<lparr> r = 241, g = 255, b = 14 \<rparr>,
       bestRatio = ratioOfRgb \<lparr> r = 241, g = 255, b = 14 \<rparr> \<lparr> r = 226, g = 68, b = 227 \<rparr>, iterationCount = 4 \<rparr>"
  unfolding searchBody_def Let_def
  by (simp add: bindE_def contrastRatio_rgbToHex addD_def divD_def toDouble_zero
      round_248 round_249 rgb_of_hsl_35 canon_F1FF0E canon_E244E3 ratio_F1FF0E_E244E3_large)

lemma round_262: "toDouble (603653442700549 / 140737488355328) = 603653442700549 / 140737488355328"
  using toDouble_normal [of "2" "603653442700549 / 140737488355328"] by (simp add: roundTiesToEven_def Let_def)

lemma round_263: "toDouble (14263468488952973 / 140737488355328) = 3565867122238243 / 35184372088832"
  using toDouble_normal [of "6" "14263468488952973 / 140737488355328"] by (simp add: roundTiesToEven_def Let_def)

lemma round_264: "toDouble (3565867122238243 / 70368744177664) = 3565867122238243 / 70368744177664"
  using toDouble_normal [of "5" "3565867122238243 / 70368744177664"] by (simp add: roundTiesToEven_def Let_def)

lemma round_265: "toDouble (3565867122238243 / 7036874417766400) = 4564309916464951 / 9007199254740992"
  using toDouble_normal [of "-1" "3565867122238243 / 7036874417766400"] by (simp add: roundTiesToEven_def Let_def)

lemma round_266: "toDouble (13571509171205943 / 9007199254740992) = 1696438646400743 / 1125899906842624"
  using toDouble_normal [of "0" "13571509171205943 / 9007199254740992"] by (simp add: roundTiesToEven_def Let_def)

lemma round_267: "toDouble (4564309916464951 / 9007199254740992) = 4564309916464951 / 9007199254740992"
  using toDouble_normal [of "-1" "4564309916464951 / 9007199254740992"] by (simp add: roundTiesToEven_def Let_def)

lemma round_268: "toDouble (4564309916464951 / 4503599627370496) = 4564309916464951 / 4503599627370496"
  using toDouble_normal [of "0" "4564309916464951 / 4503599627370496"] by (simp add: roundTiesToEven_def Let_def)

lemma round_269: "toDouble (60710289094455 / 4503599627370496) = 60710289094455 / 4503599627370496"
  using toDouble_normal [of "-7" "60710289094455 / 4503599627370496"] by (simp add: roundTiesToEven_def Let_def)

lemma round_270: "toDouble (4442889338276041 / 4503599627370496) = 4442889338276041 / 4503599627370496"
  using toDouble_normal [of "-1" "4442889338276041 / 4503599627370496"] by (simp add: roundTiesToEven_def Let_def)

lemma round_271: "toDouble (6294496270863663526755659299729 / 40564819207303340847894502572032) = 1397658937666005 / 9007199254740992"
  using toDouble_normal [of "-3" "6294496270863663526755659299729 / 40564819207303340847894502572032"] by (simp add: roundTiesToEven_def Let_def)

lemma round_272: "toDouble (4192976812998015 / 4503599627370496) = 4192976812998015 / 4503599627370496"
  using toDouble_normal [of "-1" "4192976812998015 / 4503599627370496"] by (simp add: roundTiesToEven_def Let_def)

lemma round_273: "toDouble (2126843551046235 / 2251799813685248) = 2126843551046235 / 2251799813685248"
  using toDouble_normal [of "-1" "2126843551046235 / 2251799813685248"] by (simp add: roundTiesToEven_def Let_def)

lemma round_274: "toDouble (542345105516789925 / 2251799813685248) = 8474142273699843 / 35184372088832"
  using toDouble_normal [of "7" "542345105516789925 / 2251799813685248"] by (simp add: roundTiesToEven_def Let_def)

lemma round_275: "toDouble (15481123719086025 / 4503599627370496) = 1935140464885753 / 562949953421312"
  using toDouble_normal [of "1" "15481123719086025 / 4503599627370496"] by (simp add: roundTiesToEven_def Let_def)

lemma rgb_of_hsl_36:
  "hslToRgb \<lparr> h = 8919238324518911 / 140737488355328, s = 100, l = 3565867122238243 / 70368744177664 \<rparr> =
     \<lparr> r = 241, g = 255, b = 3 \<rparr>"
  unfolding hslToRgb_def hue2rgb_def Let_def
  by (simp add: mathRound_def addD_def subD_def mulD_def divD_def toDouble_zero toDouble_minus
      round_169 round_193 round_196 round_197 round_198 round_199 round_200 round_201 round_204
      round_205 round_245 round_253 round_265 round_266 round_267 round_268 round_269 round_270
      round_271 round_272 round_273 round_274 round_275)

lemma gamma_3:
  "910580 / 1000000000 \<le> gammaCorrect (3 / 255) \<and> gammaCorrect (3 / 255) \<le> 910581 / 1000000000"
  by (simp add: gammaCorrect_def)

lemma lum_F1FF03:
  "902273465 / 1000000000 \<le> luminanceOfRgb \<lparr> r = 241, g = 255, b = 3 \<rparr> \<and> luminanceOfRgb \<lparr> r = 241, g = 255, b = 3 \<rparr> \<le> 902273467 / 1000000000"
  using gamma_3 gamma_241 gamma_255 by (simp add: luminanceOfRgb_def)

lemma ratio_F1FF03_E244E3_large:
  "LARGE_TEXT_THRESHOLD \<le> ratioOfRgb \<lparr> r = 241, g = 255, b = 3 \<rparr> \<lparr> r = 226, g = 68, b = 227 \<rparr>"
  by (rule ratio_ge_from_bounds [OF lum_F1FF03 lum_E244E3]) (simp_all add: LARGE_TEXT_THRESHOLD_def NORMAL_TEXT_THRESHOLD_def EPSILON_def)

lemma canon_F1FF03: "canonRgb \<lparr> r = 241, g = 255, b = 3 \<rparr> = \<lparr> r = 241, g = 255, b = 3 \<rparr>"
  by (simp add: canonRgb_def channelByte_def mathRound_def)

lemma tie_fg_lighten_step_5:
  "searchBody \<lparr> h = 8919238324518911 / 140737488355328, s = 100, l = 8830587504648031 / 281474976710656 \<rparr> \<lparr> r = 226, g = 68, b = 227 \<rparr> LARGE_TEXT_THRESHOLD True True
     \<lparr> minL = 1707476880781553 / 35184372088832, maxL = 7433560965826761 / 140737488355328, bestRgb = \<lparr> r = 241, g = 255, b = 14 \<rparr>,
       bestRatio = ratioOfRgb \<lparr> r = 241, g = 255, b = 14 \<rparr> \<lparr> r = 226, g = 68, b = 227 \<rparr>, iterationCount = 4 \<rparr> =
   Inr \<lparr> minL = 1707476880781553 / 35184372088832, maxL = 3565867122238243 / 70368744177664, bestRgb = \<lparr> r = 241, g = 255, b = 3 \<rparr>,
       bestRatio = ratioOfRgb \<lparr> r = 241, g = 255, b = 3 \<rparr> \<lparr> r = 226, g = 68, b = 227 \<rparr>, iterationCount = 5 \<rparr>"
  unfolding searchBody_def Let_def
  by (simp add: bindE_def contrastRatio_rgbToHex addD_def divD_def toDouble_zero
      round_263 round_264 rgb_of_hsl_36 canon_F1FF03 canon_E244E3 ratio_F1FF03_E244E3_large)

lemma round_276: "toDouble (150913360675137 / 70368744177664) = 150913360675137 / 70368744177664"
  using toDouble_normal [of "1" "150913360675137 / 70368744177664"] by (simp add: roundTiesToEven_def Let_def)

lemma round_277: "toDouble (6980820883801349 / 70368744177664) = 6980820883801349 / 70368744177664"
  using toDouble_normal [of "6" "6980820883801349 / 70368744177664"] by (simp add: roundTiesToEven_def Let_def)

lemma round_278: "toDouble (6980820883801349 / 140737488355328) = 6980820883801349 / 140737488355328"
  using toDouble_normal [of "5" "6980820883801349 / 140737488355328"] by (simp add: roundTiesToEven_def Let_def)

lemma round_279: "toDouble (6980820883801349 / 14073748835532800) = 8935450731265727 / 18014398509481984"
  using toDouble_normal [of "-2" "6980820883801349 / 14073748835532800"] by (simp add: roundTiesToEven_def Let_def)

lemma round_280: "toDouble (8935450731265727 / 9007199254740992) = 8935450731265727 / 9007199254740992"
  using toDouble_normal [of "-1" "8935450731265727 / 9007199254740992"] by (simp add: roundTiesToEven_def Let_def)

lemma round_281: "toDouble (12659365791960585150067514641463 / 81129638414606681695789005144064) = 87841996121167 / 562949953421312"
  using toDouble_normal [of "-3" "12659365791960585150067514641463 / 81129638414606681695789005144064"] by (simp add: roundTiesToEven_def Let_def)

lemma round_282: "toDouble (263525988363501 / 281474976710656) = 263525988363501 / 281474976710656"
  using toDouble_normal [of "-1" "263525988363501 / 281474976710656"] by (simp add: roundTiesToEven_def Let_def)

lemma round_283: "toDouble (67199127032692755 / 281474976710656) = 4199945439543297 / 17592186044416"
  using toDouble_normal [of "7" "67199127032692755 / 281474976710656"] by (simp add: roundTiesToEven_def Let_def)

lemma round_284: "toDouble (2278539936472760385 / 9007199254740992) = 8095 / 32"
  using toDouble_normal [of "7" "2278539936472760385 / 9007199254740992"] by (simp add: roundTiesToEven_def Let_def)

lemma rgb_of_hsl_37:
  "hslToRgb \<lparr> h = 8919238324518911 / 140737488355328, s = 100, l = 6980820883801349 / 140737488355328 \<rparr> =
     \<lparr> r = 239, g = 253, b = 0 \<rparr>"
  unfolding hslToRgb_def hue2rgb_def Let_def
  by (simp add: mathRound_def addD_def subD_def mulD_def divD_def toDouble_zero toDouble_minus
      round_169 round_193 round_195 round_196 round_197 round_198 round_199 round_200 round_201
      round_204 round_205 round_279 round_280 round_281 round_282 round_283 round_284)

lemma lum_EFFD00:
  "886012816 / 1000000000 \<le> luminanceOfRgb \<lparr> r = 239, g = 253, b = 0 \<rparr> \<and> luminanceOfRgb \<lparr> r = 239, g = 253, b = 0 \<rparr> \<le> 886012818 / 1000000000"
  using gamma_0 gamma_239 gamma_253 by (simp add: luminanceOfRgb_def)

lemma ratio_EFFD00_E244E3_large:
  "LARGE_TEXT_THRESHOLD \<le> ratioOfRgb \<lparr> r = 239, g = 253, b = 0 \<rparr> \<lparr> r = 226, g = 68, b = 227 \<rparr>"
  by (rule ratio_ge_from_bounds [OF lum_EFFD00 lum_E244E3]) (simp_all add: LARGE_TEXT_THRESHOLD_def NORMAL_TEXT_THRESHOLD_def EPSILON_def)

lemma canon_EFFD00: "canonRgb \<lparr> r = 239, g = 253, b = 0 \<rparr> = \<lparr> r = 239, g = 253, b = 0 \<rparr>"
  by (simp add: canonRgb_def channelByte_def mathRound_def)

lemma tie_fg_lighten_step_6:
  "searchBody \<lparr> h = 8919238324518911 / 140737488355328, s = 100, l = 8830587504648031 / 281474976710656 \<rparr> \<lparr> r = 226, g = 68, b = 227 \<rparr> LARGE_TEXT_THRESHOLD True True
     \<lparr> minL = 1707476880781553 / 35184372088832, maxL = 3565867122238243 / 70368744177664, bestRgb = \<lparr> r = 241, g = 255, b = 3 \<rparr>,
       bestRatio = ratioOfRgb \<lparr> r = 241, g = 255, b = 3 \<rparr> \<lparr> r = 226, g = 68, b = 227 \<rparr>, iterationCount = 5 \<rparr> =
   Inr \<lparr> minL = 1707476880781553 / 35184372088832, maxL = 6980820883801349 / 140737488355328, bestRgb = \<lparr> r = 239, g = 253, b = 0 \<rparr>,
       bestRatio = ratioOfRgb \<lparr> r = 239, g = 253, b = 0 \<rparr> \<lparr> r = 226, g = 68, b = 227 \<rparr>, iterationCount = 6 \<rparr>"
  unfolding searchBody_def Let_def
  by (simp add: bindE_def contrastRatio_rgbToHex addD_def divD_def toDouble_zero
      round_277 round_278 rgb_of_hsl_37 canon_EFFD00 canon_E244E3 ratio_EFFD00_E244E3_large)

lemma round_285: "toDouble (150913360675137 / 140737488355328) = 150913360675137 / 140737488355328"
  using toDouble_normal [of "0" "150913360675137 / 140737488355328"] by (simp add: roundTiesToEven_def Let_def)

lemma round_286: "toDouble (13810728406927561 / 140737488355328) = 1726341050865945 / 17592186044416"
  using toDouble_normal [of "6" "13810728406927561 / 140737488355328"] by (simp add: roundTiesToEven_def Let_def)

lemma round_287: "toDouble (1726341050865945 / 35184372088832) = 1726341050865945 / 35184372088832"
  using toDouble_normal [of "5" "1726341050865945 / 35184372088832"] by (simp add: roundTiesToEven_def Let_def)

lemma round_288: "toDouble (345268210173189 / 703687441776640) = 4419433090216819 / 9007199254740992"
  using toDouble_normal [of "-2" "345268210173189 / 703687441776640"] by (simp add: roundTiesToEven_def Let_def)

lemma round_289: "toDouble (4419433090216819 / 4503599627370496) = 4419433090216819 / 4503599627370496"
  using toDouble_normal [of "-1" "4419433090216819 / 4503599627370496"] by (simp add: roundTiesToEven_def Let_def)

lemma round_290: "toDouble (6261264458253512807480529641611 / 40564819207303340847894502572032) = 2780559985928083 / 18014398509481984"
  using toDouble_normal [of "-3" "6261264458253512807480529641611 / 40564819207303340847894502572032"] by (simp add: roundTiesToEven_def Let_def)

lemma round_291: "toDouble (8341679957784249 / 9007199254740992) = 8341679957784249 / 9007199254740992"
  using toDouble_normal [of "-1" "8341679957784249 / 9007199254740992"] by (simp add: roundTiesToEven_def Let_def)

lemma round_292: "toDouble (2127128389234983495 / 9007199254740992) = 4154547635224577 / 17592186044416"
  using toDouble_normal [of "7" "2127128389234983495 / 9007199254740992"] by (simp add: roundTiesToEven_def Let_def)

lemma round_293: "toDouble (1126955438005288845 / 4503599627370496) = 8804339359416319 / 35184372088832"
  using toDouble_normal [of "7" "1126955438005288845 / 4503599627370496"] by (simp add: roundTiesToEven_def Let_def)

lemma rgb_of_hsl_38:
  "hslToRgb \<lparr> h = 8919238324518911 / 140737488355328, s = 100, l = 1726341050865945 / 35184372088832 \<rparr> =
     \<lparr> r = 236, g = 250, b = 0 \<rparr>"
  unfolding hslToRgb_def hue2rgb_def Let_def
  by (simp add: mathRound_def addD_def subD_def mulD_def divD_def toDouble_zero toDouble_minus
      round_169 round_193 round_195 round_196 round_197 round_198 round_199 round_200 round_201
      round_204 round_205 round_288 round_289 round_290 round_291 round_292 round_293)

lemma gamma_250:
  "955973353 / 1000000000 \<le> gammaCorrect (250 / 255) \<and> gammaCorrect (250 / 255) \<le> 955973354 / 1000000000"
  by (rule gammaCorrect_between) (simp_all add: power_divide divide_le_eq le_divide_eq)

lemma lum_ECFA00:
  "862040811 / 1000000000 \<le> luminanceOfRgb \<lparr> r = 236, g = 250, b = 0 \<rparr> \<and> luminanceOfRgb \<lparr> r = 236, g = 250, b = 0 \<rparr> \<le> 862040813 / 1000000000"
  using gamma_0 gamma_236 gamma_250 by (simp add: luminanceOfRgb_def)

lemma ratio_ECFA00_E244E3_large:
  "\<not> LARGE_TEXT_THRESHOLD \<le> ratioOfRgb \<lparr> r = 236, g = 250, b = 0 \<rparr> \<lparr> r = 226, g = 68, b = 227 \<rparr>"
  by (rule ratio_lt_from_bounds [OF lum_ECFA00 lum_E244E3]) (simp_all add: LARGE_TEXT_THRESHOLD_def NORMAL_TEXT_THRESHOLD_def EPSILON_def)

lemma canon_ECFA00: "canonRgb \<lparr> r = 236, g = 250, b = 0 \<rparr> = \<lparr> r = 236, g = 250, b = 0 \<rparr>"
  by (simp add: canonRgb_def channelByte_def mathRound_def)

lemma tie_fg_lighten_step_7:
  "searchBody \<lparr> h = 8919238324518911 / 140737488355328, s = 100, l = 8830587504648031 / 281474976710656 \<rparr> \<lparr> r = 226, g = 68, b = 227 \<rparr> LARGE_TEXT_THRESHOLD True True
     \<lparr> minL = 1707476880781553 / 35184372088832, maxL = 6980820883801349 / 140737488355328, bestRgb = \<lparr> r = 239, g = 253, b = 0 \<rparr>,
       bestRatio = ratioOfRgb \<lparr> r = 239, g = 253, b = 0 \<rparr> \<lparr> r = 226, g = 68, b = 227 \<rparr>, iterationCount = 6 \<rparr> =
   Inr \<lparr> minL = 1726341050865945 / 35184372088832, maxL = 6980820883801349 / 140737488355328, bestRgb = \<lparr> r = 239, g = 253, b = 0 \<rparr>,
       bestRatio = ratioOfRgb \<lparr> r = 239, g = 253, b = 0 \<rparr> \<lparr> r = 226, g = 68, b = 227 \<rparr>, iterationCount = 7 \<rparr>"
  unfolding searchBody_def Let_def
  by (simp add: bindE_def contrastRatio_rgbToHex addD_def divD_def toDouble_zero
      round_286 round_287 rgb_of_hsl_38 canon_ECFA00 canon_E244E3 ratio_ECFA00_E244E3_large)

lemma round_294: "toDouble (75456680337569 / 140737488355328) = 75456680337569 / 140737488355328"
  using toDouble_normal [of "-1" "75456680337569 / 140737488355328"] by (simp add: roundTiesToEven_def Let_def)

lemma tie_fg_lighten_loop:
  "searchLoop 7 \<lparr> h = 8919238324518911 / 140737488355328, s = 100, l = 8830587504648031 / 281474976710656 \<rparr> \<lparr> r = 226, g = 68, b = 227 \<rparr> LARGE_TEXT_THRESHOLD True True
     \<lparr> minL = 8830587504648031 / 281474976710656, maxL = 100, bestRgb = \<lparr> r = 151, g = 160, b = 0 \<rparr>,
       bestRatio = ratioOfRgb \<lparr> r = 151, g = 160, b = 0 \<rparr> \<lparr> r = 226, g = 68, b = 227 \<rparr>, iterationCount = 0 \<rparr> =
   Inr \<lparr> minL = 1726341050865945 / 35184372088832, maxL = 6980820883801349 / 140737488355328, bestRgb = \<lparr> r = 239, g = 253, b = 0 \<rparr>,
       bestRatio = ratioOfRgb \<lparr> r = 239, g = 253, b = 0 \<rparr> \<lparr> r = 226, g = 68, b = 227 \<rparr>, iterationCount = 7 \<rparr>"
  by (simp add: searchLoop_numeral bindE_def subD_def toDouble_zero toDouble_minus
      round_15 round_223 round_232 round_247 round_262 round_276 round_285 round_294
      tie_fg_lighten_step_1 tie_fg_lighten_step_2 tie_fg_lighten_step_3 tie_fg_lighten_step_4
      tie_fg_lighten_step_5 tie_fg_lighten_step_6 tie_fg_lighten_step_7)

lemma canon_97A000: "canonRgb \<lparr> r = 151, g = 160, b = 0 \<rparr> = \<lparr> r = 151, g = 160, b = 0 \<rparr>"
  by (simp add: canonRgb_def channelByte_def mathRound_def)

lemma tie_fg_lighten_search:
  "binarySearchLightness \<lparr> h = 8919238324518911 / 140737488355328, s = 100, l = 8830587504648031 / 281474976710656 \<rparr> \<lparr> r = 226, g = 68, b = 227 \<rparr> LARGE_TEXT_THRESHOLD True True 7 =
   Inr \<lparr> rgb = \<lparr> r = 239, g = 253, b = 0 \<rparr>, ratio = ratioOfRgb \<lparr> r = 239, g = 253, b = 0 \<rparr> \<lparr> r = 226, g = 68, b = 227 \<rparr>, iterations = 7 \<rparr>"
  unfolding binarySearchLightness_def Let_def
  by (simp add: bindE_def contrastRatio_rgbToHex rgb_of_hsl_31 canon_97A000 canon_E244E3 tie_fg_lighten_loop)

lemma round_295: "toDouble (8830587504648031 / 281474976710656) = 8830587504648031 / 281474976710656"
  using toDouble_normal [of "4" "8830587504648031 / 281474976710656"] by (simp add: roundTiesToEven_def Let_def)

lemma round_296: "toDouble (8830587504648031 / 562949953421312) = 8830587504648031 / 562949953421312"
  using toDouble_normal [of "3" "8830587504648031 / 562949953421312"] by (simp add: roundTiesToEven_def Let_def)

lemma round_297: "toDouble (8830587504648031 / 56294995342131200) = 1412894000743685 / 9007199254740992"
  using toDouble_normal [of "-3" "8830587504648031 / 56294995342131200"] by (simp add: roundTiesToEven_def Let_def)

lemma round_298: "toDouble (2001728006634904052496490190765 / 40564819207303340847894502572032) = 1777891617602471 / 36028797018963968"
  using toDouble_normal [of "-5" "2001728006634904052496490190765 / 40564819207303340847894502572032"] by (simp add: roundTiesToEven_def Let_def)

lemma round_299: "toDouble (5333674852807413 / 18014398509481984) = 5333674852807413 / 18014398509481984"
  using toDouble_normal [of "-2" "5333674852807413 / 18014398509481984"] by (simp add: roundTiesToEven_def Let_def)

lemma round_300: "toDouble (1360087087465890315 / 18014398509481984) = 2656420092706817 / 35184372088832"
  using toDouble_normal [of "6" "1360087087465890315 / 18014398509481984"] by (simp add: roundTiesToEven_def Let_def)

lemma rgb_of_hsl_39:
  "hslToRgb \<lparr> h = 8919238324518911 / 140737488355328, s = 100, l = 8830587504648031 / 562949953421312 \<rparr> =
     \<lparr> r = 76, g = 80, b = 0 \<rparr>"
  unfolding hslToRgb_def hue2rgb_def Let_def
  by (simp add: mathRound_def addD_def subD_def mulD_def divD_def toDouble_zero toDouble_minus
      round_57 round_168 round_169 round_193 round_195 round_196 round_197 round_198 round_199
      round_200 round_201 round_204 round_205 round_297 round_298 round_299 round_300)

lemma gamma_76:
  "72271850 / 1000000000 \<le> gammaCorrect (76 / 255) \<and> gammaCorrect (76 / 255) \<le> 72271851 / 1000000000"
  by (rule gammaCorrect_between) (simp_all add: power_divide divide_le_eq le_divide_eq)

lemma lum_4C5000:
  "72738210 / 1000000000 \<le> luminanceOfRgb \<lparr> r = 76, g = 80, b = 0 \<rparr> \<and> luminanceOfRgb \<lparr> r = 76, g = 80, b = 0 \<rparr> \<le> 72738212 / 1000000000"
  using gamma_0 gamma_76 gamma_80 by (simp add: luminanceOfRgb_def)

lemma ratio_4C5000_E244E3_large:
  "\<not> LARGE_TEXT_THRESHOLD \<le> ratioOfRgb \<lparr> r = 76, g = 80, b = 0 \<rparr> \<lparr> r = 226, g = 68, b = 227 \<rparr>"
  by (rule ratio_lt_from_bounds [OF lum_4C5000 lum_E244E3]) (simp_all add: LARGE_TEXT_THRESHOLD_def NORMAL_TEXT_THRESHOLD_def EPSILON_def)

lemma canon_4C5000: "canonRgb \<lparr> r = 76, g = 80, b = 0 \<rparr> = \<lparr> r = 76, g = 80, b = 0 \<rparr>"
  by (simp add: canonRgb_def channelByte_def mathRound_def)

lemma tie_fg_darken_step_1:
  "searchBody \<lparr> h = 8919238324518911 / 140737488355328, s = 100, l = 8830587504648031 / 281474976710656 \<rparr> \<lparr> r = 226, g = 68, b = 227 \<rparr> LARGE_TEXT_THRESHOLD True False
     \<lparr> minL = 0, maxL = 8830587504648031 / 281474976710656, bestRgb = \<lparr> r = 151, g = 160, b = 0 \<rparr>,
       bestRatio = ratioOfRgb \<lparr> r = 151, g = 160, b = 0 \<rparr> \<lparr> r = 226, g = 68, b = 227 \<rparr>, iterationCount = 0 \<rparr> =
   Inr \<lparr> minL = 0, maxL = 8830587504648031 / 562949953421312, bestRgb = \<lparr> r = 151, g = 160, b = 0 \<rparr>,
       bestRatio = ratioOfRgb \<lparr> r = 151, g = 160, b = 0 \<rparr> \<lparr> r = 226, g = 68, b = 227 \<rparr>, iterationCount = Suc 0 \<rparr>"
  unfolding searchBody_def Let_def
  by (simp add: bindE_def contrastRatio_rgbToHex addD_def divD_def toDouble_zero
      round_295 round_296 rgb_of_hsl_39 canon_4C5000 canon_E244E3 ratio_4C5000_E244E3_large)

lemma round_301: "toDouble (8830587504648031 / 1125899906842624) = 8830587504648031 / 1125899906842624"
  using toDouble_normal [of "2" "8830587504648031 / 1125899906842624"] by (simp add: roundTiesToEven_def Let_def)

lemma round_302: "toDouble (8830587504648031 / 112589990684262400) = 1412894000743685 / 18014398509481984"
  using toDouble_normal [of "-4" "8830587504648031 / 112589990684262400"] by (simp add: roundTiesToEven_def Let_def)

lemma round_303: "toDouble (1412894000743685 / 9007199254740992) = 1412894000743685 / 9007199254740992"
  using toDouble_normal [of "-3" "1412894000743685 / 9007199254740992"] by (simp add: roundTiesToEven_def Let_def)

lemma round_304: "toDouble (2001728006634904052496490190765 / 81129638414606681695789005144064) = 1777891617602471 / 72057594037927936"
  using toDouble_normal [of "-6" "2001728006634904052496490190765 / 81129638414606681695789005144064"] by (simp add: roundTiesToEven_def Let_def)

lemma round_305: "toDouble (5333674852807413 / 36028797018963968) = 5333674852807413 / 36028797018963968"
  using toDouble_normal [of "-3" "5333674852807413 / 36028797018963968"] by (simp add: roundTiesToEven_def Let_def)

lemma round_306: "toDouble (1360087087465890315 / 36028797018963968) = 2656420092706817 / 70368744177664"
  using toDouble_normal [of "5" "1360087087465890315 / 36028797018963968"] by (simp add: roundTiesToEven_def Let_def)

lemma round_307: "toDouble (360287970189639675 / 9007199254740992) = 40"
  using toDouble_normal [of "5" "360287970189639675 / 9007199254740992"] by (simp add: roundTiesToEven_def Let_def)

lemma rgb_of_hsl_40:
  "hslToRgb \<lparr> h = 8919238324518911 / 140737488355328, s = 100, l = 8830587504648031 / 1125899906842624 \<rparr> =
     \<lparr> r = 38, g = 40, b = 0 \<rparr>"
  unfolding hslToRgb_def hue2rgb_def Let_def
  by (simp add: mathRound_def addD_def subD_def mulD_def divD_def toDouble_zero toDouble_minus
      round_169 round_193 round_195 round_196 round_197 round_198 round_199 round_200 round_201
      round_204 round_205 round_302 round_303 round_304 round_305 round_306 round_307)

lemma gamma_38:
  "19382360 / 1000000000 \<le> gammaCorrect (38 / 255) \<and> gammaCorrect (38 / 255) \<le> 19382361 / 1000000000"
  by (rule gammaCorrect_between) (simp_all add: power_divide divide_le_eq le_divide_eq)

lemma gamma_40:
  "21219010 / 1000000000 \<le> gammaCorrect (40 / 255) \<and> gammaCorrect (40 / 255) \<le> 21219011 / 1000000000"
  by (rule gammaCorrect_between) (simp_all add: power_divide divide_le_eq le_divide_eq)

lemma lum_262800:
  "19296525 / 1000000000 \<le> luminanceOfRgb \<lparr> r = 38, g = 40, b = 0 \<rparr> \<and> luminanceOfRgb \<lparr> r = 38, g = 40, b = 0 \<rparr> \<le> 19296527 / 1000000000"
  using gamma_0 gamma_38 gamma_40 by (simp add: luminanceOfRgb_def)

lemma ratio_262800_E244E3_large:
  "LARGE_TEXT_THRESHOLD \<le> ratioOfRgb \<lparr> r = 38, g = 40, b = 0 \<rparr> \<lparr> r = 226, g = 68, b = 227 \<rparr>"
  by (rule ratio_ge_from_bounds [OF lum_262800 lum_E244E3]) (simp_all add: LARGE_TEXT_THRESHOLD_def NORMAL_TEXT_THRESHOLD_def EPSILON_def)

lemma canon_262800: "canonRgb \<lparr> r = 38, g = 40, b = 0 \<rparr> = \<lparr> r = 38, g = 40, b = 0 \<rparr>"
  by (simp add: canonRgb_def channelByte_def mathRound_def)

lemma tie_fg_darken_step_2:
  "searchBody \<lparr> h = 8919238324518911 / 140737488355328, s = 100, l = 8830587504648031 / 281474976710656 \<rparr> \<lparr> r = 226, g = 68, b = 227 \<rparr> LARGE_TEXT_THRESHOLD True False
     \<lparr> minL = 0, maxL = 8830587504648031 / 562949953421312, bestRgb = \<lparr> r = 151, g = 160, b = 0 \<rparr>,
       bestRatio = ratioOfRgb \<lparr> r = 151, g = 160, b = 0 \<rparr> \<lparr> r = 226, g = 68, b = 227 \<rparr>, iterationCount = Suc 0 \<rparr> =
   Inr \<lparr> minL = 8830587504648031 / 1125899906842624, maxL = 8830587504648031 / 562949953421312, bestRgb = \<lparr> r = 38, g = 40, b = 0 \<rparr>,
       bestRatio = ratioOfRgb \<lparr> r = 38, g = 40, b = 0 \<rparr> \<lparr> r = 226, g = 68, b = 227 \<rparr>, iterationCount = 2 \<rparr>"
  unfolding searchBody_def Let_def
  by (simp add: bindE_def contrastRatio_rgbToHex addD_def divD_def toDouble_zero
      round_296 round_301 rgb_of_hsl_40 canon_262800 canon_E244E3 ratio_262800_E244E3_large)

lemma round_308: "toDouble (26491762513944093 / 1125899906842624) = 6622940628486023 / 281474976710656"
  using toDouble_normal [of "4" "26491762513944093 / 1125899906842624"] by (simp add: roundTiesToEven_def Let_def)

lemma round_309: "toDouble (6622940628486023 / 562949953421312) = 6622940628486023 / 562949953421312"
  using toDouble_normal [of "3" "6622940628486023 / 562949953421312"] by (simp add: roundTiesToEven_def Let_def)

lemma round_310: "toDouble (6622940628486023 / 56294995342131200) = 8477364004462109 / 72057594037927936"
  using toDouble_normal [of "-4" "6622940628486023 / 56294995342131200"] by (simp add: roundTiesToEven_def Let_def)

lemma round_311: "toDouble (8477364004462109 / 36028797018963968) = 8477364004462109 / 36028797018963968"
  using toDouble_normal [of "-3" "8477364004462109 / 36028797018963968"] by (simp add: roundTiesToEven_def Let_def)

lemma round_312: "toDouble (12010368039809422898221558367621 / 324518553658426726783156020576256) = 1333418713201853 / 36028797018963968"
  using toDouble_normal [of "-5" "12010368039809422898221558367621 / 324518553658426726783156020576256"] by (simp add: roundTiesToEven_def Let_def)

lemma round_313: "toDouble (4000256139605559 / 18014398509481984) = 4000256139605559 / 18014398509481984"
  using toDouble_normal [of "-3" "4000256139605559 / 18014398509481984"] by (simp add: roundTiesToEven_def Let_def)

lemma round_314: "toDouble (1020065315599417545 / 18014398509481984) = 3984630139060225 / 70368744177664"
  using toDouble_normal [of "5" "1020065315599417545 / 18014398509481984"] by (simp add: roundTiesToEven_def Let_def)

lemma round_315: "toDouble (2161727821137837795 / 36028797018963968) = 8444249301319679 / 140737488355328"
  using toDouble_normal [of "5" "2161727821137837795 / 36028797018963968"] by (simp add: roundTiesToEven_def Let_def)

lemma rgb_of_hsl_41:
  "hslToRgb \<lparr> h = 8919238324518911 / 140737488355328, s = 100, l = 6622940628486023 / 562949953421312 \<rparr> =
     \<lparr> r = 57, g = 60, b = 0 \<rparr>"
  unfolding hslToRgb_def hue2rgb_def Let_def
  by (simp add: mathRound_def addD_def subD_def mulD_def divD_def toDouble_zero toDouble_minus
      round_169 round_193 round_195 round_196 round_197 round_198 round_199 round_200 round_201
      round_204 round_205 round_310 round_311 round_312 round_313 round_314 round_315)

lemma gamma_57:
  "40915196 / 1000000000 \<le> gammaCorrect (57 / 255) \<and> gammaCorrect (57 / 255) \<le> 40915197 / 1000000000"
  by (rule gammaCorrect_between) (simp_all add: power_divide divide_le_eq le_divide_eq)

lemma gamma_60:
  "45186204 / 1000000000 \<le> gammaCorrect (60 / 255) \<and> gammaCorrect (60 / 255) \<le> 45186205 / 1000000000"
  by (rule gammaCorrect_between) (simp_all add: power_divide divide_le_eq le_divide_eq)

lemma lum_393C00:
  "41015743 / 1000000000 \<le> luminanceOfRgb \<lparr> r = 57, g = 60, b = 0 \<rparr> \<and> luminanceOfRgb \<lparr> r = 57, g = 60, b = 0 \<rparr> \<le> 41015745 / 1000000000"
  using gamma_0 gamma_57 gamma_60 by (simp add: luminanceOfRgb_def)

lemma ratio_393C00_E244E3_large:
  "LARGE_TEXT_THRESHOLD \<le> ratioOfRgb \<lparr> r = 57, g = 60, b = 0 \<rparr> \<lparr> r = 226, g = 68, b = 227 \<rparr>"
  by (rule ratio_ge_from_bounds [OF lum_393C00 lum_E244E3]) (simp_all add: LARGE_TEXT_THRESHOLD_def NORMAL_TEXT_THRESHOLD_def EPSILON_def)

lemma canon_393C00: "canonRgb \<lparr> r = 57, g = 60, b = 0 \<rparr> = \<lparr> r = 57, g = 60, b = 0 \<rparr>"
  by (simp add: canonRgb_def channelByte_def mathRound_def)

lemma tie_fg_darken_step_3:
  "searchBody \<lparr> h = 8919238324518911 / 140737488355328, s = 100, l = 8830587504648031 / 281474976710656 \<rparr> \<lparr> r = 226, g = 68, b = 227 \<rparr> LARGE_TEXT_THRESHOLD True False
     \<lparr> minL = 8830587504648031 / 1125899906842624, maxL = 8830587504648031 / 562949953421312, bestRgb = \<lparr> r = 38, g = 40, b = 0 \<rparr>,
       bestRatio = ratioOfRgb \<lparr> r = 38, g = 40, b = 0 \<rparr> \<lparr> r = 226, g = 68, b = 227 \<rparr>, iterationCount = 2 \<rparr> =
   Inr \<lparr> minL = 6622940628486023 / 562949953421312, maxL = 8830587504648031 / 562949953421312, bestRgb = \<lparr> r = 57, g = 60, b = 0 \<rparr>,
       bestRatio = ratioOfRgb \<lparr> r = 57, g = 60, b = 0 \<rparr> \<lparr> r = 226, g = 68, b = 227 \<rparr>, iterationCount = 3 \<rparr>"
  unfolding searchBody_def Let_def
  by (simp add: bindE_def contrastRatio_rgbToHex addD_def divD_def toDouble_zero
      round_308 round_309 rgb_of_hsl_41 canon_393C00 canon_E244E3 ratio_393C00_E244E3_large)

lemma round_316: "toDouble (275955859520251 / 70368744177664) = 275955859520251 / 70368744177664"
  using toDouble_normal [of "1" "275955859520251 / 70368744177664"] by (simp add: roundTiesToEven_def Let_def)

lemma round_317: "toDouble (7726764066567027 / 281474976710656) = 7726764066567027 / 281474976710656"
  using toDouble_normal [of "4" "7726764066567027 / 281474976710656"] by (simp add: roundTiesToEven_def Let_def)

lemma round_318: "toDouble (7726764066567027 / 562949953421312) = 7726764066567027 / 562949953421312"
  using toDouble_normal [of "3" "7726764066567027 / 562949953421312"] by (simp add: roundTiesToEven_def Let_def)

lemma round_319: "toDouble (7726764066567027 / 56294995342131200) = 4945129002602897 / 36028797018963968"
  using toDouble_normal [of "-3" "7726764066567027 / 56294995342131200"] by (simp add: roundTiesToEven_def Let_def)

lemma round_320: "toDouble (4945129002602897 / 18014398509481984) = 4945129002602897 / 18014398509481984"
  using toDouble_normal [of "-2" "4945129002602897 / 18014398509481984"] by (simp add: roundTiesToEven_def Let_def)

lemma round_321: "toDouble (7006048023222163475359024279193 / 162259276829213363391578010288128) = 6222620661608647 / 144115188075855872"
  using toDouble_normal [of "-5" "7006048023222163475359024279193 / 162259276829213363391578010288128"] by (simp add: roundTiesToEven_def Let_def)

lemma round_322: "toDouble (18667861984825941 / 72057594037927936) = 4666965496206485 / 18014398509481984"
  using toDouble_normal [of "-2" "18667861984825941 / 72057594037927936"] by (simp add: roundTiesToEven_def Let_def)

lemma round_323: "toDouble (4666965496206485 / 18014398509481984) = 4666965496206485 / 18014398509481984"
  using toDouble_normal [of "-2" "4666965496206485 / 18014398509481984"] by (simp add: roundTiesToEven_def Let_def)

lemma round_324: "toDouble (1190076201532653675 / 18014398509481984) = 1057 / 16"
  using toDouble_normal [of "6" "1190076201532653675 / 18014398509481984"] by (simp add: roundTiesToEven_def Let_def)

lemma round_325: "toDouble (1261007895663738735 / 18014398509481984) = 4925812092436479 / 70368744177664"
  using toDouble_normal [of "6" "1261007895663738735 / 18014398509481984"] by (simp add: roundTiesToEven_def Let_def)

lemma rgb_of_hsl_42:
  "hslToRgb \<lparr> h = 8919238324518911 / 140737488355328, s = 100, l = 7726764066567027 / 562949953421312 \<rparr> =
     \<lparr> r = 66, g = 70, b = 0 \<rparr>"
  unfolding hslToRgb_def hue2rgb_def Let_def
  by (simp add: mathRound_def addD_def subD_def mulD_def divD_def toDouble_zero toDouble_minus
      round_169 round_193 round_195 round_196 round_197 round_198 round_199 round_200 round_201
      round_204 round_205 round_319 round_320 round_321 round_322 round_323 round_324 round_325)

lemma gamma_66:
  "54480276 / 1000000000 \<le> gammaCorrect (66 / 255) \<and> gammaCorrect (66 / 255) \<le> 54480277 / 1000000000"
  by (rule gammaCorrect_between) (simp_all add: power_divide divide_le_eq le_divide_eq)

lemma gamma_70:
  "61246054 / 1000000000 \<le> gammaCorrect (70 / 255) \<and> gammaCorrect (70 / 255) \<le> 61246055 / 1000000000"
  by (rule gammaCorrect_between) (simp_all add: power_divide divide_le_eq le_divide_eq)

lemma lum_424600:
  "55385684 / 1000000000 \<le> luminanceOfRgb \<lparr> r = 66, g = 70, b = 0 \<rparr> \<and> luminanceOfRgb \<lparr> r = 66, g = 70, b = 0 \<rparr> \<le> 55385686 / 1000000000"
  using gamma_0 gamma_66 gamma_70 by (simp add: luminanceOfRgb_def)

lemma ratio_424600_E244E3_large:
  "\<not> LARGE_TEXT_THRESHOLD \<le> ratioOfRgb \<lparr> r = 66, g = 70, b = 0 \<rparr> \<lparr> r = 226, g = 68, b = 227 \<rparr>"
  by (rule ratio_lt_from_bounds [OF lum_424600 lum_E244E3]) (simp_all add: LARGE_TEXT_THRESHOLD_def NORMAL_TEXT_THRESHOLD_def EPSILON_def)

lemma canon_424600: "canonRgb \<lparr> r = 66, g = 70, b = 0 \<rparr> = \<lparr> r = 66, g = 70, b = 0 \<rparr>"
  by (simp add: canonRgb_def channelByte_def mathRound_def)

lemma tie_fg_darken_step_4:
  "searchBody \<lparr> h = 8919238324518911 / 140737488355328, s = 100, l = 8830587504648031 / 281474976710656 \<rparr> \<lparr> r = 226, g = 68, b = 227 \<rparr> LARGE_TEXT_THRESHOLD True False
     \<lparr> minL = 6622940628486023 / 562949953421312, maxL = 8830587504648031 / 562949953421312, bestRgb = \<lparr> r = 57, g = 60, b = 0 \<rparr>,
       bestRatio = ratioOfRgb \<lparr> r = 57, g = 60, b = 0 \<rparr> \<lparr> r = 226, g = 68, b = 227 \<rparr>, iterationCount = 3 \<rparr> =
   Inr \<lparr> minL = 6622940628486023 / 562949953421312, maxL = 7726764066567027 / 562949953421312, bestRgb = \<lparr> r = 57, g = 60, b = 0 \<rparr>,
       bestRatio = ratioOfRgb \<lparr> r = 57, g = 60, b = 0 \<rparr> \<lparr> r = 226, g = 68, b = 227 \<rparr>, iterationCount = 4 \<rparr>"
  unfolding searchBody_def Let_def
  by (simp add: bindE_def contrastRatio_rgbToHex addD_def divD_def toDouble_zero
      round_317 round_318 rgb_of_hsl_42 canon_424600 canon_E244E3 ratio_424600_E244E3_large)

lemma round_326: "toDouble (275955859520251 / 140737488355328) = 275955859520251 / 140737488355328"
  using toDouble_normal [of "0" "275955859520251 / 140737488355328"] by (simp add: roundTiesToEven_def Let_def)

lemma round_327: "toDouble (7174852347526525 / 281474976710656) = 7174852347526525 / 281474976710656"
  using toDouble_normal [of "4" "7174852347526525 / 281474976710656"] by (simp add: roundTiesToEven_def Let_def)

lemma round_328: "toDouble (7174852347526525 / 562949953421312) = 7174852347526525 / 562949953421312"
  using toDouble_normal [of "3" "7174852347526525 / 562949953421312"] by (simp add: roundTiesToEven_def Let_def)

lemma round_329: "toDouble (286994093901061 / 2251799813685248) = 286994093901061 / 2251799813685248"
  using toDouble_normal [of "-3" "286994093901061 / 2251799813685248"] by (simp add: roundTiesToEven_def Let_def)

lemma round_330: "toDouble (286994093901061 / 1125899906842624) = 286994093901061 / 1125899906842624"
  using toDouble_normal [of "-2" "286994093901061 / 1125899906842624"] by (simp add: roundTiesToEven_def Let_def)

lemma round_331: "toDouble (406601001347714863526515464109 / 10141204801825835211973625643008) = 2889073878604015 / 72057594037927936"
  using toDouble_normal [of "-5" "406601001347714863526515464109 / 10141204801825835211973625643008"] by (simp add: roundTiesToEven_def Let_def)

lemma round_332: "toDouble (8667221635812045 / 36028797018963968) = 8667221635812045 / 36028797018963968"
  using toDouble_normal [of "-3" "8667221635812045 / 36028797018963968"] by (simp add: roundTiesToEven_def Let_def)

lemma round_333: "toDouble (2210141517132071475 / 36028797018963968) = 4316682650648577 / 70368744177664"
  using toDouble_normal [of "5" "2210141517132071475 / 36028797018963968"] by (simp add: roundTiesToEven_def Let_def)

lemma round_334: "toDouble (73183493944770555 / 1125899906842624) = 65"
  using toDouble_normal [of "6" "73183493944770555 / 1125899906842624"] by (simp add: roundTiesToEven_def Let_def)

lemma rgb_of_hsl_43:
  "hslToRgb \<lparr> h = 8919238324518911 / 140737488355328, s = 100, l = 7174852347526525 / 562949953421312 \<rparr> =
     \<lparr> r = 61, g = 65, b = 0 \<rparr>"
  unfolding hslToRgb_def hue2rgb_def Let_def
  by (simp add: mathRound_def addD_def subD_def mulD_def divD_def toDouble_zero toDouble_minus
      round_169 round_193 round_195 round_196 round_197 round_198 round_199 round_200 round_201
      round_204 round_205 round_329 round_330 round_331 round_332 round_333 round_334)

lemma gamma_61:
  "46665086 / 1000000000 \<le> gammaCorrect (61 / 255) \<and> gammaCorrect (61 / 255) \<le> 46665087 / 1000000000"
  by (rule gammaCorrect_between) (simp_all add: power_divide divide_le_eq le_divide_eq)

lemma gamma_65:
  "52860647 / 1000000000 \<le> gammaCorrect (65 / 255) \<and> gammaCorrect (65 / 255) \<le> 52860648 / 1000000000"
  by (rule gammaCorrect_between) (simp_all add: power_divide divide_le_eq le_divide_eq)

lemma lum_3D4100:
  "47726932 / 1000000000 \<le> luminanceOfRgb \<lparr> r = 61, g = 65, b = 0 \<rparr> \<and> luminanceOfRgb \<lparr> r = 61, g = 65, b = 0 \<rparr> \<le> 47726933 / 1000000000"
  using gamma_0 gamma_61 gamma_65 by (simp add: luminanceOfRgb_def)

lemma ratio_3D4100_E244E3_large:
  "LARGE_TEXT_THRESHOLD \<le> ratioOfRgb \<lparr> r = 61, g = 65, b = 0 \<rparr> \<lparr> r = 226, g = 68, b = 227 \<rparr>"
  by (rule ratio_ge_from_bounds [OF lum_3D4100 lum_E244E3]) (simp_all add: LARGE_TEXT_THRESHOLD_def NORMAL_TEXT_THRESHOLD_def EPSILON_def)

lemma canon_3D4100: "canonRgb \<lparr> r = 61, g = 65, b = 0 \<rparr> = \<lparr> r = 61, g = 65, b = 0 \<rparr>"
  by (simp add: canonRgb_def channelByte_def mathRound_def)

lemma tie_fg_darken_step_5:
  "searchBody \<lparr> h = 8919238324518911 / 140737488355328, s = 100, l = 8830587504648031 / 281474976710656 \<rparr> \<lparr> r = 226, g = 68, b = 227 \<rparr> LARGE_TEXT_THRESHOLD True False
     \<lparr> minL = 6622940628486023 / 562949953421312, maxL = 7726764066567027 / 562949953421312, bestRgb = \<lparr> r = 57, g = 60, b = 0 \<rparr>,
       bestRatio = ratioOfRgb \<lparr> r = 57, g = 60, b = 0 \<rparr> \<lparr> r = 226, g = 68, b = 227 \<rparr>, iterationCount = 4 \<rparr> =
   Inr \<lparr> minL = 7174852347526525 / 562949953421312, maxL = 7726764066567027 / 562949953421312, bestRgb = \<lparr> r = 61, g = 65, b = 0 \<rparr>,
       bestRatio = ratioOfRgb \<lparr> r = 61, g = 65, b = 0 \<rparr> \<lparr> r = 226, g = 68, b = 227 \<rparr>, iterationCount = 5 \<rparr>"
  unfolding searchBody_def Let_def
  by (simp add: bindE_def contrastRatio_rgbToHex addD_def divD_def toDouble_zero
      round_327 round_328 rgb_of_hsl_43 canon_3D4100 canon_E244E3 ratio_3D4100_E244E3_large)

lemma round_335: "toDouble (275955859520251 / 281474976710656) = 275955859520251 / 281474976710656"
  using toDouble_normal [of "-1" "275955859520251 / 281474976710656"] by (simp add: roundTiesToEven_def Let_def)

lemma round_336: "toDouble (931351025880847 / 35184372088832) = 931351025880847 / 35184372088832"
  using toDouble_normal [of "4" "931351025880847 / 35184372088832"] by (simp add: roundTiesToEven_def Let_def)

lemma round_337: "toDouble (931351025880847 / 70368744177664) = 931351025880847 / 70368744177664"
  using toDouble_normal [of "3" "931351025880847 / 70368744177664"] by (simp add: roundTiesToEven_def Let_def)

lemma round_338: "toDouble (931351025880847 / 7036874417766400) = 4768517252509937 / 36028797018963968"
  using toDouble_normal [of "-3" "931351025880847 / 7036874417766400"] by (simp add: roundTiesToEven_def Let_def)

lemma round_339: "toDouble (4768517252509937 / 18014398509481984) = 4768517252509937 / 18014398509481984"
  using toDouble_normal [of "-2" "4768517252509937 / 18014398509481984"] by (simp add: roundTiesToEven_def Let_def)

lemma round_340: "toDouble (6755832022392801354270327240953 / 162259276829213363391578010288128) = 6000384209408339 / 144115188075855872"
  using toDouble_normal [of "-5" "6755832022392801354270327240953 / 162259276829213363391578010288128"] by (simp add: roundTiesToEven_def Let_def)

lemma round_341: "toDouble (18001152628225017 / 72057594037927936) = 2250144078528127 / 9007199254740992"
  using toDouble_normal [of "-3" "18001152628225017 / 72057594037927936"] by (simp add: roundTiesToEven_def Let_def)

lemma round_342: "toDouble (2250144078528127 / 9007199254740992) = 2250144078528127 / 9007199254740992"
  using toDouble_normal [of "-3" "2250144078528127 / 9007199254740992"] by (simp add: roundTiesToEven_def Let_def)

lemma round_343: "toDouble (573786740024672385 / 9007199254740992) = 4482708906442753 / 70368744177664"
  using toDouble_normal [of "5" "573786740024672385 / 9007199254740992"] by (simp add: roundTiesToEven_def Let_def)

lemma round_344: "toDouble (1215971899390033935 / 18014398509481984) = 135 / 2"
  using toDouble_normal [of "6" "1215971899390033935 / 18014398509481984"] by (simp add: roundTiesToEven_def Let_def)

lemma rgb_of_hsl_44:
  "hslToRgb \<lparr> h = 8919238324518911 / 140737488355328, s = 100, l = 931351025880847 / 70368744177664 \<rparr> =
     \<lparr> r = 64, g = 68, b = 0 \<rparr>"
  unfolding hslToRgb_def hue2rgb_def Let_def
  by (simp add: mathRound_def addD_def subD_def mulD_def divD_def toDouble_zero toDouble_minus
      round_169 round_193 round_195 round_196 round_197 round_198 round_199 round_200 round_201
      round_204 round_205 round_338 round_339 round_340 round_341 round_342 round_343 round_344)

lemma lum_404400:
  "52242330 / 1000000000 \<le> luminanceOfRgb \<lparr> r = 64, g = 68, b = 0 \<rparr> \<and> luminanceOfRgb \<lparr> r = 64, g = 68, b = 0 \<rparr> \<le> 52242332 / 1000000000"
  using gamma_0 gamma_64 gamma_68 by (simp add: luminanceOfRgb_def)

lemma ratio_404400_E244E3_large:
  "LARGE_TEXT_THRESHOLD \<le> ratioOfRgb \<lparr> r = 64, g = 68, b = 0 \<rparr> \<lparr> r = 226, g = 68, b = 227 \<rparr>"
  by (rule ratio_ge_from_bounds [OF lum_404400 lum_E244E3]) (simp_all add: LARGE_TEXT_THRESHOLD_def NORMAL_TEXT_THRESHOLD_def EPSILON_def)

lemma canon_404400: "canonRgb \<lparr> r = 64, g = 68, b = 0 \<rparr> = \<lparr> r = 64, g = 68, b = 0 \<rparr>"
  by (simp add: canonRgb_def channelByte_def mathRound_def)

lemma tie_fg_darken_step_6:
  "searchBody \<lparr> h = 8919238324518911 / 140737488355328, s = 100, l = 8830587504648031 / 281474976710656 \<rparr> \<lparr> r = 226, g = 68, b = 227 \<rparr> LARGE_TEXT_THRESHOLD True False
     \<lparr> minL = 7174852347526525 / 562949953421312, maxL = 7726764066567027 / 562949953421312, bestRgb = \<lparr> r = 61, g = 65, b = 0 \<rparr>,
       bestRatio = ratioOfRgb \<lparr> r = 61, g = 65, b = 0 \<rparr> \<lparr> r = 226, g = 68, b = 227 \<rparr>, iterationCount = 5 \<rparr> =
   Inr \<lparr> minL = 931351025880847 / 70368744177664, maxL = 7726764066567027 / 562949953421312, bestRgb = \<lparr> r = 64, g = 68, b = 0 \<rparr>,
       bestRatio = ratioOfRgb \<lparr> r = 64, g = 68, b = 0 \<rparr> \<lparr> r = 226, g = 68, b = 227 \<rparr>, iterationCount = 6 \<rparr>"
  unfolding searchBody_def Let_def
  by (simp add: bindE_def contrastRatio_rgbToHex addD_def divD_def toDouble_zero
      round_336 round_337 rgb_of_hsl_44 canon_404400 canon_E244E3 ratio_404400_E244E3_large)

lemma round_345: "toDouble (275955859520251 / 562949953421312) = 275955859520251 / 562949953421312"
  using toDouble_normal [of "-2" "275955859520251 / 562949953421312"] by (simp add: roundTiesToEven_def Let_def)

lemma round_346: "toDouble (15177572273613803 / 562949953421312) = 3794393068403451 / 140737488355328"
  using toDouble_normal [of "4" "15177572273613803 / 562949953421312"] by (simp add: roundTiesToEven_def Let_def)

lemma round_347: "toDouble (3794393068403451 / 281474976710656) = 3794393068403451 / 281474976710656"
  using toDouble_normal [of "3" "3794393068403451 / 281474976710656"] by (simp add: roundTiesToEven_def Let_def)

lemma round_348: "toDouble (3794393068403451 / 28147497671065600) = 4856823127556417 / 36028797018963968"
  using toDouble_normal [of "-3" "3794393068403451 / 28147497671065600"] by (simp add: roundTiesToEven_def Let_def)

lemma round_349: "toDouble (4856823127556417 / 18014398509481984) = 4856823127556417 / 18014398509481984"
  using toDouble_normal [of "-2" "4856823127556417 / 18014398509481984"] by (simp add: roundTiesToEven_def Let_def)

lemma round_350: "toDouble (6880940022807482414814675760073 / 162259276829213363391578010288128) = 6111502435508493 / 144115188075855872"
  using toDouble_normal [of "-5" "6880940022807482414814675760073 / 162259276829213363391578010288128"] by (simp add: roundTiesToEven_def Let_def)

lemma round_351: "toDouble (18334507306525479 / 72057594037927936) = 2291813413315685 / 9007199254740992"
  using toDouble_normal [of "-2" "18334507306525479 / 72057594037927936"] by (simp add: roundTiesToEven_def Let_def)

lemma round_352: "toDouble (2291813413315685 / 9007199254740992) = 2291813413315685 / 9007199254740992"
  using toDouble_normal [of "-2" "2291813413315685 / 9007199254740992"] by (simp add: roundTiesToEven_def Let_def)

lemma round_353: "toDouble (584412420395499675 / 9007199254740992) = 4565722034339841 / 70368744177664"
  using toDouble_normal [of "6" "584412420395499675 / 9007199254740992"] by (simp add: roundTiesToEven_def Let_def)

lemma round_354: "toDouble (1238489897526886335 / 18014398509481984) = 275 / 4"
  using toDouble_normal [of "6" "1238489897526886335 / 18014398509481984"] by (simp add: roundTiesToEven_def Let_def)

lemma rgb_of_hsl_45:
  "hslToRgb \<lparr> h = 8919238324518911 / 140737488355328, s = 100, l = 3794393068403451 / 281474976710656 \<rparr> =
     \<lparr> r = 65, g = 69, b = 0 \<rparr>"
  unfolding hslToRgb_def hue2rgb_def Let_def
  by (simp add: mathRound_def addD_def subD_def mulD_def divD_def toDouble_zero toDouble_minus
      round_169 round_193 round_195 round_196 round_197 round_198 round_199 round_200 round_201
      round_204 round_205 round_348 round_349 round_350 round_351 round_352 round_353 round_354)

lemma gamma_69:
  "59511238 / 1000000000 \<le> gammaCorrect (69 / 255) \<and> gammaCorrect (69 / 255) \<le> 59511239 / 1000000000"
  by (rule gammaCorrect_between) (simp_all add: power_divide divide_le_eq le_divide_eq)

lemma lum_414500:
  "53800610 / 1000000000 \<le> luminanceOfRgb \<lparr> r = 65, g = 69, b = 0 \<rparr> \<and> luminanceOfRgb \<lparr> r = 65, g = 69, b = 0 \<rparr> \<le> 53800612 / 1000000000"
  using gamma_0 gamma_65 gamma_69 by (simp add: luminanceOfRgb_def)

lemma ratio_414500_E244E3_large:
  "\<not> LARGE_TEXT_THRESHOLD \<le> ratioOfRgb \<lparr> r = 65, g = 69, b = 0 \<rparr> \<lparr> r = 226, g = 68, b = 227 \<rparr>"
  by (rule ratio_lt_from_bounds [OF lum_414500 lum_E244E3]) (simp_all add: LARGE_TEXT_THRESHOLD_def NORMAL_TEXT_THRESHOLD_def EPSILON_def)

lemma canon_414500: "canonRgb \<lparr> r = 65, g = 69, b = 0 \<rparr> = \<lparr> r = 65, g = 69, b = 0 \<rparr>"
  by (simp add: canonRgb_def channelByte_def mathRound_def)

lemma tie_fg_darken_step_7:
  "searchBody \<lparr> h = 8919238324518911 / 140737488355328, s = 100, l = 8830587504648031 / 281474976710656 \<rparr> \<lparr> r = 226, g = 68, b = 227 \<rparr> LARGE_TEXT_THRESHOLD True False
     \<lparr> minL = 931351025880847 / 70368744177664, maxL = 7726764066567027 / 562949953421312, bestRgb = \<lparr> r = 64, g = 68, b = 0 \<rparr>,
       bestRatio = ratioOfRgb \<lparr> r = 64, g = 68, b = 0 \<rparr> \<lparr> r = 226, g = 68, b = 227 \<rparr>, iterationCount = 6 \<rparr> =
   Inr \<lparr> minL = 931351025880847 / 70368744177664, maxL = 3794393068403451 / 281474976710656, bestRgb = \<lparr> r = 64, g = 68, b = 0 \<rparr>,
       bestRatio = ratioOfRgb \<lparr> r = 64, g = 68, b = 0 \<rparr> \<lparr> r = 226, g = 68, b = 227 \<rparr>, iterationCount = 7 \<rparr>"
  unfolding searchBody_def Let_def
  by (simp add: bindE_def contrastRatio_rgbToHex addD_def divD_def toDouble_zero
      round_346 round_347 rgb_of_hsl_45 canon_414500 canon_E244E3 ratio_414500_E244E3_large)

lemma round_355: "toDouble (68988964880063 / 281474976710656) = 68988964880063 / 281474976710656"
  using toDouble_normal [of "-3" "68988964880063 / 281474976710656"] by (simp add: roundTiesToEven_def Let_def)

lemma tie_fg_darken_loop:
  "searchLoop 7 \<lparr> h = 8919238324518911 / 140737488355328, s = 100, l = 8830587504648031 / 281474976710656 \<rparr> \<lparr> r = 226, g = 68, b = 227 \<rparr> LARGE_TEXT_THRESHOLD True False
     \<lparr> minL = 0, maxL = 8830587504648031 / 281474976710656, bestRgb = \<lparr> r = 151, g = 160, b = 0 \<rparr>,
       bestRatio = ratioOfRgb \<lparr> r = 151, g = 160, b = 0 \<rparr> \<lparr> r = 226, g = 68, b = 227 \<rparr>, iterationCount = 0 \<rparr> =
   Inr \<lparr> minL = 931351025880847 / 70368744177664, maxL = 3794393068403451 / 281474976710656, bestRgb = \<lparr> r = 64, g = 68, b = 0 \<rparr>,
       bestRatio = ratioOfRgb \<lparr> r = 64, g = 68, b = 0 \<rparr> \<lparr> r = 226, g = 68, b = 227 \<rparr>, iterationCount = 7 \<rparr>"
  by (simp add: searchLoop_numeral bindE_def subD_def toDouble_zero toDouble_minus
      round_15 round_296 round_301 round_316 round_326 round_335 round_345 round_355
      tie_fg_darken_step_1 tie_fg_darken_step_2 tie_fg_darken_step_3 tie_fg_darken_step_4
      tie_fg_darken_step_5 tie_fg_darken_step_6 tie_fg_darken_step_7)

lemma tie_fg_darken_search:
  "binarySearchLightness \<lparr> h = 8919238324518911 / 140737488355328, s = 100, l = 8830587504648031 / 281474976710656 \<rparr> \<lparr> r = 226, g = 68, b = 227 \<rparr> LARGE_TEXT_THRESHOLD True False 7 =
   Inr \<lparr> rgb = \<lparr> r = 64, g = 68, b = 0 \<rparr>, ratio = ratioOfRgb \<lparr> r = 64, g = 68, b = 0 \<rparr> \<lparr> r = 226, g = 68, b = 227 \<rparr>, iterations = 7 \<rparr>"
  unfolding binarySearchLightness_def Let_def
  by (simp add: bindE_def contrastRatio_rgbToHex rgb_of_hsl_31 canon_97A000 canon_E244E3 tie_fg_darken_loop)

lemma round_356: "toDouble (5271017252553323 / 6333186975989760) = 7496557870298059 / 9007199254740992"
  using toDouble_normal [of "-1" "5271017252553323 / 6333186975989760"] by (simp add: roundTiesToEven_def Let_def)

lemma round_357: "toDouble (2602007052150831 / 3518437208883200) = 6661138053506127 / 9007199254740992"
  using toDouble_normal [of "-1" "2602007052150831 / 3518437208883200"] by (simp add: roundTiesToEven_def Let_def)

lemma round_358: "toDouble (8140697855847403 / 14073748835532800) = 2605023313871169 / 4503599627370496"
  using toDouble_normal [of "-1" "8140697855847403 / 14073748835532800"] by (simp add: roundTiesToEven_def Let_def)

lemma round_359: "toDouble (11871184681248465 / 9007199254740992) = 741949042578029 / 562949953421312"
  using toDouble_normal [of "0" "11871184681248465 / 9007199254740992"] by (simp add: roundTiesToEven_def Let_def)

lemma round_360: "toDouble (17352419926297879200273630152463 / 40564819207303340847894502572032) = 7706022454056107 / 18014398509481984"
  using toDouble_normal [of "-2" "17352419926297879200273630152463 / 40564819207303340847894502572032"] by (simp add: roundTiesToEven_def Let_def)

lemma round_361: "toDouble (16036346908440821 / 18014398509481984) = 4009086727110205 / 4503599627370496"
  using toDouble_normal [of "-1" "16036346908440821 / 18014398509481984"] by (simp add: roundTiesToEven_def Let_def)

lemma round_362: "toDouble (2605023313871169 / 2251799813685248) = 2605023313871169 / 2251799813685248"
  using toDouble_normal [of "0" "2605023313871169 / 2251799813685248"] by (simp add: roundTiesToEven_def Let_def)

lemma round_363: "toDouble (1200959900632133 / 4503599627370496) = 1200959900632133 / 4503599627370496"
  using toDouble_normal [of "-2" "1200959900632133 / 4503599627370496"] by (simp add: roundTiesToEven_def Let_def)

lemma round_364: "toDouble (20997915243756779 / 18014398509481984) = 5249478810939195 / 4503599627370496"
  using toDouble_normal [of "0" "20997915243756779 / 18014398509481984"] by (simp add: roundTiesToEven_def Let_def)

lemma round_365: "toDouble (745879183568699 / 4503599627370496) = 745879183568699 / 4503599627370496"
  using toDouble_normal [of "-3" "745879183568699 / 4503599627370496"] by (simp add: roundTiesToEven_def Let_def)

lemma round_366: "toDouble (351015853309759 / 562949953421312) = 351015853309759 / 562949953421312"
  using toDouble_normal [of "-1" "351015853309759 / 562949953421312"] by (simp add: roundTiesToEven_def Let_def)

lemma round_367: "toDouble (1053047559929277 / 281474976710656) = 1053047559929277 / 281474976710656"
  using toDouble_normal [of "1" "1053047559929277 / 281474976710656"] by (simp add: roundTiesToEven_def Let_def)

lemma round_368: "toDouble (785446254259059760824910900623 / 1267650600228229401496703205376) = 1395232825734389 / 2251799813685248"
  using toDouble_normal [of "-1" "785446254259059760824910900623 / 1267650600228229401496703205376"] by (simp add: roundTiesToEven_def Let_def)

lemma round_369: "toDouble (3991425552100911 / 4503599627370496) = 3991425552100911 / 4503599627370496"
  using toDouble_normal [of "-1" "3991425552100911 / 4503599627370496"] by (simp add: roundTiesToEven_def Let_def)

lemma round_370: "toDouble (8988316237435457 / 18014398509481984) = 8988316237435457 / 18014398509481984"
  using toDouble_normal [of "-2" "8988316237435457 / 18014398509481984"] by (simp add: roundTiesToEven_def Let_def)

lemma round_371: "toDouble (1017813515785732305 / 4503599627370496) = 3975834046038017 / 17592186044416"
  using toDouble_normal [of "7" "1017813515785732305 / 4503599627370496"] by (simp add: roundTiesToEven_def Let_def)

lemma round_372: "toDouble (306244774661193915 / 4503599627370496) = 4785074604081155 / 70368744177664"
  using toDouble_normal [of "6" "306244774661193915 / 4503599627370496"] by (simp add: roundTiesToEven_def Let_def)

lemma round_373: "toDouble (1022317115413102275 / 4503599627370496) = 3993426232082431 / 17592186044416"
  using toDouble_normal [of "7" "1022317115413102275 / 4503599627370496"] by (simp add: roundTiesToEven_def Let_def)

lemma rgb_of_hsl_46:
  "hslToRgb \<lparr> h = 5271017252553323 / 17592186044416, s = 2602007052150831 / 35184372088832, l = 8140697855847403 / 140737488355328 \<rparr> =
     \<lparr> r = 226, g = 68, b = 227 \<rparr>"
  unfolding hslToRgb_def hue2rgb_def Let_def
  by (simp add: mathRound_def addD_def subD_def mulD_def divD_def toDouble_zero toDouble_minus
      round_196 round_198 round_199 round_200 round_356 round_357 round_358 round_359 round_360
      round_361 round_362 round_363 round_364 round_365 round_366 round_367 round_368 round_369
      round_370 round_371 round_372 round_373)

lemma round_374: "toDouble (8140697855847403 / 140737488355328) = 8140697855847403 / 140737488355328"
  using toDouble_normal [of "5" "8140697855847403 / 140737488355328"] by (simp add: roundTiesToEven_def Let_def)

lemma round_375: "toDouble (8140697855847403 / 281474976710656) = 8140697855847403 / 281474976710656"
  using toDouble_normal [of "4" "8140697855847403 / 281474976710656"] by (simp add: roundTiesToEven_def Let_def)

lemma round_376: "toDouble (8140697855847403 / 28147497671065600) = 2605023313871169 / 9007199254740992"
  using toDouble_normal [of "-2" "8140697855847403 / 28147497671065600"] by (simp add: roundTiesToEven_def Let_def)

lemma round_377: "toDouble (15668337308247119 / 9007199254740992) = 979271081765445 / 562949953421312"
  using toDouble_normal [of "0" "15668337308247119 / 9007199254740992"] by (simp add: roundTiesToEven_def Let_def)

lemma round_378: "toDouble (2551023998598824031849805955205 / 5070602400912917605986812821504) = 1132882231846299 / 2251799813685248"
  using toDouble_normal [of "-1" "2551023998598824031849805955205 / 5070602400912917605986812821504"] by (simp add: roundTiesToEven_def Let_def)

lemma round_379: "toDouble (339258850178571 / 4503599627370496) = 339258850178571 / 4503599627370496"
  using toDouble_normal [of "-4" "339258850178571 / 4503599627370496"] by (simp add: roundTiesToEven_def Let_def)

lemma round_380: "toDouble (1926505613514027 / 4503599627370496) = 1926505613514027 / 4503599627370496"
  using toDouble_normal [of "-2" "1926505613514027 / 4503599627370496"] by (simp add: roundTiesToEven_def Let_def)

lemma round_381: "toDouble (5779516840542081 / 2251799813685248) = 5779516840542081 / 2251799813685248"
  using toDouble_normal [of "1" "5779516840542081 / 2251799813685248"] by (simp add: roundTiesToEven_def Let_def)

lemma round_382: "toDouble (4310821302445074101099263922619 / 10141204801825835211973625643008) = 7657556904030603 / 18014398509481984"
  using toDouble_normal [of "-2" "4310821302445074101099263922619 / 10141204801825835211973625643008"] by (simp add: roundTiesToEven_def Let_def)

lemma round_383: "toDouble (9014592304744887 / 18014398509481984) = 1126824038093111 / 2251799813685248"
  using toDouble_normal [of "-1" "9014592304744887 / 18014398509481984"] by (simp add: roundTiesToEven_def Let_def)

lemma round_384: "toDouble (287340129713743305 / 2251799813685248) = 4489689526777239 / 35184372088832"
  using toDouble_normal [of "6" "287340129713743305 / 2251799813685248"] by (simp add: roundTiesToEven_def Let_def)

lemma round_385: "toDouble (86511006795535605 / 4503599627370496) = 5406937924720975 / 281474976710656"
  using toDouble_normal [of "4" "86511006795535605 / 4503599627370496"] by (simp add: roundTiesToEven_def Let_def)

lemma round_386: "toDouble (288884969120806245 / 2251799813685248) = 2256913821256299 / 17592186044416"
  using toDouble_normal [of "7" "288884969120806245 / 2251799813685248"] by (simp add: roundTiesToEven_def Let_def)

lemma rgb_of_hsl_47:
  "hslToRgb \<lparr> h = 5271017252553323 / 17592186044416, s = 2602007052150831 / 35184372088832, l = 8140697855847403 / 281474976710656 \<rparr> =
     \<lparr> r = 128, g = 19, b = 128 \<rparr>"
  unfolding hslToRgb_def hue2rgb_def Let_def
  by (simp add: mathRound_def addD_def subD_def mulD_def divD_def toDouble_zero toDouble_minus
      round_182 round_196 round_198 round_199 round_200 round_356 round_357 round_364 round_365
      round_370 round_376 round_377 round_378 round_379 round_380 round_381 round_382 round_383
      round_384 round_385 round_386)

lemma gamma_19:
  "6512090 / 1000000000 \<le> gammaCorrect (19 / 255) \<and> gammaCorrect (19 / 255) \<le> 6512091 / 1000000000"
  by (rule gammaCorrect_between) (simp_all add: power_divide divide_le_eq le_divide_eq)

lemma lum_801380:
  "66134517 / 1000000000 \<le> luminanceOfRgb \<lparr> r = 128, g = 19, b = 128 \<rparr> \<and> luminanceOfRgb \<lparr> r = 128, g = 19, b = 128 \<rparr> \<le> 66134519 / 1000000000"
  using gamma_19 gamma_128 by (simp add: luminanceOfRgb_def)

lemma ratio_97A000_801380_large:
  "LARGE_TEXT_THRESHOLD \<le> ratioOfRgb \<lparr> r = 151, g = 160, b = 0 \<rparr> \<lparr> r = 128, g = 19, b = 128 \<rparr>"
  by (rule ratio_ge_from_bounds [OF lum_97A000 lum_801380]) (simp_all add: LARGE_TEXT_THRESHOLD_def NORMAL_TEXT_THRESHOLD_def EPSILON_def)

lemma canon_801380: "canonRgb \<lparr> r = 128, g = 19, b = 128 \<rparr> = \<lparr> r = 128, g = 19, b = 128 \<rparr>"
  by (simp add: canonRgb_def channelByte_def mathRound_def)

lemma tie_bg_darken_step_1:
  "searchBody \<lparr> h = 5271017252553323 / 17592186044416, s = 2602007052150831 / 35184372088832, l = 8140697855847403 / 140737488355328 \<rparr> \<lparr> r = 151, g = 160, b = 0 \<rparr> LARGE_TEXT_THRESHOLD False False
     \<lparr> minL = 0, maxL = 8140697855847403 / 140737488355328, bestRgb = \<lparr> r = 226, g = 68, b = 227 \<rparr>,
       bestRatio = ratioOfRgb \<lparr> r = 226, g = 68, b = 227 \<rparr> \<lparr> r = 151, g = 160, b = 0 \<rparr>, iterationCount = 0 \<rparr> =
   Inr \<lparr> minL = 8140697855847403 / 281474976710656, maxL = 8140697855847403 / 140737488355328, bestRgb = \<lparr> r = 128, g = 19, b = 128 \<rparr>,
       bestRatio = ratioOfRgb \<lparr> r = 151, g = 160, b = 0 \<rparr> \<lparr> r = 128, g = 19, b = 128 \<rparr>, iterationCount = Suc 0 \<rparr>"
  unfolding searchBody_def Let_def
  by (simp add: bindE_def contrastRatio_rgbToHex addD_def divD_def toDouble_zero
      round_374 round_375 rgb_of_hsl_47 canon_801380 canon_97A000 ratio_97A000_801380_large)

lemma round_387: "toDouble (24422093567542209 / 281474976710656) = 381595211992847 / 4398046511104"
  using toDouble_normal [of "6" "24422093567542209 / 281474976710656"] by (simp add: roundTiesToEven_def Let_def)

lemma round_388: "toDouble (381595211992847 / 8796093022208) = 381595211992847 / 8796093022208"
  using toDouble_normal [of "5" "381595211992847 / 8796093022208"] by (simp add: roundTiesToEven_def Let_def)

lemma round_389: "toDouble (381595211992847 / 879609302220800) = 7815069941613507 / 18014398509481984"
  using toDouble_normal [of "-2" "381595211992847 / 879609302220800"] by (simp add: roundTiesToEven_def Let_def)

lemma round_390: "toDouble (7653071995796472095549417865615 / 10141204801825835211973625643008) = 3398646695538897 / 4503599627370496"
  using toDouble_normal [of "-1" "7653071995796472095549417865615 / 10141204801825835211973625643008"] by (simp add: roundTiesToEven_def Let_def)

lemma round_391: "toDouble (7815069941613507 / 9007199254740992) = 7815069941613507 / 9007199254740992"
  using toDouble_normal [of "-1" "7815069941613507 / 9007199254740992"] by (simp add: roundTiesToEven_def Let_def)

lemma round_392: "toDouble (1017776550535713 / 9007199254740992) = 1017776550535713 / 9007199254740992"
  using toDouble_normal [of "-4" "1017776550535713 / 9007199254740992"] by (simp add: roundTiesToEven_def Let_def)

lemma round_393: "toDouble (5779516840542081 / 9007199254740992) = 5779516840542081 / 9007199254740992"
  using toDouble_normal [of "-1" "5779516840542081 / 9007199254740992"] by (simp add: roundTiesToEven_def Let_def)

lemma round_394: "toDouble (17338550521626243 / 4503599627370496) = 4334637630406561 / 1125899906842624"
  using toDouble_normal [of "1" "17338550521626243 / 4503599627370496"] by (simp add: roundTiesToEven_def Let_def)

lemma round_395: "toDouble (3233115976833805762294243834139 / 5070602400912917605986812821504) = 5743167678022953 / 9007199254740992"
  using toDouble_normal [of "-1" "3233115976833805762294243834139 / 5070602400912917605986812821504"] by (simp add: roundTiesToEven_def Let_def)

lemma round_396: "toDouble (3380472114279333 / 4503599627370496) = 3380472114279333 / 4503599627370496"
  using toDouble_normal [of "-1" "3380472114279333 / 4503599627370496"] by (simp add: roundTiesToEven_def Let_def)

lemma round_397: "toDouble (862020389141229915 / 4503599627370496) = 6734534290165859 / 35184372088832"
  using toDouble_normal [of "7" "862020389141229915 / 4503599627370496"] by (simp add: roundTiesToEven_def Let_def)

lemma round_398: "toDouble (259533020386606815 / 9007199254740992) = 8110406887081463 / 281474976710656"
  using toDouble_normal [of "4" "259533020386606815 / 9007199254740992"] by (simp add: roundTiesToEven_def Let_def)

lemma round_399: "toDouble (866654907362418735 / 4503599627370496) = 105792835371389 / 549755813888"
  using toDouble_normal [of "7" "866654907362418735 / 4503599627370496"] by (simp add: roundTiesToEven_def Let_def)

lemma rgb_of_hsl_48:
  "hslToRgb \<lparr> h = 5271017252553323 / 17592186044416, s = 2602007052150831 / 35184372088832, l = 381595211992847 / 8796093022208 \<rparr> =
     \<lparr> r = 191, g = 29, b = 192 \<rparr>"
  unfolding hslToRgb_def hue2rgb_def Let_def
  by (simp add: mathRound_def addD_def subD_def mulD_def divD_def toDouble_zero toDouble_minus
      round_196 round_198 round_199 round_200 round_356 round_357 round_364 round_365 round_370
      round_377 round_389 round_390 round_391 round_392 round_393 round_394 round_395 round_396
      round_397 round_398 round_399)

lemma gamma_191:
  "520995573 / 1000000000 \<le> gammaCorrect (191 / 255) \<and> gammaCorrect (191 / 255) \<le> 520995574 / 1000000000"
  by (rule gammaCorrect_between) (simp_all add: power_divide divide_le_eq le_divide_eq)

lemma gamma_29:
  "12286488 / 1000000000 \<le> gammaCorrect (29 / 255) \<and> gammaCorrect (29 / 255) \<le> 12286489 / 1000000000"
  by (rule gammaCorrect_between) (simp_all add: power_divide divide_le_eq le_divide_eq)

lemma lum_BF1DC0:
  "157608667 / 1000000000 \<le> luminanceOfRgb \<lparr> r = 191, g = 29, b = 192 \<rparr> \<and> luminanceOfRgb \<lparr> r = 191, g = 29, b = 192 \<rparr> \<le> 157608669 / 1000000000"
  using gamma_29 gamma_191 gamma_192 by (simp add: luminanceOfRgb_def)

lemma ratio_97A000_BF1DC0_large:
  "\<not> LARGE_TEXT_THRESHOLD \<le> ratioOfRgb \<lparr> r = 151, g = 160, b = 0 \<rparr> \<lparr> r = 191, g = 29, b = 192 \<rparr>"
  by (rule ratio_lt_from_bounds [OF lum_97A000 lum_BF1DC0]) (simp_all add: LARGE_TEXT_THRESHOLD_def NORMAL_TEXT_THRESHOLD_def EPSILON_def)

lemma canon_BF1DC0: "canonRgb \<lparr> r = 191, g = 29, b = 192 \<rparr> = \<lparr> r = 191, g = 29, b = 192 \<rparr>"
  by (simp add: canonRgb_def channelByte_def mathRound_def)

lemma tie_bg_darken_step_2:
  "searchBody \<lparr> h = 5271017252553323 / 17592186044416, s = 2602007052150831 / 35184372088832, l = 8140697855847403 / 140737488355328 \<rparr> \<lparr> r = 151, g = 160, b = 0 \<rparr> LARGE_TEXT_THRESHOLD False False
     \<lparr> minL = 8140697855847403 / 281474976710656, maxL = 8140697855847403 / 140737488355328, bestRgb = \<lparr> r = 128, g = 19, b = 128 \<rparr>,
       bestRatio = ratioOfRgb \<lparr> r = 151, g = 160, b = 0 \<rparr> \<lparr> r = 128, g = 19, b = 128 \<rparr>, iterationCount = Suc 0 \<rparr> =
   Inr \<lparr> minL = 8140697855847403 / 281474976710656, maxL = 381595211992847 / 8796093022208, bestRgb = \<lparr> r = 128, g = 19, b = 128 \<rparr>,
       bestRatio = ratioOfRgb \<lparr> r = 151, g = 160, b = 0 \<rparr> \<lparr> r = 128, g = 19, b = 128 \<rparr>, iterationCount = 2 \<rparr>"
  unfolding searchBody_def Let_def
  by (simp add: bindE_def contrastRatio_rgbToHex addD_def divD_def toDouble_zero
      round_387 round_388 rgb_of_hsl_48 canon_BF1DC0 canon_97A000 ratio_97A000_BF1DC0_large)

lemma round_400: "toDouble (4070348927923701 / 281474976710656) = 4070348927923701 / 281474976710656"
  using toDouble_normal [of "3" "4070348927923701 / 281474976710656"] by (simp add: roundTiesToEven_def Let_def)

lemma round_401: "toDouble (20351744639618507 / 281474976710656) = 5087936159904627 / 70368744177664"
  using toDouble_normal [of "6" "20351744639618507 / 281474976710656"] by (simp add: roundTiesToEven_def Let_def)

lemma round_402: "toDouble (5087936159904627 / 140737488355328) = 5087936159904627 / 140737488355328"
  using toDouble_normal [of "5" "5087936159904627 / 140737488355328"] by (simp add: roundTiesToEven_def Let_def)

lemma round_403: "toDouble (5087936159904627 / 14073748835532800) = 6512558284677923 / 18014398509481984"
  using toDouble_normal [of "-2" "5087936159904627 / 14073748835532800"] by (simp add: roundTiesToEven_def Let_def)

lemma round_404: "toDouble (6377559996497060569260055770735 / 10141204801825835211973625643008) = 5664411159231495 / 9007199254740992"
  using toDouble_normal [of "-1" "6377559996497060569260055770735 / 10141204801825835211973625643008"] by (simp add: roundTiesToEven_def Let_def)

lemma round_405: "toDouble (6512558284677923 / 9007199254740992) = 6512558284677923 / 9007199254740992"
  using toDouble_normal [of "-1" "6512558284677923 / 9007199254740992"] by (simp add: roundTiesToEven_def Let_def)

lemma round_406: "toDouble (212036781361607 / 2251799813685248) = 212036781361607 / 2251799813685248"
  using toDouble_normal [of "-4" "212036781361607 / 2251799813685248"] by (simp add: roundTiesToEven_def Let_def)

lemma round_407: "toDouble (4816264033785067 / 9007199254740992) = 4816264033785067 / 9007199254740992"
  using toDouble_normal [of "-1" "4816264033785067 / 9007199254740992"] by (simp add: roundTiesToEven_def Let_def)

lemma round_408: "toDouble (14448792101355201 / 4503599627370496) = 225762376583675 / 70368744177664"
  using toDouble_normal [of "1" "14448792101355201 / 4503599627370496"] by (simp add: roundTiesToEven_def Let_def)

lemma round_409: "toDouble (168391457126760677938284388825 / 316912650057057350374175801344) = 2392986532509563 / 4503599627370496"
  using toDouble_normal [of "-1" "168391457126760677938284388825 / 316912650057057350374175801344"] by (simp add: roundTiesToEven_def Let_def)

lemma round_410: "toDouble (2817060095232777 / 4503599627370496) = 2817060095232777 / 4503599627370496"
  using toDouble_normal [of "-1" "2817060095232777 / 4503599627370496"] by (simp add: roundTiesToEven_def Let_def)

lemma round_411: "toDouble (718350324284358135 / 4503599627370496) = 1403027977117887 / 8796093022208"
  using toDouble_normal [of "7" "718350324284358135 / 4503599627370496"] by (simp add: roundTiesToEven_def Let_def)

lemma round_412: "toDouble (54069379247209785 / 2251799813685248) = 6758672405901223 / 281474976710656"
  using toDouble_normal [of "4" "54069379247209785 / 2251799813685248"] by (simp add: roundTiesToEven_def Let_def)

lemma round_413: "toDouble (1444424845604031225 / 9007199254740992) = 5642284553140747 / 35184372088832"
  using toDouble_normal [of "7" "1444424845604031225 / 9007199254740992"] by (simp add: roundTiesToEven_def Let_def)

lemma rgb_of_hsl_49:
  "hslToRgb \<lparr> h = 5271017252553323 / 17592186044416, s = 2602007052150831 / 35184372088832, l = 5087936159904627 / 140737488355328 \<rparr> =
     \<lparr> r = 160, g = 24, b = 160 \<rparr>"
  unfolding hslToRgb_def hue2rgb_def Let_def
  by (simp add: mathRound_def addD_def subD_def mulD_def divD_def toDouble_zero toDouble_minus
      round_196 round_198 round_199 round_200 round_356 round_357 round_364 round_365 round_370
      round_377 round_403 round_404 round_405 round_406 round_407 round_408 round_409 round_410
      round_411 round_412 round_413)

lemma gamma_24:
  "9134058 / 1000000000 \<le> gammaCorrect (24 / 255) \<and> gammaCorrect (24 / 255) \<le> 9134059 / 1000000000"
  by (rule gammaCorrect_between) (simp_all add: power_divide divide_le_eq le_divide_eq)

lemma lum_A018A0:
  "106649162 / 1000000000 \<le> luminanceOfRgb \<lparr> r = 160, g = 24, b = 160 \<rparr> \<and> luminanceOfRgb \<lparr> r = 160, g = 24, b = 160 \<rparr> \<le> 106649164 / 1000000000"
  using gamma_24 gamma_160 by (simp add: luminanceOfRgb_def)

lemma ratio_97A000_A018A0_large:
  "\<not> LARGE_TEXT_THRESHOLD \<le> ratioOfRgb \<lparr> r = 151, g = 160, b = 0 \<rparr> \<lparr> r = 160, g = 24, b = 160 \<rparr>"
  by (rule ratio_lt_from_bounds [OF lum_97A000 lum_A018A0]) (simp_all add: LARGE_TEXT_THRESHOLD_def NORMAL_TEXT_THRESHOLD_def EPSILON_def)

lemma canon_A018A0: "canonRgb \<lparr> r = 160, g = 24, b = 160 \<rparr> = \<lparr> r = 160, g = 24, b = 160 \<rparr>"
  by (simp add: canonRgb_def channelByte_def mathRound_def)

lemma tie_bg_darken_step_3:
  "searchBody \<lparr> h = 5271017252553323 / 17592186044416, s = 2602007052150831 / 35184372088832, l = 8140697855847403 / 140737488355328 \<rparr> \<lparr> r = 151, g = 160, b = 0 \<rparr> LARGE_TEXT_THRESHOLD False False
     \<lparr> minL = 8140697855847403 / 281474976710656, maxL = 381595211992847 / 8796093022208, bestRgb = \<lparr> r = 128, g = 19, b = 128 \<rparr>,
       bestRatio = ratioOfRgb \<lparr> r = 151, g = 160, b = 0 \<rparr> \<lparr> r = 128, g = 19, b = 128 \<rparr>, iterationCount = 2 \<rparr> =
   Inr \<lparr> minL = 8140697855847403 / 281474976710656, maxL = 5087936159904627 / 140737488355328, bestRgb = \<lparr> r = 128, g = 19, b = 128 \<rparr>,
       bestRatio = ratioOfRgb \<lparr> r = 151, g = 160, b = 0 \<rparr> \<lparr> r = 128, g = 19, b = 128 \<rparr>, iterationCount = 3 \<rparr>"
  unfolding searchBody_def Let_def
  by (simp add: bindE_def contrastRatio_rgbToHex addD_def divD_def toDouble_zero
      round_401 round_402 rgb_of_hsl_49 canon_A018A0 canon_97A000 ratio_97A000_A018A0_large)

lemma round_414: "toDouble (2035174463961851 / 281474976710656) = 2035174463961851 / 281474976710656"
  using toDouble_normal [of "2" "2035174463961851 / 281474976710656"] by (simp add: roundTiesToEven_def Let_def)

lemma round_415: "toDouble (18316570175656657 / 281474976710656) = 1144785635978541 / 17592186044416"
  using toDouble_normal [of "6" "18316570175656657 / 281474976710656"] by (simp add: roundTiesToEven_def Let_def)

lemma round_416: "toDouble (1144785635978541 / 35184372088832) = 1144785635978541 / 35184372088832"
  using toDouble_normal [of "5" "1144785635978541 / 35184372088832"] by (simp add: roundTiesToEven_def Let_def)

lemma round_417: "toDouble (1144785635978541 / 3518437208883200) = 2930651228105065 / 9007199254740992"
  using toDouble_normal [of "-2" "1144785635978541 / 3518437208883200"] by (simp add: roundTiesToEven_def Let_def)

lemma round_418: "toDouble (2869901998423676913422146478925 / 5070602400912917605986812821504) = 5097970043308345 / 9007199254740992"
  using toDouble_normal [of "-1" "2869901998423676913422146478925 / 5070602400912917605986812821504"] by (simp add: roundTiesToEven_def Let_def)

lemma round_419: "toDouble (2930651228105065 / 4503599627370496) = 2930651228105065 / 4503599627370496"
  using toDouble_normal [of "-1" "2930651228105065 / 4503599627370496"] by (simp add: roundTiesToEven_def Let_def)

lemma round_420: "toDouble (763332412901785 / 9007199254740992) = 763332412901785 / 9007199254740992"
  using toDouble_normal [of "-4" "763332412901785 / 9007199254740992"] by (simp add: roundTiesToEven_def Let_def)

lemma round_421: "toDouble (135457425950205 / 281474976710656) = 135457425950205 / 281474976710656"
  using toDouble_normal [of "-2" "135457425950205 / 281474976710656"] by (simp add: roundTiesToEven_def Let_def)

lemma round_422: "toDouble (406372277850615 / 140737488355328) = 406372277850615 / 140737488355328"
  using toDouble_normal [of "1" "406372277850615 / 140737488355328"] by (simp add: roundTiesToEven_def Let_def)

lemma round_423: "toDouble (303104622828169220288911899885 / 633825300114114700748351602688) = 8614751517034427 / 18014398509481984"
  using toDouble_normal [of "-2" "303104622828169220288911899885 / 633825300114114700748351602688"] by (simp add: roundTiesToEven_def Let_def)

lemma round_424: "toDouble (10141416342837997 / 18014398509481984) = 2535354085709499 / 4503599627370496"
  using toDouble_normal [of "-1" "10141416342837997 / 18014398509481984"] by (simp add: roundTiesToEven_def Let_def)

lemma round_425: "toDouble (646515291855922245 / 4503599627370496) = 5050900717624393 / 35184372088832"
  using toDouble_normal [of "7" "646515291855922245 / 4503599627370496"] by (simp add: roundTiesToEven_def Let_def)

lemma round_426: "toDouble (194649765289955175 / 9007199254740992) = 6082805165311099 / 281474976710656"
  using toDouble_normal [of "4" "194649765289955175 / 9007199254740992"] by (simp add: roundTiesToEven_def Let_def)

lemma round_427: "toDouble (1299982361043627975 / 9007199254740992) = 317378506114167 / 2199023255552"
  using toDouble_normal [of "7" "1299982361043627975 / 9007199254740992"] by (simp add: roundTiesToEven_def Let_def)

lemma rgb_of_hsl_50:
  "hslToRgb \<lparr> h = 5271017252553323 / 17592186044416, s = 2602007052150831 / 35184372088832, l = 1144785635978541 / 35184372088832 \<rparr> =
     \<lparr> r = 144, g = 22, b = 144 \<rparr>"
  unfolding hslToRgb_def hue2rgb_def Let_def
  by (simp add: mathRound_def addD_def subD_def mulD_def divD_def toDouble_zero toDouble_minus
      round_196 round_198 round_199 round_200 round_356 round_357 round_364 round_365 round_370
      round_377 round_417 round_418 round_419 round_420 round_421 round_422 round_423 round_424
      round_425 round_426 round_427)

lemma gamma_144:
  "278894263 / 1000000000 \<le> gammaCorrect (144 / 255) \<and> gammaCorrect (144 / 255) \<le> 278894264 / 1000000000"
  by (rule gammaCorrect_between) (simp_all add: power_divide divide_le_eq le_divide_eq)

lemma gamma_22:
  "8023192 / 1000000000 \<le> gammaCorrect (22 / 255) \<and> gammaCorrect (22 / 255) \<le> 8023193 / 1000000000"
  by (rule gammaCorrect_between) (simp_all add: power_divide divide_le_eq le_divide_eq)

lemma lum_901690:
  "85167273 / 1000000000 \<le> luminanceOfRgb \<lparr> r = 144, g = 22, b = 144 \<rparr> \<and> luminanceOfRgb \<lparr> r = 144, g = 22, b = 144 \<rparr> \<le> 85167275 / 1000000000"
  using gamma_22 gamma_144 by (simp add: luminanceOfRgb_def)

lemma ratio_97A000_901690_large:
  "\<not> LARGE_TEXT_THRESHOLD \<le> ratioOfRgb \<lparr> r = 151, g = 160, b = 0 \<rparr> \<lparr> r = 144, g = 22, b = 144 \<rparr>"
  by (rule ratio_lt_from_bounds [OF lum_97A000 lum_901690]) (simp_all add: LARGE_TEXT_THRESHOLD_def NORMAL_TEXT_THRESHOLD_def EPSILON_def)

lemma canon_901690: "canonRgb \<lparr> r = 144, g = 22, b = 144 \<rparr> = \<lparr> r = 144, g = 22, b = 144 \<rparr>"
  by (simp add: canonRgb_def channelByte_def mathRound_def)

lemma tie_bg_darken_step_4:
  "searchBody \<lparr> h = 5271017252553323 / 17592186044416, s = 2602007052150831 / 35184372088832, l = 8140697855847403 / 140737488355328 \<rparr> \<lparr> r = 151, g = 160, b = 0 \<rparr> LARGE_TEXT_THRESHOLD False False
     \<lparr> minL = 8140697855847403 / 281474976710656, maxL = 5087936159904627 / 140737488355328, bestRgb = \<lparr> r = 128, g = 19, b = 128 \<rparr>,
       bestRatio = ratioOfRgb \<lparr> r = 151, g = 160, b = 0 \<rparr> \<lparr> r = 128, g = 19, b = 128 \<rparr>, iterationCount = 3 \<rparr> =
   Inr \<lparr> minL = 8140697855847403 / 281474976710656, maxL = 1144785635978541 / 35184372088832, bestRgb = \<lparr> r = 128, g = 19, b = 128 \<rparr>,
       bestRatio = ratioOfRgb \<lparr> r = 151, g = 160, b = 0 \<rparr> \<lparr> r = 128, g = 19, b = 128 \<rparr>, iterationCount = 4 \<rparr>"
  unfolding searchBody_def Let_def
  by (simp add: bindE_def contrastRatio_rgbToHex addD_def divD_def toDouble_zero
      round_415 round_416 rgb_of_hsl_50 canon_901690 canon_97A000 ratio_97A000_901690_large)

lemma round_428: "toDouble (1017587231980925 / 281474976710656) = 1017587231980925 / 281474976710656"
  using toDouble_normal [of "1" "1017587231980925 / 281474976710656"] by (simp add: roundTiesToEven_def Let_def)

lemma round_429: "toDouble (17298982943675731 / 281474976710656) = 4324745735918933 / 70368744177664"
  using toDouble_normal [of "5" "17298982943675731 / 281474976710656"] by (simp add: roundTiesToEven_def Let_def)

lemma round_430: "toDouble (4324745735918933 / 140737488355328) = 4324745735918933 / 140737488355328"
  using toDouble_normal [of "4" "4324745735918933 / 140737488355328"] by (simp add: roundTiesToEven_def Let_def)

lemma round_431: "toDouble (4324745735918933 / 14073748835532800) = 2767837270988117 / 9007199254740992"
  using toDouble_normal [of "-2" "4324745735918933 / 14073748835532800"] by (simp add: roundTiesToEven_def Let_def)

lemma round_432: "toDouble (2710462998511250472635976217065 / 5070602400912917605986812821504) = 4814749485346771 / 9007199254740992"
  using toDouble_normal [of "-1" "2710462998511250472635976217065 / 5070602400912917605986812821504"] by (simp add: roundTiesToEven_def Let_def)

lemma round_433: "toDouble (2767837270988117 / 4503599627370496) = 2767837270988117 / 4503599627370496"
  using toDouble_normal [of "-1" "2767837270988117 / 4503599627370496"] by (simp add: roundTiesToEven_def Let_def)

lemma round_434: "toDouble (720925056629463 / 9007199254740992) = 720925056629463 / 9007199254740992"
  using toDouble_normal [of "-4" "720925056629463 / 9007199254740992"] by (simp add: roundTiesToEven_def Let_def)

lemma round_435: "toDouble (1023456107179327 / 2251799813685248) = 1023456107179327 / 2251799813685248"
  using toDouble_normal [of "-2" "1023456107179327 / 2251799813685248"] by (simp add: roundTiesToEven_def Let_def)

lemma round_436: "toDouble (3070368321537981 / 1125899906842624) = 3070368321537981 / 1125899906842624"
  using toDouble_normal [of "1" "3070368321537981 / 1125899906842624"] by (simp add: roundTiesToEven_def Let_def)

lemma round_437: "toDouble (2290123816923945965839851256719 / 5070602400912917605986812821504) = 8136154210532517 / 18014398509481984"
  using toDouble_normal [of "-2" "2290123816923945965839851256719 / 5070602400912917605986812821504"] by (simp add: roundTiesToEven_def Let_def)

lemma round_438: "toDouble (9578004323791443 / 18014398509481984) = 2394501080947861 / 4503599627370496"
  using toDouble_normal [of "-1" "9578004323791443 / 18014398509481984"] by (simp add: roundTiesToEven_def Let_def)

lemma round_439: "toDouble (610597775641704555 / 4503599627370496) = 4770295122200817 / 35184372088832"
  using toDouble_normal [of "7" "610597775641704555 / 4503599627370496"] by (simp add: roundTiesToEven_def Let_def)

lemma round_440: "toDouble (183835889440513065 / 9007199254740992) = 5744871545016033 / 281474976710656"
  using toDouble_normal [of "4" "183835889440513065 / 9007199254740992"] by (simp add: roundTiesToEven_def Let_def)

lemma round_441: "toDouble (1227761118763426605 / 9007199254740992) = 4795941870169635 / 35184372088832"
  using toDouble_normal [of "7" "1227761118763426605 / 9007199254740992"] by (simp add: roundTiesToEven_def Let_def)

lemma rgb_of_hsl_51:
  "hslToRgb \<lparr> h = 5271017252553323 / 17592186044416, s = 2602007052150831 / 35184372088832, l = 4324745735918933 / 140737488355328 \<rparr> =
     \<lparr> r = 136, g = 20, b = 136 \<rparr>"
  unfolding hslToRgb_def hue2rgb_def Let_def
  by (simp add: mathRound_def addD_def subD_def mulD_def divD_def toDouble_zero toDouble_minus
      round_196 round_198 round_199 round_200 round_356 round_357 round_364 round_365 round_370
      round_377 round_431 round_432 round_433 round_434 round_435 round_436 round_437 round_438
      round_439 round_440 round_441)

lemma gamma_136:
  "246201326 / 1000000000 \<le> gammaCorrect (136 / 255) \<and> gammaCorrect (136 / 255) \<le> 246201327 / 1000000000"
  by (rule gammaCorrect_between) (simp_all add: power_divide divide_le_eq le_divide_eq)

lemma gamma_20:
  "6995410 / 1000000000 \<le> gammaCorrect (20 / 255) \<and> gammaCorrect (20 / 255) \<le> 6995411 / 1000000000"
  by (rule gammaCorrect_between) (simp_all add: power_divide divide_le_eq le_divide_eq)

lemma lum_881488:
  "75121254 / 1000000000 \<le> luminanceOfRgb \<lparr> r = 136, g = 20, b = 136 \<rparr> \<and> luminanceOfRgb \<lparr> r = 136, g = 20, b = 136 \<rparr> \<le> 75121256 / 1000000000"
  using gamma_20 gamma_136 by (simp add: luminanceOfRgb_def)

lemma ratio_97A000_881488_large:
  "\<not> LARGE_TEXT_THRESHOLD \<le> ratioOfRgb \<lparr> r = 151, g = 160, b = 0 \<rparr> \<lparr> r = 136, g = 20, b = 136 \<rparr>"
  by (rule ratio_lt_from_bounds [OF lum_97A000 lum_881488]) (simp_all add: LARGE_TEXT_THRESHOLD_def NORMAL_TEXT_THRESHOLD_def EPSILON_def)

lemma canon_881488: "canonRgb \<lparr> r = 136, g = 20, b = 136 \<rparr> = \<lparr> r = 136, g = 20, b = 136 \<rparr>"
  by (simp add: canonRgb_def channelByte_def mathRound_def)

lemma tie_bg_darken_step_5:
  "searchBody \<lparr> h = 5271017252553323 / 17592186044416, s = 2602007052150831 / 35184372088832, l = 8140697855847403 / 140737488355328 \<rparr> \<lparr> r = 151, g = 160, b = 0 \<rparr> LARGE_TEXT_THRESHOLD False False
     \<lparr> minL = 8140697855847403 / 281474976710656, maxL = 1144785635978541 / 35184372088832, bestRgb = \<lparr> r = 128, g = 19, b = 128 \<rparr>,
       bestRatio = ratioOfRgb \<lparr> r = 151, g = 160, b = 0 \<rparr> \<lparr> r = 128, g = 19, b = 128 \<rparr>, iterationCount = 4 \<rparr> =
   Inr \<lparr> minL = 8140697855847403 / 281474976710656, maxL = 4324745735918933 / 140737488355328, bestRgb = \<lparr> r = 128, g = 19, b = 128 \<rparr>,
       bestRatio = ratioOfRgb \<lparr> r = 151, g = 160, b = 0 \<rparr> \<lparr> r = 128, g = 19, b = 128 \<rparr>, iterationCount = 5 \<rparr>"
  unfolding searchBody_def Let_def
  by (simp add: bindE_def contrastRatio_rgbToHex addD_def divD_def toDouble_zero
      round_429 round_430 rgb_of_hsl_51 canon_881488 canon_97A000 ratio_97A000_881488_large)

lemma round_442: "toDouble (508793615990463 / 281474976710656) = 508793615990463 / 281474976710656"
  using toDouble_normal [of "0" "508793615990463 / 281474976710656"] by (simp add: roundTiesToEven_def Let_def)

lemma round_443: "toDouble (16790189327685269 / 281474976710656) = 4197547331921317 / 70368744177664"
  using toDouble_normal [of "5" "16790189327685269 / 281474976710656"] by (simp add: roundTiesToEven_def Let_def)

lemma round_444: "toDouble (4197547331921317 / 140737488355328) = 4197547331921317 / 140737488355328"
  using toDouble_normal [of "4" "4197547331921317 / 140737488355328"] by (simp add: roundTiesToEven_def Let_def)

lemma round_445: "toDouble (4197547331921317 / 14073748835532800) = 2686430292429643 / 9007199254740992"
  using toDouble_normal [of "-2" "4197547331921317 / 14073748835532800"] by (simp add: roundTiesToEven_def Let_def)

lemma round_446: "toDouble (2630743498555037252242891086135 / 5070602400912917605986812821504) = 4673139206365983 / 9007199254740992"
  using toDouble_normal [of "-1" "2630743498555037252242891086135 / 5070602400912917605986812821504"] by (simp add: roundTiesToEven_def Let_def)

lemma round_447: "toDouble (2686430292429643 / 4503599627370496) = 2686430292429643 / 4503599627370496"
  using toDouble_normal [of "-1" "2686430292429643 / 4503599627370496"] by (simp add: roundTiesToEven_def Let_def)

lemma round_448: "toDouble (699721378493303 / 9007199254740992) = 699721378493303 / 9007199254740992"
  using toDouble_normal [of "-4" "699721378493303 / 9007199254740992"] by (simp add: roundTiesToEven_def Let_def)

lemma round_449: "toDouble (496677228484085 / 1125899906842624) = 496677228484085 / 1125899906842624"
  using toDouble_normal [of "-2" "496677228484085 / 1125899906842624"] by (simp add: roundTiesToEven_def Let_def)

lemma round_450: "toDouble (1490031685452255 / 562949953421312) = 1490031685452255 / 562949953421312"
  using toDouble_normal [of "1" "1490031685452255 / 562949953421312"] by (simp add: roundTiesToEven_def Let_def)

lemma round_451: "toDouble (1111383617036620474392676966245 / 2535301200456458802993406410752) = 3948427778640779 / 9007199254740992"
  using toDouble_normal [of "-2" "1111383617036620474392676966245 / 2535301200456458802993406410752"] by (simp add: roundTiesToEven_def Let_def)

lemma round_452: "toDouble (2324074578567041 / 4503599627370496) = 2324074578567041 / 4503599627370496"
  using toDouble_normal [of "-1" "2324074578567041 / 4503599627370496"] by (simp add: roundTiesToEven_def Let_def)

lemma round_453: "toDouble (592639017534595455 / 4503599627370496) = 4629992324489027 / 35184372088832"
  using toDouble_normal [of "7" "592639017534595455 / 4503599627370496"] by (simp add: roundTiesToEven_def Let_def)

lemma round_454: "toDouble (178428951515792265 / 9007199254740992) = 1393976183717127 / 70368744177664"
  using toDouble_normal [of "4" "178428951515792265 / 9007199254740992"] by (simp add: roundTiesToEven_def Let_def)

lemma round_455: "toDouble (1191650497623325665 / 9007199254740992) = 1163721189085279 / 8796093022208"
  using toDouble_normal [of "7" "1191650497623325665 / 9007199254740992"] by (simp add: roundTiesToEven_def Let_def)

lemma rgb_of_hsl_52:
  "hslToRgb \<lparr> h = 5271017252553323 / 17592186044416, s = 2602007052150831 / 35184372088832, l = 4197547331921317 / 140737488355328 \<rparr> =
     \<lparr> r = 132, g = 20, b = 132 \<rparr>"
  unfolding hslToRgb_def hue2rgb_def Let_def
  by (simp add: mathRound_def addD_def subD_def mulD_def divD_def toDouble_zero toDouble_minus
      round_196 round_198 round_199 round_200 round_356 round_357 round_364 round_365 round_370
      round_377 round_445 round_446 round_447 round_448 round_449 round_450 round_451 round_452
      round_453 round_454 round_455)

lemma gamma_132:
  "230740048 / 1000000000 \<le> gammaCorrect (132 / 255) \<and> gammaCorrect (132 / 255) \<le> 230740049 / 1000000000"
  by (rule gammaCorrect_between) (simp_all add: power_divide divide_le_eq le_divide_eq)

lemma lum_841484:
  "70717882 / 1000000000 \<le> luminanceOfRgb \<lparr> r = 132, g = 20, b = 132 \<rparr> \<and> luminanceOfRgb \<lparr> r = 132, g = 20, b = 132 \<rparr> \<le> 70717884 / 1000000000"
  using gamma_20 gamma_132 by (simp add: luminanceOfRgb_def)

lemma ratio_97A000_841484_large:
  "LARGE_TEXT_THRESHOLD \<le> ratioOfRgb \<lparr> r = 151, g = 160, b = 0 \<rparr> \<lparr> r = 132, g = 20, b = 132 \<rparr>"
  by (rule ratio_ge_from_bounds [OF lum_97A000 lum_841484]) (simp_all add: LARGE_TEXT_THRESHOLD_def NORMAL_TEXT_THRESHOLD_def EPSILON_def)

lemma canon_841484: "canonRgb \<lparr> r = 132, g = 20, b = 132 \<rparr> = \<lparr> r = 132, g = 20, b = 132 \<rparr>"
  by (simp add: canonRgb_def channelByte_def mathRound_def)

lemma tie_bg_darken_step_6:
  "searchBody \<lparr> h = 5271017252553323 / 17592186044416, s = 2602007052150831 / 35184372088832, l = 8140697855847403 / 140737488355328 \<rparr> \<lparr> r = 151, g = 160, b = 0 \<rparr> LARGE_TEXT_THRESHOLD False False
     \<lparr> minL = 8140697855847403 / 281474976710656, maxL = 4324745735918933 / 140737488355328, bestRgb = \<lparr> r = 128, g = 19, b = 128 \<rparr>,
       bestRatio = ratioOfRgb \<lparr> r = 151, g = 160, b = 0 \<rparr> \<lparr> r = 128, g = 19, b = 128 \<rparr>, iterationCount = 5 \<rparr> =
   Inr \<lparr> minL = 4197547331921317 / 140737488355328, maxL = 4324745735918933 / 140737488355328, bestRgb = \<lparr> r = 132, g = 20, b = 132 \<rparr>,
       bestRatio = ratioOfRgb \<lparr> r = 151, g = 160, b = 0 \<rparr> \<lparr> r = 132, g = 20, b = 132 \<rparr>, iterationCount = 6 \<rparr>"
  unfolding searchBody_def Let_def
  by (simp add: bindE_def contrastRatio_rgbToHex addD_def divD_def toDouble_zero
      round_443 round_444 rgb_of_hsl_52 canon_841484 canon_97A000 ratio_97A000_841484_large)

lemma round_456: "toDouble (7949900249851 / 8796093022208) = 7949900249851 / 8796093022208"
  using toDouble_normal [of "-1" "7949900249851 / 8796093022208"] by (simp add: roundTiesToEven_def Let_def)

lemma round_457: "toDouble (4261146533920125 / 70368744177664) = 4261146533920125 / 70368744177664"
  using toDouble_normal [of "5" "4261146533920125 / 70368744177664"] by (simp add: roundTiesToEven_def Let_def)

lemma round_458: "toDouble (4261146533920125 / 140737488355328) = 4261146533920125 / 140737488355328"
  using toDouble_normal [of "4" "4261146533920125 / 140737488355328"] by (simp add: roundTiesToEven_def Let_def)

lemma round_459: "toDouble (170445861356805 / 562949953421312) = 170445861356805 / 562949953421312"
  using toDouble_normal [of "-2" "170445861356805 / 562949953421312"] by (simp add: roundTiesToEven_def Let_def)

lemma round_460: "toDouble (166912703033321491402464603225 / 316912650057057350374175801344) = 4743944345856377 / 9007199254740992"
  using toDouble_normal [of "-1" "166912703033321491402464603225 / 316912650057057350374175801344"] by (simp add: roundTiesToEven_def Let_def)

lemma round_461: "toDouble (170445861356805 / 281474976710656) = 170445861356805 / 281474976710656"
  using toDouble_normal [of "-1" "170445861356805 / 281474976710656"] by (simp add: roundTiesToEven_def Let_def)

lemma round_462: "toDouble (710323217561383 / 9007199254740992) = 710323217561383 / 9007199254740992"
  using toDouble_normal [of "-4" "710323217561383 / 9007199254740992"] by (simp add: roundTiesToEven_def Let_def)

lemma round_463: "toDouble (2016810564147497 / 4503599627370496) = 2016810564147497 / 4503599627370496"
  using toDouble_normal [of "-2" "2016810564147497 / 4503599627370496"] by (simp add: roundTiesToEven_def Let_def)

lemma round_464: "toDouble (6050431692442491 / 2251799813685248) = 6050431692442491 / 2251799813685248"
  using toDouble_normal [of "1" "6050431692442491 / 2251799813685248"] by (simp add: roundTiesToEven_def Let_def)

lemma round_465: "toDouble (4512891050997186914625205189209 / 10141204801825835211973625643008) = 8016504883907037 / 18014398509481984"
  using toDouble_normal [of "-2" "4512891050997186914625205189209 / 10141204801825835211973625643008"] by (simp add: roundTiesToEven_def Let_def)

lemma round_466: "toDouble (9437151319029803 / 18014398509481984) = 2359287829757451 / 4503599627370496"
  using toDouble_normal [of "-1" "9437151319029803 / 18014398509481984"] by (simp add: roundTiesToEven_def Let_def)

lemma round_467: "toDouble (601618396588150005 / 4503599627370496) = 2350071861672461 / 17592186044416"
  using toDouble_normal [of "7" "601618396588150005 / 4503599627370496"] by (simp add: roundTiesToEven_def Let_def)

lemma round_468: "toDouble (181132420478152665 / 9007199254740992) = 5660388139942271 / 281474976710656"
  using toDouble_normal [of "4" "181132420478152665 / 9007199254740992"] by (simp add: roundTiesToEven_def Let_def)

lemma round_469: "toDouble (1209705808193376135 / 9007199254740992) = 295338332078461 / 2199023255552"
  using toDouble_normal [of "7" "1209705808193376135 / 9007199254740992"] by (simp add: roundTiesToEven_def Let_def)

lemma rgb_of_hsl_53:
  "hslToRgb \<lparr> h = 5271017252553323 / 17592186044416, s = 2602007052150831 / 35184372088832, l = 4261146533920125 / 140737488355328 \<rparr> =
     \<lparr> r = 134, g = 20, b = 134 \<rparr>"
  unfolding hslToRgb_def hue2rgb_def Let_def
  by (simp add: mathRound_def addD_def subD_def mulD_def divD_def toDouble_zero toDouble_minus
      round_196 round_198 round_199 round_200 round_356 round_357 round_364 round_365 round_370
      round_377 round_459 round_460 round_461 round_462 round_463 round_464 round_465 round_466
      round_467 round_468 round_469)

lemma gamma_134:
  "238397573 / 1000000000 \<le> gammaCorrect (134 / 255) \<and> gammaCorrect (134 / 255) \<le> 238397574 / 1000000000"
  by (rule gammaCorrect_between) (simp_all add: power_divide divide_le_eq le_divide_eq)

lemma lum_861486:
  "72898746 / 1000000000 \<le> luminanceOfRgb \<lparr> r = 134, g = 20, b = 134 \<rparr> \<and> luminanceOfRgb \<lparr> r = 134, g = 20, b = 134 \<rparr> \<le> 72898748 / 1000000000"
  using gamma_20 gamma_134 by (simp add: luminanceOfRgb_def)

lemma ratio_97A000_861486_large:
  "\<not> LARGE_TEXT_THRESHOLD \<le> ratioOfRgb \<lparr> r = 151, g = 160, b = 0 \<rparr> \<lparr> r = 134, g = 20, b = 134 \<rparr>"
  by (rule ratio_lt_from_bounds [OF lum_97A000 lum_861486]) (simp_all add: LARGE_TEXT_THRESHOLD_def NORMAL_TEXT_THRESHOLD_def EPSILON_def)

lemma canon_861486: "canonRgb \<lparr> r = 134, g = 20, b = 134 \<rparr> = \<lparr> r = 134, g = 20, b = 134 \<rparr>"
  by (simp add: canonRgb_def channelByte_def mathRound_def)

lemma tie_bg_darken_step_7:
  "searchBody \<lparr> h = 5271017252553323 / 17592186044416, s = 2602007052150831 / 35184372088832, l = 8140697855847403 / 140737488355328 \<rparr> \<lparr> r = 151, g = 160, b = 0 \<rparr> LARGE_TEXT_THRESHOLD False False
     \<lparr> minL = 4197547331921317 / 140737488355328, maxL = 4324745735918933 / 140737488355328, bestRgb = \<lparr> r = 132, g = 20, b = 132 \<rparr>,
       bestRatio = ratioOfRgb \<lparr> r = 151, g = 160, b = 0 \<rparr> \<lparr> r = 132, g = 20, b = 132 \<rparr>, iterationCount = 6 \<rparr> =
   Inr \<lparr> minL = 4197547331921317 / 140737488355328, maxL = 4261146533920125 / 140737488355328, bestRgb = \<lparr> r = 132, g = 20, b = 132 \<rparr>,
       bestRatio = ratioOfRgb \<lparr> r = 151, g = 160, b = 0 \<rparr> \<lparr> r = 132, g = 20, b = 132 \<rparr>, iterationCount = 7 \<rparr>"
  unfolding searchBody_def Let_def
  by (simp add: bindE_def contrastRatio_rgbToHex addD_def divD_def toDouble_zero
      round_457 round_458 rgb_of_hsl_53 canon_861486 canon_97A000 ratio_97A000_861486_large)

lemma round_470: "toDouble (7949900249851 / 17592186044416) = 7949900249851 / 17592186044416"
  using toDouble_normal [of "-2" "7949900249851 / 17592186044416"] by (simp add: roundTiesToEven_def Let_def)

lemma tie_bg_darken_loop:
  "searchLoop 7 \<lparr> h = 5271017252553323 / 17592186044416, s = 2602007052150831 / 35184372088832, l = 8140697855847403 / 140737488355328 \<rparr> \<lparr> r = 151, g = 160, b = 0 \<rparr> LARGE_TEXT_THRESHOLD False False
     \<lparr> minL = 0, maxL = 8140697855847403 / 140737488355328, bestRgb = \<lparr> r = 226, g = 68, b = 227 \<rparr>,
       bestRatio = ratioOfRgb \<lparr> r = 226, g = 68, b = 227 \<rparr> \<lparr> r = 151, g = 160, b = 0 \<rparr>, iterationCount = 0 \<rparr> =
   Inr \<lparr> minL = 4197547331921317 / 140737488355328, maxL = 4261146533920125 / 140737488355328, bestRgb = \<lparr> r = 132, g = 20, b = 132 \<rparr>,
       bestRatio = ratioOfRgb \<lparr> r = 151, g = 160, b = 0 \<rparr> \<lparr> r = 132, g = 20, b = 132 \<rparr>, iterationCount = 7 \<rparr>"
  by (simp add: searchLoop_numeral bindE_def subD_def toDouble_zero toDouble_minus
      round_15 round_375 round_400 round_414 round_428 round_442 round_456 round_470
      tie_bg_darken_step_1 tie_bg_darken_step_2 tie_bg_darken_step_3 tie_bg_darken_step_4
      tie_bg_darken_step_5 tie_bg_darken_step_6 tie_bg_darken_step_7)

lemma tie_bg_darken_search:
  "binarySearchLightness \<lparr> h = 5271017252553323 / 17592186044416, s = 2602007052150831 / 35184372088832, l = 8140697855847403 / 140737488355328 \<rparr> \<lparr> r = 151, g = 160, b = 0 \<rparr> LARGE_TEXT_THRESHOLD False False 7 =
   Inr \<lparr> rgb = \<lparr> r = 132, g = 20, b = 132 \<rparr>, ratio = ratioOfRgb \<lparr> r = 151, g = 160, b = 0 \<rparr> \<lparr> r = 132, g = 20, b = 132 \<rparr>, iterations = 7 \<rparr>"
  unfolding binarySearchLightness_def Let_def
  by (simp add: bindE_def contrastRatio_rgbToHex rgb_of_hsl_46 canon_E244E3 canon_97A000 tie_bg_darken_loop)

lemma round_471: "toDouble (22214446691380203 / 140737488355328) = 5553611672845051 / 35184372088832"
  using toDouble_normal [of "7" "22214446691380203 / 140737488355328"] by (simp add: roundTiesToEven_def Let_def)

lemma round_472: "toDouble (5553611672845051 / 70368744177664) = 5553611672845051 / 70368744177664"
  using toDouble_normal [of "6" "5553611672845051 / 70368744177664"] by (simp add: roundTiesToEven_def Let_def)

lemma round_473: "toDouble (5553611672845051 / 7036874417766400) = 7108622941241665 / 9007199254740992"
  using toDouble_normal [of "-1" "5553611672845051 / 7036874417766400"] by (simp add: roundTiesToEven_def Let_def)

lemma round_474: "toDouble (860610062171737 / 562949953421312) = 860610062171737 / 562949953421312"
  using toDouble_normal [of "0" "860610062171737 / 562949953421312"] by (simp add: roundTiesToEven_def Let_def)

lemma round_475: "toDouble (47351518781931503803960065181455 / 81129638414606681695789005144064) = 2628537320133545 / 4503599627370496"
  using toDouble_normal [of "-1" "47351518781931503803960065181455 / 81129638414606681695789005144064"] by (simp add: roundTiesToEven_def Let_def)

lemma round_476: "toDouble (4256343177240351 / 4503599627370496) = 4256343177240351 / 4503599627370496"
  using toDouble_normal [of "-1" "4256343177240351 / 4503599627370496"] by (simp add: roundTiesToEven_def Let_def)

lemma round_477: "toDouble (7108622941241665 / 4503599627370496) = 7108622941241665 / 4503599627370496"
  using toDouble_normal [of "0" "7108622941241665 / 4503599627370496"] by (simp add: roundTiesToEven_def Let_def)

lemma round_478: "toDouble (1426139882000657 / 2251799813685248) = 1426139882000657 / 2251799813685248"
  using toDouble_normal [of "-1" "1426139882000657 / 2251799813685248"] by (simp add: roundTiesToEven_def Let_def)

lemma round_479: "toDouble (1404063413239037 / 4503599627370496) = 1404063413239037 / 4503599627370496"
  using toDouble_normal [of "-2" "1404063413239037 / 4503599627370496"] by (simp add: roundTiesToEven_def Let_def)

lemma round_480: "toDouble (4212190239717111 / 2251799813685248) = 4212190239717111 / 2251799813685248"
  using toDouble_normal [of "0" "4212190239717111 / 2251799813685248"] by (simp add: roundTiesToEven_def Let_def)

lemma round_481: "toDouble (3141785017036241280937194308589 / 10141204801825835211973625643008) = 697616412867195 / 2251799813685248"
  using toDouble_normal [of "-2" "3141785017036241280937194308589 / 10141204801825835211973625643008"] by (simp add: roundTiesToEven_def Let_def)

lemma round_482: "toDouble (530939073716963 / 562949953421312) = 530939073716963 / 562949953421312"
  using toDouble_normal [of "-1" "530939073716963 / 562949953421312"] by (simp add: roundTiesToEven_def Let_def)

lemma round_483: "toDouble (135389463797825565 / 562949953421312) = 4230920743682049 / 17592186044416"
  using toDouble_normal [of "7" "135389463797825565 / 562949953421312"] by (simp add: roundTiesToEven_def Let_def)

lemma round_484: "toDouble (363665669910167535 / 2251799813685248) = 323 / 2"
  using toDouble_normal [of "7" "363665669910167535 / 2251799813685248"] by (simp add: roundTiesToEven_def Let_def)

lemma round_485: "toDouble (1085367510196289505 / 4503599627370496) = 241"
  using toDouble_normal [of "7" "1085367510196289505 / 4503599627370496"] by (simp add: roundTiesToEven_def Let_def)

lemma rgb_of_hsl_54:
  "hslToRgb \<lparr> h = 5271017252553323 / 17592186044416, s = 2602007052150831 / 35184372088832, l = 5553611672845051 / 70368744177664 \<rparr> =
     \<lparr> r = 241, g = 162, b = 241 \<rparr>"
  unfolding hslToRgb_def hue2rgb_def Let_def
  by (simp add: mathRound_def addD_def subD_def mulD_def divD_def toDouble_zero toDouble_minus
      round_196 round_198 round_199 round_200 round_356 round_357 round_364 round_365 round_370
      round_473 round_474 round_475 round_476 round_477 round_478 round_479 round_480 round_481
      round_482 round_483 round_484 round_485)

lemma gamma_162:
  "361306779 / 1000000000 \<le> gammaCorrect (162 / 255) \<and> gammaCorrect (162 / 255) \<le> 361306780 / 1000000000"
  by (rule gammaCorrect_between) (simp_all add: power_divide divide_le_eq le_divide_eq)

lemma lum_F1A2F1:
  "508923066 / 1000000000 \<le> luminanceOfRgb \<lparr> r = 241, g = 162, b = 241 \<rparr> \<and> luminanceOfRgb \<lparr> r = 241, g = 162, b = 241 \<rparr> \<le> 508923068 / 1000000000"
  using gamma_162 gamma_241 by (simp add: luminanceOfRgb_def)

lemma ratio_97A000_F1A2F1_large:
  "\<not> LARGE_TEXT_THRESHOLD \<le> ratioOfRgb \<lparr> r = 151, g = 160, b = 0 \<rparr> \<lparr> r = 241, g = 162, b = 241 \<rparr>"
  by (rule ratio_lt_from_bounds [OF lum_97A000 lum_F1A2F1]) (simp_all add: LARGE_TEXT_THRESHOLD_def NORMAL_TEXT_THRESHOLD_def EPSILON_def)

lemma canon_F1A2F1: "canonRgb \<lparr> r = 241, g = 162, b = 241 \<rparr> = \<lparr> r = 241, g = 162, b = 241 \<rparr>"
  by (simp add: canonRgb_def channelByte_def mathRound_def)

lemma tie_bg_lighten_step_1:
  "searchBody \<lparr> h = 5271017252553323 / 17592186044416, s = 2602007052150831 / 35184372088832, l = 8140697855847403 / 140737488355328 \<rparr> \<lparr> r = 151, g = 160, b = 0 \<rparr> LARGE_TEXT_THRESHOLD False True
     \<lparr> minL = 8140697855847403 / 140737488355328, maxL = 100, bestRgb = \<lparr> r = 226, g = 68, b = 227 \<rparr>,
       bestRatio = ratioOfRgb \<lparr> r = 226, g = 68, b = 227 \<rparr> \<lparr> r = 151, g = 160, b = 0 \<rparr>, iterationCount = 0 \<rparr> =
   Inr \<lparr> minL = 5553611672845051 / 70368744177664, maxL = 100, bestRgb = \<lparr> r = 226, g = 68, b = 227 \<rparr>,
       bestRatio = ratioOfRgb \<lparr> r = 226, g = 68, b = 227 \<rparr> \<lparr> r = 151, g = 160, b = 0 \<rparr>, iterationCount = Suc 0 \<rparr>"
  unfolding searchBody_def Let_def
  by (simp add: bindE_def contrastRatio_rgbToHex addD_def divD_def toDouble_zero
      round_471 round_472 rgb_of_hsl_54 canon_F1A2F1 canon_97A000 ratio_97A000_F1A2F1_large)

lemma round_486: "toDouble (1483262744921349 / 70368744177664) = 1483262744921349 / 70368744177664"
  using toDouble_normal [of "4" "1483262744921349 / 70368744177664"] by (simp add: roundTiesToEven_def Let_def)

lemma round_487: "toDouble (12590486090611451 / 70368744177664) = 3147621522652863 / 17592186044416"
  using toDouble_normal [of "7" "12590486090611451 / 70368744177664"] by (simp add: roundTiesToEven_def Let_def)

lemma round_488: "toDouble (3147621522652863 / 35184372088832) = 3147621522652863 / 35184372088832"
  using toDouble_normal [of "6" "3147621522652863 / 35184372088832"] by (simp add: roundTiesToEven_def Let_def)

lemma round_489: "toDouble (3147621522652863 / 3518437208883200) = 8057911097991329 / 9007199254740992"
  using toDouble_normal [of "-1" "3147621522652863 / 3518437208883200"] by (simp add: roundTiesToEven_def Let_def)

lemma round_490: "toDouble (919940571968591 / 562949953421312) = 919940571968591 / 562949953421312"
  using toDouble_normal [of "0" "919940571968591 / 562949953421312"] by (simp add: roundTiesToEven_def Let_def)

lemma round_491: "toDouble (53674858246599379836235494372783 / 81129638414606681695789005144064) = 5959106346886609 / 9007199254740992"
  using toDouble_normal [of "-1" "53674858246599379836235494372783 / 81129638414606681695789005144064"] by (simp add: roundTiesToEven_def Let_def)

lemma round_492: "toDouble (8759942804610847 / 9007199254740992) = 8759942804610847 / 9007199254740992"
  using toDouble_normal [of "-1" "8759942804610847 / 9007199254740992"] by (simp add: roundTiesToEven_def Let_def)

lemma round_493: "toDouble (8057911097991329 / 4503599627370496) = 8057911097991329 / 4503599627370496"
  using toDouble_normal [of "0" "8057911097991329 / 4503599627370496"] by (simp add: roundTiesToEven_def Let_def)

lemma round_494: "toDouble (7355879391371811 / 9007199254740992) = 7355879391371811 / 9007199254740992"
  using toDouble_normal [of "-1" "7355879391371811 / 9007199254740992"] by (simp add: roundTiesToEven_def Let_def)

lemma round_495: "toDouble (351015853309759 / 2251799813685248) = 351015853309759 / 2251799813685248"
  using toDouble_normal [of "-3" "351015853309759 / 2251799813685248"] by (simp add: roundTiesToEven_def Let_def)

lemma round_496: "toDouble (1053047559929277 / 1125899906842624) = 1053047559929277 / 1125899906842624"
  using toDouble_normal [of "-1" "1053047559929277 / 1125899906842624"] by (simp add: roundTiesToEven_def Let_def)

lemma round_497: "toDouble (785446254259059760824910900623 / 5070602400912917605986812821504) = 1395232825734389 / 9007199254740992"
  using toDouble_normal [of "-3" "785446254259059760824910900623 / 5070602400912917605986812821504"] by (simp add: roundTiesToEven_def Let_def)

lemma round_498: "toDouble (1093889027138275 / 1125899906842624) = 1093889027138275 / 1125899906842624"
  using toDouble_normal [of "-1" "1093889027138275 / 1125899906842624"] by (simp add: roundTiesToEven_def Let_def)

lemma round_499: "toDouble (278941701920260125 / 1125899906842624) = 8716928185008129 / 35184372088832"
  using toDouble_normal [of "7" "278941701920260125 / 1125899906842624"] by (simp add: roundTiesToEven_def Let_def)

lemma round_500: "toDouble (1875749244799811805 / 9007199254740992) = 7327145487499265 / 35184372088832"
  using toDouble_normal [of "7" "1875749244799811805 / 9007199254740992"] by (simp add: roundTiesToEven_def Let_def)

lemma round_501: "toDouble (2233785415175765985 / 9007199254740992) = 248"
  using toDouble_normal [of "7" "2233785415175765985 / 9007199254740992"] by (simp add: roundTiesToEven_def Let_def)

lemma rgb_of_hsl_55:
  "hslToRgb \<lparr> h = 5271017252553323 / 17592186044416, s = 2602007052150831 / 35184372088832, l = 3147621522652863 / 35184372088832 \<rparr> =
     \<lparr> r = 248, g = 208, b = 248 \<rparr>"
  unfolding hslToRgb_def hue2rgb_def Let_def
  by (simp add: mathRound_def addD_def subD_def mulD_def divD_def toDouble_zero toDouble_minus
      round_196 round_198 round_199 round_200 round_356 round_357 round_364 round_365 round_370
      round_489 round_490 round_491 round_492 round_493 round_494 round_495 round_496 round_497
      round_498 round_499 round_500 round_501)

lemma gamma_208:
  "630757136 / 1000000000 \<le> gammaCorrect (208 / 255) \<and> gammaCorrect (208 / 255) \<le> 630757137 / 1000000000"
  by (rule gammaCorrect_between) (simp_all add: power_divide divide_le_eq le_divide_eq)

lemma lum_F8D0F8:
  "718455199 / 1000000000 \<le> luminanceOfRgb \<lparr> r = 248, g = 208, b = 248 \<rparr> \<and> luminanceOfRgb \<lparr> r = 248, g = 208, b = 248 \<rparr> \<le> 718455201 / 1000000000"
  using gamma_208 gamma_248 by (simp add: luminanceOfRgb_def)

lemma ratio_97A000_F8D0F8_large:
  "\<not> LARGE_TEXT_THRESHOLD \<le> ratioOfRgb \<lparr> r = 151, g = 160, b = 0 \<rparr> \<lparr> r = 248, g = 208, b = 248 \<rparr>"
  by (rule ratio_lt_from_bounds [OF lum_97A000 lum_F8D0F8]) (simp_all add: LARGE_TEXT_THRESHOLD_def NORMAL_TEXT_THRESHOLD_def EPSILON_def)

lemma canon_F8D0F8: "canonRgb \<lparr> r = 248, g = 208, b = 248 \<rparr> = \<lparr> r = 248, g = 208, b = 248 \<rparr>"
  by (simp add: canonRgb_def channelByte_def mathRound_def)

lemma tie_bg_lighten_step_2:
  "searchBody \<lparr> h = 5271017252553323 / 17592186044416, s = 2602007052150831 / 35184372088832, l = 8140697855847403 / 140737488355328 \<rparr> \<lparr> r = 151, g = 160, b = 0 \<rparr> LARGE_TEXT_THRESHOLD False True
     \<lparr> minL = 5553611672845051 / 70368744177664, maxL = 100, bestRgb = \<lparr> r = 226, g = 68, b = 227 \<rparr>,
       bestRatio = ratioOfRgb \<lparr> r = 226, g = 68, b = 227 \<rparr> \<lparr> r = 151, g = 160, b = 0 \<rparr>, iterationCount = Suc 0 \<rparr> =
   Inr \<lparr> minL = 3147621522652863 / 35184372088832, maxL = 100, bestRgb = \<lparr> r = 226, g = 68, b = 227 \<rparr>,
       bestRatio = ratioOfRgb \<lparr> r = 226, g = 68, b = 227 \<rparr> \<lparr> r = 151, g = 160, b = 0 \<rparr>, iterationCount = 2 \<rparr>"
  unfolding searchBody_def Let_def
  by (simp add: bindE_def contrastRatio_rgbToHex addD_def divD_def toDouble_zero
      round_487 round_488 rgb_of_hsl_55 canon_F8D0F8 canon_97A000 ratio_97A000_F8D0F8_large)

lemma round_502: "toDouble (370815686230337 / 35184372088832) = 370815686230337 / 35184372088832"
  using toDouble_normal [of "3" "370815686230337 / 35184372088832"] by (simp add: roundTiesToEven_def Let_def)

lemma round_503: "toDouble (6666058731536063 / 35184372088832) = 6666058731536063 / 35184372088832"
  using toDouble_normal [of "7" "6666058731536063 / 35184372088832"] by (simp add: roundTiesToEven_def Let_def)

lemma round_504: "toDouble (6666058731536063 / 70368744177664) = 6666058731536063 / 70368744177664"
  using toDouble_normal [of "6" "6666058731536063 / 70368744177664"] by (simp add: roundTiesToEven_def Let_def)

lemma round_505: "toDouble (6666058731536063 / 7036874417766400) = 8532555176366161 / 9007199254740992"
  using toDouble_normal [of "-1" "6666058731536063 / 7036874417766400"] by (simp add: roundTiesToEven_def Let_def)

lemma round_506: "toDouble (474802913433509 / 281474976710656) = 474802913433509 / 281474976710656"
  using toDouble_normal [of "0" "474802913433509 / 281474976710656"] by (simp add: roundTiesToEven_def Let_def)

lemma round_507: "toDouble (56836527978933317852373208968447 / 81129638414606681695789005144064) = 394382637512273 / 562949953421312"
  using toDouble_normal [of "-1" "56836527978933317852373208968447 / 81129638414606681695789005144064"] by (simp add: roundTiesToEven_def Let_def)

lemma round_508: "toDouble (555223189354745 / 562949953421312) = 555223189354745 / 562949953421312"
  using toDouble_normal [of "-1" "555223189354745 / 562949953421312"] by (simp add: roundTiesToEven_def Let_def)

lemma round_509: "toDouble (8532555176366161 / 4503599627370496) = 8532555176366161 / 4503599627370496"
  using toDouble_normal [of "0" "8532555176366161 / 4503599627370496"] by (simp add: roundTiesToEven_def Let_def)

lemma round_510: "toDouble (4090769661528201 / 4503599627370496) = 4090769661528201 / 4503599627370496"
  using toDouble_normal [of "-1" "4090769661528201 / 4503599627370496"] by (simp add: roundTiesToEven_def Let_def)

lemma round_511: "toDouble (351015853309759 / 4503599627370496) = 351015853309759 / 4503599627370496"
  using toDouble_normal [of "-4" "351015853309759 / 4503599627370496"] by (simp add: roundTiesToEven_def Let_def)

lemma round_512: "toDouble (1053047559929277 / 2251799813685248) = 1053047559929277 / 2251799813685248"
  using toDouble_normal [of "-2" "1053047559929277 / 2251799813685248"] by (simp add: roundTiesToEven_def Let_def)

lemma round_513: "toDouble (785446254259059760824910900623 / 10141204801825835211973625643008) = 1395232825734389 / 18014398509481984"
  using toDouble_normal [of "-4" "785446254259059760824910900623 / 10141204801825835211973625643008"] by (simp add: roundTiesToEven_def Let_def)

lemma round_514: "toDouble (17758311471847193 / 18014398509481984) = 2219788933980899 / 2251799813685248"
  using toDouble_normal [of "-1" "17758311471847193 / 18014398509481984"] by (simp add: roundTiesToEven_def Let_def)

lemma round_515: "toDouble (566046178165129245 / 2251799813685248) = 2011 / 8"
  using toDouble_normal [of "7" "566046178165129245 / 2251799813685248"] by (simp add: roundTiesToEven_def Let_def)

lemma round_516: "toDouble (1043146263689691255 / 4503599627370496) = 8149580185075713 / 35184372088832"
  using toDouble_normal [of "7" "1043146263689691255 / 4503599627370496"] by (simp add: roundTiesToEven_def Let_def)

lemma round_517: "toDouble (141581913285459975 / 562949953421312) = 503 / 2"
  using toDouble_normal [of "7" "141581913285459975 / 562949953421312"] by (simp add: roundTiesToEven_def Let_def)

lemma rgb_of_hsl_56:
  "hslToRgb \<lparr> h = 5271017252553323 / 17592186044416, s = 2602007052150831 / 35184372088832, l = 6666058731536063 / 70368744177664 \<rparr> =
     \<lparr> r = 251, g = 232, b = 252 \<rparr>"
  unfolding hslToRgb_def hue2rgb_def Let_def
  by (simp add: mathRound_def addD_def subD_def mulD_def divD_def toDouble_zero toDouble_minus
      round_196 round_198 round_199 round_200 round_356 round_357 round_364 round_365 round_370
      round_505 round_506 round_507 round_508 round_509 round_510 round_511 round_512 round_513
      round_514 round_515 round_516 round_517)

lemma gamma_232:
  "806952257 / 1000000000 \<le> gammaCorrect (232 / 255) \<and> gammaCorrect (232 / 255) \<le> 806952258 / 1000000000"
  by (rule gammaCorrect_between) (simp_all add: power_divide divide_le_eq le_divide_eq)

lemma gamma_252:
  "973445290 / 1000000000 \<le> gammaCorrect (252 / 255) \<and> gammaCorrect (252 / 255) \<le> 973445291 / 1000000000"
  by (rule gammaCorrect_between) (simp_all add: power_divide divide_le_eq le_divide_eq)

lemma lum_FBE8FC:
  "852507300 / 1000000000 \<le> luminanceOfRgb \<lparr> r = 251, g = 232, b = 252 \<rparr> \<and> luminanceOfRgb \<lparr> r = 251, g = 232, b = 252 \<rparr> \<le> 852507302 / 1000000000"
  using gamma_232 gamma_251 gamma_252 by (simp add: luminanceOfRgb_def)

lemma ratio_97A000_FBE8FC_large:
  "\<not> LARGE_TEXT_THRESHOLD \<le> ratioOfRgb \<lparr> r = 151, g = 160, b = 0 \<rparr> \<lparr> r = 251, g = 232, b = 252 \<rparr>"
  by (rule ratio_lt_from_bounds [OF lum_97A000 lum_FBE8FC]) (simp_all add: LARGE_TEXT_THRESHOLD_def NORMAL_TEXT_THRESHOLD_def EPSILON_def)

lemma canon_FBE8FC: "canonRgb \<lparr> r = 251, g = 232, b = 252 \<rparr> = \<lparr> r = 251, g = 232, b = 252 \<rparr>"
  by (simp add: canonRgb_def channelByte_def mathRound_def)

lemma tie_bg_lighten_step_3:
  "searchBody \<lparr> h = 5271017252553323 / 17592186044416, s = 2602007052150831 / 35184372088832, l = 8140697855847403 / 140737488355328 \<rparr> \<lparr> r = 151, g = 160, b = 0 \<rparr> LARGE_TEXT_THRESHOLD False True
     \<lparr> minL = 3147621522652863 / 35184372088832, maxL = 100, bestRgb = \<lparr> r = 226, g = 68, b = 227 \<rparr>,
       bestRatio = ratioOfRgb \<lparr> r = 226, g = 68, b = 227 \<rparr> \<lparr> r = 151, g = 160, b = 0 \<rparr>, iterationCount = 2 \<rparr> =
   Inr \<lparr> minL = 6666058731536063 / 70368744177664, maxL = 100, bestRgb = \<lparr> r = 226, g = 68, b = 227 \<rparr>,
       bestRatio = ratioOfRgb \<lparr> r = 226, g = 68, b = 227 \<rparr> \<lparr> r = 151, g = 160, b = 0 \<rparr>, iterationCount = 3 \<rparr>"
  unfolding searchBody_def Let_def
  by (simp add: bindE_def contrastRatio_rgbToHex addD_def divD_def toDouble_zero
      round_503 round_504 rgb_of_hsl_56 canon_FBE8FC canon_97A000 ratio_97A000_FBE8FC_large)

lemma round_518: "toDouble (370815686230337 / 70368744177664) = 370815686230337 / 70368744177664"
  using toDouble_normal [of "2" "370815686230337 / 70368744177664"] by (simp add: roundTiesToEven_def Let_def)

lemma round_519: "toDouble (13702933149302463 / 70368744177664) = 214108330457851 / 1099511627776"
  using toDouble_normal [of "7" "13702933149302463 / 70368744177664"] by (simp add: roundTiesToEven_def Let_def)

lemma round_520: "toDouble (214108330457851 / 2199023255552) = 214108330457851 / 2199023255552"
  using toDouble_normal [of "6" "214108330457851 / 2199023255552"] by (simp add: roundTiesToEven_def Let_def)

lemma round_521: "toDouble (214108330457851 / 219902325555200) = 8769877215553577 / 9007199254740992"
  using toDouble_normal [of "-1" "214108330457851 / 219902325555200"] by (simp add: roundTiesToEven_def Let_def)

lemma round_522: "toDouble (1928876908632463 / 1125899906842624) = 1928876908632463 / 1125899906842624"
  using toDouble_normal [of "0" "1928876908632463 / 1125899906842624"] by (simp add: roundTiesToEven_def Let_def)

lemma round_523: "toDouble (58417362845100286860442066266279 / 81129638414606681695789005144064) = 405351882928203 / 562949953421312"
  using toDouble_normal [of "-1" "58417362845100286860442066266279 / 81129638414606681695789005144064"] by (simp add: roundTiesToEven_def Let_def)

lemma round_524: "toDouble (1118173142776057 / 1125899906842624) = 1118173142776057 / 1125899906842624"
  using toDouble_normal [of "-1" "1118173142776057 / 1125899906842624"] by (simp add: roundTiesToEven_def Let_def)

lemma round_525: "toDouble (8769877215553577 / 4503599627370496) = 8769877215553577 / 4503599627370496"
  using toDouble_normal [of "0" "8769877215553577 / 4503599627370496"] by (simp add: roundTiesToEven_def Let_def)

lemma round_526: "toDouble (4297184644449349 / 4503599627370496) = 4297184644449349 / 4503599627370496"
  using toDouble_normal [of "-1" "4297184644449349 / 4503599627370496"] by (simp add: roundTiesToEven_def Let_def)

lemma round_527: "toDouble (175507926654879 / 4503599627370496) = 175507926654879 / 4503599627370496"
  using toDouble_normal [of "-5" "175507926654879 / 4503599627370496"] by (simp add: roundTiesToEven_def Let_def)

lemma round_528: "toDouble (526523779964637 / 2251799813685248) = 526523779964637 / 2251799813685248"
  using toDouble_normal [of "-3" "526523779964637 / 2251799813685248"] by (simp add: roundTiesToEven_def Let_def)

lemma round_529: "toDouble (392723127129528761593680097263 / 10141204801825835211973625643008) = 1395232825734385 / 36028797018963968"
  using toDouble_normal [of "-5" "392723127129528761593680097263 / 10141204801825835211973625643008"] by (simp add: roundTiesToEven_def Let_def)

lemma round_530: "toDouble (35772709981329177 / 36028797018963968) = 4471588747666147 / 4503599627370496"
  using toDouble_normal [of "-1" "35772709981329177 / 36028797018963968"] by (simp add: roundTiesToEven_def Let_def)

lemma round_531: "toDouble (1140255130654867485 / 4503599627370496) = 4051 / 16"
  using toDouble_normal [of "7" "1140255130654867485 / 4503599627370496"] by (simp add: roundTiesToEven_def Let_def)

lemma round_532: "toDouble (1095782084334583995 / 4503599627370496) = 8560797533863937 / 35184372088832"
  using toDouble_normal [of "7" "1095782084334583995 / 4503599627370496"] by (simp add: roundTiesToEven_def Let_def)

lemma round_533: "toDouble (285134151407894535 / 1125899906842624) = 1013 / 4"
  using toDouble_normal [of "7" "285134151407894535 / 1125899906842624"] by (simp add: roundTiesToEven_def Let_def)

lemma rgb_of_hsl_57:
  "hslToRgb \<lparr> h = 5271017252553323 / 17592186044416, s = 2602007052150831 / 35184372088832, l = 214108330457851 / 2199023255552 \<rparr> =
     \<lparr> r = 253, g = 243, b = 253 \<rparr>"
  unfolding hslToRgb_def hue2rgb_def Let_def
  by (simp add: mathRound_def addD_def subD_def mulD_def divD_def toDouble_zero toDouble_minus
      round_196 round_198 round_199 round_200 round_356 round_357 round_364 round_365 round_370
      round_521 round_522 round_523 round_524 round_525 round_526 round_527 round_528 round_529
      round_530 round_531 round_532 round_533)

lemma lum_FDF3FD:
  "920756797 / 1000000000 \<le> luminanceOfRgb \<lparr> r = 253, g = 243, b = 253 \<rparr> \<and> luminanceOfRgb \<lparr> r = 253, g = 243, b = 253 \<rparr> \<le> 920756799 / 1000000000"
  using gamma_243 gamma_253 by (simp add: luminanceOfRgb_def)

lemma ratio_97A000_FDF3FD_large:
  "\<not> LARGE_TEXT_THRESHOLD \<le> ratioOfRgb \<lparr> r = 151, g = 160, b = 0 \<rparr> \<lparr> r = 253, g = 243, b = 253 \<rparr>"
  by (rule ratio_lt_from_bounds [OF lum_97A000 lum_FDF3FD]) (simp_all add: LARGE_TEXT_THRESHOLD_def NORMAL_TEXT_THRESHOLD_def EPSILON_def)

lemma canon_FDF3FD: "canonRgb \<lparr> r = 253, g = 243, b = 253 \<rparr> = \<lparr> r = 253, g = 243, b = 253 \<rparr>"
  by (simp add: canonRgb_def channelByte_def mathRound_def)

lemma tie_bg_lighten_step_4:
  "searchBody \<lparr> h = 5271017252553323 / 17592186044416, s = 2602007052150831 / 35184372088832, l = 8140697855847403 / 140737488355328 \<rparr> \<lparr> r = 151, g = 160, b = 0 \<rparr> LARGE_TEXT_THRESHOLD False True
     \<lparr> minL = 6666058731536063 / 70368744177664, maxL = 100, bestRgb = \<lparr> r = 226, g = 68, b = 227 \<rparr>,
       bestRatio = ratioOfRgb \<lparr> r = 226, g = 68, b = 227 \<rparr> \<lparr> r = 151, g = 160, b = 0 \<rparr>, iterationCount = 3 \<rparr> =
   Inr \<lparr> minL = 214108330457851 / 2199023255552, maxL = 100, bestRgb = \<lparr> r = 226, g = 68, b = 227 \<rparr>,
       bestRatio = ratioOfRgb \<lparr> r = 226, g = 68, b = 227 \<rparr> \<lparr> r = 151, g = 160, b = 0 \<rparr>, iterationCount = 4 \<rparr>"
  unfolding searchBody_def Let_def
  by (simp add: bindE_def contrastRatio_rgbToHex addD_def divD_def toDouble_zero
      round_519 round_520 rgb_of_hsl_57 canon_FDF3FD canon_97A000 ratio_97A000_FDF3FD_large)

lemma round_534: "toDouble (5793995097349 / 2199023255552) = 5793995097349 / 2199023255552"
  using toDouble_normal [of "1" "5793995097349 / 2199023255552"] by (simp add: roundTiesToEven_def Let_def)

lemma round_535: "toDouble (434010656013051 / 2199023255552) = 434010656013051 / 2199023255552"
  using toDouble_normal [of "7" "434010656013051 / 2199023255552"] by (simp add: roundTiesToEven_def Let_def)

lemma round_536: "toDouble (434010656013051 / 4398046511104) = 434010656013051 / 4398046511104"
  using toDouble_normal [of "6" "434010656013051 / 4398046511104"] by (simp add: roundTiesToEven_def Let_def)

lemma round_537: "toDouble (434010656013051 / 439804651110400) = 2222134558786821 / 2251799813685248"
  using toDouble_normal [of "-1" "434010656013051 / 439804651110400"] by (simp add: roundTiesToEven_def Let_def)

lemma round_538: "toDouble (15549676288653411 / 9007199254740992) = 3887419072163353 / 2251799813685248"
  using toDouble_normal [of "0" "15549676288653411 / 9007199254740992"] by (simp add: roundTiesToEven_def Let_def)

lemma round_539: "toDouble (14801945069545941175834610352267 / 20282409603651670423947251286016) = 6573384090178687 / 9007199254740992"
  using toDouble_normal [of "-1" "14801945069545941175834610352267 / 20282409603651670423947251286016"] by (simp add: roundTiesToEven_def Let_def)

lemma round_540: "toDouble (8976292198474725 / 9007199254740992) = 8976292198474725 / 9007199254740992"
  using toDouble_normal [of "-1" "8976292198474725 / 9007199254740992"] by (simp add: roundTiesToEven_def Let_def)

lemma round_541: "toDouble (2222134558786821 / 1125899906842624) = 2222134558786821 / 1125899906842624"
  using toDouble_normal [of "0" "2222134558786821 / 1125899906842624"] by (simp add: roundTiesToEven_def Let_def)

lemma round_542: "toDouble (8800784271819843 / 9007199254740992) = 8800784271819843 / 9007199254740992"
  using toDouble_normal [of "-1" "8800784271819843 / 9007199254740992"] by (simp add: roundTiesToEven_def Let_def)

lemma round_543: "toDouble (87753963327441 / 4503599627370496) = 87753963327441 / 4503599627370496"
  using toDouble_normal [of "-6" "87753963327441 / 4503599627370496"] by (simp add: roundTiesToEven_def Let_def)

lemma round_544: "toDouble (263261889982323 / 2251799813685248) = 263261889982323 / 2251799813685248"
  using toDouble_normal [of "-4" "263261889982323 / 2251799813685248"] by (simp add: roundTiesToEven_def Let_def)

lemma round_545: "toDouble (196361563564767737253166107777 / 10141204801825835211973625643008) = 5580931302937635 / 288230376151711744"
  using toDouble_normal [of "-6" "196361563564767737253166107777 / 10141204801825835211973625643008"] by (simp add: roundTiesToEven_def Let_def)

lemma round_546: "toDouble (287206028001172611 / 288230376151711744) = 2243797093759161 / 2251799813685248"
  using toDouble_normal [of "-1" "287206028001172611 / 288230376151711744"] by (simp add: roundTiesToEven_def Let_def)

lemma round_547: "toDouble (572168258908586055 / 2251799813685248) = 8940129045446657 / 35184372088832"
  using toDouble_normal [of "7" "572168258908586055 / 2251799813685248"] by (simp add: roundTiesToEven_def Let_def)

lemma round_548: "toDouble (2244199989314059965 / 9007199254740992) = 8766406208258047 / 35184372088832"
  using toDouble_normal [of "7" "2244199989314059965 / 9007199254740992"] by (simp add: roundTiesToEven_def Let_def)

lemma round_549: "toDouble (2288954510611054875 / 9007199254740992) = 8941228557074433 / 35184372088832"
  using toDouble_normal [of "7" "2288954510611054875 / 9007199254740992"] by (simp add: roundTiesToEven_def Let_def)

lemma rgb_of_hsl_58:
  "hslToRgb \<lparr> h = 5271017252553323 / 17592186044416, s = 2602007052150831 / 35184372088832, l = 434010656013051 / 4398046511104 \<rparr> =
     \<lparr> r = 254, g = 249, b = 254 \<rparr>"
  unfolding hslToRgb_def hue2rgb_def Let_def
  by (simp add: mathRound_def addD_def subD_def mulD_def divD_def toDouble_zero toDouble_minus
      round_196 round_198 round_199 round_200 round_356 round_357 round_364 round_365 round_370
      round_537 round_538 round_539 round_540 round_541 round_542 round_543 round_544 round_545
      round_546 round_547 round_548 round_549)

lemma gamma_249:
  "947306536 / 1000000000 \<le> gammaCorrect (249 / 255) \<and> gammaCorrect (249 / 255) \<le> 947306537 / 1000000000"
  by (rule gammaCorrect_between) (simp_all add: power_divide divide_le_eq le_divide_eq)

lemma lum_FEF9FE:
  "959779511 / 1000000000 \<le> luminanceOfRgb \<lparr> r = 254, g = 249, b = 254 \<rparr> \<and> luminanceOfRgb \<lparr> r = 254, g = 249, b = 254 \<rparr> \<le> 959779513 / 1000000000"
  using gamma_249 gamma_254 by (simp add: luminanceOfRgb_def)

lemma ratio_97A000_FEF9FE_large:
  "\<not> LARGE_TEXT_THRESHOLD \<le> ratioOfRgb \<lparr> r = 151, g = 160, b = 0 \<rparr> \<lparr> r = 254, g = 249, b = 254 \<rparr>"
  by (rule ratio_lt_from_bounds [OF lum_97A000 lum_FEF9FE]) (simp_all add: LARGE_TEXT_THRESHOLD_def NORMAL_TEXT_THRESHOLD_def EPSILON_def)

lemma canon_FEF9FE: "canonRgb \<lparr> r = 254, g = 249, b = 254 \<rparr> = \<lparr> r = 254, g = 249, b = 254 \<rparr>"
  by (simp add: canonRgb_def channelByte_def mathRound_def)

lemma tie_bg_lighten_step_5:
  "searchBody \<lparr> h = 5271017252553323 / 17592186044416, s = 2602007052150831 / 35184372088832, l = 8140697855847403 / 140737488355328 \<rparr> \<lparr> r = 151, g = 160, b = 0 \<rparr> LARGE_TEXT_THRESHOLD False True
     \<lparr> minL = 214108330457851 / 2199023255552, maxL = 100, bestRgb = \<lparr> r = 226, g = 68, b = 227 \<rparr>,
       bestRatio = ratioOfRgb \<lparr> r = 226, g = 68, b = 227 \<rparr> \<lparr> r = 151, g = 160, b = 0 \<rparr>, iterationCount = 4 \<rparr> =
   Inr \<lparr> minL = 434010656013051 / 4398046511104, maxL = 100, bestRgb = \<lparr> r = 226, g = 68, b = 227 \<rparr>,
       bestRatio = ratioOfRgb \<lparr> r = 226, g = 68, b = 227 \<rparr> \<lparr> r = 151, g = 160, b = 0 \<rparr>, iterationCount = 5 \<rparr>"
  unfolding searchBody_def Let_def
  by (simp add: bindE_def contrastRatio_rgbToHex addD_def divD_def toDouble_zero
      round_535 round_536 rgb_of_hsl_58 canon_FEF9FE canon_97A000 ratio_97A000_FEF9FE_large)

lemma round_550: "toDouble (5793995097349 / 4398046511104) = 5793995097349 / 4398046511104"
  using toDouble_normal [of "0" "5793995097349 / 4398046511104"] by (simp add: roundTiesToEven_def Let_def)

lemma round_551: "toDouble (873815307123451 / 4398046511104) = 873815307123451 / 4398046511104"
  using toDouble_normal [of "7" "873815307123451 / 4398046511104"] by (simp add: roundTiesToEven_def Let_def)

lemma round_552: "toDouble (873815307123451 / 8796093022208) = 873815307123451 / 8796093022208"
  using toDouble_normal [of "6" "873815307123451 / 8796093022208"] by (simp add: roundTiesToEven_def Let_def)

lemma round_553: "toDouble (873815307123451 / 879609302220800) = 4473934372472069 / 4503599627370496"
  using toDouble_normal [of "-1" "873815307123451 / 879609302220800"] by (simp add: roundTiesToEven_def Let_def)

lemma round_554: "toDouble (15609006798450265 / 9007199254740992) = 1951125849806283 / 1125899906842624"
  using toDouble_normal [of "0" "15609006798450265 / 9007199254740992"] by (simp add: roundTiesToEven_def Let_def)

lemma round_555: "toDouble (29801494497362753477677827866763 / 40564819207303340847894502572032) = 6617261071842407 / 9007199254740992"
  using toDouble_normal [of "-1" "29801494497362753477677827866763 / 40564819207303340847894502572032"] by (simp add: roundTiesToEven_def Let_def)

lemma round_556: "toDouble (8991745726607857 / 9007199254740992) = 8991745726607857 / 9007199254740992"
  using toDouble_normal [of "-1" "8991745726607857 / 9007199254740992"] by (simp add: roundTiesToEven_def Let_def)

lemma round_557: "toDouble (4473934372472069 / 2251799813685248) = 4473934372472069 / 2251799813685248"
  using toDouble_normal [of "0" "4473934372472069 / 2251799813685248"] by (simp add: roundTiesToEven_def Let_def)

lemma round_558: "toDouble (8903991763280419 / 9007199254740992) = 8903991763280419 / 9007199254740992"
  using toDouble_normal [of "-1" "8903991763280419 / 9007199254740992"] by (simp add: roundTiesToEven_def Let_def)

lemma round_559: "toDouble (43876981663719 / 4503599627370496) = 43876981663719 / 4503599627370496"
  using toDouble_normal [of "-7" "43876981663719 / 4503599627370496"] by (simp add: roundTiesToEven_def Let_def)

lemma round_560: "toDouble (131630944991157 / 2251799813685248) = 131630944991157 / 2251799813685248"
  using toDouble_normal [of "-5" "131630944991157 / 2251799813685248"] by (simp add: roundTiesToEven_def Let_def)

lemma round_561: "toDouble (98180781782380512170256994743 / 10141204801825835211973625643008) = 1395232825734361 / 144115188075855872"
  using toDouble_normal [of "-7" "98180781782380512170256994743 / 10141204801825835211973625643008"] by (simp add: roundTiesToEven_def Let_def)

lemma round_562: "toDouble (143859101038221065 / 144115188075855872) = 8991193814888817 / 9007199254740992"
  using toDouble_normal [of "-1" "143859101038221065 / 144115188075855872"] by (simp add: roundTiesToEven_def Let_def)

lemma round_563: "toDouble (2292754422796648335 / 9007199254740992) = 16291 / 64"
  using toDouble_normal [of "7" "2292754422796648335 / 9007199254740992"] by (simp add: roundTiesToEven_def Let_def)

lemma round_564: "toDouble (2270517899636506845 / 9007199254740992) = 8869210545455105 / 35184372088832"
  using toDouble_normal [of "7" "2270517899636506845 / 9007199254740992"] by (simp add: roundTiesToEven_def Let_def)

lemma round_565: "toDouble (2292895160285003535 / 9007199254740992) = 8956621719863295 / 35184372088832"
  using toDouble_normal [of "7" "2292895160285003535 / 9007199254740992"] by (simp add: roundTiesToEven_def Let_def)

lemma rgb_of_hsl_59:
  "hslToRgb \<lparr> h = 5271017252553323 / 17592186044416, s = 2602007052150831 / 35184372088832, l = 873815307123451 / 8796093022208 \<rparr> =
     \<lparr> r = 255, g = 252, b = 255 \<rparr>"
  unfolding hslToRgb_def hue2rgb_def Let_def
  by (simp add: mathRound_def addD_def subD_def mulD_def divD_def toDouble_zero toDouble_minus
      round_196 round_198 round_199 round_200 round_356 round_357 round_364 round_365 round_370
      round_553 round_554 round_555 round_556 round_557 round_558 round_559 round_560 round_561
      round_562 round_563 round_564 round_565)

lemma lum_FFFCFF:
  "981008071 / 1000000000 \<le> luminanceOfRgb \<lparr> r = 255, g = 252, b = 255 \<rparr> \<and> luminanceOfRgb \<lparr> r = 255, g = 252, b = 255 \<rparr> \<le> 981008073 / 1000000000"
  using gamma_252 gamma_255 by (simp add: luminanceOfRgb_def)

lemma ratio_97A000_FFFCFF_large:
  "\<not> LARGE_TEXT_THRESHOLD \<le> ratioOfRgb \<lparr> r = 151, g = 160, b = 0 \<rparr> \<lparr> r = 255, g = 252, b = 255 \<rparr>"
  by (rule ratio_lt_from_bounds [OF lum_97A000 lum_FFFCFF]) (simp_all add: LARGE_TEXT_THRESHOLD_def NORMAL_TEXT_THRESHOLD_def EPSILON_def)

lemma canon_FFFCFF: "canonRgb \<lparr> r = 255, g = 252, b = 255 \<rparr> = \<lparr> r = 255, g = 252, b = 255 \<rparr>"
  by (simp add: canonRgb_def channelByte_def mathRound_def)

lemma tie_bg_lighten_step_6:
  "searchBody \<lparr> h = 5271017252553323 / 17592186044416, s = 2602007052150831 / 35184372088832, l = 8140697855847403 / 140737488355328 \<rparr> \<lparr> r = 151, g = 160, b = 0 \<rparr> LARGE_TEXT_THRESHOLD False True
     \<lparr> minL = 434010656013051 / 4398046511104, maxL = 100, bestRgb = \<lparr> r = 226, g = 68, b = 227 \<rparr>,
       bestRatio = ratioOfRgb \<lparr> r = 226, g = 68, b = 227 \<rparr> \<lparr> r = 151, g = 160, b = 0 \<rparr>, iterationCount = 5 \<rparr> =
   Inr \<lparr> minL = 873815307123451 / 8796093022208, maxL = 100, bestRgb = \<lparr> r = 226, g = 68, b = 227 \<rparr>,
       bestRatio = ratioOfRgb \<lparr> r = 226, g = 68, b = 227 \<rparr> \<lparr> r = 151, g = 160, b = 0 \<rparr>, iterationCount = 6 \<rparr>"
  unfolding searchBody_def Let_def
  by (simp add: bindE_def contrastRatio_rgbToHex addD_def divD_def toDouble_zero
      round_551 round_552 rgb_of_hsl_59 canon_FFFCFF canon_97A000 ratio_97A000_FFFCFF_large)

lemma round_566: "toDouble (5793995097349 / 8796093022208) = 5793995097349 / 8796093022208"
  using toDouble_normal [of "-1" "5793995097349 / 8796093022208"] by (simp add: roundTiesToEven_def Let_def)

lemma round_567: "toDouble (1753424609344251 / 8796093022208) = 1753424609344251 / 8796093022208"
  using toDouble_normal [of "7" "1753424609344251 / 8796093022208"] by (simp add: roundTiesToEven_def Let_def)

lemma round_568: "toDouble (1753424609344251 / 17592186044416) = 1753424609344251 / 17592186044416"
  using toDouble_normal [of "6" "1753424609344251 / 17592186044416"] by (simp add: roundTiesToEven_def Let_def)

lemma round_569: "toDouble (1753424609344251 / 1759218604441600) = 8977533999842565 / 9007199254740992"
  using toDouble_normal [of "-1" "1753424609344251 / 1759218604441600"] by (simp add: roundTiesToEven_def Let_def)

lemma round_570: "toDouble (3909668013337173 / 2251799813685248) = 3909668013337173 / 2251799813685248"
  using toDouble_normal [of "0" "3909668013337173 / 2251799813685248"] by (simp add: roundTiesToEven_def Let_def)

lemma round_571: "toDouble (59800593352996378081364262895755 / 81129638414606681695789005144064) = 6639199562674267 / 9007199254740992"
  using toDouble_normal [of "-1" "59800593352996378081364262895755 / 81129638414606681695789005144064"] by (simp add: roundTiesToEven_def Let_def)

lemma round_572: "toDouble (8999472490674425 / 9007199254740992) = 8999472490674425 / 9007199254740992"
  using toDouble_normal [of "-1" "8999472490674425 / 9007199254740992"] by (simp add: roundTiesToEven_def Let_def)

lemma round_573: "toDouble (8977533999842565 / 4503599627370496) = 8977533999842565 / 4503599627370496"
  using toDouble_normal [of "0" "8977533999842565 / 4503599627370496"] by (simp add: roundTiesToEven_def Let_def)

lemma round_574: "toDouble (8955595509010705 / 9007199254740992) = 8955595509010705 / 9007199254740992"
  using toDouble_normal [of "-1" "8955595509010705 / 9007199254740992"] by (simp add: roundTiesToEven_def Let_def)

lemma round_575: "toDouble (5484622707965 / 1125899906842624) = 5484622707965 / 1125899906842624"
  using toDouble_normal [of "-8" "5484622707965 / 1125899906842624"] by (simp add: roundTiesToEven_def Let_def)

lemma round_576: "toDouble (16453868123895 / 562949953421312) = 16453868123895 / 562949953421312"
  using toDouble_normal [of "-6" "16453868123895 / 562949953421312"] by (simp add: roundTiesToEven_def Let_def)

lemma round_577: "toDouble (12272597722797843725975962605 / 2535301200456458802993406410752) = 1395232825734393 / 288230376151711744"
  using toDouble_normal [of "-8" "12272597722797843725975962605 / 2535301200456458802993406410752"] by (simp add: roundTiesToEven_def Let_def)

lemma round_578: "toDouble (287974289114076953 / 288230376151711744) = 8999196534814905 / 9007199254740992"
  using toDouble_normal [of "-1" "287974289114076953 / 288230376151711744"] by (simp add: roundTiesToEven_def Let_def)

lemma round_579: "toDouble (2294795116377800775 / 9007199254740992) = 32611 / 128"
  using toDouble_normal [of "7" "2294795116377800775 / 9007199254740992"] by (simp add: roundTiesToEven_def Let_def)

lemma round_580: "toDouble (2283676854797729775 / 9007199254740992) = 32453 / 128"
  using toDouble_normal [of "7" "2283676854797729775 / 9007199254740992"] by (simp add: roundTiesToEven_def Let_def)

lemma round_581: "toDouble (2294865485121978375 / 9007199254740992) = 8153 / 32"
  using toDouble_normal [of "7" "2294865485121978375 / 9007199254740992"] by (simp add: roundTiesToEven_def Let_def)

lemma rgb_of_hsl_60:
  "hslToRgb \<lparr> h = 5271017252553323 / 17592186044416, s = 2602007052150831 / 35184372088832, l = 1753424609344251 / 17592186044416 \<rparr> =
     \<lparr> r = 255, g = 254, b = 255 \<rparr>"
  unfolding hslToRgb_def hue2rgb_def Let_def
  by (simp add: mathRound_def addD_def subD_def mulD_def divD_def toDouble_zero toDouble_minus
      round_196 round_198 round_199 round_200 round_356 round_357 round_364 round_365 round_370
      round_569 round_570 round_571 round_572 round_573 round_574 round_575 round_576 round_577
      round_578 round_579 round_580 round_581)

lemma lum_FFFEFF:
  "993636219 / 1000000000 \<le> luminanceOfRgb \<lparr> r = 255, g = 254, b = 255 \<rparr> \<and> luminanceOfRgb \<lparr> r = 255, g = 254, b = 255 \<rparr> \<le> 993636221 / 1000000000"
  using gamma_254 gamma_255 by (simp add: luminanceOfRgb_def)

lemma ratio_97A000_FFFEFF_large:
  "\<not> LARGE_TEXT_THRESHOLD \<le> ratioOfRgb \<lparr> r = 151, g = 160, b = 0 \<rparr> \<lparr> r = 255, g = 254, b = 255 \<rparr>"
  by (rule ratio_lt_from_bounds [OF lum_97A000 lum_FFFEFF]) (simp_all add: LARGE_TEXT_THRESHOLD_def NORMAL_TEXT_THRESHOLD_def EPSILON_def)

lemma canon_FFFEFF: "canonRgb \<lparr> r = 255, g = 254, b = 255 \<rparr> = \<lparr> r = 255, g = 254, b = 255 \<rparr>"
  by (simp add: canonRgb_def channelByte_def mathRound_def)

lemma tie_bg_lighten_step_7:
  "searchBody \<lparr> h = 5271017252553323 / 17592186044416, s = 2602007052150831 / 35184372088832, l = 8140697855847403 / 140737488355328 \<rparr> \<lparr> r = 151, g = 160, b = 0 \<rparr> LARGE_TEXT_THRESHOLD False True
     \<lparr> minL = 873815307123451 / 8796093022208, maxL = 100, bestRgb = \<lparr> r = 226, g = 68, b = 227 \<rparr>,
       bestRatio = ratioOfRgb \<lparr> r = 226, g = 68, b = 227 \<rparr> \<lparr> r = 151, g = 160, b = 0 \<rparr>, iterationCount = 6 \<rparr> =
   Inr \<lparr> minL = 1753424609344251 / 17592186044416, maxL = 100, bestRgb = \<lparr> r = 226, g = 68, b = 227 \<rparr>,
       bestRatio = ratioOfRgb \<lparr> r = 226, g = 68, b = 227 \<rparr> \<lparr> r = 151, g = 160, b = 0 \<rparr>, iterationCount = 7 \<rparr>"
  unfolding searchBody_def Let_def
  by (simp add: bindE_def contrastRatio_rgbToHex addD_def divD_def toDouble_zero
      round_567 round_568 rgb_of_hsl_60 canon_FFFEFF canon_97A000 ratio_97A000_FFFEFF_large)

lemma round_582: "toDouble (5793995097349 / 17592186044416) = 5793995097349 / 17592186044416"
  using toDouble_normal [of "-2" "5793995097349 / 17592186044416"] by (simp add: roundTiesToEven_def Let_def)

lemma tie_bg_lighten_loop:
  "searchLoop 7 \<lparr> h = 5271017252553323 / 17592186044416, s = 2602007052150831 / 35184372088832, l = 8140697855847403 / 140737488355328 \<rparr> \<lparr> r = 151, g = 160, b = 0 \<rparr> LARGE_TEXT_THRESHOLD False True
     \<lparr> minL = 8140697855847403 / 140737488355328, maxL = 100, bestRgb = \<lparr> r = 226, g = 68, b = 227 \<rparr>,
       bestRatio = ratioOfRgb \<lparr> r = 226, g = 68, b = 227 \<rparr> \<lparr> r = 151, g = 160, b = 0 \<rparr>, iterationCount = 0 \<rparr> =
   Inr \<lparr> minL = 1753424609344251 / 17592186044416, maxL = 100, bestRgb = \<lparr> r = 226, g = 68, b = 227 \<rparr>,
       bestRatio = ratioOfRgb \<lparr> r = 226, g = 68, b = 227 \<rparr> \<lparr> r = 151, g = 160, b = 0 \<rparr>, iterationCount = 7 \<rparr>"
  by (simp add: searchLoop_numeral bindE_def subD_def toDouble_zero toDouble_minus
      round_15 round_486 round_502 round_518 round_534 round_550 round_566 round_582
      tie_bg_lighten_step_1 tie_bg_lighten_step_2 tie_bg_lighten_step_3 tie_bg_lighten_step_4
      tie_bg_lighten_step_5 tie_bg_lighten_step_6 tie_bg_lighten_step_7)

lemma tie_bg_lighten_search:
  "binarySearchLightness \<lparr> h = 5271017252553323 / 17592186044416, s = 2602007052150831 / 35184372088832, l = 8140697855847403 / 140737488355328 \<rparr> \<lparr> r = 151, g = 160, b = 0 \<rparr> LARGE_TEXT_THRESHOLD False True 7 =
   Inr \<lparr> rgb = \<lparr> r = 226, g = 68, b = 227 \<rparr>, ratio = ratioOfRgb \<lparr> r = 226, g = 68, b = 227 \<rparr> \<lparr> r = 151, g = 160, b = 0 \<rparr>, iterations = 7 \<rparr>"
  unfolding binarySearchLightness_def Let_def
  by (simp add: bindE_def contrastRatio_rgbToHex rgb_of_hsl_46 canon_E244E3 canon_97A000 tie_bg_lighten_loop)

lemma tie_candidates:
  "snapCandidates \<lparr> r = 151, g = 160, b = 0 \<rparr> \<lparr> r = 226, g = 68, b = 227 \<rparr> LARGE_TEXT_THRESHOLD =
   Inr [\<lparr> rgb = \<lparr> r = 239, g = 253, b = 0 \<rparr>, ratio = ratioOfRgb \<lparr> r = 239, g = 253, b = 0 \<rparr> \<lparr> r = 226, g = 68, b = 227 \<rparr>,
        iterations = 7, path = ''fg-lighten'' \<rparr>,
      \<lparr> rgb = \<lparr> r = 64, g = 68, b = 0 \<rparr>, ratio = ratioOfRgb \<lparr> r = 64, g = 68, b = 0 \<rparr> \<lparr> r = 226, g = 68, b = 227 \<rparr>,
        iterations = 7, path = ''fg-darken'' \<rparr>,
      \<lparr> rgb = \<lparr> r = 132, g = 20, b = 132 \<rparr>, ratio = ratioOfRgb \<lparr> r = 151, g = 160, b = 0 \<rparr> \<lparr> r = 132, g = 20, b = 132 \<rparr>,
        iterations = 7, path = ''bg-darken'' \<rparr>,
      \<lparr> rgb = \<lparr> r = 226, g = 68, b = 227 \<rparr>, ratio = ratioOfRgb \<lparr> r = 226, g = 68, b = 227 \<rparr> \<lparr> r = 151, g = 160, b = 0 \<rparr>,
        iterations = 7, path = ''bg-lighten'' \<rparr>]"
  unfolding snapCandidates_def Let_def
  by (simp add: bindE_def withPath_def hsl_of_97A000 hsl_of_E244E3 tie_fg_lighten_search tie_fg_darken_search tie_bg_darken_search tie_bg_lighten_search)

lemma ratio_EFFD00_E244E3_large_eps:
  "LARGE_TEXT_THRESHOLD - EPSILON \<le> ratioOfRgb \<lparr> r = 239, g = 253, b = 0 \<rparr> \<lparr> r = 226, g = 68, b = 227 \<rparr>"
  by (rule ratio_ge_from_bounds [OF lum_EFFD00 lum_E244E3]) (simp_all add: LARGE_TEXT_THRESHOLD_def NORMAL_TEXT_THRESHOLD_def EPSILON_def)

lemma ratio_404400_E244E3_large_eps:
  "LARGE_TEXT_THRESHOLD - EPSILON \<le> ratioOfRgb \<lparr> r = 64, g = 68, b = 0 \<rparr> \<lparr> r = 226, g = 68, b = 227 \<rparr>"
  by (rule ratio_ge_from_bounds [OF lum_404400 lum_E244E3]) (simp_all add: LARGE_TEXT_THRESHOLD_def NORMAL_TEXT_THRESHOLD_def EPSILON_def)

lemma ratio_97A000_841484_large_eps:
  "LARGE_TEXT_THRESHOLD - EPSILON \<le> ratioOfRgb \<lparr> r = 151, g = 160, b = 0 \<rparr> \<lparr> r = 132, g = 20, b = 132 \<rparr>"
  by (rule ratio_ge_from_bounds [OF lum_97A000 lum_841484]) (simp_all add: LARGE_TEXT_THRESHOLD_def NORMAL_TEXT_THRESHOLD_def EPSILON_def)

lemma ratio_E244E3_97A000_large_eps:
  "\<not> LARGE_TEXT_THRESHOLD - EPSILON \<le> ratioOfRgb \<lparr> r = 226, g = 68, b = 227 \<rparr> \<lparr> r = 151, g = 160, b = 0 \<rparr>"
  by (rule ratio_lt_from_bounds [OF lum_E244E3 lum_97A000]) (simp_all add: LARGE_TEXT_THRESHOLD_def NORMAL_TEXT_THRESHOLD_def EPSILON_def)

lemma tie_passing:
  "filter (\<lambda>c. ratio c \<ge> LARGE_TEXT_THRESHOLD - EPSILON)
     [\<lparr> rgb = \<lparr> r = 239, g = 253, b = 0 \<rparr>, ratio = ratioOfRgb \<lparr> r = 239, g = 253, b = 0 \<rparr> \<lparr> r = 226, g = 68, b = 227 \<rparr>,
        iterations = 7, path = ''fg-lighten'' \<rparr>,
      \<lparr> rgb = \<lparr> r = 64, g = 68, b = 0 \<rparr>, ratio = ratioOfRgb \<lparr> r = 64, g = 68, b = 0 \<rparr> \<lparr> r = 226, g = 68, b = 227 \<rparr>,
        iterations = 7, path = ''fg-darken'' \<rparr>,
      \<lparr> rgb = \<lparr> r = 132, g = 20, b = 132 \<rparr>, ratio = ratioOfRgb \<lparr> r = 151, g = 160, b = 0 \<rparr> \<lparr> r = 132, g = 20, b = 132 \<rparr>,
        iterations = 7, path = ''bg-darken'' \<rparr>,
      \<lparr> rgb = \<lparr> r = 226, g = 68, b = 227 \<rparr>, ratio = ratioOfRgb \<lparr> r = 226, g = 68, b = 227 \<rparr> \<lparr> r = 151, g = 160, b = 0 \<rparr>,
        iterations = 7, path = ''bg-lighten'' \<rparr>] =
   [\<lparr> rgb = \<lparr> r = 239, g = 253, b = 0 \<rparr>, ratio = ratioOfRgb \<lparr> r = 239, g = 253, b = 0 \<rparr> \<lparr> r = 226, g = 68, b = 227 \<rparr>,
        iterations = 7, path = ''fg-lighten'' \<rparr>,
      \<lparr> rgb = \<lparr> r = 64, g = 68, b = 0 \<rparr>, ratio = ratioOfRgb \<lparr> r = 64, g = 68, b = 0 \<rparr> \<lparr> r = 226, g = 68, b = 227 \<rparr>,
        iterations = 7, path = ''fg-darken'' \<rparr>,
      \<lparr> rgb = \<lparr> r = 132, g = 20, b = 132 \<rparr>, ratio = ratioOfRgb \<lparr> r = 151, g = 160, b = 0 \<rparr> \<lparr> r = 132, g = 20, b = 132 \<rparr>,
        iterations = 7, path = ''bg-darken'' \<rparr>]"
  by (simp add: ratio_EFFD00_E244E3_large_eps ratio_404400_E244E3_large_eps ratio_97A000_841484_large_eps ratio_E244E3_97A000_large_eps)

lemma round_583: "toDouble (239 / 255) = 4221020827221759 / 4503599627370496"
  using toDouble_normal [of "-1" "239 / 255"] by (simp add: roundTiesToEven_def Let_def)

lemma round_584: "toDouble (253 / 255) = 139633664917247 / 140737488355328"
  using toDouble_normal [of "-1" "253 / 255"] by (simp add: roundTiesToEven_def Let_def)

lemma round_585: "toDouble (139633664917247 / 140737488355328) = 139633664917247 / 140737488355328"
  using toDouble_normal [of "-1" "139633664917247 / 140737488355328"] by (simp add: roundTiesToEven_def Let_def)

lemma round_586: "toDouble (139633664917247 / 281474976710656) = 139633664917247 / 281474976710656"
  using toDouble_normal [of "-2" "139633664917247 / 281474976710656"] by (simp add: roundTiesToEven_def Let_def)

lemma round_587: "toDouble (4221020827221759 / 4503599627370496) = 4221020827221759 / 4503599627370496"
  using toDouble_normal [of "-1" "4221020827221759 / 4503599627370496"] by (simp add: roundTiesToEven_def Let_def)

lemma round_588: "toDouble (4221020827221759 / 4468277277351904) = 8508777161593269 / 9007199254740992"
  using toDouble_normal [of "-1" "4221020827221759 / 4468277277351904"] by (simp add: roundTiesToEven_def Let_def)

lemma round_589: "toDouble (9505621347888715 / 9007199254740992) = 2376405336972179 / 2251799813685248"
  using toDouble_normal [of "0" "9505621347888715 / 9007199254740992"] by (simp add: roundTiesToEven_def Let_def)

lemma round_590: "toDouble (2376405336972179 / 13510798882111488) = 6337080898592477 / 36028797018963968"
  using toDouble_normal [of "-3" "2376405336972179 / 13510798882111488"] by (simp add: roundTiesToEven_def Let_def)

lemma round_591: "toDouble (285168640436661465 / 4503599627370496) = 8911520013645671 / 140737488355328"
  using toDouble_normal [of "5" "285168640436661465 / 4503599627370496"] by (simp add: roundTiesToEven_def Let_def)

lemma round_592: "toDouble (3490841622931175 / 70368744177664) = 3490841622931175 / 70368744177664"
  using toDouble_normal [of "5" "3490841622931175 / 70368744177664"] by (simp add: roundTiesToEven_def Let_def)

lemma hsl_of_EFFD00:
  "rgbToHsl \<lparr> r = 239, g = 253, b = 0 \<rparr> =
     \<lparr> h = 8911520013645671 / 140737488355328, s = 100, l = 3490841622931175 / 70368744177664 \<rparr>"
  unfolding rgbToHsl_def Let_def
  by (simp add: addD_def subD_def mulD_def divD_def toDouble_zero toDouble_minus
      round_169 round_175 round_583 round_584 round_585 round_586 round_587 round_588 round_589
      round_590 round_591 round_592)

lemma round_593: "toDouble (64 / 255) = 282578800148737 / 1125899906842624"
  using toDouble_normal [of "-2" "64 / 255"] by (simp add: roundTiesToEven_def Let_def)

lemma round_594: "toDouble (4803839602528529 / 18014398509481984) = 4803839602528529 / 18014398509481984"
  using toDouble_normal [of "-2" "4803839602528529 / 18014398509481984"] by (simp add: roundTiesToEven_def Let_def)

lemma round_595: "toDouble (4803839602528529 / 36028797018963968) = 4803839602528529 / 36028797018963968"
  using toDouble_normal [of "-3" "4803839602528529 / 36028797018963968"] by (simp add: roundTiesToEven_def Let_def)

lemma round_596: "toDouble (16 / 17) = 4238682002231055 / 4503599627370496"
  using toDouble_normal [of "-1" "16 / 17"] by (simp add: roundTiesToEven_def Let_def)

lemma round_597: "toDouble (4768517252509937 / 4503599627370496) = 4768517252509937 / 4503599627370496"
  using toDouble_normal [of "0" "4768517252509937 / 4503599627370496"] by (simp add: roundTiesToEven_def Let_def)

lemma round_598: "toDouble (4768517252509937 / 27021597764222976) = 6358023003346583 / 36028797018963968"
  using toDouble_normal [of "-3" "4768517252509937 / 27021597764222976"] by (simp add: roundTiesToEven_def Let_def)

lemma round_599: "toDouble (286111035150596235 / 4503599627370496) = 2235242462114033 / 35184372088832"
  using toDouble_normal [of "5" "286111035150596235 / 4503599627370496"] by (simp add: roundTiesToEven_def Let_def)

lemma round_600: "toDouble (120095990063213225 / 9007199254740992) = 7505999378950827 / 562949953421312"
  using toDouble_normal [of "3" "120095990063213225 / 9007199254740992"] by (simp add: roundTiesToEven_def Let_def)

lemma hsl_of_404400:
  "rgbToHsl \<lparr> r = 64, g = 68, b = 0 \<rparr> =
     \<lparr> h = 2235242462114033 / 35184372088832, s = 100, l = 7505999378950827 / 562949953421312 \<rparr>"
  unfolding rgbToHsl_def Let_def
  by (simp add: addD_def subD_def mulD_def divD_def toDouble_zero toDouble_minus
      round_47 round_169 round_175 round_178 round_593 round_594 round_595 round_596 round_597
      round_598 round_599 round_600)

lemma round_601: "toDouble (44 / 85) = 4662550202454161 / 9007199254740992"
  using toDouble_normal [of "-1" "44 / 85"] by (simp add: roundTiesToEven_def Let_def)

lemma round_602: "toDouble (4 / 51) = 1412894000743685 / 18014398509481984"
  using toDouble_normal [of "-4" "4 / 51"] by (simp add: roundTiesToEven_def Let_def)

lemma round_603: "toDouble (7912206404164637 / 18014398509481984) = 7912206404164637 / 18014398509481984"
  using toDouble_normal [of "-2" "7912206404164637 / 18014398509481984"] by (simp add: roundTiesToEven_def Let_def)

lemma round_604: "toDouble (10737994405652007 / 18014398509481984) = 1342249300706501 / 2251799813685248"
  using toDouble_normal [of "-1" "10737994405652007 / 18014398509481984"] by (simp add: roundTiesToEven_def Let_def)

lemma round_605: "toDouble (1342249300706501 / 4503599627370496) = 1342249300706501 / 4503599627370496"
  using toDouble_normal [of "-2" "1342249300706501 / 4503599627370496"] by (simp add: roundTiesToEven_def Let_def)

lemma round_606: "toDouble (7912206404164637 / 10737994405652008) = 6636883661388099 / 9007199254740992"
  using toDouble_normal [of "-1" "7912206404164637 / 10737994405652008"] by (simp add: roundTiesToEven_def Let_def)

lemma round_607: "toDouble (5) = 5"
  using toDouble_normal [of "2" "5"] by (simp add: roundTiesToEven_def Let_def)

lemma round_608: "toDouble (5 / 6) = 7505999378950827 / 9007199254740992"
  using toDouble_normal [of "-1" "5 / 6"] by (simp add: roundTiesToEven_def Let_def)

lemma round_609: "toDouble (337769972052787215 / 1125899906842624) = 300"
  using toDouble_normal [of "8" "337769972052787215 / 1125899906842624"] by (simp add: roundTiesToEven_def Let_def)

lemma round_610: "toDouble (165922091534702475 / 2251799813685248) = 1296266340114863 / 17592186044416"
  using toDouble_normal [of "6" "165922091534702475 / 2251799813685248"] by (simp add: roundTiesToEven_def Let_def)

lemma round_611: "toDouble (33556232517662525 / 1125899906842624) = 8389058129415631 / 281474976710656"
  using toDouble_normal [of "4" "33556232517662525 / 1125899906842624"] by (simp add: roundTiesToEven_def Let_def)

lemma hsl_of_841484:
  "rgbToHsl \<lparr> r = 132, g = 20, b = 132 \<rparr> =
     \<lparr> h = 300, s = 1296266340114863 / 17592186044416, l = 8389058129415631 / 281474976710656 \<rparr>"
  unfolding rgbToHsl_def Let_def
  by (simp add: addD_def subD_def mulD_def divD_def toDouble_zero toDouble_minus
      round_169 round_601 round_602 round_603 round_604 round_605 round_606 round_607 round_608
      round_609 round_610 round_611)

lemma round_612: "toDouble (5132778987076669 / 281474976710656) = 5132778987076669 / 281474976710656"
  using toDouble_normal [of "4" "5132778987076669 / 281474976710656"] by (simp add: roundTiesToEven_def Let_def)

lemma round_613: "toDouble (10155175630345235 / 562949953421312) = 2538793907586309 / 140737488355328"
  using toDouble_normal [of "4" "10155175630345235 / 562949953421312"] by (simp add: roundTiesToEven_def Let_def)

lemma round_614: "toDouble (7892337582279175 / 281474976710656) = 7892337582279175 / 281474976710656"
  using toDouble_normal [of "4" "7892337582279175 / 281474976710656"] by (simp add: roundTiesToEven_def Let_def)

lemma round_615: "toDouble (55191171904051 / 281474976710656) = 55191171904051 / 281474976710656"
  using toDouble_normal [of "-3" "55191171904051 / 281474976710656"] by (simp add: roundTiesToEven_def Let_def)

lemma round_616: "toDouble (2814749767106557 / 281474976710656) = 2814749767106557 / 281474976710656"
  using toDouble_normal [of "3" "2814749767106557 / 281474976710656"] by (simp add: roundTiesToEven_def Let_def)

lemma tie_tie_zone:
  "similarCandidates (sortedByChange \<lparr> h = 8919238324518911 / 140737488355328, s = 100, l = 8830587504648031 / 281474976710656 \<rparr> \<lparr> h = 5271017252553323 / 17592186044416, s = 2602007052150831 / 35184372088832, l = 8140697855847403 / 140737488355328 \<rparr>
     [\<lparr> rgb = \<lparr> r = 239, g = 253, b = 0 \<rparr>, ratio = ratioOfRgb \<lparr> r = 239, g = 253, b = 0 \<rparr> \<lparr> r = 226, g = 68, b = 227 \<rparr>,
        iterations = 7, path = ''fg-lighten'' \<rparr>,
      \<lparr> rgb = \<lparr> r = 64, g = 68, b = 0 \<rparr>, ratio = ratioOfRgb \<lparr> r = 64, g = 68, b = 0 \<rparr> \<lparr> r = 226, g = 68, b = 227 \<rparr>,
        iterations = 7, path = ''fg-darken'' \<rparr>,
      \<lparr> rgb = \<lparr> r = 132, g = 20, b = 132 \<rparr>, ratio = ratioOfRgb \<lparr> r = 151, g = 160, b = 0 \<rparr> \<lparr> r = 132, g = 20, b = 132 \<rparr>,
        iterations = 7, path = ''bg-darken'' \<rparr>]) =
   [\<lparr> rgb = \<lparr> r = 64, g = 68, b = 0 \<rparr>, ratio = ratioOfRgb \<lparr> r = 64, g = 68, b = 0 \<rparr> \<lparr> r = 226, g = 68, b = 227 \<rparr>,
        iterations = 7, path = ''fg-darken'',
        change = 2538793907586309 / 140737488355328 \<rparr>,
      \<lparr> rgb = \<lparr> r = 239, g = 253, b = 0 \<rparr>, ratio = ratioOfRgb \<lparr> r = 239, g = 253, b = 0 \<rparr> \<lparr> r = 226, g = 68, b = 227 \<rparr>,
        iterations = 7, path = ''fg-lighten'',
        change = 5132778987076669 / 281474976710656 \<rparr>]"
  unfolding similarCandidates_def sortedByChange_def Let_def
  by (simp add: withChange_def startsWith_def
      subD_def toDouble_zero toDouble_minus hsl_of_EFFD00 hsl_of_404400 hsl_of_841484
      round_612 round_613 round_614 round_615 round_616)

lemma tie_select:
  "selectBest largeTextOptions \<lparr> h = 8919238324518911 / 140737488355328, s = 100, l = 8830587504648031 / 281474976710656 \<rparr> \<lparr> h = 5271017252553323 / 17592186044416, s = 2602007052150831 / 35184372088832, l = 8140697855847403 / 140737488355328 \<rparr> LARGE_TEXT_THRESHOLD
     [\<lparr> rgb = \<lparr> r = 239, g = 253, b = 0 \<rparr>, ratio = ratioOfRgb \<lparr> r = 239, g = 253, b = 0 \<rparr> \<lparr> r = 226, g = 68, b = 227 \<rparr>,
        iterations = 7, path = ''fg-lighten'' \<rparr>,
      \<lparr> rgb = \<lparr> r = 64, g = 68, b = 0 \<rparr>, ratio = ratioOfRgb \<lparr> r = 64, g = 68, b = 0 \<rparr> \<lparr> r = 226, g = 68, b = 227 \<rparr>,
        iterations = 7, path = ''fg-darken'' \<rparr>,
      \<lparr> rgb = \<lparr> r = 132, g = 20, b = 132 \<rparr>, ratio = ratioOfRgb \<lparr> r = 151, g = 160, b = 0 \<rparr> \<lparr> r = 132, g = 20, b = 132 \<rparr>,
        iterations = 7, path = ''bg-darken'' \<rparr>,
      \<lparr> rgb = \<lparr> r = 226, g = 68, b = 227 \<rparr>, ratio = ratioOfRgb \<lparr> r = 226, g = 68, b = 227 \<rparr> \<lparr> r = 151, g = 160, b = 0 \<rparr>,
        iterations = 7, path = ''bg-lighten'' \<rparr>] =
   (\<lparr> rgb = \<lparr> r = 64, g = 68, b = 0 \<rparr>, ratio = ratioOfRgb \<lparr> r = 64, g = 68, b = 0 \<rparr> \<lparr> r = 226, g = 68, b = 227 \<rparr>,
        iterations = 7, path = ''fg-darken'' \<rparr>, False)"
  unfolding selectBest_def Let_def tie_passing tie_tie_zone
  by (simp add: tieBreak_def findOrFirst_def startsWith_def Candidate.truncate_def truthy_def largeTextOptions_def)

lemma tie_snap:
  "snapToPassingColor ''#97A000'' ''#E244E3'' largeTextOptions =
     Inr \<lparr> fg = ''#404400'', bg = ''#E244E3'',
         ratio = ratioOfRgb \<lparr> r = 64, g = 68, b = 0 \<rparr> \<lparr> r = 226, g = 68, b = 227 \<rparr>,
         clamped = Some False, adjusted = Some ''fg'', iterations = Some 7 \<rparr>"
proof -
  let ?cands = "[\<lparr> rgb = \<lparr> r = 239, g = 253, b = 0 \<rparr>, ratio = ratioOfRgb \<lparr> r = 239, g = 253, b = 0 \<rparr> \<lparr> r = 226, g = 68, b = 227 \<rparr>,
        iterations = 7, path = ''fg-lighten'' \<rparr>,
      \<lparr> rgb = \<lparr> r = 64, g = 68, b = 0 \<rparr>, ratio = ratioOfRgb \<lparr> r = 64, g = 68, b = 0 \<rparr> \<lparr> r = 226, g = 68, b = 227 \<rparr>,
        iterations = 7, path = ''fg-darken'' \<rparr>,
      \<lparr> rgb = \<lparr> r = 132, g = 20, b = 132 \<rparr>, ratio = ratioOfRgb \<lparr> r = 151, g = 160, b = 0 \<rparr> \<lparr> r = 132, g = 20, b = 132 \<rparr>,
        iterations = 7, path = ''bg-darken'' \<rparr>,
      \<lparr> rgb = \<lparr> r = 226, g = 68, b = 227 \<rparr>, ratio = ratioOfRgb \<lparr> r = 226, g = 68, b = 227 \<rparr> \<lparr> r = 151, g = 160, b = 0 \<rparr>,
        iterations = 7, path = ''bg-lighten'' \<rparr>]"
  let ?best = "\<lparr> rgb = \<lparr> r = 64, g = 68, b = 0 \<rparr>, ratio = ratioOfRgb \<lparr> r = 64, g = 68, b = 0 \<rparr> \<lparr> r = 226, g = 68, b = 227 \<rparr>,
        iterations = 7, path = ''fg-darken'' \<rparr>"
  have T: "requiredThreshold largeTextOptions = LARGE_TEXT_THRESHOLD"
    by (simp add: requiredThreshold_def truthy_def largeTextOptions_def)
  have sound: "\<forall>c \<in> set ?cands. candidateSound \<lparr> r = 151, g = 160, b = 0 \<rparr> \<lparr> r = 226, g = 68, b = 227 \<rparr> c"
    using snapCandidates_returns [of "\<lparr> r = 151, g = 160, b = 0 \<rparr>" "\<lparr> r = 226, g = 68, b = 227 \<rparr>" LARGE_TEXT_THRESHOLD]
    by (simp add: tie_candidates)
  have "snapToPassingColor ''#97A000'' ''#E244E3'' largeTextOptions =
          Inr (resultOf \<lparr> r = 151, g = 160, b = 0 \<rparr> \<lparr> r = 226, g = 68, b = 227 \<rparr> ?best False)"
  proof (rule snap_searched [OF tie_parse_fg tie_parse_bg, where cands = ?cands])
    show "\<not> ratioOfRgb \<lparr> r = 151, g = 160, b = 0 \<rparr> \<lparr> r = 226, g = 68, b = 227 \<rparr> \<ge> requiredThreshold largeTextOptions - EPSILON"
      unfolding T by (rule ratio_97A000_E244E3_large_eps)
    show "ratioOfRgb \<lparr> r = 151, g = 160, b = 0 \<rparr> \<lparr> r = 226, g = 68, b = 227 \<rparr> \<noteq> 1"
      by (rule ratio_97A000_E244E3_not_1)
    show "snapCandidates \<lparr> r = 151, g = 160, b = 0 \<rparr> \<lparr> r = 226, g = 68, b = 227 \<rparr> (requiredThreshold largeTextOptions) = Inr ?cands"
      unfolding T by (rule tie_candidates)
    show "\<forall>c \<in> set ?cands. candidateSound \<lparr> r = 151, g = 160, b = 0 \<rparr> \<lparr> r = 226, g = 68, b = 227 \<rparr> c"
      by (rule sound)
    show "selectBest largeTextOptions (rgbToHsl \<lparr> r = 151, g = 160, b = 0 \<rparr>) (rgbToHsl \<lparr> r = 226, g = 68, b = 227 \<rparr>) (requiredThreshold largeTextOptions) ?cands = (?best, False)"
      unfolding T hsl_of_97A000 hsl_of_E244E3 by (rule tie_select)
    show "?best \<in> set ?cands"
      by simp
  qed
  then show ?thesis
    by (simp add: resultOf_def startsWith_def rgbToHexEval)
qed

subsection \<open>snapToPassingColor('#EF30B5', '#7165F5', { isLargeText: true, preferBackgroundAdjust: true })\<close>

lemma near_parse_fg: "hexToRgb ''#EF30B5'' = Inr \<lparr> r = 239, g = 48, b = 181 \<rparr>"
  by (simp add: hexEval)

lemma near_parse_bg: "hexToRgb ''#7165F5'' = Inr \<lparr> r = 113, g = 101, b = 245 \<rparr>"
  by (simp add: hexEval)

lemma gamma_48:
  "29556834 / 1000000000 \<le> gammaCorrect (48 / 255) \<and> gammaCorrect (48 / 255) \<le> 29556835 / 1000000000"
  by (rule gammaCorrect_between) (simp_all add: power_divide divide_le_eq le_divide_eq)

lemma gamma_181:
  "462076999 / 1000000000 \<le> gammaCorrect (181 / 255) \<and> gammaCorrect (181 / 255) \<le> 462077000 / 1000000000"
  by (rule gammaCorrect_between) (simp_all add: power_divide divide_le_eq le_divide_eq)

lemma lum_EF30B5:
  "238008230 / 1000000000 \<le> luminanceOfRgb \<lparr> r = 239, g = 48, b = 181 \<rparr> \<and> luminanceOfRgb \<lparr> r = 239, g = 48, b = 181 \<rparr> \<le> 238008232 / 1000000000"
  using gamma_48 gamma_181 gamma_239 by (simp add: luminanceOfRgb_def)

lemma gamma_113:
  "165132194 / 1000000000 \<le> gammaCorrect (113 / 255) \<and> gammaCorrect (113 / 255) \<le> 165132195 / 1000000000"
  by (rule gammaCorrect_between) (simp_all add: power_divide divide_le_eq le_divide_eq)

lemma gamma_101:
  "130136476 / 1000000000 \<le> gammaCorrect (101 / 255) \<and> gammaCorrect (101 / 255) \<le> 130136477 / 1000000000"
  by (rule gammaCorrect_between) (simp_all add: power_divide divide_le_eq le_divide_eq)

lemma lum_7165F5:
  "194106434 / 1000000000 \<le> luminanceOfRgb \<lparr> r = 113, g = 101, b = 245 \<rparr> \<and> luminanceOfRgb \<lparr> r = 113, g = 101, b = 245 \<rparr> \<le> 194106436 / 1000000000"
  using gamma_101 gamma_113 gamma_245 by (simp add: luminanceOfRgb_def)

lemma ratio_EF30B5_7165F5_large_eps:
  "\<not> LARGE_TEXT_THRESHOLD - EPSILON \<le> ratioOfRgb \<lparr> r = 239, g = 48, b = 181 \<rparr> \<lparr> r = 113, g = 101, b = 245 \<rparr>"
  by (rule ratio_lt_from_bounds [OF lum_EF30B5 lum_7165F5]) (simp_all add: LARGE_TEXT_THRESHOLD_def NORMAL_TEXT_THRESHOLD_def EPSILON_def)

lemma ratio_EF30B5_7165F5_not_1:
  "ratioOfRgb \<lparr> r = 239, g = 48, b = 181 \<rparr> \<lparr> r = 113, g = 101, b = 245 \<rparr> \<noteq> 1"
  by (rule ratio_ne_1_from_bounds [OF lum_EF30B5 lum_7165F5]) simp_all

lemma round_617: "toDouble (16 / 85) = 847736400446211 / 4503599627370496"
  using toDouble_normal [of "-3" "16 / 85"] by (simp add: roundTiesToEven_def Let_def)

lemma round_618: "toDouble (181 / 255) = 6393345353365175 / 9007199254740992"
  using toDouble_normal [of "-1" "181 / 255"] by (simp add: roundTiesToEven_def Let_def)

lemma round_619: "toDouble (843321106693887 / 1125899906842624) = 843321106693887 / 1125899906842624"
  using toDouble_normal [of "-1" "843321106693887 / 1125899906842624"] by (simp add: roundTiesToEven_def Let_def)

lemma round_620: "toDouble (2534378613833985 / 2251799813685248) = 2534378613833985 / 2251799813685248"
  using toDouble_normal [of "0" "2534378613833985 / 2251799813685248"] by (simp add: roundTiesToEven_def Let_def)

lemma round_621: "toDouble (2534378613833985 / 4503599627370496) = 2534378613833985 / 4503599627370496"
  using toDouble_normal [of "-1" "2534378613833985 / 4503599627370496"] by (simp add: roundTiesToEven_def Let_def)

lemma round_622: "toDouble (4786178427519233 / 4503599627370496) = 4786178427519233 / 4503599627370496"
  using toDouble_normal [of "0" "4786178427519233 / 4503599627370496"] by (simp add: roundTiesToEven_def Let_def)

lemma round_623: "toDouble (1969221013536511 / 2251799813685248) = 1969221013536511 / 2251799813685248"
  using toDouble_normal [of "-1" "1969221013536511 / 2251799813685248"] by (simp add: roundTiesToEven_def Let_def)

lemma round_624: "toDouble (1686642213387774 / 1969221013536511) = 1928671589299921 / 2251799813685248"
  using toDouble_normal [of "-1" "1686642213387774 / 1969221013536511"] by (simp add: roundTiesToEven_def Let_def)

lemma round_625: "toDouble (4697872552472753 / 9007199254740992) = 4697872552472753 / 9007199254740992"
  using toDouble_normal [of "-1" "4697872552472753 / 9007199254740992"] by (simp add: roundTiesToEven_def Let_def)

lemma round_626: "toDouble (4697872552472753 / 6746568853551096) = 3136014400210869 / 4503599627370496"
  using toDouble_normal [of "-1" "4697872552472753 / 6746568853551096"] by (simp add: roundTiesToEven_def Let_def)

lemma round_627: "toDouble (23885583364012107 / 4503599627370496) = 5971395841003027 / 1125899906842624"
  using toDouble_normal [of "2" "23885583364012107 / 4503599627370496"] by (simp add: roundTiesToEven_def Let_def)

lemma round_628: "toDouble (5971395841003027 / 6755399441055744) = 7961861121337369 / 9007199254740992"
  using toDouble_normal [of "-1" "5971395841003027 / 6755399441055744"] by (simp add: roundTiesToEven_def Let_def)

lemma round_629: "toDouble (358283750460181605 / 1125899906842624) = 2799091800470169 / 8796093022208"
  using toDouble_normal [of "8" "358283750460181605 / 1125899906842624"] by (simp add: roundTiesToEven_def Let_def)

lemma round_630: "toDouble (48216789732498025 / 562949953421312) = 6027098716562253 / 70368744177664"
  using toDouble_normal [of "6" "48216789732498025 / 562949953421312"] by (simp add: roundTiesToEven_def Let_def)

lemma round_631: "toDouble (63359465345849625 / 1125899906842624) = 7919933168231203 / 140737488355328"
  using toDouble_normal [of "5" "63359465345849625 / 1125899906842624"] by (simp add: roundTiesToEven_def Let_def)

lemma hsl_of_EF30B5:
  "rgbToHsl \<lparr> r = 239, g = 48, b = 181 \<rparr> =
     \<lparr> h = 2799091800470169 / 8796093022208, s = 6027098716562253 / 70368744177664, l = 7919933168231203 / 140737488355328 \<rparr>"
  unfolding rgbToHsl_def Let_def
  by (simp add: addD_def subD_def mulD_def divD_def toDouble_zero toDouble_minus
      round_583 round_617 round_618 round_619 round_620 round_621 round_622 round_623 round_624
      round_625 round_626 round_627 round_628 round_629 round_630 round_631)

lemma round_632: "toDouble (113 / 255) = 1995712776050455 / 4503599627370496"
  using toDouble_normal [of "-2" "113 / 255"] by (simp add: roundTiesToEven_def Let_def)

lemma round_633: "toDouble (101 / 255) = 7135114703755609 / 18014398509481984"
  using toDouble_normal [of "-2" "101 / 255"] by (simp add: roundTiesToEven_def Let_def)

lemma round_634: "toDouble (49 / 51) = 8653975754555071 / 9007199254740992"
  using toDouble_normal [of "-1" "49 / 51"] by (simp add: roundTiesToEven_def Let_def)

lemma round_635: "toDouble (10172836805354533 / 18014398509481984) = 2543209201338633 / 4503599627370496"
  using toDouble_normal [of "-1" "10172836805354533 / 18014398509481984"] by (simp add: roundTiesToEven_def Let_def)

lemma round_636: "toDouble (24443066212865751 / 18014398509481984) = 3055383276608219 / 2251799813685248"
  using toDouble_normal [of "0" "24443066212865751 / 18014398509481984"] by (simp add: roundTiesToEven_def Let_def)

lemma round_637: "toDouble (3055383276608219 / 4503599627370496) = 3055383276608219 / 4503599627370496"
  using toDouble_normal [of "-1" "3055383276608219 / 4503599627370496"] by (simp add: roundTiesToEven_def Let_def)

lemma round_638: "toDouble (9360422754926913 / 9007199254740992) = 146256605545733 / 140737488355328"
  using toDouble_normal [of "0" "9360422754926913 / 9007199254740992"] by (simp add: roundTiesToEven_def Let_def)

lemma round_639: "toDouble (11585730806098215 / 18014398509481984) = 1448216350762277 / 2251799813685248"
  using toDouble_normal [of "-1" "11585730806098215 / 18014398509481984"] by (simp add: roundTiesToEven_def Let_def)

lemma round_640: "toDouble (2543209201338633 / 2896432701524554) = 3954380160617997 / 4503599627370496"
  using toDouble_normal [of "-1" "2543209201338633 / 2896432701524554"] by (simp add: roundTiesToEven_def Let_def)

lemma round_641: "toDouble (847736400446211 / 18014398509481984) = 847736400446211 / 18014398509481984"
  using toDouble_normal [of "-5" "847736400446211 / 18014398509481984"] by (simp add: roundTiesToEven_def Let_def)

lemma round_642: "toDouble (1 / 12) = 6004799503160661 / 72057594037927936"
  using toDouble_normal [of "-4" "1 / 12"] by (simp add: roundTiesToEven_def Let_def)

lemma round_643: "toDouble (294235175654872405 / 72057594037927936) = 4597424619607381 / 1125899906842624"
  using toDouble_normal [of "2" "294235175654872405 / 72057594037927936"] by (simp add: roundTiesToEven_def Let_def)

lemma round_644: "toDouble (4597424619607381 / 6755399441055744) = 6129899492809841 / 9007199254740992"
  using toDouble_normal [of "-1" "4597424619607381 / 6755399441055744"] by (simp add: roundTiesToEven_def Let_def)

lemma round_645: "toDouble (275845477176442845 / 1125899906842624) = 8620171161763839 / 35184372088832"
  using toDouble_normal [of "7" "275845477176442845 / 1125899906842624"] by (simp add: roundTiesToEven_def Let_def)

lemma round_646: "toDouble (98859504015449925 / 1125899906842624) = 1544679750241405 / 17592186044416"
  using toDouble_normal [of "6" "98859504015449925 / 1125899906842624"] by (simp add: roundTiesToEven_def Let_def)

lemma round_647: "toDouble (76384581915205475 / 1125899906842624) = 2387018184850171 / 35184372088832"
  using toDouble_normal [of "6" "76384581915205475 / 1125899906842624"] by (simp add: roundTiesToEven_def Let_def)

lemma hsl_of_7165F5:
  "rgbToHsl \<lparr> r = 113, g = 101, b = 245 \<rparr> =
     \<lparr> h = 8620171161763839 / 35184372088832, s = 1544679750241405 / 17592186044416, l = 2387018184850171 / 35184372088832 \<rparr>"
  unfolding rgbToHsl_def Let_def
  by (simp add: addD_def subD_def mulD_def divD_def toDouble_zero toDouble_minus
      round_632 round_633 round_634 round_635 round_636 round_637 round_638 round_639 round_640
      round_641 round_642 round_643 round_644 round_645 round_646 round_647)

lemma round_648: "toDouble (311010200052241 / 351843720888320) = 3980930560668685 / 4503599627370496"
  using toDouble_normal [of "-1" "311010200052241 / 351843720888320"] by (simp add: roundTiesToEven_def Let_def)

lemma round_649: "toDouble (6027098716562253 / 7036874417766400) = 1928671589299921 / 2251799813685248"
  using toDouble_normal [of "-1" "6027098716562253 / 7036874417766400"] by (simp add: roundTiesToEven_def Let_def)

lemma round_650: "toDouble (7919933168231203 / 14073748835532800) = 2534378613833985 / 4503599627370496"
  using toDouble_normal [of "-1" "7919933168231203 / 14073748835532800"] by (simp add: roundTiesToEven_def Let_def)

lemma round_651: "toDouble (6391721792433827 / 4503599627370496) = 6391721792433827 / 4503599627370496"
  using toDouble_normal [of "0" "6391721792433827 / 4503599627370496"] by (simp add: roundTiesToEven_def Let_def)

lemma round_652: "toDouble (4887984029030922600391867615185 / 10141204801825835211973625643008) = 542675241303017 / 1125899906842624"
  using toDouble_normal [of "-2" "4887984029030922600391867615185 / 10141204801825835211973625643008"] by (simp add: roundTiesToEven_def Let_def)

lemma round_653: "toDouble (847736400446211 / 4503599627370496) = 847736400446211 / 4503599627370496"
  using toDouble_normal [of "-3" "847736400446211 / 4503599627370496"] by (simp add: roundTiesToEven_def Let_def)

lemma round_654: "toDouble (21928521745835401 / 18014398509481984) = 2741065218229425 / 2251799813685248"
  using toDouble_normal [of "0" "21928521745835401 / 18014398509481984"] by (simp add: roundTiesToEven_def Let_def)

lemma round_655: "toDouble (489265404544177 / 2251799813685248) = 489265404544177 / 2251799813685248"
  using toDouble_normal [of "-3" "489265404544177 / 2251799813685248"] by (simp add: roundTiesToEven_def Let_def)

lemma round_656: "toDouble (9918922739514079 / 18014398509481984) = 309966335609815 / 562949953421312"
  using toDouble_normal [of "-1" "9918922739514079 / 18014398509481984"] by (simp add: roundTiesToEven_def Let_def)

lemma round_657: "toDouble (1045338133403621 / 9007199254740992) = 1045338133403621 / 9007199254740992"
  using toDouble_normal [of "-4" "1045338133403621 / 9007199254740992"] by (simp add: roundTiesToEven_def Let_def)

lemma round_658: "toDouble (881555711531263747497864364827 / 10141204801825835211973625643008) = 3131915034981829 / 36028797018963968"
  using toDouble_normal [of "-4" "881555711531263747497864364827 / 10141204801825835211973625643008"] by (simp add: roundTiesToEven_def Let_def)

lemma round_659: "toDouble (9395745104945487 / 18014398509481984) = 587234069059093 / 1125899906842624"
  using toDouble_normal [of "-1" "9395745104945487 / 18014398509481984"] by (simp add: roundTiesToEven_def Let_def)

lemma round_660: "toDouble (3196672676682583 / 4503599627370496) = 3196672676682583 / 4503599627370496"
  using toDouble_normal [of "-1" "3196672676682583 / 4503599627370496"] by (simp add: roundTiesToEven_def Let_def)

lemma round_661: "toDouble (1076360310941548545 / 4503599627370496) = 239"
  using toDouble_normal [of "7" "1076360310941548545 / 4503599627370496"] by (simp add: roundTiesToEven_def Let_def)

lemma round_662: "toDouble (216172782113783805 / 4503599627370496) = 48"
  using toDouble_normal [of "5" "216172782113783805 / 4503599627370496"] by (simp add: roundTiesToEven_def Let_def)

lemma round_663: "toDouble (815151532554058665 / 4503599627370496) = 6368371348078583 / 35184372088832"
  using toDouble_normal [of "7" "815151532554058665 / 4503599627370496"] by (simp add: roundTiesToEven_def Let_def)

lemma rgb_of_hsl_61:
  "hslToRgb \<lparr> h = 2799091800470169 / 8796093022208, s = 6027098716562253 / 70368744177664, l = 7919933168231203 / 140737488355328 \<rparr> =
     \<lparr> r = 239, g = 48, b = 181 \<rparr>"
  unfolding hslToRgb_def hue2rgb_def Let_def
  by (simp add: mathRound_def addD_def subD_def mulD_def divD_def toDouble_zero toDouble_minus
      round_196 round_198 round_199 round_200 round_587 round_619 round_620 round_648 round_649
      round_650 round_651 round_652 round_653 round_654 round_655 round_656 round_657 round_658
      round_659 round_660 round_661 round_662 round_663)

lemma round_664: "toDouble (21993682003764003 / 140737488355328) = 5498420500941001 / 35184372088832"
  using toDouble_normal [of "7" "21993682003764003 / 140737488355328"] by (simp add: roundTiesToEven_def Let_def)

lemma round_665: "toDouble (5498420500941001 / 70368744177664) = 5498420500941001 / 70368744177664"
  using toDouble_normal [of "6" "5498420500941001 / 70368744177664"] by (simp add: roundTiesToEven_def Let_def)

lemma round_666: "toDouble (5498420500941001 / 7036874417766400) = 7037978241204481 / 9007199254740992"
  using toDouble_normal [of "-1" "5498420500941001 / 7036874417766400"] by (simp add: roundTiesToEven_def Let_def)

lemma round_667: "toDouble (14752664598404165 / 9007199254740992) = 3688166149601041 / 2251799813685248"
  using toDouble_normal [of "0" "14752664598404165 / 9007199254740992"] by (simp add: roundTiesToEven_def Let_def)

lemma round_668: "toDouble (13573948679922109116270598146001 / 20282409603651670423947251286016) = 3014022071905955 / 4503599627370496"
  using toDouble_normal [of "-1" "13573948679922109116270598146001 / 20282409603651670423947251286016"] by (simp add: roundTiesToEven_def Let_def)

lemma round_669: "toDouble (4362310227296127 / 4503599627370496) = 4362310227296127 / 4503599627370496"
  using toDouble_normal [of "-1" "4362310227296127 / 4503599627370496"] by (simp add: roundTiesToEven_def Let_def)

lemma round_670: "toDouble (7037978241204481 / 4503599627370496) = 7037978241204481 / 4503599627370496"
  using toDouble_normal [of "0" "7037978241204481 / 4503599627370496"] by (simp add: roundTiesToEven_def Let_def)

lemma round_671: "toDouble (1337834006954177 / 2251799813685248) = 1337834006954177 / 2251799813685248"
  using toDouble_normal [of "-1" "1337834006954177 / 2251799813685248"] by (simp add: roundTiesToEven_def Let_def)

lemma round_672: "toDouble (1686642213387773 / 4503599627370496) = 1686642213387773 / 4503599627370496"
  using toDouble_normal [of "-2" "1686642213387773 / 4503599627370496"] by (simp add: roundTiesToEven_def Let_def)

lemma round_673: "toDouble (1763111423062526449657595326033 / 40564819207303340847894502572032) = 6263830069963655 / 144115188075855872"
  using toDouble_normal [of "-5" "1763111423062526449657595326033 / 40564819207303340847894502572032"] by (simp add: roundTiesToEven_def Let_def)

lemma round_674: "toDouble (18791490209890965 / 72057594037927936) = 4697872552472741 / 18014398509481984"
  using toDouble_normal [of "-2" "18791490209890965 / 72057594037927936"] by (simp add: roundTiesToEven_def Let_def)

lemma round_675: "toDouble (15400544608106157 / 18014398509481984) = 3850136152026539 / 4503599627370496"
  using toDouble_normal [of "-1" "15400544608106157 / 18014398509481984"] by (simp add: roundTiesToEven_def Let_def)

lemma round_676: "toDouble (1112389107960512385 / 4503599627370496) = 8690539905941503 / 35184372088832"
  using toDouble_normal [of "7" "1112389107960512385 / 4503599627370496"] by (simp add: roundTiesToEven_def Let_def)

lemma round_677: "toDouble (341147671773315135 / 2251799813685248) = 5330432371458049 / 35184372088832"
  using toDouble_normal [of "7" "341147671773315135 / 2251799813685248"] by (simp add: roundTiesToEven_def Let_def)

lemma round_678: "toDouble (981784718766767445 / 4503599627370496) = 7670193115365371 / 35184372088832"
  using toDouble_normal [of "7" "981784718766767445 / 4503599627370496"] by (simp add: roundTiesToEven_def Let_def)

lemma rgb_of_hsl_62:
  "hslToRgb \<lparr> h = 2799091800470169 / 8796093022208, s = 6027098716562253 / 70368744177664, l = 5498420500941001 / 70368744177664 \<rparr> =
     \<lparr> r = 247, g = 152, b = 218 \<rparr>"
  unfolding hslToRgb_def hue2rgb_def Let_def
  by (simp add: mathRound_def addD_def subD_def mulD_def divD_def toDouble_zero toDouble_minus
      round_196 round_198 round_199 round_200 round_648 round_649 round_654 round_655 round_656
      round_657 round_666 round_667 round_668 round_669 round_670 round_671 round_672 round_673
      round_674 round_675 round_676 round_677 round_678)

lemma gamma_152:
  "313988713 / 1000000000 \<le> gammaCorrect (152 / 255) \<and> gammaCorrect (152 / 255) \<le> 313988714 / 1000000000"
  by (rule gammaCorrect_between) (simp_all add: power_divide divide_le_eq le_divide_eq)

lemma gamma_218:
  "701101891 / 1000000000 \<le> gammaCorrect (218 / 255) \<and> gammaCorrect (218 / 255) \<le> 701101892 / 1000000000"
  by (rule gammaCorrect_between) (simp_all add: power_divide divide_le_eq le_divide_eq)

lemma lum_F798DA:
  "472925852 / 1000000000 \<le> luminanceOfRgb \<lparr> r = 247, g = 152, b = 218 \<rparr> \<and> luminanceOfRgb \<lparr> r = 247, g = 152, b = 218 \<rparr> \<le> 472925854 / 1000000000"
  using gamma_152 gamma_218 gamma_247 by (simp add: luminanceOfRgb_def)

lemma ratio_F798DA_7165F5_large:
  "\<not> LARGE_TEXT_THRESHOLD \<le> ratioOfRgb \<lparr> r = 247, g = 152, b = 218 \<rparr> \<lparr> r = 113, g = 101, b = 245 \<rparr>"
  by (rule ratio_lt_from_bounds [OF lum_F798DA lum_7165F5]) (simp_all add: LARGE_TEXT_THRESHOLD_def NORMAL_TEXT_THRESHOLD_def EPSILON_def)

lemma canon_F798DA: "canonRgb \<lparr> r = 247, g = 152, b = 218 \<rparr> = \<lparr> r = 247, g = 152, b = 218 \<rparr>"
  by (simp add: canonRgb_def channelByte_def mathRound_def)

lemma canon_7165F5: "canonRgb \<lparr> r = 113, g = 101, b = 245 \<rparr> = \<lparr> r = 113, g = 101, b = 245 \<rparr>"
  by (simp add: canonRgb_def channelByte_def mathRound_def)

lemma near_fg_lighten_step_1:
  "searchBody \<lparr> h = 2799091800470169 / 8796093022208, s = 6027098716562253 / 70368744177664, l = 7919933168231203 / 140737488355328 \<rparr> \<lparr> r = 113, g = 101, b = 245 \<rparr> LARGE_TEXT_THRESHOLD True True
     \<lparr> minL = 7919933168231203 / 140737488355328, maxL = 100, bestRgb = \<lparr> r = 239, g = 48, b = 181 \<rparr>,
       bestRatio = ratioOfRgb \<lparr> r = 239, g = 48, b = 181 \<rparr> \<lparr> r = 113, g = 101, b = 245 \<rparr>, iterationCount = 0 \<rparr> =
   Inr \<lparr> minL = 5498420500941001 / 70368744177664, maxL = 100, bestRgb = \<lparr> r = 239, g = 48, b = 181 \<rparr>,
       bestRatio = ratioOfRgb \<lparr> r = 239, g = 48, b = 181 \<rparr> \<lparr> r = 113, g = 101, b = 245 \<rparr>, iterationCount = Suc 0 \<rparr>"
  unfolding searchBody_def Let_def
  by (simp add: bindE_def contrastRatio_rgbToHex addD_def divD_def toDouble_zero
      round_664 round_665 rgb_of_hsl_62 canon_F798DA canon_7165F5 ratio_F798DA_7165F5_large)

lemma round_679: "toDouble (1538453916825399 / 70368744177664) = 1538453916825399 / 70368744177664"
  using toDouble_normal [of "4" "1538453916825399 / 70368744177664"] by (simp add: roundTiesToEven_def Let_def)

lemma round_680: "toDouble (12535294918707401 / 70368744177664) = 1566911864838425 / 8796093022208"
  using toDouble_normal [of "7" "12535294918707401 / 70368744177664"] by (simp add: roundTiesToEven_def Let_def)

lemma round_681: "toDouble (1566911864838425 / 17592186044416) = 1566911864838425 / 17592186044416"
  using toDouble_normal [of "6" "1566911864838425 / 17592186044416"] by (simp add: roundTiesToEven_def Let_def)

lemma round_682: "toDouble (62676474593537 / 70368744177664) = 62676474593537 / 70368744177664"
  using toDouble_normal [of "-1" "62676474593537 / 70368744177664"] by (simp add: roundTiesToEven_def Let_def)

lemma round_683: "toDouble (3934318776293105 / 2251799813685248) = 3934318776293105 / 2251799813685248"
  using toDouble_normal [of "0" "3934318776293105 / 2251799813685248"] by (simp add: roundTiesToEven_def Let_def)

lemma round_684: "toDouble (120882335866033125856861210577 / 158456325028528675187087900672) = 6871365250505797 / 9007199254740992"
  using toDouble_normal [of "-1" "120882335866033125856861210577 / 158456325028528675187087900672"] by (simp add: roundTiesToEven_def Let_def)

lemma round_685: "toDouble (8865909854666623 / 9007199254740992) = 8865909854666623 / 9007199254740992"
  using toDouble_normal [of "-1" "8865909854666623 / 9007199254740992"] by (simp add: roundTiesToEven_def Let_def)

lemma round_686: "toDouble (62676474593537 / 35184372088832) = 62676474593537 / 35184372088832"
  using toDouble_normal [of "0" "62676474593537 / 35184372088832"] by (simp add: roundTiesToEven_def Let_def)

lemma round_687: "toDouble (7179267641278849 / 9007199254740992) = 7179267641278849 / 9007199254740992"
  using toDouble_normal [of "-1" "7179267641278849 / 9007199254740992"] by (simp add: roundTiesToEven_def Let_def)

lemma round_688: "toDouble (843321106693887 / 4503599627370496) = 843321106693887 / 4503599627370496"
  using toDouble_normal [of "-3" "843321106693887 / 4503599627370496"] by (simp add: roundTiesToEven_def Let_def)

lemma round_689: "toDouble (881555711531263747497864364827 / 40564819207303340847894502572032) = 3131915034981829 / 144115188075855872"
  using toDouble_normal [of "-6" "881555711531263747497864364827 / 40564819207303340847894502572032"] by (simp add: roundTiesToEven_def Let_def)

lemma round_690: "toDouble (9395745104945487 / 72057594037927936) = 587234069059093 / 4503599627370496"
  using toDouble_normal [of "-3" "9395745104945487 / 72057594037927936"] by (simp add: roundTiesToEven_def Let_def)

lemma round_691: "toDouble (8353735779397035 / 9007199254740992) = 8353735779397035 / 9007199254740992"
  using toDouble_normal [of "-1" "8353735779397035 / 9007199254740992"] by (simp add: roundTiesToEven_def Let_def)

lemma round_692: "toDouble (2260807012939988865 / 9007199254740992) = 251"
  using toDouble_normal [of "7" "2260807012939988865 / 9007199254740992"] by (simp add: roundTiesToEven_def Let_def)

lemma round_693: "toDouble (1830713248526106495 / 9007199254740992) = 7151223627055103 / 35184372088832"
  using toDouble_normal [of "7" "1830713248526106495 / 9007199254740992"] by (simp add: roundTiesToEven_def Let_def)

lemma round_694: "toDouble (2130202623746243925 / 9007199254740992) = 8321103999008765 / 35184372088832"
  using toDouble_normal [of "7" "2130202623746243925 / 9007199254740992"] by (simp add: roundTiesToEven_def Let_def)

lemma rgb_of_hsl_63:
  "hslToRgb \<lparr> h = 2799091800470169 / 8796093022208, s = 6027098716562253 / 70368744177664, l = 1566911864838425 / 17592186044416 \<rparr> =
     \<lparr> r = 251, g = 203, b = 236 \<rparr>"
  unfolding hslToRgb_def hue2rgb_def Let_def
  by (simp add: mathRound_def addD_def subD_def mulD_def divD_def toDouble_zero toDouble_minus
      round_196 round_198 round_199 round_200 round_648 round_649 round_654 round_655 round_656
      round_657 round_682 round_683 round_684 round_685 round_686 round_687 round_688 round_689
      round_690 round_691 round_692 round_693 round_694)

lemma gamma_203:
  "597201788 / 1000000000 \<le> gammaCorrect (203 / 255) \<and> gammaCorrect (203 / 255) \<le> 597201789 / 1000000000"
  by (rule gammaCorrect_between) (simp_all add: power_divide divide_le_eq le_divide_eq)

lemma lum_FBCBEC:
  "692772303 / 1000000000 \<le> luminanceOfRgb \<lparr> r = 251, g = 203, b = 236 \<rparr> \<and> luminanceOfRgb \<lparr> r = 251, g = 203, b = 236 \<rparr> \<le> 692772305 / 1000000000"
  using gamma_203 gamma_236 gamma_251 by (simp add: luminanceOfRgb_def)

lemma ratio_FBCBEC_7165F5_large:
  "LARGE_TEXT_THRESHOLD \<le> ratioOfRgb \<lparr> r = 251, g = 203, b = 236 \<rparr> \<lparr> r = 113, g = 101, b = 245 \<rparr>"
  by (rule ratio_ge_from_bounds [OF lum_FBCBEC lum_7165F5]) (simp_all add: LARGE_TEXT_THRESHOLD_def NORMAL_TEXT_THRESHOLD_def EPSILON_def)

lemma canon_FBCBEC: "canonRgb \<lparr> r = 251, g = 203, b = 236 \<rparr> = \<lparr> r = 251, g = 203, b = 236 \<rparr>"
  by (simp add: canonRgb_def channelByte_def mathRound_def)

lemma near_fg_lighten_step_2:
  "searchBody \<lparr> h = 2799091800470169 / 8796093022208, s = 6027098716562253 / 70368744177664, l = 7919933168231203 / 140737488355328 \<rparr> \<lparr> r = 113, g = 101, b = 245 \<rparr> LARGE_TEXT_THRESHOLD True True
     \<lparr> minL = 5498420500941001 / 70368744177664, maxL = 100, bestRgb = \<lparr> r = 239, g = 48, b = 181 \<rparr>,
       bestRatio = ratioOfRgb \<lparr> r = 239, g = 48, b = 181 \<rparr> \<lparr> r = 113, g = 101, b = 245 \<rparr>, iterationCount = Suc 0 \<rparr> =
   Inr \<lparr> minL = 5498420500941001 / 70368744177664, maxL = 1566911864838425 / 17592186044416, bestRgb = \<lparr> r = 251, g = 203, b = 236 \<rparr>,
       bestRatio = ratioOfRgb \<lparr> r = 251, g = 203, b = 236 \<rparr> \<lparr> r = 113, g = 101, b = 245 \<rparr>, iterationCount = 2 \<rparr>"
  unfolding searchBody_def Let_def
  by (simp add: bindE_def contrastRatio_rgbToHex addD_def divD_def toDouble_zero
      round_680 round_681 rgb_of_hsl_63 canon_FBCBEC canon_7165F5 ratio_FBCBEC_7165F5_large)

lemma round_695: "toDouble (769226958412699 / 70368744177664) = 769226958412699 / 70368744177664"
  using toDouble_normal [of "3" "769226958412699 / 70368744177664"] by (simp add: roundTiesToEven_def Let_def)

lemma round_696: "toDouble (11766067960294701 / 70368744177664) = 2941516990073675 / 17592186044416"
  using toDouble_normal [of "7" "11766067960294701 / 70368744177664"] by (simp add: roundTiesToEven_def Let_def)

lemma round_697: "toDouble (2941516990073675 / 35184372088832) = 2941516990073675 / 35184372088832"
  using toDouble_normal [of "6" "2941516990073675 / 35184372088832"] by (simp add: roundTiesToEven_def Let_def)

lemma round_698: "toDouble (117660679602947 / 140737488355328) = 117660679602947 / 140737488355328"
  using toDouble_normal [of "-1" "117660679602947 / 140737488355328"] by (simp add: roundTiesToEven_def Let_def)

lemma round_699: "toDouble (3811242462947073 / 2251799813685248) = 3811242462947073 / 2251799813685248"
  using toDouble_normal [of "0" "3811242462947073 / 2251799813685248"] by (simp add: roundTiesToEven_def Let_def)

lemma round_700: "toDouble (226928809927924588259978467187 / 316912650057057350374175801344) = 6449704697158853 / 9007199254740992"
  using toDouble_normal [of "-1" "226928809927924588259978467187 / 316912650057057350374175801344"] by (simp add: roundTiesToEven_def Let_def)

lemma round_701: "toDouble (8795265154629439 / 9007199254740992) = 8795265154629439 / 9007199254740992"
  using toDouble_normal [of "-1" "8795265154629439 / 9007199254740992"] by (simp add: roundTiesToEven_def Let_def)

lemma round_702: "toDouble (117660679602947 / 70368744177664) = 117660679602947 / 70368744177664"
  using toDouble_normal [of "0" "117660679602947 / 70368744177664"] by (simp add: roundTiesToEven_def Let_def)

lemma round_703: "toDouble (6265301834547777 / 9007199254740992) = 6265301834547777 / 9007199254740992"
  using toDouble_normal [of "-1" "6265301834547777 / 9007199254740992"] by (simp add: roundTiesToEven_def Let_def)

lemma round_704: "toDouble (1264981660040831 / 4503599627370496) = 1264981660040831 / 4503599627370496"
  using toDouble_normal [of "-2" "1264981660040831 / 4503599627370496"] by (simp add: roundTiesToEven_def Let_def)

lemma round_705: "toDouble (1322333567296896143915863249051 / 40564819207303340847894502572032) = 2348936276236373 / 72057594037927936"
  using toDouble_normal [of "-5" "1322333567296896143915863249051 / 40564819207303340847894502572032"] by (simp add: roundTiesToEven_def Let_def)

lemma round_706: "toDouble (7046808828709119 / 36028797018963968) = 7046808828709119 / 36028797018963968"
  using toDouble_normal [of "-3" "7046808828709119 / 36028797018963968"] by (simp add: roundTiesToEven_def Let_def)

lemma round_707: "toDouble (32108016166900227 / 36028797018963968) = 8027004041725057 / 9007199254740992"
  using toDouble_normal [of "-1" "32108016166900227 / 36028797018963968"] by (simp add: roundTiesToEven_def Let_def)

lemma round_708: "toDouble (2242792614430506945 / 9007199254740992) = 249"
  using toDouble_normal [of "7" "2242792614430506945 / 9007199254740992"] by (simp add: roundTiesToEven_def Let_def)

lemma round_709: "toDouble (1597651967809683135 / 9007199254740992) = 6240827999256575 / 35184372088832"
  using toDouble_normal [of "7" "1597651967809683135 / 9007199254740992"] by (simp add: roundTiesToEven_def Let_def)

lemma round_710: "toDouble (2046886030639889535 / 9007199254740992) = 1998912139296767 / 8796093022208"
  using toDouble_normal [of "7" "2046886030639889535 / 9007199254740992"] by (simp add: roundTiesToEven_def Let_def)

lemma rgb_of_hsl_64:
  "hslToRgb \<lparr> h = 2799091800470169 / 8796093022208, s = 6027098716562253 / 70368744177664, l = 2941516990073675 / 35184372088832 \<rparr> =
     \<lparr> r = 249, g = 177, b = 227 \<rparr>"
  unfolding hslToRgb_def hue2rgb_def Let_def
  by (simp add: mathRound_def addD_def subD_def mulD_def divD_def toDouble_zero toDouble_minus
      round_196 round_198 round_199 round_200 round_648 round_649 round_654 round_655 round_656
      round_657 round_698 round_699 round_700 round_701 round_702 round_703 round_704 round_705
      round_706 round_707 round_708 round_709 round_710)

lemma gamma_177:
  "439657173 / 1000000000 \<le> gammaCorrect (177 / 255) \<and> gammaCorrect (177 / 255) \<le> 439657174 / 1000000000"
  by (rule gammaCorrect_between) (simp_all add: power_divide divide_le_eq le_divide_eq)

lemma lum_F9B1E3:
  "571300692 / 1000000000 \<le> luminanceOfRgb \<lparr> r = 249, g = 177, b = 227 \<rparr> \<and> luminanceOfRgb \<lparr> r = 249, g = 177, b = 227 \<rparr> \<le> 571300694 / 1000000000"
  using gamma_177 gamma_227 gamma_249 by (simp add: luminanceOfRgb_def)

lemma ratio_F9B1E3_7165F5_large:
  "\<not> LARGE_TEXT_THRESHOLD \<le> ratioOfRgb \<lparr> r = 249, g = 177, b = 227 \<rparr> \<lparr> r = 113, g = 101, b = 245 \<rparr>"
  by (rule ratio_lt_from_bounds [OF lum_F9B1E3 lum_7165F5]) (simp_all add: LARGE_TEXT_THRESHOLD_def NORMAL_TEXT_THRESHOLD_def EPSILON_def)

lemma canon_F9B1E3: "canonRgb \<lparr> r = 249, g = 177, b = 227 \<rparr> = \<lparr> r = 249, g = 177, b = 227 \<rparr>"
  by (simp add: canonRgb_def channelByte_def mathRound_def)

lemma near_fg_lighten_step_3:
  "searchBody \<lparr> h = 2799091800470169 / 8796093022208, s = 6027098716562253 / 70368744177664, l = 7919933168231203 / 140737488355328 \<rparr> \<lparr> r = 113, g = 101, b = 245 \<rparr> LARGE_TEXT_THRESHOLD True True
     \<lparr> minL = 5498420500941001 / 70368744177664, maxL = 1566911864838425 / 17592186044416, bestRgb = \<lparr> r = 251, g = 203, b = 236 \<rparr>,
       bestRatio = ratioOfRgb \<lparr> r = 251, g = 203, b = 236 \<rparr> \<lparr> r = 113, g = 101, b = 245 \<rparr>, iterationCount = 2 \<rparr> =
   Inr \<lparr> minL = 2941516990073675 / 35184372088832, maxL = 1566911864838425 / 17592186044416, bestRgb = \<lparr> r = 251, g = 203, b = 236 \<rparr>,
       bestRatio = ratioOfRgb \<lparr> r = 251, g = 203, b = 236 \<rparr> \<lparr> r = 113, g = 101, b = 245 \<rparr>, iterationCount = 3 \<rparr>"
  unfolding searchBody_def Let_def
  by (simp add: bindE_def contrastRatio_rgbToHex addD_def divD_def toDouble_zero
      round_696 round_697 rgb_of_hsl_64 canon_F9B1E3 canon_7165F5 ratio_F9B1E3_7165F5_large)

lemma round_711: "toDouble (192306739603175 / 35184372088832) = 192306739603175 / 35184372088832"
  using toDouble_normal [of "2" "192306739603175 / 35184372088832"] by (simp add: roundTiesToEven_def Let_def)

lemma round_712: "toDouble (6075340719750525 / 35184372088832) = 6075340719750525 / 35184372088832"
  using toDouble_normal [of "7" "6075340719750525 / 35184372088832"] by (simp add: roundTiesToEven_def Let_def)

lemma round_713: "toDouble (6075340719750525 / 70368744177664) = 6075340719750525 / 70368744177664"
  using toDouble_normal [of "6" "6075340719750525 / 70368744177664"] by (simp add: roundTiesToEven_def Let_def)

lemma round_714: "toDouble (243013628790021 / 281474976710656) = 243013628790021 / 281474976710656"
  using toDouble_normal [of "-1" "243013628790021 / 281474976710656"] by (simp add: roundTiesToEven_def Let_def)

lemma round_715: "toDouble (3872780619620089 / 2251799813685248) = 3872780619620089 / 2251799813685248"
  using toDouble_normal [of "0" "3872780619620089 / 2251799813685248"] by (simp add: roundTiesToEven_def Let_def)

lemma round_716: "toDouble (468693481659990839973700888341 / 633825300114114700748351602688) = 6660534973832325 / 9007199254740992"
  using toDouble_normal [of "-1" "468693481659990839973700888341 / 633825300114114700748351602688"] by (simp add: roundTiesToEven_def Let_def)

lemma round_717: "toDouble (8830587504648031 / 9007199254740992) = 8830587504648031 / 9007199254740992"
  using toDouble_normal [of "-1" "8830587504648031 / 9007199254740992"] by (simp add: roundTiesToEven_def Let_def)

lemma round_718: "toDouble (243013628790021 / 140737488355328) = 243013628790021 / 140737488355328"
  using toDouble_normal [of "0" "243013628790021 / 140737488355328"] by (simp add: roundTiesToEven_def Let_def)

lemma round_719: "toDouble (6722284737913313 / 9007199254740992) = 6722284737913313 / 9007199254740992"
  using toDouble_normal [of "-1" "6722284737913313 / 9007199254740992"] by (simp add: roundTiesToEven_def Let_def)

lemma round_720: "toDouble (1054151383367359 / 4503599627370496) = 1054151383367359 / 4503599627370496"
  using toDouble_normal [of "-3" "1054151383367359 / 4503599627370496"] by (simp add: roundTiesToEven_def Let_def)

lemma round_721: "toDouble (1101944639414079945706863806939 / 40564819207303340847894502572032) = 7829787587454575 / 288230376151711744"
  using toDouble_normal [of "-6" "1101944639414079945706863806939 / 40564819207303340847894502572032"] by (simp add: roundTiesToEven_def Let_def)

lemma round_722: "toDouble (23489362762363725 / 144115188075855872) = 5872340690590931 / 36028797018963968"
  using toDouble_normal [of "-3" "23489362762363725 / 144115188075855872"] by (simp add: roundTiesToEven_def Let_def)

lemma round_723: "toDouble (32761479642244183 / 36028797018963968) = 4095184955280523 / 4503599627370496"
  using toDouble_normal [of "-1" "32761479642244183 / 36028797018963968"] by (simp add: roundTiesToEven_def Let_def)

lemma round_724: "toDouble (2251799813685247905 / 9007199254740992) = 250"
  using toDouble_normal [of "7" "2251799813685247905 / 9007199254740992"] by (simp add: roundTiesToEven_def Let_def)

lemma round_725: "toDouble (1714182608167894815 / 9007199254740992) = 6696025813155839 / 35184372088832"
  using toDouble_normal [of "7" "1714182608167894815 / 9007199254740992"] by (simp add: roundTiesToEven_def Let_def)

lemma round_726: "toDouble (1044272163596533365 / 4503599627370496) = 8158376278097917 / 35184372088832"
  using toDouble_normal [of "7" "1044272163596533365 / 4503599627370496"] by (simp add: roundTiesToEven_def Let_def)

lemma rgb_of_hsl_65:
  "hslToRgb \<lparr> h = 2799091800470169 / 8796093022208, s = 6027098716562253 / 70368744177664, l = 6075340719750525 / 70368744177664 \<rparr> =
     \<lparr> r = 250, g = 190, b = 232 \<rparr>"
  unfolding hslToRgb_def hue2rgb_def Let_def
  by (simp add: mathRound_def addD_def subD_def mulD_def divD_def toDouble_zero toDouble_minus
      round_196 round_198 round_199 round_200 round_648 round_649 round_654 round_655 round_656
      round_657 round_714 round_715 round_716 round_717 round_718 round_719 round_720 round_721
      round_722 round_723 round_724 round_725 round_726)

lemma gamma_190:
  "514917665 / 1000000000 \<le> gammaCorrect (190 / 255) \<and> gammaCorrect (190 / 255) \<le> 514917666 / 1000000000"
  by (rule gammaCorrect_between) (simp_all add: power_divide divide_le_eq le_divide_eq)

lemma lum_FABEE8:
  "629771001 / 1000000000 \<le> luminanceOfRgb \<lparr> r = 250, g = 190, b = 232 \<rparr> \<and> luminanceOfRgb \<lparr> r = 250, g = 190, b = 232 \<rparr> \<le> 629771003 / 1000000000"
  using gamma_190 gamma_232 gamma_250 by (simp add: luminanceOfRgb_def)

lemma ratio_FABEE8_7165F5_large:
  "\<not> LARGE_TEXT_THRESHOLD \<le> ratioOfRgb \<lparr> r = 250, g = 190, b = 232 \<rparr> \<lparr> r = 113, g = 101, b = 245 \<rparr>"
  by (rule ratio_lt_from_bounds [OF lum_FABEE8 lum_7165F5]) (simp_all add: LARGE_TEXT_THRESHOLD_def NORMAL_TEXT_THRESHOLD_def EPSILON_def)

lemma canon_FABEE8: "canonRgb \<lparr> r = 250, g = 190, b = 232 \<rparr> = \<lparr> r = 250, g = 190, b = 232 \<rparr>"
  by (simp add: canonRgb_def channelByte_def mathRound_def)

lemma near_fg_lighten_step_4:
  "searchBody \<lparr> h = 2799091800470169 / 8796093022208, s = 6027098716562253 / 70368744177664, l = 7919933168231203 / 140737488355328 \<rparr> \<lparr> r = 113, g = 101, b = 245 \<rparr> LARGE_TEXT_THRESHOLD True True
     \<lparr> minL = 2941516990073675 / 35184372088832, maxL = 1566911864838425 / 17592186044416, bestRgb = \<lparr> r = 251, g = 203, b = 236 \<rparr>,
       bestRatio = ratioOfRgb \<lparr> r = 251, g = 203, b = 236 \<rparr> \<lparr> r = 113, g = 101, b = 245 \<rparr>, iterationCount = 3 \<rparr> =
   Inr \<lparr> minL = 6075340719750525 / 70368744177664, maxL = 1566911864838425 / 17592186044416, bestRgb = \<lparr> r = 251, g = 203, b = 236 \<rparr>,
       bestRatio = ratioOfRgb \<lparr> r = 251, g = 203, b = 236 \<rparr> \<lparr> r = 113, g = 101, b = 245 \<rparr>, iterationCount = 4 \<rparr>"
  unfolding searchBody_def Let_def
  by (simp add: bindE_def contrastRatio_rgbToHex addD_def divD_def toDouble_zero
      round_712 round_713 rgb_of_hsl_65 canon_FABEE8 canon_7165F5 ratio_FABEE8_7165F5_large)

lemma round_727: "toDouble (192306739603175 / 70368744177664) = 192306739603175 / 70368744177664"
  using toDouble_normal [of "1" "192306739603175 / 70368744177664"] by (simp add: roundTiesToEven_def Let_def)

lemma round_728: "toDouble (12342988179104225 / 70368744177664) = 385718380597007 / 2199023255552"
  using toDouble_normal [of "7" "12342988179104225 / 70368744177664"] by (simp add: roundTiesToEven_def Let_def)

lemma round_729: "toDouble (385718380597007 / 4398046511104) = 385718380597007 / 4398046511104"
  using toDouble_normal [of "6" "385718380597007 / 4398046511104"] by (simp add: roundTiesToEven_def Let_def)

lemma round_730: "toDouble (385718380597007 / 439804651110400) = 7899512434626703 / 9007199254740992"
  using toDouble_normal [of "-1" "385718380597007 / 439804651110400"] by (simp add: roundTiesToEven_def Let_def)

lemma round_731: "toDouble (15614198791826387 / 9007199254740992) = 3903549697956597 / 2251799813685248"
  using toDouble_normal [of "0" "15614198791826387 / 9007199254740992"] by (simp add: roundTiesToEven_def Let_def)

lemma round_732: "toDouble (15235565201985971565746742390463 / 20282409603651670423947251286016) = 1691487528042265 / 2251799813685248"
  using toDouble_normal [of "-1" "15235565201985971565746742390463 / 20282409603651670423947251286016"] by (simp add: roundTiesToEven_def Let_def)

lemma round_733: "toDouble (553015542478583 / 562949953421312) = 553015542478583 / 562949953421312"
  using toDouble_normal [of "-1" "553015542478583 / 562949953421312"] by (simp add: roundTiesToEven_def Let_def)

lemma round_734: "toDouble (7899512434626703 / 4503599627370496) = 7899512434626703 / 4503599627370496"
  using toDouble_normal [of "0" "7899512434626703 / 4503599627370496"] by (simp add: roundTiesToEven_def Let_def)

lemma round_735: "toDouble (3475388094798039 / 4503599627370496) = 3475388094798039 / 4503599627370496"
  using toDouble_normal [of "-1" "3475388094798039 / 4503599627370496"] by (simp add: roundTiesToEven_def Let_def)

lemma round_736: "toDouble (948736245030625 / 4503599627370496) = 948736245030625 / 4503599627370496"
  using toDouble_normal [of "-3" "948736245030625 / 4503599627370496"] by (simp add: roundTiesToEven_def Let_def)

lemma round_737: "toDouble (991750175472673937278630893125 / 40564819207303340847894502572032) = 7046808828709131 / 288230376151711744"
  using toDouble_normal [of "-6" "991750175472673937278630893125 / 40564819207303340847894502572032"] by (simp add: roundTiesToEven_def Let_def)

lemma round_738: "toDouble (21140426486127393 / 144115188075855872) = 660638327691481 / 4503599627370496"
  using toDouble_normal [of "-3" "21140426486127393 / 144115188075855872"] by (simp add: roundTiesToEven_def Let_def)

lemma round_739: "toDouble (258501651405595 / 281474976710656) = 258501651405595 / 281474976710656"
  using toDouble_normal [of "-1" "258501651405595 / 281474976710656"] by (simp add: roundTiesToEven_def Let_def)

lemma round_740: "toDouble (141018963332038665 / 562949953421312) = 8813685208252417 / 35184372088832"
  using toDouble_normal [of "7" "141018963332038665 / 562949953421312"] by (simp add: roundTiesToEven_def Let_def)

lemma round_741: "toDouble (886223964173499945 / 4503599627370496) = 1730906180026367 / 8796093022208"
  using toDouble_normal [of "7" "886223964173499945 / 4503599627370496"] by (simp add: roundTiesToEven_def Let_def)

lemma round_742: "toDouble (65917921108426725 / 281474976710656) = 8239740138553341 / 35184372088832"
  using toDouble_normal [of "7" "65917921108426725 / 281474976710656"] by (simp add: roundTiesToEven_def Let_def)

lemma rgb_of_hsl_66:
  "hslToRgb \<lparr> h = 2799091800470169 / 8796093022208, s = 6027098716562253 / 70368744177664, l = 385718380597007 / 4398046511104 \<rparr> =
     \<lparr> r = 251, g = 197, b = 234 \<rparr>"
  unfolding hslToRgb_def hue2rgb_def Let_def
  by (simp add: mathRound_def addD_def subD_def mulD_def divD_def toDouble_zero toDouble_minus
      round_196 round_198 round_199 round_200 round_648 round_649 round_654 round_655 round_656
      round_657 round_730 round_731 round_732 round_733 round_734 round_735 round_736 round_737
      round_738 round_739 round_740 round_741 round_742)

lemma gamma_197:
  "558340389 / 1000000000 \<le> gammaCorrect (197 / 255) \<and> gammaCorrect (197 / 255) \<le> 558340390 / 1000000000"
  by (rule gammaCorrect_between) (simp_all add: power_divide divide_le_eq le_divide_eq)

lemma lum_FBC5EA:
  "663822473 / 1000000000 \<le> luminanceOfRgb \<lparr> r = 251, g = 197, b = 234 \<rparr> \<and> luminanceOfRgb \<lparr> r = 251, g = 197, b = 234 \<rparr> \<le> 663822475 / 1000000000"
  using gamma_197 gamma_234 gamma_251 by (simp add: luminanceOfRgb_def)

lemma ratio_FBC5EA_7165F5_large:
  "\<not> LARGE_TEXT_THRESHOLD \<le> ratioOfRgb \<lparr> r = 251, g = 197, b = 234 \<rparr> \<lparr> r = 113, g = 101, b = 245 \<rparr>"
  by (rule ratio_lt_from_bounds [OF lum_FBC5EA lum_7165F5]) (simp_all add: LARGE_TEXT_THRESHOLD_def NORMAL_TEXT_THRESHOLD_def EPSILON_def)

lemma canon_FBC5EA: "canonRgb \<lparr> r = 251, g = 197, b = 234 \<rparr> = \<lparr> r = 251, g = 197, b = 234 \<rparr>"
  by (simp add: canonRgb_def channelByte_def mathRound_def)

lemma near_fg_lighten_step_5:
  "searchBody \<lparr> h = 2799091800470169 / 8796093022208, s = 6027098716562253 / 70368744177664, l = 7919933168231203 / 140737488355328 \<rparr> \<lparr> r = 113, g = 101, b = 245 \<rparr> LARGE_TEXT_THRESHOLD True True
     \<lparr> minL = 6075340719750525 / 70368744177664, maxL = 1566911864838425 / 17592186044416, bestRgb = \<lparr> r = 251, g = 203, b = 236 \<rparr>,
       bestRatio = ratioOfRgb \<lparr> r = 251, g = 203, b = 236 \<rparr> \<lparr> r = 113, g = 101, b = 245 \<rparr>, iterationCount = 4 \<rparr> =
   Inr \<lparr> minL = 385718380597007 / 4398046511104, maxL = 1566911864838425 / 17592186044416, bestRgb = \<lparr> r = 251, g = 203, b = 236 \<rparr>,
       bestRatio = ratioOfRgb \<lparr> r = 251, g = 203, b = 236 \<rparr> \<lparr> r = 113, g = 101, b = 245 \<rparr>, iterationCount = 5 \<rparr>"
  unfolding searchBody_def Let_def
  by (simp add: bindE_def contrastRatio_rgbToHex addD_def divD_def toDouble_zero
      round_728 round_729 rgb_of_hsl_66 canon_FBC5EA canon_7165F5 ratio_FBC5EA_7165F5_large)

lemma round_743: "toDouble (24038342450397 / 17592186044416) = 24038342450397 / 17592186044416"
  using toDouble_normal [of "0" "24038342450397 / 17592186044416"] by (simp add: roundTiesToEven_def Let_def)

lemma round_744: "toDouble (3109785387226453 / 17592186044416) = 3109785387226453 / 17592186044416"
  using toDouble_normal [of "7" "3109785387226453 / 17592186044416"] by (simp add: roundTiesToEven_def Let_def)

lemma round_745: "toDouble (3109785387226453 / 35184372088832) = 3109785387226453 / 35184372088832"
  using toDouble_normal [of "6" "3109785387226453 / 35184372088832"] by (simp add: roundTiesToEven_def Let_def)

lemma round_746: "toDouble (3109785387226453 / 3518437208883200) = 995131323912465 / 1125899906842624"
  using toDouble_normal [of "-1" "3109785387226453 / 3518437208883200"] by (simp add: roundTiesToEven_def Let_def)

lemma round_747: "toDouble (3918934237124851 / 2251799813685248) = 3918934237124851 / 2251799813685248"
  using toDouble_normal [of "0" "3918934237124851 / 2251799813685248"] by (simp add: roundTiesToEven_def Let_def)

lemma round_748: "toDouble (1919281512052388350256035415265 / 2535301200456458802993406410752) = 6818657681337429 / 9007199254740992"
  using toDouble_normal [of "-1" "1919281512052388350256035415265 / 2535301200456458802993406410752"] by (simp add: roundTiesToEven_def Let_def)

lemma round_749: "toDouble (8857079267161975 / 9007199254740992) = 8857079267161975 / 9007199254740992"
  using toDouble_normal [of "-1" "8857079267161975 / 9007199254740992"] by (simp add: roundTiesToEven_def Let_def)

lemma round_750: "toDouble (995131323912465 / 562949953421312) = 995131323912465 / 562949953421312"
  using toDouble_normal [of "0" "995131323912465 / 562949953421312"] by (simp add: roundTiesToEven_def Let_def)

lemma round_751: "toDouble (7065021915437465 / 9007199254740992) = 7065021915437465 / 9007199254740992"
  using toDouble_normal [of "-1" "7065021915437465 / 9007199254740992"] by (simp add: roundTiesToEven_def Let_def)

lemma round_752: "toDouble (896028675862255 / 4503599627370496) = 896028675862255 / 4503599627370496"
  using toDouble_normal [of "-3" "896028675862255 / 4503599627370496"] by (simp add: roundTiesToEven_def Let_def)

lemma round_753: "toDouble (936652943501967797050114225355 / 40564819207303340847894502572032) = 1663829862334097 / 72057594037927936"
  using toDouble_normal [of "-6" "936652943501967797050114225355 / 40564819207303340847894502572032"] by (simp add: roundTiesToEven_def Let_def)

lemma round_754: "toDouble (4991489587002291 / 36028797018963968) = 4991489587002291 / 36028797018963968"
  using toDouble_normal [of "-3" "4991489587002291 / 36028797018963968"] by (simp add: roundTiesToEven_def Let_def)

lemma round_755: "toDouble (33251577248752151 / 36028797018963968) = 4156447156094019 / 4503599627370496"
  using toDouble_normal [of "-1" "33251577248752151 / 36028797018963968"] by (simp add: roundTiesToEven_def Let_def)

lemma round_756: "toDouble (2258555213126303625 / 9007199254740992) = 1003 / 4"
  using toDouble_normal [of "7" "2258555213126303625 / 9007199254740992"] by (simp add: roundTiesToEven_def Let_def)

lemma round_757: "toDouble (1801580588436553575 / 9007199254740992) = 7037424173580287 / 35184372088832"
  using toDouble_normal [of "7" "1801580588436553575 / 9007199254740992"] by (simp add: roundTiesToEven_def Let_def)

lemma round_758: "toDouble (1059894024803974845 / 4503599627370496) = 8280422068781053 / 35184372088832"
  using toDouble_normal [of "7" "1059894024803974845 / 4503599627370496"] by (simp add: roundTiesToEven_def Let_def)

lemma rgb_of_hsl_67:
  "hslToRgb \<lparr> h = 2799091800470169 / 8796093022208, s = 6027098716562253 / 70368744177664, l = 3109785387226453 / 35184372088832 \<rparr> =
     \<lparr> r = 251, g = 200, b = 235 \<rparr>"
  unfolding hslToRgb_def hue2rgb_def Let_def
  by (simp add: mathRound_def addD_def subD_def mulD_def divD_def toDouble_zero toDouble_minus
      round_196 round_198 round_199 round_200 round_648 round_649 round_654 round_655 round_656
      round_657 round_746 round_747 round_748 round_749 round_750 round_751 round_752 round_753
      round_754 round_755 round_756 round_757 round_758)

lemma gamma_200:
  "577580440 / 1000000000 \<le> gammaCorrect (200 / 255) \<and> gammaCorrect (200 / 255) \<le> 577580441 / 1000000000"
  by (rule gammaCorrect_between) (simp_all add: power_divide divide_le_eq le_divide_eq)

lemma gamma_235:
  "830769876 / 1000000000 \<le> gammaCorrect (235 / 255) \<and> gammaCorrect (235 / 255) \<le> 830769877 / 1000000000"
  by (rule gammaCorrect_between) (simp_all add: power_divide divide_le_eq le_divide_eq)

lemma lum_FBC8EB:
  "678159411 / 1000000000 \<le> luminanceOfRgb \<lparr> r = 251, g = 200, b = 235 \<rparr> \<and> luminanceOfRgb \<lparr> r = 251, g = 200, b = 235 \<rparr> \<le> 678159413 / 1000000000"
  using gamma_200 gamma_235 gamma_251 by (simp add: luminanceOfRgb_def)

lemma ratio_FBC8EB_7165F5_large:
  "\<not> LARGE_TEXT_THRESHOLD \<le> ratioOfRgb \<lparr> r = 251, g = 200, b = 235 \<rparr> \<lparr> r = 113, g = 101, b = 245 \<rparr>"
  by (rule ratio_lt_from_bounds [OF lum_FBC8EB lum_7165F5]) (simp_all add: LARGE_TEXT_THRESHOLD_def NORMAL_TEXT_THRESHOLD_def EPSILON_def)

lemma canon_FBC8EB: "canonRgb \<lparr> r = 251, g = 200, b = 235 \<rparr> = \<lparr> r = 251, g = 200, b = 235 \<rparr>"
  by (simp add: canonRgb_def channelByte_def mathRound_def)

lemma near_fg_lighten_step_6:
  "searchBody \<lparr> h = 2799091800470169 / 8796093022208, s = 6027098716562253 / 70368744177664, l = 7919933168231203 / 140737488355328 \<rparr> \<lparr> r = 113, g = 101, b = 245 \<rparr> LARGE_TEXT_THRESHOLD True True
     \<lparr> minL = 385718380597007 / 4398046511104, maxL = 1566911864838425 / 17592186044416, bestRgb = \<lparr> r = 251, g = 203, b = 236 \<rparr>,
       bestRatio = ratioOfRgb \<lparr> r = 251, g = 203, b = 236 \<rparr> \<lparr> r = 113, g = 101, b = 245 \<rparr>, iterationCount = 5 \<rparr> =
   Inr \<lparr> minL = 3109785387226453 / 35184372088832, maxL = 1566911864838425 / 17592186044416, bestRgb = \<lparr> r = 251, g = 203, b = 236 \<rparr>,
       bestRatio = ratioOfRgb \<lparr> r = 251, g = 203, b = 236 \<rparr> \<lparr> r = 113, g = 101, b = 245 \<rparr>, iterationCount = 6 \<rparr>"
  unfolding searchBody_def Let_def
  by (simp add: bindE_def contrastRatio_rgbToHex addD_def divD_def toDouble_zero
      round_744 round_745 rgb_of_hsl_67 canon_FBC8EB canon_7165F5 ratio_FBC8EB_7165F5_large)

lemma round_759: "toDouble (24038342450397 / 35184372088832) = 24038342450397 / 35184372088832"
  using toDouble_normal [of "-1" "24038342450397 / 35184372088832"] by (simp add: roundTiesToEven_def Let_def)

lemma round_760: "toDouble (6243609116903303 / 35184372088832) = 6243609116903303 / 35184372088832"
  using toDouble_normal [of "7" "6243609116903303 / 35184372088832"] by (simp add: roundTiesToEven_def Let_def)

lemma round_761: "toDouble (6243609116903303 / 70368744177664) = 6243609116903303 / 70368744177664"
  using toDouble_normal [of "6" "6243609116903303 / 70368744177664"] by (simp add: roundTiesToEven_def Let_def)

lemma round_762: "toDouble (6243609116903303 / 7036874417766400) = 1997954917409057 / 2251799813685248"
  using toDouble_normal [of "-1" "6243609116903303 / 7036874417766400"] by (simp add: roundTiesToEven_def Let_def)

lemma round_763: "toDouble (1963313253354489 / 1125899906842624) = 1963313253354489 / 1125899906842624"
  using toDouble_normal [of "0" "1963313253354489 / 1125899906842624"] by (simp add: roundTiesToEven_def Let_def)

lemma round_764: "toDouble (3853398885908918363965814784497 / 5070602400912917605986812821504) = 6845011465921613 / 9007199254740992"
  using toDouble_normal [of "-1" "3853398885908918363965814784497 / 5070602400912917605986812821504"] by (simp add: roundTiesToEven_def Let_def)

lemma round_765: "toDouble (8861494560914299 / 9007199254740992) = 8861494560914299 / 9007199254740992"
  using toDouble_normal [of "-1" "8861494560914299 / 9007199254740992"] by (simp add: roundTiesToEven_def Let_def)

lemma round_766: "toDouble (1997954917409057 / 1125899906842624) = 1997954917409057 / 1125899906842624"
  using toDouble_normal [of "0" "1997954917409057 / 1125899906842624"] by (simp add: roundTiesToEven_def Let_def)

lemma round_767: "toDouble (7122144778358157 / 9007199254740992) = 7122144778358157 / 9007199254740992"
  using toDouble_normal [of "-1" "7122144778358157 / 9007199254740992"] by (simp add: roundTiesToEven_def Let_def)

lemma round_768: "toDouble (869674891278071 / 4503599627370496) = 869674891278071 / 4503599627370496"
  using toDouble_normal [of "-3" "869674891278071 / 4503599627370496"] by (simp add: roundTiesToEven_def Let_def)

lemma round_769: "toDouble (909104327516615772273989295091 / 40564819207303340847894502572032) = 6459574759650023 / 288230376151711744"
  using toDouble_normal [of "-6" "909104327516615772273989295091 / 40564819207303340847894502572032"] by (simp add: roundTiesToEven_def Let_def)

lemma round_770: "toDouble (19378724278950069 / 144115188075855872) = 4844681069737517 / 36028797018963968"
  using toDouble_normal [of "-3" "19378724278950069 / 144115188075855872"] by (simp add: roundTiesToEven_def Let_def)

lemma round_771: "toDouble (33333260183170145 / 36028797018963968) = 1041664380724067 / 1125899906842624"
  using toDouble_normal [of "-1" "33333260183170145 / 36028797018963968"] by (simp add: roundTiesToEven_def Let_def)

lemma round_772: "toDouble (2259681113033146245 / 9007199254740992) = 2007 / 8"
  using toDouble_normal [of "7" "2259681113033146245 / 9007199254740992"] by (simp add: roundTiesToEven_def Let_def)

lemma round_773: "toDouble (1816146918481330035 / 9007199254740992) = 7094323900317695 / 35184372088832"
  using toDouble_normal [of "7" "1816146918481330035 / 9007199254740992"] by (simp add: roundTiesToEven_def Let_def)

lemma round_774: "toDouble (265624417084637085 / 1125899906842624) = 8300763033894909 / 35184372088832"
  using toDouble_normal [of "7" "265624417084637085 / 1125899906842624"] by (simp add: roundTiesToEven_def Let_def)

lemma rgb_of_hsl_68:
  "hslToRgb \<lparr> h = 2799091800470169 / 8796093022208, s = 6027098716562253 / 70368744177664, l = 6243609116903303 / 70368744177664 \<rparr> =
     \<lparr> r = 251, g = 202, b = 236 \<rparr>"
  unfolding hslToRgb_def hue2rgb_def Let_def
  by (simp add: mathRound_def addD_def subD_def mulD_def divD_def toDouble_zero toDouble_minus
      round_196 round_198 round_199 round_200 round_648 round_649 round_654 round_655 round_656
      round_657 round_762 round_763 round_764 round_765 round_766 round_767 round_768 round_769
      round_770 round_771 round_772 round_773 round_774)

lemma gamma_202:
  "590618840 / 1000000000 \<le> gammaCorrect (202 / 255) \<and> gammaCorrect (202 / 255) \<le> 590618841 / 1000000000"
  by (rule gammaCorrect_between) (simp_all add: power_divide divide_le_eq le_divide_eq)

lemma lum_FBCAEC:
  "688064179 / 1000000000 \<le> luminanceOfRgb \<lparr> r = 251, g = 202, b = 236 \<rparr> \<and> luminanceOfRgb \<lparr> r = 251, g = 202, b = 236 \<rparr> \<le> 688064181 / 1000000000"
  using gamma_202 gamma_236 gamma_251 by (simp add: luminanceOfRgb_def)

lemma ratio_FBCAEC_7165F5_large:
  "LARGE_TEXT_THRESHOLD \<le> ratioOfRgb \<lparr> r = 251, g = 202, b = 236 \<rparr> \<lparr> r = 113, g = 101, b = 245 \<rparr>"
  by (rule ratio_ge_from_bounds [OF lum_FBCAEC lum_7165F5]) (simp_all add: LARGE_TEXT_THRESHOLD_def NORMAL_TEXT_THRESHOLD_def EPSILON_def)

lemma canon_FBCAEC: "canonRgb \<lparr> r = 251, g = 202, b = 236 \<rparr> = \<lparr> r = 251, g = 202, b = 236 \<rparr>"
  by (simp add: canonRgb_def channelByte_def mathRound_def)

lemma near_fg_lighten_step_7:
  "searchBody \<lparr> h = 2799091800470169 / 8796093022208, s = 6027098716562253 / 70368744177664, l = 7919933168231203 / 140737488355328 \<rparr> \<lparr> r = 113, g = 101, b = 245 \<rparr> LARGE_TEXT_THRESHOLD True True
     \<lparr> minL = 3109785387226453 / 35184372088832, maxL = 1566911864838425 / 17592186044416, bestRgb = \<lparr> r = 251, g = 203, b = 236 \<rparr>,
       bestRatio = ratioOfRgb \<lparr> r = 251, g = 203, b = 236 \<rparr> \<lparr> r = 113, g = 101, b = 245 \<rparr>, iterationCount = 6 \<rparr> =
   Inr \<lparr> minL = 3109785387226453 / 35184372088832, maxL = 6243609116903303 / 70368744177664, bestRgb = \<lparr> r = 251, g = 202, b = 236 \<rparr>,
       bestRatio = ratioOfRgb \<lparr> r = 251, g = 202, b = 236 \<rparr> \<lparr> r = 113, g = 101, b = 245 \<rparr>, iterationCount = 7 \<rparr>"
  unfolding searchBody_def Let_def
  by (simp add: bindE_def contrastRatio_rgbToHex addD_def divD_def toDouble_zero
      round_760 round_761 rgb_of_hsl_68 canon_FBCAEC canon_7165F5 ratio_FBCAEC_7165F5_large)

lemma round_775: "toDouble (24038342450397 / 70368744177664) = 24038342450397 / 70368744177664"
  using toDouble_normal [of "-2" "24038342450397 / 70368744177664"] by (simp add: roundTiesToEven_def Let_def)

lemma near_fg_lighten_loop:
  "searchLoop 7 \<lparr> h = 2799091800470169 / 8796093022208, s = 6027098716562253 / 70368744177664, l = 7919933168231203 / 140737488355328 \<rparr> \<lparr> r = 113, g = 101, b = 245 \<rparr> LARGE_TEXT_THRESHOLD True True
     \<lparr> minL = 7919933168231203 / 140737488355328, maxL = 100, bestRgb = \<lparr> r = 239, g = 48, b = 181 \<rparr>,
       bestRatio = ratioOfRgb \<lparr> r = 239, g = 48, b = 181 \<rparr> \<lparr> r = 113, g = 101, b = 245 \<rparr>, iterationCount = 0 \<rparr> =
   Inr \<lparr> minL = 3109785387226453 / 35184372088832, maxL = 6243609116903303 / 70368744177664, bestRgb = \<lparr> r = 251, g = 202, b = 236 \<rparr>,
       bestRatio = ratioOfRgb \<lparr> r = 251, g = 202, b = 236 \<rparr> \<lparr> r = 113, g = 101, b = 245 \<rparr>, iterationCount = 7 \<rparr>"
  by (simp add: searchLoop_numeral bindE_def subD_def toDouble_zero toDouble_minus
      round_15 round_679 round_695 round_711 round_727 round_743 round_759 round_775
      near_fg_lighten_step_1 near_fg_lighten_step_2 near_fg_lighten_step_3 near_fg_lighten_step_4
      near_fg_lighten_step_5 near_fg_lighten_step_6 near_fg_lighten_step_7)

lemma canon_EF30B5: "canonRgb \<lparr> r = 239, g = 48, b = 181 \<rparr> = \<lparr> r = 239, g = 48, b = 181 \<rparr>"
  by (simp add: canonRgb_def channelByte_def mathRound_def)

lemma near_fg_lighten_search:
  "binarySearchLightness \<lparr> h = 2799091800470169 / 8796093022208, s = 6027098716562253 / 70368744177664, l = 7919933168231203 / 140737488355328 \<rparr> \<lparr> r = 113, g = 101, b = 245 \<rparr> LARGE_TEXT_THRESHOLD True True 7 =
   Inr \<lparr> rgb = \<lparr> r = 251, g = 202, b = 236 \<rparr>, ratio = ratioOfRgb \<lparr> r = 251, g = 202, b = 236 \<rparr> \<lparr> r = 113, g = 101, b = 245 \<rparr>, iterations = 7 \<rparr>"
  unfolding binarySearchLightness_def Let_def
  by (simp add: bindE_def contrastRatio_rgbToHex rgb_of_hsl_61 canon_EF30B5 canon_7165F5 near_fg_lighten_loop)

lemma round_776: "toDouble (7919933168231203 / 140737488355328) = 7919933168231203 / 140737488355328"
  using toDouble_normal [of "5" "7919933168231203 / 140737488355328"] by (simp add: roundTiesToEven_def Let_def)

lemma round_777: "toDouble (7919933168231203 / 281474976710656) = 7919933168231203 / 281474976710656"
  using toDouble_normal [of "4" "7919933168231203 / 281474976710656"] by (simp add: roundTiesToEven_def Let_def)

lemma round_778: "toDouble (7919933168231203 / 28147497671065600) = 2534378613833985 / 9007199254740992"
  using toDouble_normal [of "-2" "7919933168231203 / 28147497671065600"] by (simp add: roundTiesToEven_def Let_def)

lemma round_779: "toDouble (4180471402985169 / 2251799813685248) = 4180471402985169 / 2251799813685248"
  using toDouble_normal [of "0" "4180471402985169 / 2251799813685248"] by (simp add: roundTiesToEven_def Let_def)

lemma round_780: "toDouble (10594897319470167112809183168465 / 20282409603651670423947251286016) = 4705079579046053 / 9007199254740992"
  using toDouble_normal [of "-1" "10594897319470167112809183168465 / 20282409603651670423947251286016"] by (simp add: roundTiesToEven_def Let_def)

lemma round_781: "toDouble (363677648621917 / 9007199254740992) = 363677648621917 / 9007199254740992"
  using toDouble_normal [of "-5" "363677648621917 / 9007199254740992"] by (simp add: roundTiesToEven_def Let_def)

lemma round_782: "toDouble (542675241303017 / 1125899906842624) = 542675241303017 / 1125899906842624"
  using toDouble_normal [of "-2" "542675241303017 / 1125899906842624"] by (simp add: roundTiesToEven_def Let_def)

lemma round_783: "toDouble (567279123788055401617226024557 / 10141204801825835211973625643008) = 2015380302779787 / 36028797018963968"
  using toDouble_normal [of "-5" "567279123788055401617226024557 / 10141204801825835211973625643008"] by (simp add: roundTiesToEven_def Let_def)

lemma round_784: "toDouble (6046140908339361 / 18014398509481984) = 6046140908339361 / 18014398509481984"
  using toDouble_normal [of "-2" "6046140908339361 / 18014398509481984"] by (simp add: roundTiesToEven_def Let_def)

lemma round_785: "toDouble (6773496205583195 / 18014398509481984) = 6773496205583195 / 18014398509481984"
  using toDouble_normal [of "-2" "6773496205583195 / 18014398509481984"] by (simp add: roundTiesToEven_def Let_def)

lemma round_786: "toDouble (1199795292656743515 / 9007199254740992) = 1171675090485101 / 8796093022208"
  using toDouble_normal [of "7" "1199795292656743515 / 9007199254740992"] by (simp add: roundTiesToEven_def Let_def)

lemma round_787: "toDouble (92737800398588835 / 9007199254740992) = 2898056262455901 / 281474976710656"
  using toDouble_normal [of "3" "92737800398588835 / 9007199254740992"] by (simp add: roundTiesToEven_def Let_def)

lemma round_788: "toDouble (1727241532423714725 / 18014398509481984) = 843379654503767 / 8796093022208"
  using toDouble_normal [of "6" "1727241532423714725 / 18014398509481984"] by (simp add: roundTiesToEven_def Let_def)

lemma rgb_of_hsl_69:
  "hslToRgb \<lparr> h = 2799091800470169 / 8796093022208, s = 6027098716562253 / 70368744177664, l = 7919933168231203 / 281474976710656 \<rparr> =
     \<lparr> r = 133, g = 10, b = 96 \<rparr>"
  unfolding hslToRgb_def hue2rgb_def Let_def
  by (simp add: mathRound_def addD_def subD_def mulD_def divD_def toDouble_zero toDouble_minus
      round_196 round_198 round_199 round_200 round_621 round_648 round_649 round_654 round_655
      round_656 round_657 round_778 round_779 round_780 round_781 round_782 round_783 round_784
      round_785 round_786 round_787 round_788)

lemma gamma_133:
  "234550582 / 1000000000 \<le> gammaCorrect (133 / 255) \<and> gammaCorrect (133 / 255) \<le> 234550583 / 1000000000"
  by (rule gammaCorrect_between) (simp_all add: power_divide divide_le_eq le_divide_eq)

lemma gamma_10:
  "3035269 / 1000000000 \<le> gammaCorrect (10 / 255) \<and> gammaCorrect (10 / 255) \<le> 3035270 / 1000000000"
  by (simp add: gammaCorrect_def)

lemma lum_850A60:
  "60481560 / 1000000000 \<le> luminanceOfRgb \<lparr> r = 133, g = 10, b = 96 \<rparr> \<and> luminanceOfRgb \<lparr> r = 133, g = 10, b = 96 \<rparr> \<le> 60481562 / 1000000000"
  using gamma_10 gamma_96 gamma_133 by (simp add: luminanceOfRgb_def)

lemma ratio_850A60_7165F5_large:
  "\<not> LARGE_TEXT_THRESHOLD \<le> ratioOfRgb \<lparr> r = 133, g = 10, b = 96 \<rparr> \<lparr> r = 113, g = 101, b = 245 \<rparr>"
  by (rule ratio_lt_from_bounds [OF lum_850A60 lum_7165F5]) (simp_all add: LARGE_TEXT_THRESHOLD_def NORMAL_TEXT_THRESHOLD_def EPSILON_def)

lemma canon_850A60: "canonRgb \<lparr> r = 133, g = 10, b = 96 \<rparr> = \<lparr> r = 133, g = 10, b = 96 \<rparr>"
  by (simp add: canonRgb_def channelByte_def mathRound_def)

lemma near_fg_darken_step_1:
  "searchBody \<lparr> h = 2799091800470169 / 8796093022208, s = 6027098716562253 / 70368744177664, l = 7919933168231203 / 140737488355328 \<rparr> \<lparr> r = 113, g = 101, b = 245 \<rparr> LARGE_TEXT_THRESHOLD True False
     \<lparr> minL = 0, maxL = 7919933168231203 / 140737488355328, bestRgb = \<lparr> r = 239, g = 48, b = 181 \<rparr>,
       bestRatio = ratioOfRgb \<lparr> r = 239, g = 48, b = 181 \<rparr> \<lparr> r = 113, g = 101, b = 245 \<rparr>, iterationCount = 0 \<rparr> =
   Inr \<lparr> minL = 0, maxL = 7919933168231203 / 281474976710656, bestRgb = \<lparr> r = 239, g = 48, b = 181 \<rparr>,
       bestRatio = ratioOfRgb \<lparr> r = 239, g = 48, b = 181 \<rparr> \<lparr> r = 113, g = 101, b = 245 \<rparr>, iterationCount = Suc 0 \<rparr>"
  unfolding searchBody_def Let_def
  by (simp add: bindE_def contrastRatio_rgbToHex addD_def divD_def toDouble_zero
      round_776 round_777 rgb_of_hsl_69 canon_850A60 canon_7165F5 ratio_850A60_7165F5_large)

lemma round_789: "toDouble (7919933168231203 / 562949953421312) = 7919933168231203 / 562949953421312"
  using toDouble_normal [of "3" "7919933168231203 / 562949953421312"] by (simp add: roundTiesToEven_def Let_def)

lemma round_790: "toDouble (7919933168231203 / 56294995342131200) = 2534378613833985 / 18014398509481984"
  using toDouble_normal [of "-3" "7919933168231203 / 56294995342131200"] by (simp add: roundTiesToEven_def Let_def)

lemma round_791: "toDouble (10594897319470167112809183168465 / 40564819207303340847894502572032) = 4705079579046053 / 18014398509481984"
  using toDouble_normal [of "-2" "10594897319470167112809183168465 / 40564819207303340847894502572032"] by (simp add: roundTiesToEven_def Let_def)

lemma round_792: "toDouble (2534378613833985 / 9007199254740992) = 2534378613833985 / 9007199254740992"
  using toDouble_normal [of "-2" "2534378613833985 / 9007199254740992"] by (simp add: roundTiesToEven_def Let_def)

lemma round_793: "toDouble (363677648621917 / 18014398509481984) = 363677648621917 / 18014398509481984"
  using toDouble_normal [of "-6" "363677648621917 / 18014398509481984"] by (simp add: roundTiesToEven_def Let_def)

lemma round_794: "toDouble (542675241303017 / 2251799813685248) = 542675241303017 / 2251799813685248"
  using toDouble_normal [of "-3" "542675241303017 / 2251799813685248"] by (simp add: roundTiesToEven_def Let_def)

lemma round_795: "toDouble (567279123788055401617226024557 / 20282409603651670423947251286016) = 2015380302779787 / 72057594037927936"
  using toDouble_normal [of "-6" "567279123788055401617226024557 / 20282409603651670423947251286016"] by (simp add: roundTiesToEven_def Let_def)

lemma round_796: "toDouble (6046140908339361 / 36028797018963968) = 6046140908339361 / 36028797018963968"
  using toDouble_normal [of "-3" "6046140908339361 / 36028797018963968"] by (simp add: roundTiesToEven_def Let_def)

lemma round_797: "toDouble (6773496205583195 / 36028797018963968) = 6773496205583195 / 36028797018963968"
  using toDouble_normal [of "-3" "6773496205583195 / 36028797018963968"] by (simp add: roundTiesToEven_def Let_def)

lemma round_798: "toDouble (1199795292656743515 / 18014398509481984) = 1171675090485101 / 17592186044416"
  using toDouble_normal [of "6" "1199795292656743515 / 18014398509481984"] by (simp add: roundTiesToEven_def Let_def)

lemma round_799: "toDouble (92737800398588835 / 18014398509481984) = 2898056262455901 / 562949953421312"
  using toDouble_normal [of "2" "92737800398588835 / 18014398509481984"] by (simp add: roundTiesToEven_def Let_def)

lemma round_800: "toDouble (1727241532423714725 / 36028797018963968) = 843379654503767 / 17592186044416"
  using toDouble_normal [of "5" "1727241532423714725 / 36028797018963968"] by (simp add: roundTiesToEven_def Let_def)

lemma rgb_of_hsl_70:
  "hslToRgb \<lparr> h = 2799091800470169 / 8796093022208, s = 6027098716562253 / 70368744177664, l = 7919933168231203 / 562949953421312 \<rparr> =
     \<lparr> r = 67, g = 5, b = 48 \<rparr>"
  unfolding hslToRgb_def hue2rgb_def Let_def
  by (simp add: mathRound_def addD_def subD_def mulD_def divD_def toDouble_zero toDouble_minus
      round_196 round_198 round_199 round_200 round_648 round_649 round_654 round_655 round_656
      round_657 round_779 round_790 round_791 round_792 round_793 round_794 round_795 round_796
      round_797 round_798 round_799 round_800)

lemma gamma_5:
  "1517634 / 1000000000 \<le> gammaCorrect (5 / 255) \<and> gammaCorrect (5 / 255) \<le> 1517635 / 1000000000"
  by (simp add: gammaCorrect_def)

lemma lum_430530:
  "15152332 / 1000000000 \<le> luminanceOfRgb \<lparr> r = 67, g = 5, b = 48 \<rparr> \<and> luminanceOfRgb \<lparr> r = 67, g = 5, b = 48 \<rparr> \<le> 15152334 / 1000000000"
  using gamma_5 gamma_48 gamma_67 by (simp add: luminanceOfRgb_def)

lemma ratio_430530_7165F5_large:
  "LARGE_TEXT_THRESHOLD \<le> ratioOfRgb \<lparr> r = 67, g = 5, b = 48 \<rparr> \<lparr> r = 113, g = 101, b = 245 \<rparr>"
  by (rule ratio_ge_from_bounds [OF lum_430530 lum_7165F5]) (simp_all add: LARGE_TEXT_THRESHOLD_def NORMAL_TEXT_THRESHOLD_def EPSILON_def)

lemma canon_430530: "canonRgb \<lparr> r = 67, g = 5, b = 48 \<rparr> = \<lparr> r = 67, g = 5, b = 48 \<rparr>"
  by (simp add: canonRgb_def channelByte_def mathRound_def)

lemma near_fg_darken_step_2:
  "searchBody \<lparr> h = 2799091800470169 / 8796093022208, s = 6027098716562253 / 70368744177664, l = 7919933168231203 / 140737488355328 \<rparr> \<lparr> r = 113, g = 101, b = 245 \<rparr> LARGE_TEXT_THRESHOLD True False
     \<lparr> minL = 0, maxL = 7919933168231203 / 281474976710656, bestRgb = \<lparr> r = 239, g = 48, b = 181 \<rparr>,
       bestRatio = ratioOfRgb \<lparr> r = 239, g = 48, b = 181 \<rparr> \<lparr> r = 113, g = 101, b = 245 \<rparr>, iterationCount = Suc 0 \<rparr> =
   Inr \<lparr> minL = 7919933168231203 / 562949953421312, maxL = 7919933168231203 / 281474976710656, bestRgb = \<lparr> r = 67, g = 5, b = 48 \<rparr>,
       bestRatio = ratioOfRgb \<lparr> r = 67, g = 5, b = 48 \<rparr> \<lparr> r = 113, g = 101, b = 245 \<rparr>, iterationCount = 2 \<rparr>"
  unfolding searchBody_def Let_def
  by (simp add: bindE_def contrastRatio_rgbToHex addD_def divD_def toDouble_zero
      round_777 round_789 rgb_of_hsl_70 canon_430530 canon_7165F5 ratio_430530_7165F5_large)

lemma round_801: "toDouble (23759799504693609 / 562949953421312) = 2969974938086701 / 70368744177664"
  using toDouble_normal [of "5" "23759799504693609 / 562949953421312"] by (simp add: roundTiesToEven_def Let_def)

lemma round_802: "toDouble (2969974938086701 / 140737488355328) = 2969974938086701 / 140737488355328"
  using toDouble_normal [of "4" "2969974938086701 / 140737488355328"] by (simp add: roundTiesToEven_def Let_def)

lemma round_803: "toDouble (2969974938086701 / 14073748835532800) = 7603135841501955 / 36028797018963968"
  using toDouble_normal [of "-3" "2969974938086701 / 14073748835532800"] by (simp add: roundTiesToEven_def Let_def)

lemma round_804: "toDouble (31784691958410501338427549505395 / 81129638414606681695789005144064) = 7057619368569079 / 18014398509481984"
  using toDouble_normal [of "-2" "31784691958410501338427549505395 / 81129638414606681695789005144064"] by (simp add: roundTiesToEven_def Let_def)

lemma round_805: "toDouble (7603135841501955 / 18014398509481984) = 7603135841501955 / 18014398509481984"
  using toDouble_normal [of "-2" "7603135841501955 / 18014398509481984"] by (simp add: roundTiesToEven_def Let_def)

lemma round_806: "toDouble (136379118233219 / 4503599627370496) = 136379118233219 / 4503599627370496"
  using toDouble_normal [of "-6" "136379118233219 / 4503599627370496"] by (simp add: roundTiesToEven_def Let_def)

lemma round_807: "toDouble (6512102895636203 / 18014398509481984) = 6512102895636203 / 18014398509481984"
  using toDouble_normal [of "-2" "6512102895636203 / 18014398509481984"] by (simp add: roundTiesToEven_def Let_def)

lemma round_808: "toDouble (6807349485456663774068578891063 / 162259276829213363391578010288128) = 188941903385605 / 4503599627370496"
  using toDouble_normal [of "-5" "6807349485456663774068578891063 / 162259276829213363391578010288128"] by (simp add: roundTiesToEven_def Let_def)

lemma round_809: "toDouble (566825710156815 / 2251799813685248) = 566825710156815 / 2251799813685248"
  using toDouble_normal [of "-2" "566825710156815 / 2251799813685248"] by (simp add: roundTiesToEven_def Let_def)

lemma round_810: "toDouble (1270030538546849 / 4503599627370496) = 1270030538546849 / 4503599627370496"
  using toDouble_normal [of "-2" "1270030538546849 / 4503599627370496"] by (simp add: roundTiesToEven_def Let_def)

lemma round_811: "toDouble (1799692938985115145 / 18014398509481984) = 3515025271455303 / 35184372088832"
  using toDouble_normal [of "6" "1799692938985115145 / 18014398509481984"] by (simp add: roundTiesToEven_def Let_def)

lemma round_812: "toDouble (34776675149470845 / 4503599627370496) = 8694168787367711 / 1125899906842624"
  using toDouble_normal [of "2" "34776675149470845 / 4503599627370496"] by (simp add: roundTiesToEven_def Let_def)

lemma round_813: "toDouble (323857787329446495 / 4503599627370496) = 5060277927022601 / 70368744177664"
  using toDouble_normal [of "6" "323857787329446495 / 4503599627370496"] by (simp add: roundTiesToEven_def Let_def)

lemma rgb_of_hsl_71:
  "hslToRgb \<lparr> h = 2799091800470169 / 8796093022208, s = 6027098716562253 / 70368744177664, l = 2969974938086701 / 140737488355328 \<rparr> =
     \<lparr> r = 100, g = 8, b = 72 \<rparr>"
  unfolding hslToRgb_def hue2rgb_def Let_def
  by (simp add: mathRound_def addD_def subD_def mulD_def divD_def toDouble_zero toDouble_minus
      round_196 round_198 round_199 round_200 round_648 round_649 round_654 round_655 round_656
      round_657 round_779 round_803 round_804 round_805 round_806 round_807 round_808 round_809
      round_810 round_811 round_812 round_813)

lemma gamma_100:
  "127437680 / 1000000000 \<le> gammaCorrect (100 / 255) \<and> gammaCorrect (100 / 255) \<le> 127437681 / 1000000000"
  by (rule gammaCorrect_between) (simp_all add: power_divide divide_le_eq le_divide_eq)

lemma gamma_8:
  "2428215 / 1000000000 \<le> gammaCorrect (8 / 255) \<and> gammaCorrect (8 / 255) \<le> 2428216 / 1000000000"
  by (simp add: gammaCorrect_def)

lemma gamma_72:
  "64803266 / 1000000000 \<le> gammaCorrect (72 / 255) \<and> gammaCorrect (72 / 255) \<le> 64803267 / 1000000000"
  by (rule gammaCorrect_between) (simp_all add: power_divide divide_le_eq le_divide_eq)

lemma lum_640848:
  "33508705 / 1000000000 \<le> luminanceOfRgb \<lparr> r = 100, g = 8, b = 72 \<rparr> \<and> luminanceOfRgb \<lparr> r = 100, g = 8, b = 72 \<rparr> \<le> 33508707 / 1000000000"
  using gamma_8 gamma_72 gamma_100 by (simp add: luminanceOfRgb_def)

lemma ratio_640848_7165F5_large:
  "\<not> LARGE_TEXT_THRESHOLD \<le> ratioOfRgb \<lparr> r = 100, g = 8, b = 72 \<rparr> \<lparr> r = 113, g = 101, b = 245 \<rparr>"
  by (rule ratio_lt_from_bounds [OF lum_640848 lum_7165F5]) (simp_all add: LARGE_TEXT_THRESHOLD_def NORMAL_TEXT_THRESHOLD_def EPSILON_def)

lemma canon_640848: "canonRgb \<lparr> r = 100, g = 8, b = 72 \<rparr> = \<lparr> r = 100, g = 8, b = 72 \<rparr>"
  by (simp add: canonRgb_def channelByte_def mathRound_def)

lemma near_fg_darken_step_3:
  "searchBody \<lparr> h = 2799091800470169 / 8796093022208, s = 6027098716562253 / 70368744177664, l = 7919933168231203 / 140737488355328 \<rparr> \<lparr> r = 113, g = 101, b = 245 \<rparr> LARGE_TEXT_THRESHOLD True False
     \<lparr> minL = 7919933168231203 / 562949953421312, maxL = 7919933168231203 / 281474976710656, bestRgb = \<lparr> r = 67, g = 5, b = 48 \<rparr>,
       bestRatio = ratioOfRgb \<lparr> r = 67, g = 5, b = 48 \<rparr> \<lparr> r = 113, g = 101, b = 245 \<rparr>, iterationCount = 2 \<rparr> =
   Inr \<lparr> minL = 7919933168231203 / 562949953421312, maxL = 2969974938086701 / 140737488355328, bestRgb = \<lparr> r = 67, g = 5, b = 48 \<rparr>,
       bestRatio = ratioOfRgb \<lparr> r = 67, g = 5, b = 48 \<rparr> \<lparr> r = 113, g = 101, b = 245 \<rparr>, iterationCount = 3 \<rparr>"
  unfolding searchBody_def Let_def
  by (simp add: bindE_def contrastRatio_rgbToHex addD_def divD_def toDouble_zero
      round_801 round_802 rgb_of_hsl_71 canon_640848 canon_7165F5 ratio_640848_7165F5_large)

lemma round_814: "toDouble (3959966584115601 / 562949953421312) = 3959966584115601 / 562949953421312"
  using toDouble_normal [of "2" "3959966584115601 / 562949953421312"] by (simp add: roundTiesToEven_def Let_def)

lemma round_815: "toDouble (19799832920578007 / 562949953421312) = 2474979115072251 / 70368744177664"
  using toDouble_normal [of "5" "19799832920578007 / 562949953421312"] by (simp add: roundTiesToEven_def Let_def)

lemma round_816: "toDouble (2474979115072251 / 140737488355328) = 2474979115072251 / 140737488355328"
  using toDouble_normal [of "4" "2474979115072251 / 140737488355328"] by (simp add: roundTiesToEven_def Let_def)

lemma round_817: "toDouble (2474979115072251 / 14073748835532800) = 6335946534584963 / 36028797018963968"
  using toDouble_normal [of "-3" "2474979115072251 / 14073748835532800"] by (simp add: roundTiesToEven_def Let_def)

lemma round_818: "toDouble (26487243298675419872258659413747 / 81129638414606681695789005144064) = 5881349473807567 / 18014398509481984"
  using toDouble_normal [of "-2" "26487243298675419872258659413747 / 81129638414606681695789005144064"] by (simp add: roundTiesToEven_def Let_def)

lemma round_819: "toDouble (6335946534584963 / 18014398509481984) = 6335946534584963 / 18014398509481984"
  using toDouble_normal [of "-2" "6335946534584963 / 18014398509481984"] by (simp add: roundTiesToEven_def Let_def)

lemma round_820: "toDouble (113649265194349 / 4503599627370496) = 113649265194349 / 4503599627370496"
  using toDouble_normal [of "-6" "113649265194349 / 4503599627370496"] by (simp add: roundTiesToEven_def Let_def)

lemma round_821: "toDouble (5426752413030171 / 18014398509481984) = 5426752413030171 / 18014398509481984"
  using toDouble_normal [of "-2" "5426752413030171 / 18014398509481984"] by (simp add: roundTiesToEven_def Let_def)

lemma round_822: "toDouble (5672791237880555061510393649191 / 162259276829213363391578010288128) = 5038450756949469 / 144115188075855872"
  using toDouble_normal [of "-5" "5672791237880555061510393649191 / 162259276829213363391578010288128"] by (simp add: roundTiesToEven_def Let_def)

lemma round_823: "toDouble (15115352270848407 / 72057594037927936) = 1889419033856051 / 9007199254740992"
  using toDouble_normal [of "-3" "15115352270848407 / 72057594037927936"] by (simp add: roundTiesToEven_def Let_def)

lemma round_824: "toDouble (2116717564244749 / 9007199254740992) = 2116717564244749 / 9007199254740992"
  using toDouble_normal [of "-3" "2116717564244749 / 9007199254740992"] by (simp add: roundTiesToEven_def Let_def)

lemma round_825: "toDouble (1499744115820929585 / 18014398509481984) = 2929187726212753 / 35184372088832"
  using toDouble_normal [of "6" "1499744115820929585 / 18014398509481984"] by (simp add: roundTiesToEven_def Let_def)

lemma round_826: "toDouble (28980562624558995 / 4503599627370496) = 7245140656139749 / 1125899906842624"
  using toDouble_normal [of "2" "28980562624558995 / 4503599627370496"] by (simp add: roundTiesToEven_def Let_def)

lemma round_827: "toDouble (539762978882410995 / 9007199254740992) = 1054224568129709 / 17592186044416"
  using toDouble_normal [of "5" "539762978882410995 / 9007199254740992"] by (simp add: roundTiesToEven_def Let_def)

lemma rgb_of_hsl_72:
  "hslToRgb \<lparr> h = 2799091800470169 / 8796093022208, s = 6027098716562253 / 70368744177664, l = 2474979115072251 / 140737488355328 \<rparr> =
     \<lparr> r = 83, g = 6, b = 60 \<rparr>"
  unfolding hslToRgb_def hue2rgb_def Let_def
  by (simp add: mathRound_def addD_def subD_def mulD_def divD_def toDouble_zero toDouble_minus
      round_196 round_198 round_199 round_200 round_648 round_649 round_654 round_655 round_656
      round_657 round_779 round_817 round_818 round_819 round_820 round_821 round_822 round_823
      round_824 round_825 round_826 round_827)

lemma gamma_83:
  "86500462 / 1000000000 \<le> gammaCorrect (83 / 255) \<and> gammaCorrect (83 / 255) \<le> 86500463 / 1000000000"
  by (rule gammaCorrect_between) (simp_all add: power_divide divide_le_eq le_divide_eq)

lemma gamma_6:
  "1821161 / 1000000000 \<le> gammaCorrect (6 / 255) \<and> gammaCorrect (6 / 255) \<le> 1821162 / 1000000000"
  by (simp add: gammaCorrect_def)

lemma lum_53063C:
  "22954936 / 1000000000 \<le> luminanceOfRgb \<lparr> r = 83, g = 6, b = 60 \<rparr> \<and> luminanceOfRgb \<lparr> r = 83, g = 6, b = 60 \<rparr> \<le> 22954938 / 1000000000"
  using gamma_6 gamma_60 gamma_83 by (simp add: luminanceOfRgb_def)

lemma ratio_53063C_7165F5_large:
  "LARGE_TEXT_THRESHOLD \<le> ratioOfRgb \<lparr> r = 83, g = 6, b = 60 \<rparr> \<lparr> r = 113, g = 101, b = 245 \<rparr>"
  by (rule ratio_ge_from_bounds [OF lum_53063C lum_7165F5]) (simp_all add: LARGE_TEXT_THRESHOLD_def NORMAL_TEXT_THRESHOLD_def EPSILON_def)

lemma canon_53063C: "canonRgb \<lparr> r = 83, g = 6, b = 60 \<rparr> = \<lparr> r = 83, g = 6, b = 60 \<rparr>"
  by (simp add: canonRgb_def channelByte_def mathRound_def)

lemma near_fg_darken_step_4:
  "searchBody \<lparr> h = 2799091800470169 / 8796093022208, s = 6027098716562253 / 70368744177664, l = 7919933168231203 / 140737488355328 \<rparr> \<lparr> r = 113, g = 101, b = 245 \<rparr> LARGE_TEXT_THRESHOLD True False
     \<lparr> minL = 7919933168231203 / 562949953421312, maxL = 2969974938086701 / 140737488355328, bestRgb = \<lparr> r = 67, g = 5, b = 48 \<rparr>,
       bestRatio = ratioOfRgb \<lparr> r = 67, g = 5, b = 48 \<rparr> \<lparr> r = 113, g = 101, b = 245 \<rparr>, iterationCount = 3 \<rparr> =
   Inr \<lparr> minL = 2474979115072251 / 140737488355328, maxL = 2969974938086701 / 140737488355328, bestRgb = \<lparr> r = 83, g = 6, b = 60 \<rparr>,
       bestRatio = ratioOfRgb \<lparr> r = 83, g = 6, b = 60 \<rparr> \<lparr> r = 113, g = 101, b = 245 \<rparr>, iterationCount = 4 \<rparr>"
  unfolding searchBody_def Let_def
  by (simp add: bindE_def contrastRatio_rgbToHex addD_def divD_def toDouble_zero
      round_815 round_816 rgb_of_hsl_72 canon_53063C canon_7165F5 ratio_53063C_7165F5_large)

lemma round_828: "toDouble (247497911507225 / 70368744177664) = 247497911507225 / 70368744177664"
  using toDouble_normal [of "1" "247497911507225 / 70368744177664"] by (simp add: roundTiesToEven_def Let_def)

lemma round_829: "toDouble (680619256644869 / 17592186044416) = 680619256644869 / 17592186044416"
  using toDouble_normal [of "5" "680619256644869 / 17592186044416"] by (simp add: roundTiesToEven_def Let_def)

lemma round_830: "toDouble (680619256644869 / 35184372088832) = 680619256644869 / 35184372088832"
  using toDouble_normal [of "4" "680619256644869 / 35184372088832"] by (simp add: roundTiesToEven_def Let_def)

lemma round_831: "toDouble (680619256644869 / 3518437208883200) = 6969541188043459 / 36028797018963968"
  using toDouble_normal [of "-3" "680619256644869 / 3518437208883200"] by (simp add: roundTiesToEven_def Let_def)

lemma round_832: "toDouble (29135967628542960605343104459571 / 81129638414606681695789005144064) = 6469484421188323 / 18014398509481984"
  using toDouble_normal [of "-2" "29135967628542960605343104459571 / 81129638414606681695789005144064"] by (simp add: roundTiesToEven_def Let_def)

lemma round_833: "toDouble (6969541188043459 / 18014398509481984) = 6969541188043459 / 18014398509481984"
  using toDouble_normal [of "-2" "6969541188043459 / 18014398509481984"] by (simp add: roundTiesToEven_def Let_def)

lemma round_834: "toDouble (15626773964223 / 562949953421312) = 15626773964223 / 562949953421312"
  using toDouble_normal [of "-6" "15626773964223 / 562949953421312"] by (simp add: roundTiesToEven_def Let_def)

lemma round_835: "toDouble (5969427654333187 / 18014398509481984) = 5969427654333187 / 18014398509481984"
  using toDouble_normal [of "-2" "5969427654333187 / 18014398509481984"] by (simp add: roundTiesToEven_def Let_def)

lemma round_836: "toDouble (6240070361668609417789486270127 / 162259276829213363391578010288128) = 2771147916322207 / 72057594037927936"
  using toDouble_normal [of "-5" "6240070361668609417789486270127 / 162259276829213363391578010288128"] by (simp add: roundTiesToEven_def Let_def)

lemma round_837: "toDouble (8313443748966621 / 36028797018963968) = 8313443748966621 / 36028797018963968"
  using toDouble_normal [of "-3" "8313443748966621 / 36028797018963968"] by (simp add: roundTiesToEven_def Let_def)

lemma round_838: "toDouble (9313557282676893 / 36028797018963968) = 2328389320669223 / 9007199254740992"
  using toDouble_normal [of "-2" "9313557282676893 / 36028797018963968"] by (simp add: roundTiesToEven_def Let_def)

lemma round_839: "toDouble (1649718527403022365 / 18014398509481984) = 805526624708507 / 8796093022208"
  using toDouble_normal [of "6" "1649718527403022365 / 18014398509481984"] by (simp add: roundTiesToEven_def Let_def)

lemma round_840: "toDouble (3984827360876865 / 562949953421312) = 3984827360876865 / 562949953421312"
  using toDouble_normal [of "2" "3984827360876865 / 562949953421312"] by (simp add: roundTiesToEven_def Let_def)

lemma round_841: "toDouble (593739276770651865 / 9007199254740992) = 2319294049885359 / 35184372088832"
  using toDouble_normal [of "6" "593739276770651865 / 9007199254740992"] by (simp add: roundTiesToEven_def Let_def)

lemma rgb_of_hsl_73:
  "hslToRgb \<lparr> h = 2799091800470169 / 8796093022208, s = 6027098716562253 / 70368744177664, l = 680619256644869 / 35184372088832 \<rparr> =
     \<lparr> r = 92, g = 7, b = 66 \<rparr>"
  unfolding hslToRgb_def hue2rgb_def Let_def
  by (simp add: mathRound_def addD_def subD_def mulD_def divD_def toDouble_zero toDouble_minus
      round_196 round_198 round_199 round_200 round_648 round_649 round_654 round_655 round_656
      round_657 round_779 round_831 round_832 round_833 round_834 round_835 round_836 round_837
      round_838 round_839 round_840 round_841)

lemma gamma_7:
  "2124688 / 1000000000 \<le> gammaCorrect (7 / 255) \<and> gammaCorrect (7 / 255) \<le> 2124689 / 1000000000"
  by (simp add: gammaCorrect_def)

lemma lum_5C0742:
  "28206164 / 1000000000 \<le> luminanceOfRgb \<lparr> r = 92, g = 7, b = 66 \<rparr> \<and> luminanceOfRgb \<lparr> r = 92, g = 7, b = 66 \<rparr> \<le> 28206166 / 1000000000"
  using gamma_7 gamma_66 gamma_92 by (simp add: luminanceOfRgb_def)

lemma ratio_5C0742_7165F5_large:
  "LARGE_TEXT_THRESHOLD \<le> ratioOfRgb \<lparr> r = 92, g = 7, b = 66 \<rparr> \<lparr> r = 113, g = 101, b = 245 \<rparr>"
  by (rule ratio_ge_from_bounds [OF lum_5C0742 lum_7165F5]) (simp_all add: LARGE_TEXT_THRESHOLD_def NORMAL_TEXT_THRESHOLD_def EPSILON_def)

lemma canon_5C0742: "canonRgb \<lparr> r = 92, g = 7, b = 66 \<rparr> = \<lparr> r = 92, g = 7, b = 66 \<rparr>"
  by (simp add: canonRgb_def channelByte_def mathRound_def)

lemma near_fg_darken_step_5:
  "searchBody \<lparr> h = 2799091800470169 / 8796093022208, s = 6027098716562253 / 70368744177664, l = 7919933168231203 / 140737488355328 \<rparr> \<lparr> r = 113, g = 101, b = 245 \<rparr> LARGE_TEXT_THRESHOLD True False
     \<lparr> minL = 2474979115072251 / 140737488355328, maxL = 2969974938086701 / 140737488355328, bestRgb = \<lparr> r = 83, g = 6, b = 60 \<rparr>,
       bestRatio = ratioOfRgb \<lparr> r = 83, g = 6, b = 60 \<rparr> \<lparr> r = 113, g = 101, b = 245 \<rparr>, iterationCount = 4 \<rparr> =
   Inr \<lparr> minL = 680619256644869 / 35184372088832, maxL = 2969974938086701 / 140737488355328, bestRgb = \<lparr> r = 92, g = 7, b = 66 \<rparr>,
       bestRatio = ratioOfRgb \<lparr> r = 92, g = 7, b = 66 \<rparr> \<lparr> r = 113, g = 101, b = 245 \<rparr>, iterationCount = 5 \<rparr>"
  unfolding searchBody_def Let_def
  by (simp add: bindE_def contrastRatio_rgbToHex addD_def divD_def toDouble_zero
      round_829 round_830 rgb_of_hsl_73 canon_5C0742 canon_7165F5 ratio_5C0742_7165F5_large)

lemma round_842: "toDouble (247497911507225 / 140737488355328) = 247497911507225 / 140737488355328"
  using toDouble_normal [of "0" "247497911507225 / 140737488355328"] by (simp add: roundTiesToEven_def Let_def)

lemma round_843: "toDouble (5692451964666177 / 140737488355328) = 5692451964666177 / 140737488355328"
  using toDouble_normal [of "5" "5692451964666177 / 140737488355328"] by (simp add: roundTiesToEven_def Let_def)

lemma round_844: "toDouble (5692451964666177 / 281474976710656) = 5692451964666177 / 281474976710656"
  using toDouble_normal [of "4" "5692451964666177 / 281474976710656"] by (simp add: roundTiesToEven_def Let_def)

lemma round_845: "toDouble (5692451964666177 / 28147497671065600) = 7286338514772707 / 36028797018963968"
  using toDouble_normal [of "-3" "5692451964666177 / 28147497671065600"] by (simp add: roundTiesToEven_def Let_def)

lemma round_846: "toDouble (30460329793476730971885326982483 / 81129638414606681695789005144064) = 6763551894878701 / 18014398509481984"
  using toDouble_normal [of "-2" "30460329793476730971885326982483 / 81129638414606681695789005144064"] by (simp add: roundTiesToEven_def Let_def)

lemma round_847: "toDouble (7286338514772707 / 18014398509481984) = 7286338514772707 / 18014398509481984"
  using toDouble_normal [of "-2" "7286338514772707 / 18014398509481984"] by (simp add: roundTiesToEven_def Let_def)

lemma round_848: "toDouble (261393309947003 / 9007199254740992) = 261393309947003 / 9007199254740992"
  using toDouble_normal [of "-6" "261393309947003 / 9007199254740992"] by (simp add: roundTiesToEven_def Let_def)

lemma round_849: "toDouble (6240765274984695 / 18014398509481984) = 6240765274984695 / 18014398509481984"
  using toDouble_normal [of "-2" "6240765274984695 / 18014398509481984"] by (simp add: roundTiesToEven_def Let_def)

lemma round_850: "toDouble (6523709923562636595929032580595 / 162259276829213363391578010288128) = 5794218370491887 / 144115188075855872"
  using toDouble_normal [of "-5" "6523709923562636595929032580595 / 162259276829213363391578010288128"] by (simp add: roundTiesToEven_def Let_def)

lemma round_851: "toDouble (17382655111475661 / 72057594037927936) = 4345663777868915 / 18014398509481984"
  using toDouble_normal [of "-3" "17382655111475661 / 72057594037927936"] by (simp add: roundTiesToEven_def Let_def)

lemma round_852: "toDouble (4868450397762921 / 18014398509481984) = 4868450397762921 / 18014398509481984"
  using toDouble_normal [of "-2" "4868450397762921 / 18014398509481984"] by (simp add: roundTiesToEven_def Let_def)

lemma round_853: "toDouble (1724705733194068755 / 18014398509481984) = 6737131770289331 / 70368744177664"
  using toDouble_normal [of "6" "1724705733194068755 / 18014398509481984"] by (simp add: roundTiesToEven_def Let_def)

lemma round_854: "toDouble (66655294036485765 / 9007199254740992) = 8331911754560721 / 1125899906842624"
  using toDouble_normal [of "2" "66655294036485765 / 9007199254740992"] by (simp add: roundTiesToEven_def Let_def)

lemma round_855: "toDouble (1241454851429544855 / 18014398509481984) = 1212358253349165 / 17592186044416"
  using toDouble_normal [of "6" "1241454851429544855 / 18014398509481984"] by (simp add: roundTiesToEven_def Let_def)

lemma rgb_of_hsl_74:
  "hslToRgb \<lparr> h = 2799091800470169 / 8796093022208, s = 6027098716562253 / 70368744177664, l = 5692451964666177 / 281474976710656 \<rparr> =
     \<lparr> r = 96, g = 7, b = 69 \<rparr>"
  unfolding hslToRgb_def hue2rgb_def Let_def
  by (simp add: mathRound_def addD_def subD_def mulD_def divD_def toDouble_zero toDouble_minus
      round_196 round_198 round_199 round_200 round_648 round_649 round_654 round_655 round_656
      round_657 round_779 round_845 round_846 round_847 round_848 round_849 round_850 round_851
      round_852 round_853 round_854 round_855)

lemma lum_600745:
  "30684252 / 1000000000 \<le> luminanceOfRgb \<lparr> r = 96, g = 7, b = 69 \<rparr> \<and> luminanceOfRgb \<lparr> r = 96, g = 7, b = 69 \<rparr> \<le> 30684254 / 1000000000"
  using gamma_7 gamma_69 gamma_96 by (simp add: luminanceOfRgb_def)

lemma ratio_600745_7165F5_large:
  "LARGE_TEXT_THRESHOLD \<le> ratioOfRgb \<lparr> r = 96, g = 7, b = 69 \<rparr> \<lparr> r = 113, g = 101, b = 245 \<rparr>"
  by (rule ratio_ge_from_bounds [OF lum_600745 lum_7165F5]) (simp_all add: LARGE_TEXT_THRESHOLD_def NORMAL_TEXT_THRESHOLD_def EPSILON_def)

lemma canon_600745: "canonRgb \<lparr> r = 96, g = 7, b = 69 \<rparr> = \<lparr> r = 96, g = 7, b = 69 \<rparr>"
  by (simp add: canonRgb_def channelByte_def mathRound_def)

lemma near_fg_darken_step_6:
  "searchBody \<lparr> h = 2799091800470169 / 8796093022208, s = 6027098716562253 / 70368744177664, l = 7919933168231203 / 140737488355328 \<rparr> \<lparr> r = 113, g = 101, b = 245 \<rparr> LARGE_TEXT_THRESHOLD True False
     \<lparr> minL = 680619256644869 / 35184372088832, maxL = 2969974938086701 / 140737488355328, bestRgb = \<lparr> r = 92, g = 7, b = 66 \<rparr>,
       bestRatio = ratioOfRgb \<lparr> r = 92, g = 7, b = 66 \<rparr> \<lparr> r = 113, g = 101, b = 245 \<rparr>, iterationCount = 5 \<rparr> =
   Inr \<lparr> minL = 5692451964666177 / 281474976710656, maxL = 2969974938086701 / 140737488355328, bestRgb = \<lparr> r = 96, g = 7, b = 69 \<rparr>,
       bestRatio = ratioOfRgb \<lparr> r = 96, g = 7, b = 69 \<rparr> \<lparr> r = 113, g = 101, b = 245 \<rparr>, iterationCount = 6 \<rparr>"
  unfolding searchBody_def Let_def
  by (simp add: bindE_def contrastRatio_rgbToHex addD_def divD_def toDouble_zero
      round_843 round_844 rgb_of_hsl_74 canon_600745 canon_7165F5 ratio_600745_7165F5_large)

lemma round_856: "toDouble (247497911507225 / 281474976710656) = 247497911507225 / 281474976710656"
  using toDouble_normal [of "-1" "247497911507225 / 281474976710656"] by (simp add: roundTiesToEven_def Let_def)

lemma round_857: "toDouble (11632401840839579 / 281474976710656) = 2908100460209895 / 70368744177664"
  using toDouble_normal [of "5" "11632401840839579 / 281474976710656"] by (simp add: roundTiesToEven_def Let_def)

lemma round_858: "toDouble (2908100460209895 / 140737488355328) = 2908100460209895 / 140737488355328"
  using toDouble_normal [of "4" "2908100460209895 / 140737488355328"] by (simp add: roundTiesToEven_def Let_def)

lemma round_859: "toDouble (581620092041979 / 2814749767106560) = 7444737178137331 / 36028797018963968"
  using toDouble_normal [of "-3" "581620092041979 / 2814749767106560"] by (simp add: roundTiesToEven_def Let_def)

lemma round_860: "toDouble (31122510875943616155156438243939 / 81129638414606681695789005144064) = 3455292815861945 / 9007199254740992"
  using toDouble_normal [of "-2" "31122510875943616155156438243939 / 81129638414606681695789005144064"] by (simp add: roundTiesToEven_def Let_def)

lemma round_861: "toDouble (7444737178137331 / 18014398509481984) = 7444737178137331 / 18014398509481984"
  using toDouble_normal [of "-2" "7444737178137331 / 18014398509481984"] by (simp add: roundTiesToEven_def Let_def)

lemma round_862: "toDouble (534151546413441 / 18014398509481984) = 534151546413441 / 18014398509481984"
  using toDouble_normal [of "-6" "534151546413441 / 18014398509481984"] by (simp add: roundTiesToEven_def Let_def)

lemma round_863: "toDouble (6376434085310449 / 18014398509481984) = 6376434085310449 / 18014398509481984"
  using toDouble_normal [of "-2" "6376434085310449 / 18014398509481984"] by (simp add: roundTiesToEven_def Let_def)

lemma round_864: "toDouble (6665529704509650184998805735829 / 162259276829213363391578010288128) = 740022454926953 / 18014398509481984"
  using toDouble_normal [of "-5" "6665529704509650184998805735829 / 162259276829213363391578010288128"] by (simp add: roundTiesToEven_def Let_def)

lemma round_865: "toDouble (2220067364780859 / 9007199254740992) = 2220067364780859 / 9007199254740992"
  using toDouble_normal [of "-3" "2220067364780859 / 9007199254740992"] by (simp add: roundTiesToEven_def Let_def)

lemma round_866: "toDouble (4974286275975159 / 18014398509481984) = 4974286275975159 / 18014398509481984"
  using toDouble_normal [of "-2" "4974286275975159 / 18014398509481984"] by (simp add: roundTiesToEven_def Let_def)

lemma round_867: "toDouble (881099668044795975 / 9007199254740992) = 6883591156599969 / 70368744177664"
  using toDouble_normal [of "6" "881099668044795975 / 9007199254740992"] by (simp add: roundTiesToEven_def Let_def)

lemma round_868: "toDouble (136208644335427455 / 18014398509481984) = 1064130033870527 / 140737488355328"
  using toDouble_normal [of "2" "136208644335427455 / 18014398509481984"] by (simp add: roundTiesToEven_def Let_def)

lemma round_869: "toDouble (1268443000373665545 / 18014398509481984) = 4954855470209631 / 70368744177664"
  using toDouble_normal [of "6" "1268443000373665545 / 18014398509481984"] by (simp add: roundTiesToEven_def Let_def)

lemma rgb_of_hsl_75:
  "hslToRgb \<lparr> h = 2799091800470169 / 8796093022208, s = 6027098716562253 / 70368744177664, l = 2908100460209895 / 140737488355328 \<rparr> =
     \<lparr> r = 98, g = 8, b = 70 \<rparr>"
  unfolding hslToRgb_def hue2rgb_def Let_def
  by (simp add: mathRound_def addD_def subD_def mulD_def divD_def toDouble_zero toDouble_minus
      round_196 round_198 round_199 round_200 round_648 round_649 round_654 round_655 round_656
      round_657 round_779 round_859 round_860 round_861 round_862 round_863 round_864 round_865
      round_866 round_867 round_868 round_869)

lemma gamma_98:
  "122138772 / 1000000000 \<le> gammaCorrect (98 / 255) \<and> gammaCorrect (98 / 255) \<le> 122138773 / 1000000000"
  by (rule gammaCorrect_between) (simp_all add: power_divide divide_le_eq le_divide_eq)

lemma lum_620846:
  "32125327 / 1000000000 \<le> luminanceOfRgb \<lparr> r = 98, g = 8, b = 70 \<rparr> \<and> luminanceOfRgb \<lparr> r = 98, g = 8, b = 70 \<rparr> \<le> 32125329 / 1000000000"
  using gamma_8 gamma_70 gamma_98 by (simp add: luminanceOfRgb_def)

lemma ratio_620846_7165F5_large:
  "\<not> LARGE_TEXT_THRESHOLD \<le> ratioOfRgb \<lparr> r = 98, g = 8, b = 70 \<rparr> \<lparr> r = 113, g = 101, b = 245 \<rparr>"
  by (rule ratio_lt_from_bounds [OF lum_620846 lum_7165F5]) (simp_all add: LARGE_TEXT_THRESHOLD_def NORMAL_TEXT_THRESHOLD_def EPSILON_def)

lemma canon_620846: "canonRgb \<lparr> r = 98, g = 8, b = 70 \<rparr> = \<lparr> r = 98, g = 8, b = 70 \<rparr>"
  by (simp add: canonRgb_def channelByte_def mathRound_def)

lemma near_fg_darken_step_7:
  "searchBody \<lparr> h = 2799091800470169 / 8796093022208, s = 6027098716562253 / 70368744177664, l = 7919933168231203 / 140737488355328 \<rparr> \<lparr> r = 113, g = 101, b = 245 \<rparr> LARGE_TEXT_THRESHOLD True False
     \<lparr> minL = 5692451964666177 / 281474976710656, maxL = 2969974938086701 / 140737488355328, bestRgb = \<lparr> r = 96, g = 7, b = 69 \<rparr>,
       bestRatio = ratioOfRgb \<lparr> r = 96, g = 7, b = 69 \<rparr> \<lparr> r = 113, g = 101, b = 245 \<rparr>, iterationCount = 6 \<rparr> =
   Inr \<lparr> minL = 5692451964666177 / 281474976710656, maxL = 2908100460209895 / 140737488355328, bestRgb = \<lparr> r = 96, g = 7, b = 69 \<rparr>,
       bestRatio = ratioOfRgb \<lparr> r = 96, g = 7, b = 69 \<rparr> \<lparr> r = 113, g = 101, b = 245 \<rparr>, iterationCount = 7 \<rparr>"
  unfolding searchBody_def Let_def
  by (simp add: bindE_def contrastRatio_rgbToHex addD_def divD_def toDouble_zero
      round_857 round_858 rgb_of_hsl_75 canon_620846 canon_7165F5 ratio_620846_7165F5_large)

lemma round_870: "toDouble (123748955753613 / 281474976710656) = 123748955753613 / 281474976710656"
  using toDouble_normal [of "-2" "123748955753613 / 281474976710656"] by (simp add: roundTiesToEven_def Let_def)

lemma near_fg_darken_loop:
  "searchLoop 7 \<lparr> h = 2799091800470169 / 8796093022208, s = 6027098716562253 / 70368744177664, l = 7919933168231203 / 140737488355328 \<rparr> \<lparr> r = 113, g = 101, b = 245 \<rparr> LARGE_TEXT_THRESHOLD True False
     \<lparr> minL = 0, maxL = 7919933168231203 / 140737488355328, bestRgb = \<lparr> r = 239, g = 48, b = 181 \<rparr>,
       bestRatio = ratioOfRgb \<lparr> r = 239, g = 48, b = 181 \<rparr> \<lparr> r = 113, g = 101, b = 245 \<rparr>, iterationCount = 0 \<rparr> =
   Inr \<lparr> minL = 5692451964666177 / 281474976710656, maxL = 2908100460209895 / 140737488355328, bestRgb = \<lparr> r = 96, g = 7, b = 69 \<rparr>,
       bestRatio = ratioOfRgb \<lparr> r = 96, g = 7, b = 69 \<rparr> \<lparr> r = 113, g = 101, b = 245 \<rparr>, iterationCount = 7 \<rparr>"
  by (simp add: searchLoop_numeral bindE_def subD_def toDouble_zero toDouble_minus
      round_15 round_777 round_789 round_814 round_828 round_842 round_856 round_870
      near_fg_darken_step_1 near_fg_darken_step_2 near_fg_darken_step_3 near_fg_darken_step_4
      near_fg_darken_step_5 near_fg_darken_step_6 near_fg_darken_step_7)

lemma near_fg_darken_search:
  "binarySearchLightness \<lparr> h = 2799091800470169 / 8796093022208, s = 6027098716562253 / 70368744177664, l = 7919933168231203 / 140737488355328 \<rparr> \<lparr> r = 113, g = 101, b = 245 \<rparr> LARGE_TEXT_THRESHOLD True False 7 =
   Inr \<lparr> rgb = \<lparr> r = 96, g = 7, b = 69 \<rparr>, ratio = ratioOfRgb \<lparr> r = 96, g = 7, b = 69 \<rparr> \<lparr> r = 113, g = 101, b = 245 \<rparr>, iterations = 7 \<rparr>"
  unfolding binarySearchLightness_def Let_def
  by (simp add: bindE_def contrastRatio_rgbToHex rgb_of_hsl_61 canon_EF30B5 canon_7165F5 near_fg_darken_loop)

lemma round_871: "toDouble (2873390387254613 / 4222124650659840) = 6129899492809841 / 9007199254740992"
  using toDouble_normal [of "-1" "2873390387254613 / 4222124650659840"] by (simp add: roundTiesToEven_def Let_def)

lemma round_872: "toDouble (308935950048281 / 351843720888320) = 3954380160617997 / 4503599627370496"
  using toDouble_normal [of "-1" "308935950048281 / 351843720888320"] by (simp add: roundTiesToEven_def Let_def)

lemma round_873: "toDouble (2387018184850171 / 3518437208883200) = 3055383276608219 / 4503599627370496"
  using toDouble_normal [of "-1" "2387018184850171 / 3518437208883200"] by (simp add: roundTiesToEven_def Let_def)

lemma round_874: "toDouble (876220429653277 / 562949953421312) = 876220429653277 / 562949953421312"
  using toDouble_normal [of "0" "876220429653277 / 562949953421312"] by (simp add: roundTiesToEven_def Let_def)

lemma round_875: "toDouble (12082147012103551005329089517343 / 20282409603651670423947251286016) = 5365551119897361 / 9007199254740992"
  using toDouble_normal [of "-1" "12082147012103551005329089517343 / 20282409603651670423947251286016"] by (simp add: roundTiesToEven_def Let_def)

lemma round_876: "toDouble (8653975754555071 / 9007199254740992) = 8653975754555071 / 9007199254740992"
  using toDouble_normal [of "-1" "8653975754555071 / 9007199254740992"] by (simp add: roundTiesToEven_def Let_def)

lemma round_877: "toDouble (3055383276608219 / 2251799813685248) = 3055383276608219 / 2251799813685248"
  using toDouble_normal [of "0" "3055383276608219 / 2251799813685248"] by (simp add: roundTiesToEven_def Let_def)

lemma round_878: "toDouble (3567557351877805 / 9007199254740992) = 3567557351877805 / 9007199254740992"
  using toDouble_normal [of "-2" "3567557351877805 / 9007199254740992"] by (simp add: roundTiesToEven_def Let_def)

lemma round_879: "toDouble (18264598488780343 / 18014398509481984) = 2283074811097543 / 2251799813685248"
  using toDouble_normal [of "0" "18264598488780343 / 18014398509481984"] by (simp add: roundTiesToEven_def Let_def)

lemma round_880: "toDouble (31274997412295 / 2251799813685248) = 31274997412295 / 2251799813685248"
  using toDouble_normal [of "-7" "31274997412295 / 2251799813685248"] by (simp add: roundTiesToEven_def Let_def)

lemma round_881: "toDouble (2543209201338633 / 4503599627370496) = 2543209201338633 / 4503599627370496"
  using toDouble_normal [of "-1" "2543209201338633 / 4503599627370496"] by (simp add: roundTiesToEven_def Let_def)

lemma round_882: "toDouble (7629627604015899 / 2251799813685248) = 7629627604015899 / 2251799813685248"
  using toDouble_normal [of "1" "7629627604015899 / 2251799813685248"] by (simp add: roundTiesToEven_def Let_def)

lemma round_883: "toDouble (238616583572371742175038078205 / 5070602400912917605986812821504) = 3311470314243 / 70368744177664"
  using toDouble_normal [of "-5" "238616583572371742175038078205 / 5070602400912917605986812821504"] by (simp add: roundTiesToEven_def Let_def)

lemma round_884: "toDouble (3991425552100909 / 9007199254740992) = 3991425552100909 / 9007199254740992"
  using toDouble_normal [of "-2" "3991425552100909 / 9007199254740992"] by (simp add: roundTiesToEven_def Let_def)

lemma round_885: "toDouble (6254999482459021 / 18014398509481984) = 6254999482459021 / 18014398509481984"
  using toDouble_normal [of "-2" "6254999482459021 / 18014398509481984"] by (simp add: roundTiesToEven_def Let_def)

lemma round_886: "toDouble (1017813515785731795 / 9007199254740992) = 3975834046038015 / 35184372088832"
  using toDouble_normal [of "6" "1017813515785731795 / 9007199254740992"] by (simp add: roundTiesToEven_def Let_def)

lemma round_887: "toDouble (909727124728840275 / 9007199254740992) = 7107243161944065 / 70368744177664"
  using toDouble_normal [of "6" "909727124728840275 / 9007199254740992"] by (simp add: roundTiesToEven_def Let_def)

lemma round_888: "toDouble (2206763817411543105 / 9007199254740992) = 245"
  using toDouble_normal [of "7" "2206763817411543105 / 9007199254740992"] by (simp add: roundTiesToEven_def Let_def)

lemma rgb_of_hsl_76:
  "hslToRgb \<lparr> h = 8620171161763839 / 35184372088832, s = 1544679750241405 / 17592186044416, l = 2387018184850171 / 35184372088832 \<rparr> =
     \<lparr> r = 113, g = 101, b = 245 \<rparr>"
  unfolding hslToRgb_def hue2rgb_def Let_def
  by (simp add: mathRound_def addD_def subD_def mulD_def divD_def toDouble_zero toDouble_minus
      round_196 round_198 round_199 round_200 round_871 round_872 round_873 round_874 round_875
      round_876 round_877 round_878 round_879 round_880 round_881 round_882 round_883 round_884
      round_885 round_886 round_887 round_888)

lemma round_889: "toDouble (2387018184850171 / 35184372088832) = 2387018184850171 / 35184372088832"
  using toDouble_normal [of "6" "2387018184850171 / 35184372088832"] by (simp add: roundTiesToEven_def Let_def)

lemma round_890: "toDouble (2387018184850171 / 70368744177664) = 2387018184850171 / 70368744177664"
  using toDouble_normal [of "5" "2387018184850171 / 70368744177664"] by (simp add: roundTiesToEven_def Let_def)

lemma round_891: "toDouble (2387018184850171 / 7036874417766400) = 3055383276608219 / 9007199254740992"
  using toDouble_normal [of "-2" "2387018184850171 / 7036874417766400"] by (simp add: roundTiesToEven_def Let_def)

lemma round_892: "toDouble (8457979787988493 / 4503599627370496) = 8457979787988493 / 4503599627370496"
  using toDouble_normal [of "0" "8457979787988493 / 4503599627370496"] by (simp add: roundTiesToEven_def Let_def)

lemma round_893: "toDouble (25842369998110371201313641223967 / 40564819207303340847894502572032) = 5738158836556899 / 9007199254740992"
  using toDouble_normal [of "-1" "25842369998110371201313641223967 / 40564819207303340847894502572032"] by (simp add: roundTiesToEven_def Let_def)

lemma round_894: "toDouble (372607716659539 / 9007199254740992) = 372607716659539 / 9007199254740992"
  using toDouble_normal [of "-5" "372607716659539 / 9007199254740992"] by (simp add: roundTiesToEven_def Let_def)

lemma round_895: "toDouble (335346944993585 / 562949953421312) = 335346944993585 / 562949953421312"
  using toDouble_normal [of "-1" "335346944993585 / 562949953421312"] by (simp add: roundTiesToEven_def Let_def)

lemma round_896: "toDouble (1006040834980755 / 281474976710656) = 1006040834980755 / 281474976710656"
  using toDouble_normal [of "1" "1006040834980755 / 281474976710656"] by (simp add: roundTiesToEven_def Let_def)

lemma round_897: "toDouble (31463924510686213741125382725 / 633825300114114700748351602688) = 7154068159863121 / 144115188075855872"
  using toDouble_normal [of "-5" "31463924510686213741125382725 / 633825300114114700748351602688"] by (simp add: roundTiesToEven_def Let_def)

lemma round_898: "toDouble (13115791626415745 / 144115188075855872) = 102467122081373 / 1125899906842624"
  using toDouble_normal [of "-4" "13115791626415745 / 144115188075855872"] by (simp add: roundTiesToEven_def Let_def)

lemma round_899: "toDouble (26129116130750115 / 1125899906842624) = 6532279032687529 / 281474976710656"
  using toDouble_normal [of "4" "26129116130750115 / 1125899906842624"] by (simp add: roundTiesToEven_def Let_def)

lemma round_900: "toDouble (95014967748182445 / 9007199254740992) = 5938435484261403 / 562949953421312"
  using toDouble_normal [of "3" "95014967748182445 / 9007199254740992"] by (simp add: roundTiesToEven_def Let_def)

lemma round_901: "toDouble (1463230503322009245 / 9007199254740992) = 5715744153601599 / 35184372088832"
  using toDouble_normal [of "7" "1463230503322009245 / 9007199254740992"] by (simp add: roundTiesToEven_def Let_def)

lemma rgb_of_hsl_77:
  "hslToRgb \<lparr> h = 8620171161763839 / 35184372088832, s = 1544679750241405 / 17592186044416, l = 2387018184850171 / 70368744177664 \<rparr> =
     \<lparr> r = 23, g = 11, b = 162 \<rparr>"
  unfolding hslToRgb_def hue2rgb_def Let_def
  by (simp add: mathRound_def addD_def subD_def mulD_def divD_def toDouble_zero toDouble_minus
      round_196 round_198 round_199 round_200 round_637 round_871 round_872 round_879 round_880
      round_885 round_891 round_892 round_893 round_894 round_895 round_896 round_897 round_898
      round_899 round_900 round_901)

lemma gamma_23:
  "8568125 / 1000000000 \<le> gammaCorrect (23 / 255) \<and> gammaCorrect (23 / 255) \<le> 8568126 / 1000000000"
  by (rule gammaCorrect_between) (simp_all add: power_divide divide_le_eq le_divide_eq)

lemma gamma_11:
  "3346535 / 1000000000 \<le> gammaCorrect (11 / 255) \<and> gammaCorrect (11 / 255) \<le> 3346536 / 1000000000"
  by (rule gammaCorrect_between) (simp_all add: power_divide divide_le_eq le_divide_eq)

lemma lum_170BA2:
  "30301374 / 1000000000 \<le> luminanceOfRgb \<lparr> r = 23, g = 11, b = 162 \<rparr> \<and> luminanceOfRgb \<lparr> r = 23, g = 11, b = 162 \<rparr> \<le> 30301376 / 1000000000"
  using gamma_11 gamma_23 gamma_162 by (simp add: luminanceOfRgb_def)

lemma ratio_EF30B5_170BA2_large:
  "LARGE_TEXT_THRESHOLD \<le> ratioOfRgb \<lparr> r = 239, g = 48, b = 181 \<rparr> \<lparr> r = 23, g = 11, b = 162 \<rparr>"
  by (rule ratio_ge_from_bounds [OF lum_EF30B5 lum_170BA2]) (simp_all add: LARGE_TEXT_THRESHOLD_def NORMAL_TEXT_THRESHOLD_def EPSILON_def)

lemma canon_170BA2: "canonRgb \<lparr> r = 23, g = 11, b = 162 \<rparr> = \<lparr> r = 23, g = 11, b = 162 \<rparr>"
  by (simp add: canonRgb_def channelByte_def mathRound_def)

lemma near_bg_darken_step_1:
  "searchBody \<lparr> h = 8620171161763839 / 35184372088832, s = 1544679750241405 / 17592186044416, l = 2387018184850171 / 35184372088832 \<rparr> \<lparr> r = 239, g = 48, b = 181 \<rparr> LARGE_TEXT_THRESHOLD False False
     \<lparr> minL = 0, maxL = 2387018184850171 / 35184372088832, bestRgb = \<lparr> r = 113, g = 101, b = 245 \<rparr>,
       bestRatio = ratioOfRgb \<lparr> r = 113, g = 101, b = 245 \<rparr> \<lparr> r = 239, g = 48, b = 181 \<rparr>, iterationCount = 0 \<rparr> =
   Inr \<lparr> minL = 2387018184850171 / 70368744177664, maxL = 2387018184850171 / 35184372088832, bestRgb = \<lparr> r = 23, g = 11, b = 162 \<rparr>,
       bestRatio = ratioOfRgb \<lparr> r = 239, g = 48, b = 181 \<rparr> \<lparr> r = 23, g = 11, b = 162 \<rparr>, iterationCount = Suc 0 \<rparr>"
  unfolding searchBody_def Let_def
  by (simp add: bindE_def contrastRatio_rgbToHex addD_def divD_def toDouble_zero
      round_889 round_890 rgb_of_hsl_77 canon_170BA2 canon_EF30B5 ratio_EF30B5_170BA2_large)

lemma round_902: "toDouble (7161054554550513 / 70368744177664) = 7161054554550513 / 70368744177664"
  using toDouble_normal [of "6" "7161054554550513 / 70368744177664"] by (simp add: roundTiesToEven_def Let_def)

lemma round_903: "toDouble (7161054554550513 / 140737488355328) = 7161054554550513 / 140737488355328"
  using toDouble_normal [of "5" "7161054554550513 / 140737488355328"] by (simp add: roundTiesToEven_def Let_def)

lemma round_904: "toDouble (7161054554550513 / 14073748835532800) = 572884364364041 / 1125899906842624"
  using toDouble_normal [of "-1" "7161054554550513 / 14073748835532800"] by (simp add: roundTiesToEven_def Let_def)

lemma round_905: "toDouble (6245917618074161 / 4503599627370496) = 6245917618074161 / 4503599627370496"
  using toDouble_normal [of "0" "6245917618074161 / 4503599627370496"] by (simp add: roundTiesToEven_def Let_def)

lemma round_906: "toDouble (2265402564769415566350444245877 / 5070602400912917605986812821504) = 1006040834980755 / 2251799813685248"
  using toDouble_normal [of "-2" "2265402564769415566350444245877 / 5070602400912917605986812821504"] by (simp add: roundTiesToEven_def Let_def)

lemma round_907: "toDouble (4233835948112651 / 4503599627370496) = 4233835948112651 / 4503599627370496"
  using toDouble_normal [of "-1" "4233835948112651 / 4503599627370496"] by (simp add: roundTiesToEven_def Let_def)

lemma round_908: "toDouble (572884364364041 / 562949953421312) = 572884364364041 / 562949953421312"
  using toDouble_normal [of "0" "572884364364041 / 562949953421312"] by (simp add: roundTiesToEven_def Let_def)

lemma round_909: "toDouble (349238966799677 / 4503599627370496) = 349238966799677 / 4503599627370496"
  using toDouble_normal [of "-4" "349238966799677 / 4503599627370496"] by (simp add: roundTiesToEven_def Let_def)

lemma round_910: "toDouble (1942298490656487 / 2251799813685248) = 1942298490656487 / 2251799813685248"
  using toDouble_normal [of "-1" "1942298490656487 / 2251799813685248"] by (simp add: roundTiesToEven_def Let_def)

lemma round_911: "toDouble (5826895471969461 / 1125899906842624) = 5826895471969461 / 1125899906842624"
  using toDouble_normal [of "2" "5826895471969461 / 1125899906842624"] by (simp add: roundTiesToEven_def Let_def)

lemma round_912: "toDouble (182236140807558345482265922995 / 2535301200456458802993406410752) = 2589731320875307 / 36028797018963968"
  using toDouble_normal [of "-4" "182236140807558345482265922995 / 2535301200456458802993406410752"] by (simp add: roundTiesToEven_def Let_def)

lemma round_913: "toDouble (5383643055272723 / 36028797018963968) = 5383643055272723 / 36028797018963968"
  using toDouble_normal [of "-3" "5383643055272723 / 36028797018963968"] by (simp add: roundTiesToEven_def Let_def)

lemma round_914: "toDouble (1372828979094544365 / 36028797018963968) = 167581662487127 / 4398046511104"
  using toDouble_normal [of "5" "1372828979094544365 / 36028797018963968"] by (simp add: roundTiesToEven_def Let_def)

lemma round_915: "toDouble (89055936533917635 / 4503599627370496) = 1391499008342463 / 70368744177664"
  using toDouble_normal [of "4" "89055936533917635 / 4503599627370496"] by (simp add: roundTiesToEven_def Let_def)

lemma round_916: "toDouble (1079628166768726005 / 4503599627370496) = 263581095402521 / 1099511627776"
  using toDouble_normal [of "7" "1079628166768726005 / 4503599627370496"] by (simp add: roundTiesToEven_def Let_def)

lemma rgb_of_hsl_78:
  "hslToRgb \<lparr> h = 8620171161763839 / 35184372088832, s = 1544679750241405 / 17592186044416, l = 7161054554550513 / 140737488355328 \<rparr> =
     \<lparr> r = 38, g = 20, b = 240 \<rparr>"
  unfolding hslToRgb_def hue2rgb_def Let_def
  by (simp add: mathRound_def addD_def subD_def mulD_def divD_def toDouble_zero toDouble_minus
      round_196 round_198 round_199 round_200 round_871 round_872 round_879 round_880 round_885
      round_904 round_905 round_906 round_907 round_908 round_909 round_910 round_911 round_912
      round_913 round_914 round_915 round_916)

lemma gamma_240:
  "871367119 / 1000000000 \<le> gammaCorrect (240 / 255) \<and> gammaCorrect (240 / 255) \<le> 871367120 / 1000000000"
  by (rule gammaCorrect_between) (simp_all add: power_divide divide_le_eq le_divide_eq)

lemma lum_2614F0:
  "72036512 / 1000000000 \<le> luminanceOfRgb \<lparr> r = 38, g = 20, b = 240 \<rparr> \<and> luminanceOfRgb \<lparr> r = 38, g = 20, b = 240 \<rparr> \<le> 72036514 / 1000000000"
  using gamma_20 gamma_38 gamma_240 by (simp add: luminanceOfRgb_def)

lemma ratio_EF30B5_2614F0_large:
  "\<not> LARGE_TEXT_THRESHOLD \<le> ratioOfRgb \<lparr> r = 239, g = 48, b = 181 \<rparr> \<lparr> r = 38, g = 20, b = 240 \<rparr>"
  by (rule ratio_lt_from_bounds [OF lum_EF30B5 lum_2614F0]) (simp_all add: LARGE_TEXT_THRESHOLD_def NORMAL_TEXT_THRESHOLD_def EPSILON_def)

lemma canon_2614F0: "canonRgb \<lparr> r = 38, g = 20, b = 240 \<rparr> = \<lparr> r = 38, g = 20, b = 240 \<rparr>"
  by (simp add: canonRgb_def channelByte_def mathRound_def)

lemma near_bg_darken_step_2:
  "searchBody \<lparr> h = 8620171161763839 / 35184372088832, s = 1544679750241405 / 17592186044416, l = 2387018184850171 / 35184372088832 \<rparr> \<lparr> r = 239, g = 48, b = 181 \<rparr> LARGE_TEXT_THRESHOLD False False
     \<lparr> minL = 2387018184850171 / 70368744177664, maxL = 2387018184850171 / 35184372088832, bestRgb = \<lparr> r = 23, g = 11, b = 162 \<rparr>,
       bestRatio = ratioOfRgb \<lparr> r = 239, g = 48, b = 181 \<rparr> \<lparr> r = 23, g = 11, b = 162 \<rparr>, iterationCount = Suc 0 \<rparr> =
   Inr \<lparr> minL = 2387018184850171 / 70368744177664, maxL = 7161054554550513 / 140737488355328, bestRgb = \<lparr> r = 23, g = 11, b = 162 \<rparr>,
       bestRatio = ratioOfRgb \<lparr> r = 239, g = 48, b = 181 \<rparr> \<lparr> r = 23, g = 11, b = 162 \<rparr>, iterationCount = 2 \<rparr>"
  unfolding searchBody_def Let_def
  by (simp add: bindE_def contrastRatio_rgbToHex addD_def divD_def toDouble_zero
      round_902 round_903 rgb_of_hsl_78 canon_2614F0 canon_EF30B5 ratio_EF30B5_2614F0_large)

lemma round_917: "toDouble (2387018184850171 / 140737488355328) = 2387018184850171 / 140737488355328"
  using toDouble_normal [of "4" "2387018184850171 / 140737488355328"] by (simp add: roundTiesToEven_def Let_def)

lemma round_918: "toDouble (11935090924250855 / 140737488355328) = 1491886365531357 / 17592186044416"
  using toDouble_normal [of "6" "11935090924250855 / 140737488355328"] by (simp add: roundTiesToEven_def Let_def)

lemma round_919: "toDouble (1491886365531357 / 35184372088832) = 1491886365531357 / 35184372088832"
  using toDouble_normal [of "5" "1491886365531357 / 35184372088832"] by (simp add: roundTiesToEven_def Let_def)

lemma round_920: "toDouble (1491886365531357 / 3518437208883200) = 1909614547880137 / 4503599627370496"
  using toDouble_normal [of "-2" "1491886365531357 / 3518437208883200"] by (simp add: roundTiesToEven_def Let_def)

lemma round_921: "toDouble (16151481248818983058068499263541 / 20282409603651670423947251286016) = 7172698545696125 / 9007199254740992"
  using toDouble_normal [of "-1" "16151481248818983058068499263541 / 20282409603651670423947251286016"] by (simp add: roundTiesToEven_def Let_def)

lemma round_922: "toDouble (1909614547880137 / 2251799813685248) = 1909614547880137 / 2251799813685248"
  using toDouble_normal [of "-1" "1909614547880137 / 2251799813685248"] by (simp add: roundTiesToEven_def Let_def)

lemma round_923: "toDouble (465759645824423 / 9007199254740992) = 465759645824423 / 9007199254740992"
  using toDouble_normal [of "-5" "465759645824423 / 9007199254740992"] by (simp add: roundTiesToEven_def Let_def)

lemma round_924: "toDouble (3353469449935851 / 4503599627370496) = 3353469449935851 / 4503599627370496"
  using toDouble_normal [of "-1" "3353469449935851 / 4503599627370496"] by (simp add: roundTiesToEven_def Let_def)

lemma round_925: "toDouble (10060408349807553 / 2251799813685248) = 157193880465743 / 35184372088832"
  using toDouble_normal [of "2" "10060408349807553 / 2251799813685248"] by (simp add: roundTiesToEven_def Let_def)

lemma round_926: "toDouble (4916238204794721874394510185 / 79228162514264337593543950336) = 8942585199828903 / 144115188075855872"
  using toDouble_normal [of "-5" "4916238204794721874394510185 / 79228162514264337593543950336"] by (simp add: roundTiesToEven_def Let_def)

lemma round_927: "toDouble (16394739533019671 / 144115188075855872) = 2049342441627459 / 18014398509481984"
  using toDouble_normal [of "-4" "16394739533019671 / 144115188075855872"] by (simp add: roundTiesToEven_def Let_def)

lemma round_928: "toDouble (522582322615002045 / 18014398509481984) = 8165348790859407 / 281474976710656"
  using toDouble_normal [of "4" "522582322615002045 / 18014398509481984"] by (simp add: roundTiesToEven_def Let_def)

lemma round_929: "toDouble (118768709685227865 / 9007199254740992) = 3711522177663371 / 281474976710656"
  using toDouble_normal [of "3" "118768709685227865 / 9007199254740992"] by (simp add: roundTiesToEven_def Let_def)

lemma round_930: "toDouble (1829038129152511875 / 9007199254740992) = 446542512000125 / 2199023255552"
  using toDouble_normal [of "7" "1829038129152511875 / 9007199254740992"] by (simp add: roundTiesToEven_def Let_def)

lemma rgb_of_hsl_79:
  "hslToRgb \<lparr> h = 8620171161763839 / 35184372088832, s = 1544679750241405 / 17592186044416, l = 1491886365531357 / 35184372088832 \<rparr> =
     \<lparr> r = 29, g = 13, b = 203 \<rparr>"
  unfolding hslToRgb_def hue2rgb_def Let_def
  by (simp add: mathRound_def addD_def subD_def mulD_def divD_def toDouble_zero toDouble_minus
      round_196 round_198 round_199 round_200 round_871 round_872 round_879 round_880 round_885
      round_892 round_920 round_921 round_922 round_923 round_924 round_925 round_926 round_927
      round_928 round_929 round_930)

lemma gamma_13:
  "4024717 / 1000000000 \<le> gammaCorrect (13 / 255) \<and> gammaCorrect (13 / 255) \<le> 4024718 / 1000000000"
  by (rule gammaCorrect_between) (simp_all add: power_divide divide_le_eq le_divide_eq)

lemma lum_1D0DCB:
  "48608554 / 1000000000 \<le> luminanceOfRgb \<lparr> r = 29, g = 13, b = 203 \<rparr> \<and> luminanceOfRgb \<lparr> r = 29, g = 13, b = 203 \<rparr> \<le> 48608556 / 1000000000"
  using gamma_13 gamma_29 gamma_203 by (simp add: luminanceOfRgb_def)

lemma ratio_EF30B5_1D0DCB_large:
  "\<not> LARGE_TEXT_THRESHOLD \<le> ratioOfRgb \<lparr> r = 239, g = 48, b = 181 \<rparr> \<lparr> r = 29, g = 13, b = 203 \<rparr>"
  by (rule ratio_lt_from_bounds [OF lum_EF30B5 lum_1D0DCB]) (simp_all add: LARGE_TEXT_THRESHOLD_def NORMAL_TEXT_THRESHOLD_def EPSILON_def)

lemma canon_1D0DCB: "canonRgb \<lparr> r = 29, g = 13, b = 203 \<rparr> = \<lparr> r = 29, g = 13, b = 203 \<rparr>"
  by (simp add: canonRgb_def channelByte_def mathRound_def)

lemma near_bg_darken_step_3:
  "searchBody \<lparr> h = 8620171161763839 / 35184372088832, s = 1544679750241405 / 17592186044416, l = 2387018184850171 / 35184372088832 \<rparr> \<lparr> r = 239, g = 48, b = 181 \<rparr> LARGE_TEXT_THRESHOLD False False
     \<lparr> minL = 2387018184850171 / 70368744177664, maxL = 7161054554550513 / 140737488355328, bestRgb = \<lparr> r = 23, g = 11, b = 162 \<rparr>,
       bestRatio = ratioOfRgb \<lparr> r = 239, g = 48, b = 181 \<rparr> \<lparr> r = 23, g = 11, b = 162 \<rparr>, iterationCount = 2 \<rparr> =
   Inr \<lparr> minL = 2387018184850171 / 70368744177664, maxL = 1491886365531357 / 35184372088832, bestRgb = \<lparr> r = 23, g = 11, b = 162 \<rparr>,
       bestRatio = ratioOfRgb \<lparr> r = 239, g = 48, b = 181 \<rparr> \<lparr> r = 23, g = 11, b = 162 \<rparr>, iterationCount = 3 \<rparr>"
  unfolding searchBody_def Let_def
  by (simp add: bindE_def contrastRatio_rgbToHex addD_def divD_def toDouble_zero
      round_918 round_919 rgb_of_hsl_79 canon_1D0DCB canon_EF30B5 ratio_EF30B5_1D0DCB_large)

lemma round_931: "toDouble (596754546212543 / 70368744177664) = 596754546212543 / 70368744177664"
  using toDouble_normal [of "3" "596754546212543 / 70368744177664"] by (simp add: roundTiesToEven_def Let_def)

lemma round_932: "toDouble (5370790915912885 / 70368744177664) = 5370790915912885 / 70368744177664"
  using toDouble_normal [of "6" "5370790915912885 / 70368744177664"] by (simp add: roundTiesToEven_def Let_def)

lemma round_933: "toDouble (5370790915912885 / 140737488355328) = 5370790915912885 / 140737488355328"
  using toDouble_normal [of "5" "5370790915912885 / 140737488355328"] by (simp add: roundTiesToEven_def Let_def)

lemma round_934: "toDouble (1074158183182577 / 2814749767106560) = 6874612372368493 / 18014398509481984"
  using toDouble_normal [of "-2" "1074158183182577 / 2814749767106560"] by (simp add: roundTiesToEven_def Let_def)

lemma round_935: "toDouble (58145332495748337317450639751049 / 81129638414606681695789005144064) = 403464293195407 / 562949953421312"
  using toDouble_normal [of "-1" "58145332495748337317450639751049 / 81129638414606681695789005144064"] by (simp add: roundTiesToEven_def Let_def)

lemma round_936: "toDouble (6874612372368493 / 9007199254740992) = 6874612372368493 / 9007199254740992"
  using toDouble_normal [of "-1" "6874612372368493 / 9007199254740992"] by (simp add: roundTiesToEven_def Let_def)

lemma round_937: "toDouble (419183681241981 / 9007199254740992) = 419183681241981 / 9007199254740992"
  using toDouble_normal [of "-5" "419183681241981 / 9007199254740992"] by (simp add: roundTiesToEven_def Let_def)

lemma round_938: "toDouble (6036245009884531 / 9007199254740992) = 6036245009884531 / 9007199254740992"
  using toDouble_normal [of "-1" "6036245009884531 / 9007199254740992"] by (simp add: roundTiesToEven_def Let_def)

lemma round_939: "toDouble (18108735029653593 / 4503599627370496) = 2263591878706699 / 562949953421312"
  using toDouble_normal [of "2" "18108735029653593 / 4503599627370496"] by (simp add: roundTiesToEven_def Let_def)

lemma round_940: "toDouble (70793830149043988736281464205 / 1267650600228229401496703205376) = 2012081669961503 / 36028797018963968"
  using toDouble_normal [of "-5" "70793830149043988736281464205 / 1267650600228229401496703205376"] by (simp add: roundTiesToEven_def Let_def)

lemma round_941: "toDouble (3688816394929427 / 36028797018963968) = 3688816394929427 / 36028797018963968"
  using toDouble_normal [of "-4" "3688816394929427 / 36028797018963968"] by (simp add: roundTiesToEven_def Let_def)

lemma round_942: "toDouble (940648180707003885 / 36028797018963968) = 1837203477943367 / 70368744177664"
  using toDouble_normal [of "4" "940648180707003885 / 36028797018963968"] by (simp add: roundTiesToEven_def Let_def)

lemma round_943: "toDouble (106891838716705155 / 9007199254740992) = 835092489974259 / 70368744177664"
  using toDouble_normal [of "3" "106891838716705155 / 9007199254740992"] by (simp add: roundTiesToEven_def Let_def)

lemma round_944: "toDouble (102883394764828785 / 562949953421312) = 6430212172801799 / 35184372088832"
  using toDouble_normal [of "7" "102883394764828785 / 562949953421312"] by (simp add: roundTiesToEven_def Let_def)

lemma rgb_of_hsl_80:
  "hslToRgb \<lparr> h = 8620171161763839 / 35184372088832, s = 1544679750241405 / 17592186044416, l = 5370790915912885 / 140737488355328 \<rparr> =
     \<lparr> r = 26, g = 12, b = 183 \<rparr>"
  unfolding hslToRgb_def hue2rgb_def Let_def
  by (simp add: mathRound_def addD_def subD_def mulD_def divD_def toDouble_zero toDouble_minus
      round_196 round_198 round_199 round_200 round_871 round_872 round_879 round_880 round_885
      round_892 round_934 round_935 round_936 round_937 round_938 round_939 round_940 round_941
      round_942 round_943 round_944)

lemma gamma_26:
  "10329823 / 1000000000 \<le> gammaCorrect (26 / 255) \<and> gammaCorrect (26 / 255) \<le> 10329824 / 1000000000"
  by (rule gammaCorrect_between) (simp_all add: power_divide divide_le_eq le_divide_eq)

lemma gamma_12:
  "3676507 / 1000000000 \<le> gammaCorrect (12 / 255) \<and> gammaCorrect (12 / 255) \<le> 3676508 / 1000000000"
  by (rule gammaCorrect_between) (simp_all add: power_divide divide_le_eq le_divide_eq)

lemma gamma_183:
  "473531496 / 1000000000 \<le> gammaCorrect (183 / 255) \<and> gammaCorrect (183 / 255) \<le> 473531497 / 1000000000"
  by (rule gammaCorrect_between) (simp_all add: power_divide divide_le_eq le_divide_eq)

lemma lum_1A0CB7:
  "39014532 / 1000000000 \<le> luminanceOfRgb \<lparr> r = 26, g = 12, b = 183 \<rparr> \<and> luminanceOfRgb \<lparr> r = 26, g = 12, b = 183 \<rparr> \<le> 39014534 / 1000000000"
  using gamma_12 gamma_26 gamma_183 by (simp add: luminanceOfRgb_def)

lemma ratio_EF30B5_1A0CB7_large:
  "LARGE_TEXT_THRESHOLD \<le> ratioOfRgb \<lparr> r = 239, g = 48, b = 181 \<rparr> \<lparr> r = 26, g = 12, b = 183 \<rparr>"
  by (rule ratio_ge_from_bounds [OF lum_EF30B5 lum_1A0CB7]) (simp_all add: LARGE_TEXT_THRESHOLD_def NORMAL_TEXT_THRESHOLD_def EPSILON_def)

lemma canon_1A0CB7: "canonRgb \<lparr> r = 26, g = 12, b = 183 \<rparr> = \<lparr> r = 26, g = 12, b = 183 \<rparr>"
  by (simp add: canonRgb_def channelByte_def mathRound_def)

lemma near_bg_darken_step_4:
  "searchBody \<lparr> h = 8620171161763839 / 35184372088832, s = 1544679750241405 / 17592186044416, l = 2387018184850171 / 35184372088832 \<rparr> \<lparr> r = 239, g = 48, b = 181 \<rparr> LARGE_TEXT_THRESHOLD False False
     \<lparr> minL = 2387018184850171 / 70368744177664, maxL = 1491886365531357 / 35184372088832, bestRgb = \<lparr> r = 23, g = 11, b = 162 \<rparr>,
       bestRatio = ratioOfRgb \<lparr> r = 239, g = 48, b = 181 \<rparr> \<lparr> r = 23, g = 11, b = 162 \<rparr>, iterationCount = 3 \<rparr> =
   Inr \<lparr> minL = 5370790915912885 / 140737488355328, maxL = 1491886365531357 / 35184372088832, bestRgb = \<lparr> r = 26, g = 12, b = 183 \<rparr>,
       bestRatio = ratioOfRgb \<lparr> r = 239, g = 48, b = 181 \<rparr> \<lparr> r = 26, g = 12, b = 183 \<rparr>, iterationCount = 4 \<rparr>"
  unfolding searchBody_def Let_def
  by (simp add: bindE_def contrastRatio_rgbToHex addD_def divD_def toDouble_zero
      round_932 round_933 rgb_of_hsl_80 canon_1A0CB7 canon_EF30B5 ratio_EF30B5_1A0CB7_large)

lemma round_945: "toDouble (596754546212543 / 140737488355328) = 596754546212543 / 140737488355328"
  using toDouble_normal [of "2" "596754546212543 / 140737488355328"] by (simp add: roundTiesToEven_def Let_def)

lemma round_946: "toDouble (11338336378038313 / 140737488355328) = 1417292047254789 / 17592186044416"
  using toDouble_normal [of "6" "11338336378038313 / 140737488355328"] by (simp add: roundTiesToEven_def Let_def)

lemma round_947: "toDouble (1417292047254789 / 35184372088832) = 1417292047254789 / 35184372088832"
  using toDouble_normal [of "5" "1417292047254789 / 35184372088832"] by (simp add: roundTiesToEven_def Let_def)

lemma round_948: "toDouble (1417292047254789 / 3518437208883200) = 907066910243065 / 2251799813685248"
  using toDouble_normal [of "-2" "1417292047254789 / 3518437208883200"] by (simp add: roundTiesToEven_def Let_def)

lemma round_949: "toDouble (7671953593189016318234053051045 / 10141204801825835211973625643008) = 3407031809205659 / 4503599627370496"
  using toDouble_normal [of "-1" "7671953593189016318234053051045 / 10141204801825835211973625643008"] by (simp add: roundTiesToEven_def Let_def)

lemma round_950: "toDouble (907066910243065 / 1125899906842624) = 907066910243065 / 1125899906842624"
  using toDouble_normal [of "-1" "907066910243065 / 1125899906842624"] by (simp add: roundTiesToEven_def Let_def)

lemma round_951: "toDouble (221235831766601 / 4503599627370496) = 221235831766601 / 4503599627370496"
  using toDouble_normal [of "-5" "221235831766601 / 4503599627370496"] by (simp add: roundTiesToEven_def Let_def)

lemma round_952: "toDouble (1592897988719529 / 2251799813685248) = 1592897988719529 / 2251799813685248"
  using toDouble_normal [of "-1" "1592897988719529 / 2251799813685248"] by (simp add: roundTiesToEven_def Let_def)

lemma round_953: "toDouble (4778693966158587 / 1125899906842624) = 4778693966158587 / 1125899906842624"
  using toDouble_normal [of "2" "4778693966158587 / 1125899906842624"] by (simp add: roundTiesToEven_def Let_def)

lemma round_954: "toDouble (149453641425759538726593627165 / 2535301200456458802993406410752) = 4247727969918729 / 72057594037927936"
  using toDouble_normal [of "-5" "149453641425759538726593627165 / 2535301200456458802993406410752"] by (simp add: roundTiesToEven_def Let_def)

lemma round_955: "toDouble (7787501278184345 / 72057594037927936) = 7787501278184345 / 72057594037927936"
  using toDouble_normal [of "-4" "7787501278184345 / 72057594037927936"] by (simp add: roundTiesToEven_def Let_def)

lemma round_956: "toDouble (1985812825937007975 / 72057594037927936) = 7757081351316437 / 281474976710656"
  using toDouble_normal [of "4" "1985812825937007975 / 72057594037927936"] by (simp add: roundTiesToEven_def Let_def)

lemma round_957: "toDouble (56415137100483255 / 4503599627370496) = 7051892137560407 / 562949953421312"
  using toDouble_normal [of "3" "56415137100483255 / 4503599627370496"] by (simp add: roundTiesToEven_def Let_def)

lemma round_958: "toDouble (868793111347443045 / 4503599627370496) = 6787446182401899 / 35184372088832"
  using toDouble_normal [of "7" "868793111347443045 / 4503599627370496"] by (simp add: roundTiesToEven_def Let_def)

lemma rgb_of_hsl_81:
  "hslToRgb \<lparr> h = 8620171161763839 / 35184372088832, s = 1544679750241405 / 17592186044416, l = 1417292047254789 / 35184372088832 \<rparr> =
     \<lparr> r = 28, g = 13, b = 193 \<rparr>"
  unfolding hslToRgb_def hue2rgb_def Let_def
  by (simp add: mathRound_def addD_def subD_def mulD_def divD_def toDouble_zero toDouble_minus
      round_196 round_198 round_199 round_200 round_871 round_872 round_879 round_880 round_885
      round_892 round_948 round_949 round_950 round_951 round_952 round_953 round_954 round_955
      round_956 round_957 round_958)

lemma gamma_28:
  "11612245 / 1000000000 \<le> gammaCorrect (28 / 255) \<and> gammaCorrect (28 / 255) \<le> 11612246 / 1000000000"
  by (rule gammaCorrect_between) (simp_all add: power_divide divide_le_eq le_divide_eq)

lemma gamma_193:
  "533276404 / 1000000000 \<le> gammaCorrect (193 / 255) \<and> gammaCorrect (193 / 255) \<le> 533276405 / 1000000000"
  by (rule gammaCorrect_between) (simp_all add: power_divide divide_le_eq le_divide_eq)

lemma lum_1C0DC1:
  "43849797 / 1000000000 \<le> luminanceOfRgb \<lparr> r = 28, g = 13, b = 193 \<rparr> \<and> luminanceOfRgb \<lparr> r = 28, g = 13, b = 193 \<rparr> \<le> 43849799 / 1000000000"
  using gamma_13 gamma_28 gamma_193 by (simp add: luminanceOfRgb_def)

lemma ratio_EF30B5_1C0DC1_large:
  "LARGE_TEXT_THRESHOLD \<le> ratioOfRgb \<lparr> r = 239, g = 48, b = 181 \<rparr> \<lparr> r = 28, g = 13, b = 193 \<rparr>"
  by (rule ratio_ge_from_bounds [OF lum_EF30B5 lum_1C0DC1]) (simp_all add: LARGE_TEXT_THRESHOLD_def NORMAL_TEXT_THRESHOLD_def EPSILON_def)

lemma canon_1C0DC1: "canonRgb \<lparr> r = 28, g = 13, b = 193 \<rparr> = \<lparr> r = 28, g = 13, b = 193 \<rparr>"
  by (simp add: canonRgb_def channelByte_def mathRound_def)

lemma near_bg_darken_step_5:
  "searchBody \<lparr> h = 8620171161763839 / 35184372088832, s = 1544679750241405 / 17592186044416, l = 2387018184850171 / 35184372088832 \<rparr> \<lparr> r = 239, g = 48, b = 181 \<rparr> LARGE_TEXT_THRESHOLD False False
     \<lparr> minL = 5370790915912885 / 140737488355328, maxL = 1491886365531357 / 35184372088832, bestRgb = \<lparr> r = 26, g = 12, b = 183 \<rparr>,
       bestRatio = ratioOfRgb \<lparr> r = 239, g = 48, b = 181 \<rparr> \<lparr> r = 26, g = 12, b = 183 \<rparr>, iterationCount = 4 \<rparr> =
   Inr \<lparr> minL = 1417292047254789 / 35184372088832, maxL = 1491886365531357 / 35184372088832, bestRgb = \<lparr> r = 28, g = 13, b = 193 \<rparr>,
       bestRatio = ratioOfRgb \<lparr> r = 239, g = 48, b = 181 \<rparr> \<lparr> r = 28, g = 13, b = 193 \<rparr>, iterationCount = 5 \<rparr>"
  unfolding searchBody_def Let_def
  by (simp add: bindE_def contrastRatio_rgbToHex addD_def divD_def toDouble_zero
      round_946 round_947 rgb_of_hsl_81 canon_1C0DC1 canon_EF30B5 ratio_EF30B5_1C0DC1_large)

lemma round_959: "toDouble (9324289784571 / 4398046511104) = 9324289784571 / 4398046511104"
  using toDouble_normal [of "1" "9324289784571 / 4398046511104"] by (simp add: roundTiesToEven_def Let_def)

lemma round_960: "toDouble (1454589206393073 / 17592186044416) = 1454589206393073 / 17592186044416"
  using toDouble_normal [of "6" "1454589206393073 / 17592186044416"] by (simp add: roundTiesToEven_def Let_def)

lemma round_961: "toDouble (1454589206393073 / 35184372088832) = 1454589206393073 / 35184372088832"
  using toDouble_normal [of "5" "1454589206393073 / 35184372088832"] by (simp add: roundTiesToEven_def Let_def)

lemma round_962: "toDouble (1454589206393073 / 3518437208883200) = 3723748368366267 / 9007199254740992"
  using toDouble_normal [of "-2" "1454589206393073 / 3518437208883200"] by (simp add: roundTiesToEven_def Let_def)

lemma round_963: "toDouble (31495388435197015694536605365631 / 40564819207303340847894502572032) = 6993381082053721 / 9007199254740992"
  using toDouble_normal [of "-1" "31495388435197015694536605365631 / 40564819207303340847894502572032"] by (simp add: roundTiesToEven_def Let_def)

lemma round_964: "toDouble (3723748368366267 / 4503599627370496) = 3723748368366267 / 4503599627370496"
  using toDouble_normal [of "-1" "3723748368366267 / 4503599627370496"] by (simp add: roundTiesToEven_def Let_def)

lemma round_965: "toDouble (454115654678813 / 9007199254740992) = 454115654678813 / 9007199254740992"
  using toDouble_normal [of "-5" "454115654678813 / 9007199254740992"] by (simp add: roundTiesToEven_def Let_def)

lemma round_966: "toDouble (1634816356843727 / 2251799813685248) = 1634816356843727 / 2251799813685248"
  using toDouble_normal [of "-1" "1634816356843727 / 2251799813685248"] by (simp add: roundTiesToEven_def Let_def)

lemma round_967: "toDouble (4904449070531181 / 1125899906842624) = 4904449070531181 / 1125899906842624"
  using toDouble_normal [of "2" "4904449070531181 / 1125899906842624"] by (simp add: roundTiesToEven_def Let_def)

lemma round_968: "toDouble (153386631989595303716110270395 / 2535301200456458802993406410752) = 2179755142458295 / 36028797018963968"
  using toDouble_normal [of "-5" "153386631989595303716110270395 / 2535301200456458802993406410752"] by (simp add: roundTiesToEven_def Let_def)

lemma round_969: "toDouble (3996217761173547 / 36028797018963968) = 3996217761173547 / 36028797018963968"
  using toDouble_normal [of "-4" "3996217761173547 / 36028797018963968"] by (simp add: roundTiesToEven_def Let_def)

lemma round_970: "toDouble (1019035529099254485 / 36028797018963968) = 3980607535543963 / 140737488355328"
  using toDouble_normal [of "4" "1019035529099254485 / 36028797018963968"] by (simp add: roundTiesToEven_def Let_def)

lemma round_971: "toDouble (115799491943097315 / 9007199254740992) = 3618734123221791 / 281474976710656"
  using toDouble_normal [of "3" "115799491943097315 / 9007199254740992"] by (simp add: roundTiesToEven_def Let_def)

lemma round_972: "toDouble (1783312175923698855 / 9007199254740992) = 6966063187201949 / 35184372088832"
  using toDouble_normal [of "7" "1783312175923698855 / 9007199254740992"] by (simp add: roundTiesToEven_def Let_def)

lemma rgb_of_hsl_82:
  "hslToRgb \<lparr> h = 8620171161763839 / 35184372088832, s = 1544679750241405 / 17592186044416, l = 1454589206393073 / 35184372088832 \<rparr> =
     \<lparr> r = 28, g = 13, b = 198 \<rparr>"
  unfolding hslToRgb_def hue2rgb_def Let_def
  by (simp add: mathRound_def addD_def subD_def mulD_def divD_def toDouble_zero toDouble_minus
      round_196 round_198 round_199 round_200 round_871 round_872 round_879 round_880 round_885
      round_892 round_962 round_963 round_964 round_965 round_966 round_967 round_968 round_969
      round_970 round_971 round_972)

lemma gamma_198:
  "564711505 / 1000000000 \<le> gammaCorrect (198 / 255) \<and> gammaCorrect (198 / 255) \<le> 564711506 / 1000000000"
  by (rule gammaCorrect_between) (simp_all add: power_divide divide_le_eq le_divide_eq)

lemma lum_1C0DC6:
  "46119411 / 1000000000 \<le> luminanceOfRgb \<lparr> r = 28, g = 13, b = 198 \<rparr> \<and> luminanceOfRgb \<lparr> r = 28, g = 13, b = 198 \<rparr> \<le> 46119413 / 1000000000"
  using gamma_13 gamma_28 gamma_198 by (simp add: luminanceOfRgb_def)

lemma ratio_EF30B5_1C0DC6_large:
  "\<not> LARGE_TEXT_THRESHOLD \<le> ratioOfRgb \<lparr> r = 239, g = 48, b = 181 \<rparr> \<lparr> r = 28, g = 13, b = 198 \<rparr>"
  by (rule ratio_lt_from_bounds [OF lum_EF30B5 lum_1C0DC6]) (simp_all add: LARGE_TEXT_THRESHOLD_def NORMAL_TEXT_THRESHOLD_def EPSILON_def)

lemma canon_1C0DC6: "canonRgb \<lparr> r = 28, g = 13, b = 198 \<rparr> = \<lparr> r = 28, g = 13, b = 198 \<rparr>"
  by (simp add: canonRgb_def channelByte_def mathRound_def)

lemma near_bg_darken_step_6:
  "searchBody \<lparr> h = 8620171161763839 / 35184372088832, s = 1544679750241405 / 17592186044416, l = 2387018184850171 / 35184372088832 \<rparr> \<lparr> r = 239, g = 48, b = 181 \<rparr> LARGE_TEXT_THRESHOLD False False
     \<lparr> minL = 1417292047254789 / 35184372088832, maxL = 1491886365531357 / 35184372088832, bestRgb = \<lparr> r = 28, g = 13, b = 193 \<rparr>,
       bestRatio = ratioOfRgb \<lparr> r = 239, g = 48, b = 181 \<rparr> \<lparr> r = 28, g = 13, b = 193 \<rparr>, iterationCount = 5 \<rparr> =
   Inr \<lparr> minL = 1417292047254789 / 35184372088832, maxL = 1454589206393073 / 35184372088832, bestRgb = \<lparr> r = 28, g = 13, b = 193 \<rparr>,
       bestRatio = ratioOfRgb \<lparr> r = 239, g = 48, b = 181 \<rparr> \<lparr> r = 28, g = 13, b = 193 \<rparr>, iterationCount = 6 \<rparr>"
  unfolding searchBody_def Let_def
  by (simp add: bindE_def contrastRatio_rgbToHex addD_def divD_def toDouble_zero
      round_960 round_961 rgb_of_hsl_82 canon_1C0DC6 canon_EF30B5 ratio_EF30B5_1C0DC6_large)

lemma round_973: "toDouble (9324289784571 / 8796093022208) = 9324289784571 / 8796093022208"
  using toDouble_normal [of "0" "9324289784571 / 8796093022208"] by (simp add: roundTiesToEven_def Let_def)

lemma round_974: "toDouble (1435940626823931 / 17592186044416) = 1435940626823931 / 17592186044416"
  using toDouble_normal [of "6" "1435940626823931 / 17592186044416"] by (simp add: roundTiesToEven_def Let_def)

lemma round_975: "toDouble (1435940626823931 / 35184372088832) = 1435940626823931 / 35184372088832"
  using toDouble_normal [of "5" "1435940626823931 / 35184372088832"] by (simp add: roundTiesToEven_def Let_def)

lemma round_976: "toDouble (1435940626823931 / 3518437208883200) = 7352016009338527 / 18014398509481984"
  using toDouble_normal [of "-2" "1435940626823931 / 3518437208883200"] by (simp add: roundTiesToEven_def Let_def)

lemma round_977: "toDouble (62183202807953080967472817569811 / 81129638414606681695789005144064) = 862965293779065 / 1125899906842624"
  using toDouble_normal [of "-1" "62183202807953080967472817569811 / 81129638414606681695789005144064"] by (simp add: roundTiesToEven_def Let_def)

lemma round_978: "toDouble (7352016009338527 / 9007199254740992) = 7352016009338527 / 9007199254740992"
  using toDouble_normal [of "-1" "7352016009338527 / 9007199254740992"] by (simp add: roundTiesToEven_def Let_def)

lemma round_979: "toDouble (448293659106007 / 9007199254740992) = 448293659106007 / 9007199254740992"
  using toDouble_normal [of "-5" "448293659106007 / 9007199254740992"] by (simp add: roundTiesToEven_def Let_def)

lemma round_980: "toDouble (6455428691126513 / 9007199254740992) = 6455428691126513 / 9007199254740992"
  using toDouble_normal [of "-1" "6455428691126513 / 9007199254740992"] by (simp add: roundTiesToEven_def Let_def)

lemma round_981: "toDouble (19366286073379539 / 4503599627370496) = 4841571518344885 / 1125899906842624"
  using toDouble_normal [of "2" "19366286073379539 / 4503599627370496"] by (simp add: roundTiesToEven_def Let_def)

lemma round_982: "toDouble (151420136707677452496349361075 / 2535301200456458802993406410752) = 8607238254835321 / 144115188075855872"
  using toDouble_normal [of "-5" "151420136707677452496349361075 / 2535301200456458802993406410752"] by (simp add: roundTiesToEven_def Let_def)

lemma round_983: "toDouble (15779936800531433 / 144115188075855872) = 1972492100066429 / 18014398509481984"
  using toDouble_normal [of "-4" "15779936800531433 / 144115188075855872"] by (simp add: roundTiesToEven_def Let_def)

lemma round_984: "toDouble (502985485516939395 / 18014398509481984) = 3929574105601089 / 140737488355328"
  using toDouble_normal [of "4" "502985485516939395 / 18014398509481984"] by (simp add: roundTiesToEven_def Let_def)

lemma round_985: "toDouble (114314883072031785 / 9007199254740992) = 7144680192001987 / 562949953421312"
  using toDouble_normal [of "3" "114314883072031785 / 9007199254740992"] by (simp add: roundTiesToEven_def Let_def)

lemma round_986: "toDouble (220056149913661575 / 1125899906842624) = 1719188671200481 / 8796093022208"
  using toDouble_normal [of "7" "220056149913661575 / 1125899906842624"] by (simp add: roundTiesToEven_def Let_def)

lemma rgb_of_hsl_83:
  "hslToRgb \<lparr> h = 8620171161763839 / 35184372088832, s = 1544679750241405 / 17592186044416, l = 1435940626823931 / 35184372088832 \<rparr> =
     \<lparr> r = 28, g = 13, b = 195 \<rparr>"
  unfolding hslToRgb_def hue2rgb_def Let_def
  by (simp add: mathRound_def addD_def subD_def mulD_def divD_def toDouble_zero toDouble_minus
      round_196 round_198 round_199 round_200 round_871 round_872 round_879 round_880 round_885
      round_892 round_976 round_977 round_978 round_979 round_980 round_981 round_982 round_983
      round_984 round_985 round_986)

lemma gamma_195:
  "545724461 / 1000000000 \<le> gammaCorrect (195 / 255) \<and> gammaCorrect (195 / 255) \<le> 545724462 / 1000000000"
  by (rule gammaCorrect_between) (simp_all add: power_divide divide_le_eq le_divide_eq)

lemma lum_1C0DC3:
  "44748546 / 1000000000 \<le> luminanceOfRgb \<lparr> r = 28, g = 13, b = 195 \<rparr> \<and> luminanceOfRgb \<lparr> r = 28, g = 13, b = 195 \<rparr> \<le> 44748548 / 1000000000"
  using gamma_13 gamma_28 gamma_195 by (simp add: luminanceOfRgb_def)

lemma ratio_EF30B5_1C0DC3_large:
  "LARGE_TEXT_THRESHOLD \<le> ratioOfRgb \<lparr> r = 239, g = 48, b = 181 \<rparr> \<lparr> r = 28, g = 13, b = 195 \<rparr>"
  by (rule ratio_ge_from_bounds [OF lum_EF30B5 lum_1C0DC3]) (simp_all add: LARGE_TEXT_THRESHOLD_def NORMAL_TEXT_THRESHOLD_def EPSILON_def)

lemma canon_1C0DC3: "canonRgb \<lparr> r = 28, g = 13, b = 195 \<rparr> = \<lparr> r = 28, g = 13, b = 195 \<rparr>"
  by (simp add: canonRgb_def channelByte_def mathRound_def)

lemma near_bg_darken_step_7:
  "searchBody \<lparr> h = 8620171161763839 / 35184372088832, s = 1544679750241405 / 17592186044416, l = 2387018184850171 / 35184372088832 \<rparr> \<lparr> r = 239, g = 48, b = 181 \<rparr> LARGE_TEXT_THRESHOLD False False
     \<lparr> minL = 1417292047254789 / 35184372088832, maxL = 1454589206393073 / 35184372088832, bestRgb = \<lparr> r = 28, g = 13, b = 193 \<rparr>,
       bestRatio = ratioOfRgb \<lparr> r = 239, g = 48, b = 181 \<rparr> \<lparr> r = 28, g = 13, b = 193 \<rparr>, iterationCount = 6 \<rparr> =
   Inr \<lparr> minL = 1435940626823931 / 35184372088832, maxL = 1454589206393073 / 35184372088832, bestRgb = \<lparr> r = 28, g = 13, b = 195 \<rparr>,
       bestRatio = ratioOfRgb \<lparr> r = 239, g = 48, b = 181 \<rparr> \<lparr> r = 28, g = 13, b = 195 \<rparr>, iterationCount = 7 \<rparr>"
  unfolding searchBody_def Let_def
  by (simp add: bindE_def contrastRatio_rgbToHex addD_def divD_def toDouble_zero
      round_974 round_975 rgb_of_hsl_83 canon_1C0DC3 canon_EF30B5 ratio_EF30B5_1C0DC3_large)

lemma round_987: "toDouble (9324289784571 / 17592186044416) = 9324289784571 / 17592186044416"
  using toDouble_normal [of "-1" "9324289784571 / 17592186044416"] by (simp add: roundTiesToEven_def Let_def)

lemma near_bg_darken_loop:
  "searchLoop 7 \<lparr> h = 8620171161763839 / 35184372088832, s = 1544679750241405 / 17592186044416, l = 2387018184850171 / 35184372088832 \<rparr> \<lparr> r = 239, g = 48, b = 181 \<rparr> LARGE_TEXT_THRESHOLD False False
     \<lparr> minL = 0, maxL = 2387018184850171 / 35184372088832, bestRgb = \<lparr> r = 113, g = 101, b = 245 \<rparr>,
       bestRatio = ratioOfRgb \<lparr> r = 113, g = 101, b = 245 \<rparr> \<lparr> r = 239, g = 48, b = 181 \<rparr>, iterationCount = 0 \<rparr> =
   Inr \<lparr> minL = 1435940626823931 / 35184372088832, maxL = 1454589206393073 / 35184372088832, bestRgb = \<lparr> r = 28, g = 13, b = 195 \<rparr>,
       bestRatio = ratioOfRgb \<lparr> r = 239, g = 48, b = 181 \<rparr> \<lparr> r = 28, g = 13, b = 195 \<rparr>, iterationCount = 7 \<rparr>"
  by (simp add: searchLoop_numeral bindE_def subD_def toDouble_zero toDouble_minus
      round_15 round_890 round_917 round_931 round_945 round_959 round_973 round_987
      near_bg_darken_step_1 near_bg_darken_step_2 near_bg_darken_step_3 near_bg_darken_step_4
      near_bg_darken_step_5 near_bg_darken_step_6 near_bg_darken_step_7)

lemma near_bg_darken_search:
  "binarySearchLightness \<lparr> h = 8620171161763839 / 35184372088832, s = 1544679750241405 / 17592186044416, l = 2387018184850171 / 35184372088832 \<rparr> \<lparr> r = 239, g = 48, b = 181 \<rparr> LARGE_TEXT_THRESHOLD False False 7 =
   Inr \<lparr> rgb = \<lparr> r = 28, g = 13, b = 195 \<rparr>, ratio = ratioOfRgb \<lparr> r = 239, g = 48, b = 181 \<rparr> \<lparr> r = 28, g = 13, b = 195 \<rparr>, iterations = 7 \<rparr>"
  unfolding binarySearchLightness_def Let_def
  by (simp add: bindE_def contrastRatio_rgbToHex rgb_of_hsl_76 canon_7165F5 canon_EF30B5 near_bg_darken_loop)

lemma round_988: "toDouble (5905455393733371 / 35184372088832) = 5905455393733371 / 35184372088832"
  using toDouble_normal [of "7" "5905455393733371 / 35184372088832"] by (simp add: roundTiesToEven_def Let_def)

lemma round_989: "toDouble (5905455393733371 / 70368744177664) = 5905455393733371 / 70368744177664"
  using toDouble_normal [of "6" "5905455393733371 / 70368744177664"] by (simp add: roundTiesToEven_def Let_def)

lemma round_990: "toDouble (5905455393733371 / 7036874417766400) = 7558982903978715 / 9007199254740992"
  using toDouble_normal [of "-1" "5905455393733371 / 7036874417766400"] by (simp add: roundTiesToEven_def Let_def)

lemma round_991: "toDouble (15467743225214709 / 9007199254740992) = 3866935806303677 / 2251799813685248"
  using toDouble_normal [of "0" "15467743225214709 / 9007199254740992"] by (simp add: roundTiesToEven_def Let_def)

lemma round_992: "toDouble (29891092029944044416004533933855 / 40564819207303340847894502572032) = 6637155720566677 / 9007199254740992"
  using toDouble_normal [of "-1" "29891092029944044416004533933855 / 40564819207303340847894502572032"] by (simp add: roundTiesToEven_def Let_def)

lemma round_993: "toDouble (7558982903978715 / 4503599627370496) = 7558982903978715 / 4503599627370496"
  using toDouble_normal [of "0" "7558982903978715 / 4503599627370496"] by (simp add: roundTiesToEven_def Let_def)

lemma round_994: "toDouble (6287378303309399 / 9007199254740992) = 6287378303309399 / 9007199254740992"
  using toDouble_normal [of "-1" "6287378303309399 / 9007199254740992"] by (simp add: roundTiesToEven_def Let_def)

lemma round_995: "toDouble (317901150167329 / 1125899906842624) = 317901150167329 / 1125899906842624"
  using toDouble_normal [of "-2" "317901150167329 / 1125899906842624"] by (simp add: roundTiesToEven_def Let_def)

lemma round_996: "toDouble (953703450501987 / 562949953421312) = 953703450501987 / 562949953421312"
  using toDouble_normal [of "0" "953703450501987 / 562949953421312"] by (simp add: roundTiesToEven_def Let_def)

lemma round_997: "toDouble (29827072946546456043755730165 / 1267650600228229401496703205376) = 6781891203569661 / 288230376151711744"
  using toDouble_normal [of "-6" "29827072946546456043755730165 / 1267650600228229401496703205376"] by (simp add: roundTiesToEven_def Let_def)

lemma round_998: "toDouble (207977996909470429 / 288230376151711744) = 6499312403420951 / 9007199254740992"
  using toDouble_normal [of "-1" "207977996909470429 / 288230376151711744"] by (simp add: roundTiesToEven_def Let_def)

lemma round_999: "toDouble (1657324662872342505 / 9007199254740992) = 184"
  using toDouble_normal [of "7" "1657324662872342505 / 9007199254740992"] by (simp add: roundTiesToEven_def Let_def)

lemma round_1000: "toDouble (1603281467343896745 / 9007199254740992) = 6262818231812097 / 35184372088832"
  using toDouble_normal [of "7" "1603281467343896745 / 9007199254740992"] by (simp add: roundTiesToEven_def Let_def)

lemma rgb_of_hsl_84:
  "hslToRgb \<lparr> h = 8620171161763839 / 35184372088832, s = 1544679750241405 / 17592186044416, l = 5905455393733371 / 70368744177664 \<rparr> =
     \<lparr> r = 184, g = 178, b = 250 \<rparr>"
  unfolding hslToRgb_def hue2rgb_def Let_def
  by (simp add: mathRound_def addD_def subD_def mulD_def divD_def toDouble_zero toDouble_minus
      round_196 round_198 round_199 round_200 round_717 round_724 round_871 round_872 round_879
      round_880 round_885 round_990 round_991 round_992 round_993 round_994 round_995 round_996
      round_997 round_998 round_999 round_1000)

lemma gamma_184:
  "479320183 / 1000000000 \<le> gammaCorrect (184 / 255) \<and> gammaCorrect (184 / 255) \<le> 479320184 / 1000000000"
  by (rule gammaCorrect_between) (simp_all add: power_divide divide_le_eq le_divide_eq)

lemma gamma_178:
  "445201194 / 1000000000 \<le> gammaCorrect (178 / 255) \<and> gammaCorrect (178 / 255) \<le> 445201195 / 1000000000"
  by (rule gammaCorrect_between) (simp_all add: power_divide divide_le_eq le_divide_eq)

lemma lum_B8B2FA:
  "489332640 / 1000000000 \<le> luminanceOfRgb \<lparr> r = 184, g = 178, b = 250 \<rparr> \<and> luminanceOfRgb \<lparr> r = 184, g = 178, b = 250 \<rparr> \<le> 489332642 / 1000000000"
  using gamma_178 gamma_184 gamma_250 by (simp add: luminanceOfRgb_def)

lemma ratio_EF30B5_B8B2FA_large:
  "\<not> LARGE_TEXT_THRESHOLD \<le> ratioOfRgb \<lparr> r = 239, g = 48, b = 181 \<rparr> \<lparr> r = 184, g = 178, b = 250 \<rparr>"
  by (rule ratio_lt_from_bounds [OF lum_EF30B5 lum_B8B2FA]) (simp_all add: LARGE_TEXT_THRESHOLD_def NORMAL_TEXT_THRESHOLD_def EPSILON_def)

lemma canon_B8B2FA: "canonRgb \<lparr> r = 184, g = 178, b = 250 \<rparr> = \<lparr> r = 184, g = 178, b = 250 \<rparr>"
  by (simp add: canonRgb_def channelByte_def mathRound_def)

lemma near_bg_lighten_step_1:
  "searchBody \<lparr> h = 8620171161763839 / 35184372088832, s = 1544679750241405 / 17592186044416, l = 2387018184850171 / 35184372088832 \<rparr> \<lparr> r = 239, g = 48, b = 181 \<rparr> LARGE_TEXT_THRESHOLD False True
     \<lparr> minL = 2387018184850171 / 35184372088832, maxL = 100, bestRgb = \<lparr> r = 113, g = 101, b = 245 \<rparr>,
       bestRatio = ratioOfRgb \<lparr> r = 113, g = 101, b = 245 \<rparr> \<lparr> r = 239, g = 48, b = 181 \<rparr>, iterationCount = 0 \<rparr> =
   Inr \<lparr> minL = 5905455393733371 / 70368744177664, maxL = 100, bestRgb = \<lparr> r = 113, g = 101, b = 245 \<rparr>,
       bestRatio = ratioOfRgb \<lparr> r = 113, g = 101, b = 245 \<rparr> \<lparr> r = 239, g = 48, b = 181 \<rparr>, iterationCount = Suc 0 \<rparr>"
  unfolding searchBody_def Let_def
  by (simp add: bindE_def contrastRatio_rgbToHex addD_def divD_def toDouble_zero
      round_988 round_989 rgb_of_hsl_84 canon_B8B2FA canon_EF30B5 ratio_EF30B5_B8B2FA_large)

lemma round_1001: "toDouble (1131419024033029 / 70368744177664) = 1131419024033029 / 70368744177664"
  using toDouble_normal [of "4" "1131419024033029 / 70368744177664"] by (simp add: roundTiesToEven_def Let_def)

lemma round_1002: "toDouble (12942329811499771 / 70368744177664) = 3235582452874943 / 17592186044416"
  using toDouble_normal [of "7" "12942329811499771 / 70368744177664"] by (simp add: roundTiesToEven_def Let_def)

lemma round_1003: "toDouble (3235582452874943 / 35184372088832) = 3235582452874943 / 35184372088832"
  using toDouble_normal [of "6" "3235582452874943 / 35184372088832"] by (simp add: roundTiesToEven_def Let_def)

lemma round_1004: "toDouble (3235582452874943 / 3518437208883200) = 4141545539679927 / 4503599627370496"
  using toDouble_normal [of "-1" "3235582452874943 / 3518437208883200"] by (simp add: roundTiesToEven_def Let_def)

lemma round_1005: "toDouble (2023981425074481 / 1125899906842624) = 2023981425074481 / 1125899906842624"
  using toDouble_normal [of "0" "2023981425074481 / 1125899906842624"] by (simp add: roundTiesToEven_def Let_def)

lemma round_1006: "toDouble (16377245516406258797933895846219 / 20282409603651670423947251286016) = 909119752612667 / 1125899906842624"
  using toDouble_normal [of "-1" "16377245516406258797933895846219 / 20282409603651670423947251286016"] by (simp add: roundTiesToEven_def Let_def)

lemma round_1007: "toDouble (557430836230907 / 562949953421312) = 557430836230907 / 562949953421312"
  using toDouble_normal [of "-1" "557430836230907 / 562949953421312"] by (simp add: roundTiesToEven_def Let_def)

lemma round_1008: "toDouble (4141545539679927 / 2251799813685248) = 4141545539679927 / 2251799813685248"
  using toDouble_normal [of "0" "4141545539679927 / 2251799813685248"] by (simp add: roundTiesToEven_def Let_def)

lemma round_1009: "toDouble (1911822194756299 / 2251799813685248) = 1911822194756299 / 2251799813685248"
  using toDouble_normal [of "-1" "1911822194756299 / 2251799813685248"] by (simp add: roundTiesToEven_def Let_def)

lemma round_1010: "toDouble (317901150167329 / 2251799813685248) = 317901150167329 / 2251799813685248"
  using toDouble_normal [of "-3" "317901150167329 / 2251799813685248"] by (simp add: roundTiesToEven_def Let_def)

lemma round_1011: "toDouble (953703450501987 / 1125899906842624) = 953703450501987 / 1125899906842624"
  using toDouble_normal [of "-1" "953703450501987 / 1125899906842624"] by (simp add: roundTiesToEven_def Let_def)

lemma round_1012: "toDouble (29827072946546456043755730165 / 2535301200456458802993406410752) = 6781891203569661 / 576460752303423488"
  using toDouble_normal [of "-7" "29827072946546456043755730165 / 2535301200456458802993406410752"] by (simp add: roundTiesToEven_def Let_def)

lemma round_1013: "toDouble (496208373061182205 / 576460752303423488) = 1938313957270243 / 2251799813685248"
  using toDouble_normal [of "-1" "496208373061182205 / 576460752303423488"] by (simp add: roundTiesToEven_def Let_def)

lemma round_1014: "toDouble (494270059103911965 / 2251799813685248) = 439 / 2"
  using toDouble_normal [of "7" "494270059103911965 / 2251799813685248"] by (simp add: roundTiesToEven_def Let_def)

lemma round_1015: "toDouble (487514659662856245 / 2251799813685248) = 7617416557232129 / 35184372088832"
  using toDouble_normal [of "7" "487514659662856245 / 2251799813685248"] by (simp add: roundTiesToEven_def Let_def)

lemma round_1016: "toDouble (142144863238881285 / 562949953421312) = 505 / 2"
  using toDouble_normal [of "7" "142144863238881285 / 562949953421312"] by (simp add: roundTiesToEven_def Let_def)

lemma rgb_of_hsl_85:
  "hslToRgb \<lparr> h = 8620171161763839 / 35184372088832, s = 1544679750241405 / 17592186044416, l = 3235582452874943 / 35184372088832 \<rparr> =
     \<lparr> r = 220, g = 217, b = 253 \<rparr>"
  unfolding hslToRgb_def hue2rgb_def Let_def
  by (simp add: mathRound_def addD_def subD_def mulD_def divD_def toDouble_zero toDouble_minus
      round_196 round_198 round_199 round_200 round_871 round_872 round_879 round_880 round_885
      round_1004 round_1005 round_1006 round_1007 round_1008 round_1009 round_1010 round_1011
      round_1012 round_1013 round_1014 round_1015 round_1016)

lemma gamma_220:
  "715693500 / 1000000000 \<le> gammaCorrect (220 / 255) \<and> gammaCorrect (220 / 255) \<le> 715693501 / 1000000000"
  by (rule gammaCorrect_between) (simp_all add: power_divide divide_le_eq le_divide_eq)

lemma lum_DCD9FD:
  "719332011 / 1000000000 \<le> luminanceOfRgb \<lparr> r = 220, g = 217, b = 253 \<rparr> \<and> luminanceOfRgb \<lparr> r = 220, g = 217, b = 253 \<rparr> \<le> 719332013 / 1000000000"
  using gamma_217 gamma_220 gamma_253 by (simp add: luminanceOfRgb_def)

lemma ratio_EF30B5_DCD9FD_large:
  "\<not> LARGE_TEXT_THRESHOLD \<le> ratioOfRgb \<lparr> r = 239, g = 48, b = 181 \<rparr> \<lparr> r = 220, g = 217, b = 253 \<rparr>"
  by (rule ratio_lt_from_bounds [OF lum_EF30B5 lum_DCD9FD]) (simp_all add: LARGE_TEXT_THRESHOLD_def NORMAL_TEXT_THRESHOLD_def EPSILON_def)

lemma canon_DCD9FD: "canonRgb \<lparr> r = 220, g = 217, b = 253 \<rparr> = \<lparr> r = 220, g = 217, b = 253 \<rparr>"
  by (simp add: canonRgb_def channelByte_def mathRound_def)

lemma near_bg_lighten_step_2:
  "searchBody \<lparr> h = 8620171161763839 / 35184372088832, s = 1544679750241405 / 17592186044416, l = 2387018184850171 / 35184372088832 \<rparr> \<lparr> r = 239, g = 48, b = 181 \<rparr> LARGE_TEXT_THRESHOLD False True
     \<lparr> minL = 5905455393733371 / 70368744177664, maxL = 100, bestRgb = \<lparr> r = 113, g = 101, b = 245 \<rparr>,
       bestRatio = ratioOfRgb \<lparr> r = 113, g = 101, b = 245 \<rparr> \<lparr> r = 239, g = 48, b = 181 \<rparr>, iterationCount = Suc 0 \<rparr> =
   Inr \<lparr> minL = 3235582452874943 / 35184372088832, maxL = 100, bestRgb = \<lparr> r = 113, g = 101, b = 245 \<rparr>,
       bestRatio = ratioOfRgb \<lparr> r = 113, g = 101, b = 245 \<rparr> \<lparr> r = 239, g = 48, b = 181 \<rparr>, iterationCount = 2 \<rparr>"
  unfolding searchBody_def Let_def
  by (simp add: bindE_def contrastRatio_rgbToHex addD_def divD_def toDouble_zero
      round_1002 round_1003 rgb_of_hsl_85 canon_DCD9FD canon_EF30B5 ratio_EF30B5_DCD9FD_large)

lemma round_1017: "toDouble (282854756008257 / 35184372088832) = 282854756008257 / 35184372088832"
  using toDouble_normal [of "3" "282854756008257 / 35184372088832"] by (simp add: roundTiesToEven_def Let_def)

lemma round_1018: "toDouble (6754019661758143 / 35184372088832) = 6754019661758143 / 35184372088832"
  using toDouble_normal [of "7" "6754019661758143 / 35184372088832"] by (simp add: roundTiesToEven_def Let_def)

lemma round_1019: "toDouble (6754019661758143 / 70368744177664) = 6754019661758143 / 70368744177664"
  using toDouble_normal [of "6" "6754019661758143 / 70368744177664"] by (simp add: roundTiesToEven_def Let_def)

lemma round_1020: "toDouble (6754019661758143 / 7036874417766400) = 8645145167050423 / 9007199254740992"
  using toDouble_normal [of "-1" "6754019661758143 / 7036874417766400"] by (simp add: roundTiesToEven_def Let_def)

lemma round_1021: "toDouble (16553905488286417 / 9007199254740992) = 1034619093017901 / 562949953421312"
  using toDouble_normal [of "0" "16553905488286417 / 9007199254740992"] by (simp add: roundTiesToEven_def Let_def)

lemma round_1022: "toDouble (34186190534246752208609340262731 / 40564819207303340847894502572032) = 7590859171068665 / 9007199254740992"
  using toDouble_normal [of "-1" "34186190534246752208609340262731 / 40564819207303340847894502572032"] by (simp add: roundTiesToEven_def Let_def)

lemma round_1023: "toDouble (8963046317217751 / 9007199254740992) = 8963046317217751 / 9007199254740992"
  using toDouble_normal [of "-1" "8963046317217751 / 9007199254740992"] by (simp add: roundTiesToEven_def Let_def)

lemma round_1024: "toDouble (8645145167050423 / 4503599627370496) = 8645145167050423 / 4503599627370496"
  using toDouble_normal [of "0" "8645145167050423 / 4503599627370496"] by (simp add: roundTiesToEven_def Let_def)

lemma round_1025: "toDouble (8327244016883095 / 9007199254740992) = 8327244016883095 / 9007199254740992"
  using toDouble_normal [of "-1" "8327244016883095 / 9007199254740992"] by (simp add: roundTiesToEven_def Let_def)

lemma round_1026: "toDouble (9934410942729 / 140737488355328) = 9934410942729 / 140737488355328"
  using toDouble_normal [of "-4" "9934410942729 / 140737488355328"] by (simp add: roundTiesToEven_def Let_def)

lemma round_1027: "toDouble (29803232828187 / 70368744177664) = 29803232828187 / 70368744177664"
  using toDouble_normal [of "-2" "29803232828187 / 70368744177664"] by (simp add: roundTiesToEven_def Let_def)

lemma round_1028: "toDouble (932096029579573819336359165 / 158456325028528675187087900672) = 847736400446205 / 144115188075855872"
  using toDouble_normal [of "-8" "932096029579573819336359165 / 158456325028528675187087900672"] by (simp add: roundTiesToEven_def Let_def)

lemma round_1029: "toDouble (134083640670575725 / 144115188075855872) = 8380227541910983 / 9007199254740992"
  using toDouble_normal [of "-1" "134083640670575725 / 144115188075855872"] by (simp add: roundTiesToEven_def Let_def)

lemma round_1030: "toDouble (2136958023187300665 / 9007199254740992) = 8347492278075393 / 35184372088832"
  using toDouble_normal [of "7" "2136958023187300665 / 9007199254740992"] by (simp add: roundTiesToEven_def Let_def)

lemma round_1031: "toDouble (2123447224305189225 / 9007199254740992) = 8294715719942145 / 35184372088832"
  using toDouble_normal [of "7" "2123447224305189225 / 9007199254740992"] by (simp add: roundTiesToEven_def Let_def)

lemma round_1032: "toDouble (2285576810890526505 / 9007199254740992) = 8928034417541119 / 35184372088832"
  using toDouble_normal [of "7" "2285576810890526505 / 9007199254740992"] by (simp add: roundTiesToEven_def Let_def)

lemma rgb_of_hsl_86:
  "hslToRgb \<lparr> h = 8620171161763839 / 35184372088832, s = 1544679750241405 / 17592186044416, l = 6754019661758143 / 70368744177664 \<rparr> =
     \<lparr> r = 237, g = 236, b = 254 \<rparr>"
  unfolding hslToRgb_def hue2rgb_def Let_def
  by (simp add: mathRound_def addD_def subD_def mulD_def divD_def toDouble_zero toDouble_minus
      round_196 round_198 round_199 round_200 round_871 round_872 round_879 round_880 round_885
      round_1020 round_1021 round_1022 round_1023 round_1024 round_1025 round_1026 round_1027
      round_1028 round_1029 round_1030 round_1031 round_1032)

lemma gamma_237:
  "846873231 / 1000000000 \<le> gammaCorrect (237 / 255) \<and> gammaCorrect (237 / 255) \<le> 846873232 / 1000000000"
  by (rule gammaCorrect_between) (simp_all add: power_divide divide_le_eq le_divide_eq)

lemma lum_EDECFE:
  "851511872 / 1000000000 \<le> luminanceOfRgb \<lparr> r = 237, g = 236, b = 254 \<rparr> \<and> luminanceOfRgb \<lparr> r = 237, g = 236, b = 254 \<rparr> \<le> 851511874 / 1000000000"
  using gamma_236 gamma_237 gamma_254 by (simp add: luminanceOfRgb_def)

lemma ratio_EF30B5_EDECFE_large:
  "LARGE_TEXT_THRESHOLD \<le> ratioOfRgb \<lparr> r = 239, g = 48, b = 181 \<rparr> \<lparr> r = 237, g = 236, b = 254 \<rparr>"
  by (rule ratio_ge_from_bounds [OF lum_EF30B5 lum_EDECFE]) (simp_all add: LARGE_TEXT_THRESHOLD_def NORMAL_TEXT_THRESHOLD_def EPSILON_def)

lemma canon_EDECFE: "canonRgb \<lparr> r = 237, g = 236, b = 254 \<rparr> = \<lparr> r = 237, g = 236, b = 254 \<rparr>"
  by (simp add: canonRgb_def channelByte_def mathRound_def)

lemma near_bg_lighten_step_3:
  "searchBody \<lparr> h = 8620171161763839 / 35184372088832, s = 1544679750241405 / 17592186044416, l = 2387018184850171 / 35184372088832 \<rparr> \<lparr> r = 239, g = 48, b = 181 \<rparr> LARGE_TEXT_THRESHOLD False True
     \<lparr> minL = 3235582452874943 / 35184372088832, maxL = 100, bestRgb = \<lparr> r = 113, g = 101, b = 245 \<rparr>,
       bestRatio = ratioOfRgb \<lparr> r = 113, g = 101, b = 245 \<rparr> \<lparr> r = 239, g = 48, b = 181 \<rparr>, iterationCount = 2 \<rparr> =
   Inr \<lparr> minL = 3235582452874943 / 35184372088832, maxL = 6754019661758143 / 70368744177664, bestRgb = \<lparr> r = 237, g = 236, b = 254 \<rparr>,
       bestRatio = ratioOfRgb \<lparr> r = 239, g = 48, b = 181 \<rparr> \<lparr> r = 237, g = 236, b = 254 \<rparr>, iterationCount = 3 \<rparr>"
  unfolding searchBody_def Let_def
  by (simp add: bindE_def contrastRatio_rgbToHex addD_def divD_def toDouble_zero
      round_1018 round_1019 rgb_of_hsl_86 canon_EDECFE canon_EF30B5 ratio_EF30B5_EDECFE_large)

lemma round_1033: "toDouble (282854756008257 / 70368744177664) = 282854756008257 / 70368744177664"
  using toDouble_normal [of "2" "282854756008257 / 70368744177664"] by (simp add: roundTiesToEven_def Let_def)

lemma round_1034: "toDouble (13225184567508029 / 70368744177664) = 3306296141877007 / 17592186044416"
  using toDouble_normal [of "7" "13225184567508029 / 70368744177664"] by (simp add: roundTiesToEven_def Let_def)

lemma round_1035: "toDouble (3306296141877007 / 35184372088832) = 3306296141877007 / 35184372088832"
  using toDouble_normal [of "6" "3306296141877007 / 35184372088832"] by (simp add: roundTiesToEven_def Let_def)

lemma round_1036: "toDouble (3306296141877007 / 3518437208883200) = 4232059061602569 / 4503599627370496"
  using toDouble_normal [of "-1" "3306296141877007 / 3518437208883200"] by (simp add: roundTiesToEven_def Let_def)

lemma round_1037: "toDouble (4093219611110283 / 2251799813685248) = 4093219611110283 / 2251799813685248"
  using toDouble_normal [of "0" "4093219611110283 / 2251799813685248"] by (simp add: roundTiesToEven_def Let_def)

lemma round_1038: "toDouble (16735170391764816462524242834293 / 20282409603651670423947251286016) = 928988574498125 / 1125899906842624"
  using toDouble_normal [of "-1" "16735170391764816462524242834293 / 20282409603651670423947251286016"] by (simp add: roundTiesToEven_def Let_def)

lemma round_1039: "toDouble (2235242462114033 / 2251799813685248) = 2235242462114033 / 2251799813685248"
  using toDouble_normal [of "-1" "2235242462114033 / 2251799813685248"] by (simp add: roundTiesToEven_def Let_def)

lemma round_1040: "toDouble (4232059061602569 / 2251799813685248) = 4232059061602569 / 2251799813685248"
  using toDouble_normal [of "0" "4232059061602569 / 2251799813685248"] by (simp add: roundTiesToEven_def Let_def)

lemma round_1041: "toDouble (249602074936067 / 281474976710656) = 249602074936067 / 281474976710656"
  using toDouble_normal [of "-1" "249602074936067 / 281474976710656"] by (simp add: roundTiesToEven_def Let_def)

lemma round_1042: "toDouble (238425862625497 / 2251799813685248) = 238425862625497 / 2251799813685248"
  using toDouble_normal [of "-4" "238425862625497 / 2251799813685248"] by (simp add: roundTiesToEven_def Let_def)

lemma round_1043: "toDouble (715277587876491 / 1125899906842624) = 715277587876491 / 1125899906842624"
  using toDouble_normal [of "-1" "715277587876491 / 1125899906842624"] by (simp add: roundTiesToEven_def Let_def)

lemma round_1044: "toDouble (22370304709909865489064856845 / 2535301200456458802993406410752) = 5086418402677251 / 576460752303423488"
  using toDouble_normal [of "-7" "22370304709909865489064856845 / 2535301200456458802993406410752"] by (simp add: roundTiesToEven_def Let_def)

lemma round_1045: "toDouble (516271467871742467 / 576460752303423488) = 1008342710686997 / 1125899906842624"
  using toDouble_normal [of "-1" "516271467871742467 / 576460752303423488"] by (simp add: roundTiesToEven_def Let_def)

lemma round_1046: "toDouble (257127391225184235 / 1125899906842624) = 8035230975787007 / 35184372088832"
  using toDouble_normal [of "7" "257127391225184235 / 1125899906842624"] by (simp add: roundTiesToEven_def Let_def)

lemma round_1047: "toDouble (63648529108697085 / 281474976710656) = 1809 / 8"
  using toDouble_normal [of "7" "63648529108697085 / 281474976710656"] by (simp add: roundTiesToEven_def Let_def)

lemma round_1048: "toDouble (569986827839078415 / 2251799813685248) = 2025 / 8"
  using toDouble_normal [of "7" "569986827839078415 / 2251799813685248"] by (simp add: roundTiesToEven_def Let_def)

lemma rgb_of_hsl_87:
  "hslToRgb \<lparr> h = 8620171161763839 / 35184372088832, s = 1544679750241405 / 17592186044416, l = 3306296141877007 / 35184372088832 \<rparr> =
     \<lparr> r = 228, g = 226, b = 253 \<rparr>"
  unfolding hslToRgb_def hue2rgb_def Let_def
  by (simp add: mathRound_def addD_def subD_def mulD_def divD_def toDouble_zero toDouble_minus
      round_196 round_198 round_199 round_200 round_871 round_872 round_879 round_880 round_885
      round_1036 round_1037 round_1038 round_1039 round_1040 round_1041 round_1042 round_1043
      round_1044 round_1045 round_1046 round_1047 round_1048)

lemma gamma_228:
  "775822218 / 1000000000 \<le> gammaCorrect (228 / 255) \<and> gammaCorrect (228 / 255) \<le> 775822219 / 1000000000"
  by (rule gammaCorrect_between) (simp_all add: power_divide divide_le_eq le_divide_eq)

lemma lum_E4E2FD:
  "779785418 / 1000000000 \<le> luminanceOfRgb \<lparr> r = 228, g = 226, b = 253 \<rparr> \<and> luminanceOfRgb \<lparr> r = 228, g = 226, b = 253 \<rparr> \<le> 779785420 / 1000000000"
  using gamma_226 gamma_228 gamma_253 by (simp add: luminanceOfRgb_def)

lemma ratio_EF30B5_E4E2FD_large:
  "\<not> LARGE_TEXT_THRESHOLD \<le> ratioOfRgb \<lparr> r = 239, g = 48, b = 181 \<rparr> \<lparr> r = 228, g = 226, b = 253 \<rparr>"
  by (rule ratio_lt_from_bounds [OF lum_EF30B5 lum_E4E2FD]) (simp_all add: LARGE_TEXT_THRESHOLD_def NORMAL_TEXT_THRESHOLD_def EPSILON_def)

lemma canon_E4E2FD: "canonRgb \<lparr> r = 228, g = 226, b = 253 \<rparr> = \<lparr> r = 228, g = 226, b = 253 \<rparr>"
  by (simp add: canonRgb_def channelByte_def mathRound_def)

lemma near_bg_lighten_step_4:
  "searchBody \<lparr> h = 8620171161763839 / 35184372088832, s = 1544679750241405 / 17592186044416, l = 2387018184850171 / 35184372088832 \<rparr> \<lparr> r = 239, g = 48, b = 181 \<rparr> LARGE_TEXT_THRESHOLD False True
     \<lparr> minL = 3235582452874943 / 35184372088832, maxL = 6754019661758143 / 70368744177664, bestRgb = \<lparr> r = 237, g = 236, b = 254 \<rparr>,
       bestRatio = ratioOfRgb \<lparr> r = 239, g = 48, b = 181 \<rparr> \<lparr> r = 237, g = 236, b = 254 \<rparr>, iterationCount = 3 \<rparr> =
   Inr \<lparr> minL = 3306296141877007 / 35184372088832, maxL = 6754019661758143 / 70368744177664, bestRgb = \<lparr> r = 237, g = 236, b = 254 \<rparr>,
       bestRatio = ratioOfRgb \<lparr> r = 239, g = 48, b = 181 \<rparr> \<lparr> r = 237, g = 236, b = 254 \<rparr>, iterationCount = 4 \<rparr>"
  unfolding searchBody_def Let_def
  by (simp add: bindE_def contrastRatio_rgbToHex addD_def divD_def toDouble_zero
      round_1034 round_1035 rgb_of_hsl_87 canon_E4E2FD canon_EF30B5 ratio_EF30B5_E4E2FD_large)

lemma round_1049: "toDouble (141427378004129 / 70368744177664) = 141427378004129 / 70368744177664"
  using toDouble_normal [of "1" "141427378004129 / 70368744177664"] by (simp add: roundTiesToEven_def Let_def)

lemma round_1050: "toDouble (13366611945512157 / 70368744177664) = 3341652986378039 / 17592186044416"
  using toDouble_normal [of "7" "13366611945512157 / 70368744177664"] by (simp add: roundTiesToEven_def Let_def)

lemma round_1051: "toDouble (3341652986378039 / 35184372088832) = 3341652986378039 / 35184372088832"
  using toDouble_normal [of "6" "3341652986378039 / 35184372088832"] by (simp add: roundTiesToEven_def Let_def)

lemma round_1052: "toDouble (3341652986378039 / 3518437208883200) = 2138657911281945 / 2251799813685248"
  using toDouble_normal [of "-1" "3341652986378039 / 3518437208883200"] by (simp add: roundTiesToEven_def Let_def)

lemma round_1053: "toDouble (8231695983181887 / 4503599627370496) = 8231695983181887 / 4503599627370496"
  using toDouble_normal [of "0" "8231695983181887 / 4503599627370496"] by (simp add: roundTiesToEven_def Let_def)

lemma round_1054: "toDouble (8457066414722047647409708164165 / 10141204801825835211973625643008) = 469461492720427 / 562949953421312"
  using toDouble_normal [of "-1" "8457066414722047647409708164165 / 10141204801825835211973625643008"] by (simp add: roundTiesToEven_def Let_def)

lemma round_1055: "toDouble (4476004041418471 / 4503599627370496) = 4476004041418471 / 4503599627370496"
  using toDouble_normal [of "-1" "4476004041418471 / 4503599627370496"] by (simp add: roundTiesToEven_def Let_def)

lemma round_1056: "toDouble (2138657911281945 / 1125899906842624) = 2138657911281945 / 1125899906842624"
  using toDouble_normal [of "0" "2138657911281945 / 1125899906842624"] by (simp add: roundTiesToEven_def Let_def)

lemma round_1057: "toDouble (4078627603709309 / 4503599627370496) = 4078627603709309 / 4503599627370496"
  using toDouble_normal [of "-1" "4078627603709309 / 4503599627370496"] by (simp add: roundTiesToEven_def Let_def)

lemma round_1058: "toDouble (198688218854581 / 2251799813685248) = 198688218854581 / 2251799813685248"
  using toDouble_normal [of "-4" "198688218854581 / 2251799813685248"] by (simp add: roundTiesToEven_def Let_def)

lemma round_1059: "toDouble (596064656563743 / 1125899906842624) = 596064656563743 / 1125899906842624"
  using toDouble_normal [of "-1" "596064656563743 / 1125899906842624"] by (simp add: roundTiesToEven_def Let_def)

lemma round_1060: "toDouble (18641920591591570211719420185 / 2535301200456458802993406410752) = 8477364004462093 / 1152921504606846976"
  using toDouble_normal [of "-8" "18641920591591570211719420185 / 2535301200456458802993406410752"] by (simp add: roundTiesToEven_def Let_def)

lemma round_1061: "toDouble (1052606030554045197 / 1152921504606846976) = 4111742306851739 / 4503599627370496"
  using toDouble_normal [of "-1" "1052606030554045197 / 1152921504606846976"] by (simp add: roundTiesToEven_def Let_def)

lemma round_1062: "toDouble (1048494288247193445 / 4503599627370496) = 8191361626931199 / 35184372088832"
  using toDouble_normal [of "7" "1048494288247193445 / 4503599627370496"] by (simp add: roundTiesToEven_def Let_def)

lemma round_1063: "toDouble (1040050038945873795 / 4503599627370496) = 8125390929264639 / 35184372088832"
  using toDouble_normal [of "7" "1040050038945873795 / 4503599627370496"] by (simp add: roundTiesToEven_def Let_def)

lemma round_1064: "toDouble (1141381030561710105 / 4503599627370496) = 4055 / 16"
  using toDouble_normal [of "7" "1141381030561710105 / 4503599627370496"] by (simp add: roundTiesToEven_def Let_def)

lemma rgb_of_hsl_88:
  "hslToRgb \<lparr> h = 8620171161763839 / 35184372088832, s = 1544679750241405 / 17592186044416, l = 3341652986378039 / 35184372088832 \<rparr> =
     \<lparr> r = 233, g = 231, b = 253 \<rparr>"
  unfolding hslToRgb_def hue2rgb_def Let_def
  by (simp add: mathRound_def addD_def subD_def mulD_def divD_def toDouble_zero toDouble_minus
      round_196 round_198 round_199 round_200 round_871 round_872 round_879 round_880 round_885
      round_1052 round_1053 round_1054 round_1055 round_1056 round_1057 round_1058 round_1059
      round_1060 round_1061 round_1062 round_1063 round_1064)

lemma gamma_233:
  "814846572 / 1000000000 \<le> gammaCorrect (233 / 255) \<and> gammaCorrect (233 / 255) \<le> 814846573 / 1000000000"
  by (rule gammaCorrect_between) (simp_all add: power_divide divide_le_eq le_divide_eq)

lemma gamma_231:
  "799102738 / 1000000000 \<le> gammaCorrect (231 / 255) \<and> gammaCorrect (231 / 255) \<le> 799102739 / 1000000000"
  by (rule gammaCorrect_between) (simp_all add: power_divide divide_le_eq le_divide_eq)

lemma lum_E9E7FD:
  "815673149 / 1000000000 \<le> luminanceOfRgb \<lparr> r = 233, g = 231, b = 253 \<rparr> \<and> luminanceOfRgb \<lparr> r = 233, g = 231, b = 253 \<rparr> \<le> 815673151 / 1000000000"
  using gamma_231 gamma_233 gamma_253 by (simp add: luminanceOfRgb_def)

lemma ratio_EF30B5_E9E7FD_large:
  "LARGE_TEXT_THRESHOLD \<le> ratioOfRgb \<lparr> r = 239, g = 48, b = 181 \<rparr> \<lparr> r = 233, g = 231, b = 253 \<rparr>"
  by (rule ratio_ge_from_bounds [OF lum_EF30B5 lum_E9E7FD]) (simp_all add: LARGE_TEXT_THRESHOLD_def NORMAL_TEXT_THRESHOLD_def EPSILON_def)

lemma canon_E9E7FD: "canonRgb \<lparr> r = 233, g = 231, b = 253 \<rparr> = \<lparr> r = 233, g = 231, b = 253 \<rparr>"
  by (simp add: canonRgb_def channelByte_def mathRound_def)

lemma near_bg_lighten_step_5:
  "searchBody \<lparr> h = 8620171161763839 / 35184372088832, s = 1544679750241405 / 17592186044416, l = 2387018184850171 / 35184372088832 \<rparr> \<lparr> r = 239, g = 48, b = 181 \<rparr> LARGE_TEXT_THRESHOLD False True
     \<lparr> minL = 3306296141877007 / 35184372088832, maxL = 6754019661758143 / 70368744177664, bestRgb = \<lparr> r = 237, g = 236, b = 254 \<rparr>,
       bestRatio = ratioOfRgb \<lparr> r = 239, g = 48, b = 181 \<rparr> \<lparr> r = 237, g = 236, b = 254 \<rparr>, iterationCount = 4 \<rparr> =
   Inr \<lparr> minL = 3306296141877007 / 35184372088832, maxL = 3341652986378039 / 35184372088832, bestRgb = \<lparr> r = 233, g = 231, b = 253 \<rparr>,
       bestRatio = ratioOfRgb \<lparr> r = 239, g = 48, b = 181 \<rparr> \<lparr> r = 233, g = 231, b = 253 \<rparr>, iterationCount = 5 \<rparr>"
  unfolding searchBody_def Let_def
  by (simp add: bindE_def contrastRatio_rgbToHex addD_def divD_def toDouble_zero
      round_1050 round_1051 rgb_of_hsl_88 canon_E9E7FD canon_EF30B5 ratio_EF30B5_E9E7FD_large)

lemma round_1065: "toDouble (4419605562629 / 4398046511104) = 4419605562629 / 4398046511104"
  using toDouble_normal [of "0" "4419605562629 / 4398046511104"] by (simp add: roundTiesToEven_def Let_def)

lemma round_1066: "toDouble (3323974564127523 / 17592186044416) = 3323974564127523 / 17592186044416"
  using toDouble_normal [of "7" "3323974564127523 / 17592186044416"] by (simp add: roundTiesToEven_def Let_def)

lemma round_1067: "toDouble (3323974564127523 / 35184372088832) = 3323974564127523 / 35184372088832"
  using toDouble_normal [of "6" "3323974564127523 / 35184372088832"] by (simp add: roundTiesToEven_def Let_def)

lemma round_1068: "toDouble (3323974564127523 / 3518437208883200) = 8509374884166459 / 9007199254740992"
  using toDouble_normal [of "-1" "3323974564127523 / 3518437208883200"] by (simp add: roundTiesToEven_def Let_def)

lemma round_1069: "toDouble (16418135205402453 / 9007199254740992) = 4104533801350613 / 2251799813685248"
  using toDouble_normal [of "0" "16418135205402453 / 9007199254740992"] by (simp add: roundTiesToEven_def Let_def)

lemma round_1070: "toDouble (33649303221208911757343659162623 / 40564819207303340847894502572032) = 1867911559938979 / 2251799813685248"
  using toDouble_normal [of "-1" "33649303221208911757343659162623 / 40564819207303340847894502572032"] by (simp add: roundTiesToEven_def Let_def)

lemma round_1071: "toDouble (1118311120705817 / 1125899906842624) = 1118311120705817 / 1125899906842624"
  using toDouble_normal [of "-1" "1118311120705817 / 1125899906842624"] by (simp add: roundTiesToEven_def Let_def)

lemma round_1072: "toDouble (8509374884166459 / 4503599627370496) = 8509374884166459 / 4503599627370496"
  using toDouble_normal [of "0" "8509374884166459 / 4503599627370496"] by (simp add: roundTiesToEven_def Let_def)

lemma round_1073: "toDouble (4036130401343191 / 4503599627370496) = 4036130401343191 / 4503599627370496"
  using toDouble_normal [of "-1" "4036130401343191 / 4503599627370496"] by (simp add: roundTiesToEven_def Let_def)

lemma round_1074: "toDouble (437114081480077 / 4503599627370496) = 437114081480077 / 4503599627370496"
  using toDouble_normal [of "-4" "437114081480077 / 4503599627370496"] by (simp add: roundTiesToEven_def Let_def)

lemma round_1075: "toDouble (1311342244440231 / 2251799813685248) = 1311342244440231 / 2251799813685248"
  using toDouble_normal [of "-1" "1311342244440231 / 2251799813685248"] by (simp add: roundTiesToEven_def Let_def)

lemma round_1076: "toDouble (41012225301501341875792040145 / 5070602400912917605986812821504) = 2331275101227069 / 288230376151711744"
  using toDouble_normal [of "-7" "41012225301501341875792040145 / 5070602400912917605986812821504"] by (simp add: roundTiesToEven_def Let_def)

lemma round_1077: "toDouble (260643620787191293 / 288230376151711744) = 509069571849983 / 562949953421312"
  using toDouble_normal [of "-1" "260643620787191293 / 288230376151711744"] by (simp add: roundTiesToEven_def Let_def)

lemma round_1078: "toDouble (129812740821745665 / 562949953421312) = 7379 / 32"
  using toDouble_normal [of "7" "129812740821745665 / 562949953421312"] by (simp add: roundTiesToEven_def Let_def)

lemma round_1079: "toDouble (1029213252342513705 / 4503599627370496) = 7313 / 32"
  using toDouble_normal [of "7" "1029213252342513705 / 4503599627370496"] by (simp add: roundTiesToEven_def Let_def)

lemma round_1080: "toDouble (285169335779983335 / 1125899906842624) = 8911541743124479 / 35184372088832"
  using toDouble_normal [of "7" "285169335779983335 / 1125899906842624"] by (simp add: roundTiesToEven_def Let_def)

lemma rgb_of_hsl_89:
  "hslToRgb \<lparr> h = 8620171161763839 / 35184372088832, s = 1544679750241405 / 17592186044416, l = 3323974564127523 / 35184372088832 \<rparr> =
     \<lparr> r = 231, g = 229, b = 253 \<rparr>"
  unfolding hslToRgb_def hue2rgb_def Let_def
  by (simp add: mathRound_def addD_def subD_def mulD_def divD_def toDouble_zero toDouble_minus
      round_196 round_198 round_199 round_200 round_871 round_872 round_879 round_880 round_885
      round_1068 round_1069 round_1070 round_1071 round_1072 round_1073 round_1074 round_1075
      round_1076 round_1077 round_1078 round_1079 round_1080)

lemma gamma_229:
  "783537791 / 1000000000 \<le> gammaCorrect (229 / 255) \<and> gammaCorrect (229 / 255) \<le> 783537792 / 1000000000"
  by (rule gammaCorrect_between) (simp_all add: power_divide divide_le_eq le_divide_eq)

lemma lum_E7E5FD:
  "801193959 / 1000000000 \<le> luminanceOfRgb \<lparr> r = 231, g = 229, b = 253 \<rparr> \<and> luminanceOfRgb \<lparr> r = 231, g = 229, b = 253 \<rparr> \<le> 801193961 / 1000000000"
  using gamma_229 gamma_231 gamma_253 by (simp add: luminanceOfRgb_def)

lemma ratio_EF30B5_E7E5FD_large:
  "\<not> LARGE_TEXT_THRESHOLD \<le> ratioOfRgb \<lparr> r = 239, g = 48, b = 181 \<rparr> \<lparr> r = 231, g = 229, b = 253 \<rparr>"
  by (rule ratio_lt_from_bounds [OF lum_EF30B5 lum_E7E5FD]) (simp_all add: LARGE_TEXT_THRESHOLD_def NORMAL_TEXT_THRESHOLD_def EPSILON_def)

lemma canon_E7E5FD: "canonRgb \<lparr> r = 231, g = 229, b = 253 \<rparr> = \<lparr> r = 231, g = 229, b = 253 \<rparr>"
  by (simp add: canonRgb_def channelByte_def mathRound_def)

lemma near_bg_lighten_step_6:
  "searchBody \<lparr> h = 8620171161763839 / 35184372088832, s = 1544679750241405 / 17592186044416, l = 2387018184850171 / 35184372088832 \<rparr> \<lparr> r = 239, g = 48, b = 181 \<rparr> LARGE_TEXT_THRESHOLD False True
     \<lparr> minL = 3306296141877007 / 35184372088832, maxL = 3341652986378039 / 35184372088832, bestRgb = \<lparr> r = 233, g = 231, b = 253 \<rparr>,
       bestRatio = ratioOfRgb \<lparr> r = 239, g = 48, b = 181 \<rparr> \<lparr> r = 233, g = 231, b = 253 \<rparr>, iterationCount = 5 \<rparr> =
   Inr \<lparr> minL = 3323974564127523 / 35184372088832, maxL = 3341652986378039 / 35184372088832, bestRgb = \<lparr> r = 233, g = 231, b = 253 \<rparr>,
       bestRatio = ratioOfRgb \<lparr> r = 239, g = 48, b = 181 \<rparr> \<lparr> r = 233, g = 231, b = 253 \<rparr>, iterationCount = 6 \<rparr>"
  unfolding searchBody_def Let_def
  by (simp add: bindE_def contrastRatio_rgbToHex addD_def divD_def toDouble_zero
      round_1066 round_1067 rgb_of_hsl_89 canon_E7E5FD canon_EF30B5 ratio_EF30B5_E7E5FD_large)

lemma round_1081: "toDouble (4419605562629 / 8796093022208) = 4419605562629 / 8796093022208"
  using toDouble_normal [of "-1" "4419605562629 / 8796093022208"] by (simp add: roundTiesToEven_def Let_def)

lemma round_1082: "toDouble (3332813775252781 / 17592186044416) = 3332813775252781 / 17592186044416"
  using toDouble_normal [of "7" "3332813775252781 / 17592186044416"] by (simp add: roundTiesToEven_def Let_def)

lemma round_1083: "toDouble (3332813775252781 / 35184372088832) = 3332813775252781 / 35184372088832"
  using toDouble_normal [of "6" "3332813775252781 / 35184372088832"] by (simp add: roundTiesToEven_def Let_def)

lemma round_1084: "toDouble (3332813775252781 / 3518437208883200) = 8532003264647119 / 9007199254740992"
  using toDouble_normal [of "-1" "3332813775252781 / 3518437208883200"] by (simp add: roundTiesToEven_def Let_def)

lemma round_1085: "toDouble (16440763585883113 / 9007199254740992) = 2055095448235389 / 1125899906842624"
  using toDouble_normal [of "0" "16440763585883113 / 9007199254740992"] by (simp add: roundTiesToEven_def Let_def)

lemma round_1086: "toDouble (33738784440048549196301165600643 / 40564819207303340847894502572032) = 3745757530820687 / 4503599627370496"
  using toDouble_normal [of "-1" "33738784440048549196301165600643 / 40564819207303340847894502572032"] by (simp add: roundTiesToEven_def Let_def)

lemma round_1087: "toDouble (4474624262120869 / 4503599627370496) = 4474624262120869 / 4503599627370496"
  using toDouble_normal [of "-1" "4474624262120869 / 4503599627370496"] by (simp add: roundTiesToEven_def Let_def)

lemma round_1088: "toDouble (8532003264647119 / 4503599627370496) = 8532003264647119 / 4503599627370496"
  using toDouble_normal [of "0" "8532003264647119 / 4503599627370496"] by (simp add: roundTiesToEven_def Let_def)

lemma round_1089: "toDouble (2028689501263125 / 2251799813685248) = 2028689501263125 / 2251799813685248"
  using toDouble_normal [of "-1" "2028689501263125 / 2251799813685248"] by (simp add: roundTiesToEven_def Let_def)

lemma round_1090: "toDouble (417245259594619 / 4503599627370496) = 417245259594619 / 4503599627370496"
  using toDouble_normal [of "-4" "417245259594619 / 4503599627370496"] by (simp add: roundTiesToEven_def Let_def)

lemma round_1091: "toDouble (1251735778783857 / 2251799813685248) = 1251735778783857 / 2251799813685248"
  using toDouble_normal [of "-1" "1251735778783857 / 2251799813685248"] by (simp add: roundTiesToEven_def Let_def)

lemma round_1092: "toDouble (39148033242342194237119321815 / 5070602400912917605986812821504) = 4450616102342587 / 576460752303423488"
  using toDouble_normal [of "-8" "39148033242342194237119321815 / 5070602400912917605986812821504"] by (simp add: roundTiesToEven_def Let_def)

lemma round_1093: "toDouble (523795128425702587 / 576460752303423488) = 8184298881651603 / 9007199254740992"
  using toDouble_normal [of "-1" "523795128425702587 / 576460752303423488"] by (simp add: roundTiesToEven_def Let_def)

lemma round_1094: "toDouble (2086996214821158765 / 9007199254740992) = 8152328964145151 / 35184372088832"
  using toDouble_normal [of "7" "2086996214821158765 / 9007199254740992"] by (simp add: roundTiesToEven_def Let_def)

lemma round_1095: "toDouble (517315822822096875 / 2251799813685248) = 14703 / 64"
  using toDouble_normal [of "7" "517315822822096875 / 2251799813685248"] by (simp add: roundTiesToEven_def Let_def)

lemma round_1096: "toDouble (1141029186840821595 / 4503599627370496) = 8914290522193919 / 35184372088832"
  using toDouble_normal [of "7" "1141029186840821595 / 4503599627370496"] by (simp add: roundTiesToEven_def Let_def)

lemma rgb_of_hsl_90:
  "hslToRgb \<lparr> h = 8620171161763839 / 35184372088832, s = 1544679750241405 / 17592186044416, l = 3332813775252781 / 35184372088832 \<rparr> =
     \<lparr> r = 232, g = 230, b = 253 \<rparr>"
  unfolding hslToRgb_def hue2rgb_def Let_def
  by (simp add: mathRound_def addD_def subD_def mulD_def divD_def toDouble_zero toDouble_minus
      round_196 round_198 round_199 round_200 round_871 round_872 round_879 round_880 round_885
      round_1084 round_1085 round_1086 round_1087 round_1088 round_1089 round_1090 round_1091
      round_1092 round_1093 round_1094 round_1095 round_1096)

lemma gamma_230:
  "791297940 / 1000000000 \<le> gammaCorrect (230 / 255) \<and> gammaCorrect (230 / 255) \<le> 791297941 / 1000000000"
  by (rule gammaCorrect_between) (simp_all add: power_divide divide_le_eq le_divide_eq)

lemma lum_E8E6FD:
  "808412826 / 1000000000 \<le> luminanceOfRgb \<lparr> r = 232, g = 230, b = 253 \<rparr> \<and> luminanceOfRgb \<lparr> r = 232, g = 230, b = 253 \<rparr> \<le> 808412828 / 1000000000"
  using gamma_230 gamma_232 gamma_253 by (simp add: luminanceOfRgb_def)

lemma ratio_EF30B5_E8E6FD_large:
  "\<not> LARGE_TEXT_THRESHOLD \<le> ratioOfRgb \<lparr> r = 239, g = 48, b = 181 \<rparr> \<lparr> r = 232, g = 230, b = 253 \<rparr>"
  by (rule ratio_lt_from_bounds [OF lum_EF30B5 lum_E8E6FD]) (simp_all add: LARGE_TEXT_THRESHOLD_def NORMAL_TEXT_THRESHOLD_def EPSILON_def)

lemma canon_E8E6FD: "canonRgb \<lparr> r = 232, g = 230, b = 253 \<rparr> = \<lparr> r = 232, g = 230, b = 253 \<rparr>"
  by (simp add: canonRgb_def channelByte_def mathRound_def)

lemma near_bg_lighten_step_7:
  "searchBody \<lparr> h = 8620171161763839 / 35184372088832, s = 1544679750241405 / 17592186044416, l = 2387018184850171 / 35184372088832 \<rparr> \<lparr> r = 239, g = 48, b = 181 \<rparr> LARGE_TEXT_THRESHOLD False True
     \<lparr> minL = 3323974564127523 / 35184372088832, maxL = 3341652986378039 / 35184372088832, bestRgb = \<lparr> r = 233, g = 231, b = 253 \<rparr>,
       bestRatio = ratioOfRgb \<lparr> r = 239, g = 48, b = 181 \<rparr> \<lparr> r = 233, g = 231, b = 253 \<rparr>, iterationCount = 6 \<rparr> =
   Inr \<lparr> minL = 3332813775252781 / 35184372088832, maxL = 3341652986378039 / 35184372088832, bestRgb = \<lparr> r = 233, g = 231, b = 253 \<rparr>,
       bestRatio = ratioOfRgb \<lparr> r = 239, g = 48, b = 181 \<rparr> \<lparr> r = 233, g = 231, b = 253 \<rparr>, iterationCount = 7 \<rparr>"
  unfolding searchBody_def Let_def
  by (simp add: bindE_def contrastRatio_rgbToHex addD_def divD_def toDouble_zero
      round_1082 round_1083 rgb_of_hsl_90 canon_E8E6FD canon_EF30B5 ratio_EF30B5_E8E6FD_large)

lemma round_1097: "toDouble (4419605562629 / 17592186044416) = 4419605562629 / 17592186044416"
  using toDouble_normal [of "-2" "4419605562629 / 17592186044416"] by (simp add: roundTiesToEven_def Let_def)

lemma near_bg_lighten_loop:
  "searchLoop 7 \<lparr> h = 8620171161763839 / 35184372088832, s = 1544679750241405 / 17592186044416, l = 2387018184850171 / 35184372088832 \<rparr> \<lparr> r = 239, g = 48, b = 181 \<rparr> LARGE_TEXT_THRESHOLD False True
     \<lparr> minL = 2387018184850171 / 35184372088832, maxL = 100, bestRgb = \<lparr> r = 113, g = 101, b = 245 \<rparr>,
       bestRatio = ratioOfRgb \<lparr> r = 113, g = 101, b = 245 \<rparr> \<lparr> r = 239, g = 48, b = 181 \<rparr>, iterationCount = 0 \<rparr> =
   Inr \<lparr> minL = 3332813775252781 / 35184372088832, maxL = 3341652986378039 / 35184372088832, bestRgb = \<lparr> r = 233, g = 231, b = 253 \<rparr>,
       bestRatio = ratioOfRgb \<lparr> r = 239, g = 48, b = 181 \<rparr> \<lparr> r = 233, g = 231, b = 253 \<rparr>, iterationCount = 7 \<rparr>"
  by (simp add: searchLoop_numeral bindE_def subD_def toDouble_zero toDouble_minus
      round_15 round_1001 round_1017 round_1033 round_1049 round_1065 round_1081 round_1097
      near_bg_lighten_step_1 near_bg_lighten_step_2 near_bg_lighten_step_3 near_bg_lighten_step_4
      near_bg_lighten_step_5 near_bg_lighten_step_6 near_bg_lighten_step_7)

lemma near_bg_lighten_search:
  "binarySearchLightness \<lparr> h = 8620171161763839 / 35184372088832, s = 1544679750241405 / 17592186044416, l = 2387018184850171 / 35184372088832 \<rparr> \<lparr> r = 239, g = 48, b = 181 \<rparr> LARGE_TEXT_THRESHOLD False True 7 =
   Inr \<lparr> rgb = \<lparr> r = 233, g = 231, b = 253 \<rparr>, ratio = ratioOfRgb \<lparr> r = 239, g = 48, b = 181 \<rparr> \<lparr> r = 233, g = 231, b = 253 \<rparr>, iterations = 7 \<rparr>"
  unfolding binarySearchLightness_def Let_def
  by (simp add: bindE_def contrastRatio_rgbToHex rgb_of_hsl_76 canon_7165F5 canon_EF30B5 near_bg_lighten_loop)

lemma near_candidates:
  "snapCandidates \<lparr> r = 239, g = 48, b = 181 \<rparr> \<lparr> r = 113, g = 101, b = 245 \<rparr> LARGE_TEXT_THRESHOLD =
   Inr [\<lparr> rgb = \<lparr> r = 251, g = 202, b = 236 \<rparr>, ratio = ratioOfRgb \<lparr> r = 251, g = 202, b = 236 \<rparr> \<lparr> r = 113, g = 101, b = 245 \<rparr>,
        iterations = 7, path = ''fg-lighten'' \<rparr>,
      \<lparr> rgb = \<lparr> r = 96, g = 7, b = 69 \<rparr>, ratio = ratioOfRgb \<lparr> r = 96, g = 7, b = 69 \<rparr> \<lparr> r = 113, g = 101, b = 245 \<rparr>,
        iterations = 7, path = ''fg-darken'' \<rparr>,
      \<lparr> rgb = \<lparr> r = 28, g = 13, b = 195 \<rparr>, ratio = ratioOfRgb \<lparr> r = 239, g = 48, b = 181 \<rparr> \<lparr> r = 28, g = 13, b = 195 \<rparr>,
        iterations = 7, path = ''bg-darken'' \<rparr>,
      \<lparr> rgb = \<lparr> r = 233, g = 231, b = 253 \<rparr>, ratio = ratioOfRgb \<lparr> r = 239, g = 48, b = 181 \<rparr> \<lparr> r = 233, g = 231, b = 253 \<rparr>,
        iterations = 7, path = ''bg-lighten'' \<rparr>]"
  unfolding snapCandidates_def Let_def
  by (simp add: bindE_def withPath_def hsl_of_EF30B5 hsl_of_7165F5 near_fg_lighten_search near_fg_darken_search near_bg_darken_search near_bg_lighten_search)

lemma ratio_FBCAEC_7165F5_large_eps:
  "LARGE_TEXT_THRESHOLD - EPSILON \<le> ratioOfRgb \<lparr> r = 251, g = 202, b = 236 \<rparr> \<lparr> r = 113, g = 101, b = 245 \<rparr>"
  by (rule ratio_ge_from_bounds [OF lum_FBCAEC lum_7165F5]) (simp_all add: LARGE_TEXT_THRESHOLD_def NORMAL_TEXT_THRESHOLD_def EPSILON_def)

lemma ratio_600745_7165F5_large_eps:
  "LARGE_TEXT_THRESHOLD - EPSILON \<le> ratioOfRgb \<lparr> r = 96, g = 7, b = 69 \<rparr> \<lparr> r = 113, g = 101, b = 245 \<rparr>"
  by (rule ratio_ge_from_bounds [OF lum_600745 lum_7165F5]) (simp_all add: LARGE_TEXT_THRESHOLD_def NORMAL_TEXT_THRESHOLD_def EPSILON_def)

lemma ratio_EF30B5_1C0DC3_large_eps:
  "LARGE_TEXT_THRESHOLD - EPSILON \<le> ratioOfRgb \<lparr> r = 239, g = 48, b = 181 \<rparr> \<lparr> r = 28, g = 13, b = 195 \<rparr>"
  by (rule ratio_ge_from_bounds [OF lum_EF30B5 lum_1C0DC3]) (simp_all add: LARGE_TEXT_THRESHOLD_def NORMAL_TEXT_THRESHOLD_def EPSILON_def)

lemma ratio_EF30B5_E9E7FD_large_eps:
  "LARGE_TEXT_THRESHOLD - EPSILON \<le> ratioOfRgb \<lparr> r = 239, g = 48, b = 181 \<rparr> \<lparr> r = 233, g = 231, b = 253 \<rparr>"
  by (rule ratio_ge_from_bounds [OF lum_EF30B5 lum_E9E7FD]) (simp_all add: LARGE_TEXT_THRESHOLD_def NORMAL_TEXT_THRESHOLD_def EPSILON_def)

lemma near_passing:
  "filter (\<lambda>c. ratio c \<ge> LARGE_TEXT_THRESHOLD - EPSILON)
     [\<lparr> rgb = \<lparr> r = 251, g = 202, b = 236 \<rparr>, ratio = ratioOfRgb \<lparr> r = 251, g = 202, b = 236 \<rparr> \<lparr> r = 113, g = 101, b = 245 \<rparr>,
        iterations = 7, path = ''fg-lighten'' \<rparr>,
      \<lparr> rgb = \<lparr> r = 96, g = 7, b = 69 \<rparr>, ratio = ratioOfRgb \<lparr> r = 96, g = 7, b = 69 \<rparr> \<lparr> r = 113, g = 101, b = 245 \<rparr>,
        iterations = 7, path = ''fg-darken'' \<rparr>,
      \<lparr> rgb = \<lparr> r = 28, g = 13, b = 195 \<rparr>, ratio = ratioOfRgb \<lparr> r = 239, g = 48, b = 181 \<rparr> \<lparr> r = 28, g = 13, b = 195 \<rparr>,
        iterations = 7, path = ''bg-darken'' \<rparr>,
      \<lparr> rgb = \<lparr> r = 233, g = 231, b = 253 \<rparr>, ratio = ratioOfRgb \<lparr> r = 239, g = 48, b = 181 \<rparr> \<lparr> r = 233, g = 231, b = 253 \<rparr>,
        iterations = 7, path = ''bg-lighten'' \<rparr>] =
   [\<lparr> rgb = \<lparr> r = 251, g = 202, b = 236 \<rparr>, ratio = ratioOfRgb \<lparr> r = 251, g = 202, b = 236 \<rparr> \<lparr> r = 113, g = 101, b = 245 \<rparr>,
        iterations = 7, path = ''fg-lighten'' \<rparr>,
      \<lparr> rgb = \<lparr> r = 96, g = 7, b = 69 \<rparr>, ratio = ratioOfRgb \<lparr> r = 96, g = 7, b = 69 \<rparr> \<lparr> r = 113, g = 101, b = 245 \<rparr>,
        iterations = 7, path = ''fg-darken'' \<rparr>,
      \<lparr> rgb = \<lparr> r = 28, g = 13, b = 195 \<rparr>, ratio = ratioOfRgb \<lparr> r = 239, g = 48, b = 181 \<rparr> \<lparr> r = 28, g = 13, b = 195 \<rparr>,
        iterations = 7, path = ''bg-darken'' \<rparr>,
      \<lparr> rgb = \<lparr> r = 233, g = 231, b = 253 \<rparr>, ratio = ratioOfRgb \<lparr> r = 239, g = 48, b = 181 \<rparr> \<lparr> r = 233, g = 231, b = 253 \<rparr>,
        iterations = 7, path = ''bg-lighten'' \<rparr>]"
  by (simp add: ratio_FBCAEC_7165F5_large_eps ratio_600745_7165F5_large_eps ratio_EF30B5_1C0DC3_large_eps ratio_EF30B5_E9E7FD_large_eps)

lemma round_1098: "toDouble (251 / 255) = 8865909854666623 / 9007199254740992"
  using toDouble_normal [of "-1" "251 / 255"] by (simp add: roundTiesToEven_def Let_def)

lemma round_1099: "toDouble (202 / 255) = 7135114703755609 / 9007199254740992"
  using toDouble_normal [of "-1" "202 / 255"] by (simp add: roundTiesToEven_def Let_def)

lemma round_1100: "toDouble (236 / 255) = 4168037302193871 / 4503599627370496"
  using toDouble_normal [of "-1" "236 / 255"] by (simp add: roundTiesToEven_def Let_def)

lemma round_1101: "toDouble (865397575455507 / 4503599627370496) = 865397575455507 / 4503599627370496"
  using toDouble_normal [of "-3" "865397575455507 / 4503599627370496"] by (simp add: roundTiesToEven_def Let_def)

lemma round_1102: "toDouble (2000128069802779 / 1125899906842624) = 2000128069802779 / 1125899906842624"
  using toDouble_normal [of "0" "2000128069802779 / 1125899906842624"] by (simp add: roundTiesToEven_def Let_def)

lemma round_1103: "toDouble (2000128069802779 / 2251799813685248) = 2000128069802779 / 2251799813685248"
  using toDouble_normal [of "-1" "2000128069802779 / 2251799813685248"] by (simp add: roundTiesToEven_def Let_def)

lemma round_1104: "toDouble (9148488654815361 / 9007199254740992) = 71472567615745 / 70368744177664"
  using toDouble_normal [of "0" "9148488654815361 / 9007199254740992"] by (simp add: roundTiesToEven_def Let_def)

lemma round_1105: "toDouble (2013373951059751 / 9007199254740992) = 2013373951059751 / 9007199254740992"
  using toDouble_normal [of "-3" "2013373951059751 / 9007199254740992"] by (simp add: roundTiesToEven_def Let_def)

lemma round_1106: "toDouble (1730795150911014 / 2013373951059751) = 1935757734571529 / 2251799813685248"
  using toDouble_normal [of "-1" "1730795150911014 / 2013373951059751"] by (simp add: roundTiesToEven_def Let_def)

lemma round_1107: "toDouble (1200959900632133 / 9007199254740992) = 1200959900632133 / 9007199254740992"
  using toDouble_normal [of "-3" "1200959900632133 / 9007199254740992"] by (simp add: roundTiesToEven_def Let_def)

lemma round_1108: "toDouble (1200959900632133 / 1730795150911014) = 6249893360432529 / 9007199254740992"
  using toDouble_normal [of "-1" "1200959900632133 / 1730795150911014"] by (simp add: roundTiesToEven_def Let_def)

lemma round_1109: "toDouble (47793302168013423 / 9007199254740992) = 2987081385500839 / 562949953421312"
  using toDouble_normal [of "2" "47793302168013423 / 9007199254740992"] by (simp add: roundTiesToEven_def Let_def)

lemma round_1110: "toDouble (2987081385500839 / 3377699720527872) = 7965550361335571 / 9007199254740992"
  using toDouble_normal [of "-1" "2987081385500839 / 3377699720527872"] by (simp add: roundTiesToEven_def Let_def)

lemma round_1111: "toDouble (358449766260100695 / 1125899906842624) = 5600777597814073 / 17592186044416"
  using toDouble_normal [of "8" "358449766260100695 / 1125899906842624"] by (simp add: roundTiesToEven_def Let_def)

lemma round_1112: "toDouble (48393943364288225 / 562949953421312) = 1512310730134007 / 17592186044416"
  using toDouble_normal [of "6" "48393943364288225 / 562949953421312"] by (simp add: roundTiesToEven_def Let_def)

lemma round_1113: "toDouble (50003201745069475 / 562949953421312) = 1562600054533421 / 17592186044416"
  using toDouble_normal [of "6" "50003201745069475 / 562949953421312"] by (simp add: roundTiesToEven_def Let_def)

lemma hsl_of_FBCAEC:
  "rgbToHsl \<lparr> r = 251, g = 202, b = 236 \<rparr> =
     \<lparr> h = 5600777597814073 / 17592186044416, s = 1512310730134007 / 17592186044416, l = 1562600054533421 / 17592186044416 \<rparr>"
  unfolding rgbToHsl_def Let_def
  by (simp add: addD_def subD_def mulD_def divD_def toDouble_zero toDouble_minus
      round_1098 round_1099 round_1100 round_1101 round_1102 round_1103 round_1104 round_1105
      round_1106 round_1107 round_1108 round_1109 round_1110 round_1111 round_1112 round_1113)

lemma round_1114: "toDouble (32 / 85) = 847736400446211 / 2251799813685248"
  using toDouble_normal [of "-2" "32 / 85"] by (simp add: roundTiesToEven_def Let_def)

lemma round_1115: "toDouble (7 / 255) = 1978051601041159 / 72057594037927936"
  using toDouble_normal [of "-6" "7 / 255"] by (simp add: roundTiesToEven_def Let_def)

lemma round_1116: "toDouble (23 / 85) = 4874484302565713 / 18014398509481984"
  using toDouble_normal [of "-2" "23 / 85"] by (simp add: roundTiesToEven_def Let_def)

lemma round_1117: "toDouble (25149513213237593 / 72057594037927936) = 3143689151654699 / 9007199254740992"
  using toDouble_normal [of "-2" "25149513213237593 / 72057594037927936"] by (simp add: roundTiesToEven_def Let_def)

lemma round_1118: "toDouble (29105616415319911 / 72057594037927936) = 3638202051914989 / 9007199254740992"
  using toDouble_normal [of "-2" "29105616415319911 / 72057594037927936"] by (simp add: roundTiesToEven_def Let_def)

lemma round_1119: "toDouble (3638202051914989 / 18014398509481984) = 3638202051914989 / 18014398509481984"
  using toDouble_normal [of "-3" "3638202051914989 / 18014398509481984"] by (simp add: roundTiesToEven_def Let_def)

lemma round_1120: "toDouble (3143689151654699 / 3638202051914989) = 7782919744387847 / 9007199254740992"
  using toDouble_normal [of "-1" "3143689151654699 / 3638202051914989"] by (simp add: roundTiesToEven_def Let_def)

lemma round_1121: "toDouble (17519885609221693 / 72057594037927936) = 4379971402305423 / 18014398509481984"
  using toDouble_normal [of "-3" "17519885609221693 / 72057594037927936"] by (simp add: roundTiesToEven_def Let_def)

lemma round_1122: "toDouble (4379971402305423 / 6287378303309398) = 1568669533129049 / 2251799813685248"
  using toDouble_normal [of "-1" "4379971402305423 / 6287378303309398"] by (simp add: roundTiesToEven_def Let_def)

lemma round_1123: "toDouble (11942129348982439 / 2251799813685248) = 1492766168622805 / 281474976710656"
  using toDouble_normal [of "2" "11942129348982439 / 2251799813685248"] by (simp add: roundTiesToEven_def Let_def)

lemma round_1124: "toDouble (1492766168622805 / 1688849860263936) = 7961419565988293 / 9007199254740992"
  using toDouble_normal [of "-1" "1492766168622805 / 1688849860263936"] by (simp add: roundTiesToEven_def Let_def)

lemma round_1125: "toDouble (358263880469473185 / 1125899906842624) = 5597873132335519 / 17592186044416"
  using toDouble_normal [of "8" "358263880469473185 / 1125899906842624"] by (simp add: roundTiesToEven_def Let_def)

lemma round_1126: "toDouble (194572993609696175 / 2251799813685248) = 6080406050303005 / 70368744177664"
  using toDouble_normal [of "6" "194572993609696175 / 2251799813685248"] by (simp add: roundTiesToEven_def Let_def)

lemma round_1127: "toDouble (90955051297874725 / 4503599627370496) = 2842345353058585 / 140737488355328"
  using toDouble_normal [of "4" "90955051297874725 / 4503599627370496"] by (simp add: roundTiesToEven_def Let_def)

lemma hsl_of_600745:
  "rgbToHsl \<lparr> r = 96, g = 7, b = 69 \<rparr> =
     \<lparr> h = 5597873132335519 / 17592186044416, s = 6080406050303005 / 70368744177664, l = 2842345353058585 / 140737488355328 \<rparr>"
  unfolding rgbToHsl_def Let_def
  by (simp add: addD_def subD_def mulD_def divD_def toDouble_zero toDouble_minus
      round_1114 round_1115 round_1116 round_1117 round_1118 round_1119 round_1120 round_1121
      round_1122 round_1123 round_1124 round_1125 round_1126 round_1127)

lemma round_1128: "toDouble (28 / 255) = 1978051601041159 / 18014398509481984"
  using toDouble_normal [of "-4" "28 / 255"] by (simp add: roundTiesToEven_def Let_def)

lemma round_1129: "toDouble (13 / 255) = 3673524401933581 / 72057594037927936"
  using toDouble_normal [of "-5" "13 / 255"] by (simp add: roundTiesToEven_def Let_def)

lemma round_1130: "toDouble (13 / 17) = 860982281703183 / 1125899906842624"
  using toDouble_normal [of "-1" "13 / 17"] by (simp add: roundTiesToEven_def Let_def)

lemma round_1131: "toDouble (51429341627070131 / 72057594037927936) = 3214333851691883 / 4503599627370496"
  using toDouble_normal [of "-1" "51429341627070131 / 72057594037927936"] by (simp add: roundTiesToEven_def Let_def)

lemma round_1132: "toDouble (58776390430937293 / 72057594037927936) = 3673524401933581 / 4503599627370496"
  using toDouble_normal [of "-1" "58776390430937293 / 72057594037927936"] by (simp add: roundTiesToEven_def Let_def)

lemma round_1133: "toDouble (3673524401933581 / 9007199254740992) = 3673524401933581 / 9007199254740992"
  using toDouble_normal [of "-2" "3673524401933581 / 9007199254740992"] by (simp add: roundTiesToEven_def Let_def)

lemma round_1134: "toDouble (3214333851691883 / 3673524401933581) = 7881299347898367 / 9007199254740992"
  using toDouble_normal [of "-1" "3214333851691883 / 3673524401933581"] by (simp add: roundTiesToEven_def Let_def)

lemma round_1135: "toDouble (4238682002231055 / 72057594037927936) = 4238682002231055 / 72057594037927936"
  using toDouble_normal [of "-5" "4238682002231055 / 72057594037927936"] by (simp add: roundTiesToEven_def Let_def)

lemma round_1136: "toDouble (4238682002231055 / 51429341627070128) = 2969406347716811 / 36028797018963968"
  using toDouble_normal [of "-4" "4238682002231055 / 51429341627070128"] by (simp add: roundTiesToEven_def Let_def)

lemma round_1137: "toDouble (147084594423572683 / 36028797018963968) = 2298196787868323 / 562949953421312"
  using toDouble_normal [of "2" "147084594423572683 / 36028797018963968"] by (simp add: roundTiesToEven_def Let_def)

lemma round_1138: "toDouble (2298196787868323 / 3377699720527872) = 6128524767648861 / 9007199254740992"
  using toDouble_normal [of "-1" "2298196787868323 / 3377699720527872"] by (simp add: roundTiesToEven_def Let_def)

lemma round_1139: "toDouble (275783614544198745 / 1125899906842624) = 8618237954506211 / 35184372088832"
  using toDouble_normal [of "7" "275783614544198745 / 1125899906842624"] by (simp add: roundTiesToEven_def Let_def)

lemma round_1140: "toDouble (197032483697459175 / 2251799813685248) = 6157265115545599 / 70368744177664"
  using toDouble_normal [of "6" "197032483697459175 / 2251799813685248"] by (simp add: roundTiesToEven_def Let_def)

lemma round_1141: "toDouble (91838110048339525 / 2251799813685248) = 1434970469505305 / 35184372088832"
  using toDouble_normal [of "5" "91838110048339525 / 2251799813685248"] by (simp add: roundTiesToEven_def Let_def)

lemma hsl_of_1C0DC3:
  "rgbToHsl \<lparr> r = 28, g = 13, b = 195 \<rparr> =
     \<lparr> h = 8618237954506211 / 35184372088832, s = 6157265115545599 / 70368744177664, l = 1434970469505305 / 35184372088832 \<rparr>"
  unfolding rgbToHsl_def Let_def
  by (simp add: addD_def subD_def mulD_def divD_def toDouble_zero toDouble_minus
      round_1128 round_1129 round_1130 round_1131 round_1132 round_1133 round_1134 round_1135
      round_1136 round_1137 round_1138 round_1139 round_1140 round_1141)

lemma round_1142: "toDouble (233 / 255) = 8230107554331965 / 9007199254740992"
  using toDouble_normal [of "-1" "233 / 255"] by (simp add: roundTiesToEven_def Let_def)

lemma round_1143: "toDouble (77 / 85) = 8159462854294781 / 9007199254740992"
  using toDouble_normal [of "-1" "77 / 85"] by (simp add: roundTiesToEven_def Let_def)

lemma round_1144: "toDouble (777091700409027 / 9007199254740992) = 777091700409027 / 9007199254740992"
  using toDouble_normal [of "-4" "777091700409027 / 9007199254740992"] by (simp add: roundTiesToEven_def Let_def)

lemma round_1145: "toDouble (17096017408998589 / 9007199254740992) = 4274004352249647 / 2251799813685248"
  using toDouble_normal [of "0" "17096017408998589 / 9007199254740992"] by (simp add: roundTiesToEven_def Let_def)

lemma round_1146: "toDouble (4274004352249647 / 4503599627370496) = 4274004352249647 / 4503599627370496"
  using toDouble_normal [of "-1" "4274004352249647 / 4503599627370496"] by (simp add: roundTiesToEven_def Let_def)

lemma round_1147: "toDouble (141841311793409 / 140737488355328) = 141841311793409 / 140737488355328"
  using toDouble_normal [of "0" "141841311793409 / 140737488355328"] by (simp add: roundTiesToEven_def Let_def)

lemma round_1148: "toDouble (918381100483395 / 9007199254740992) = 918381100483395 / 9007199254740992"
  using toDouble_normal [of "-4" "918381100483395 / 9007199254740992"] by (simp add: roundTiesToEven_def Let_def)

lemma round_1149: "toDouble (259030566803009 / 306127033494465) = 119085567069893 / 140737488355328"
  using toDouble_normal [of "-1" "259030566803009 / 306127033494465"] by (simp add: roundTiesToEven_def Let_def)

lemma round_1150: "toDouble (1103823438081 / 140737488355328) = 1103823438081 / 140737488355328"
  using toDouble_normal [of "-7" "1103823438081 / 140737488355328"] by (simp add: roundTiesToEven_def Let_def)

lemma round_1151: "toDouble (23548233345728 / 259030566803009) = 6550690367084333 / 72057594037927936"
  using toDouble_normal [of "-4" "23548233345728 / 259030566803009"] by (simp add: roundTiesToEven_def Let_def)

lemma round_1152: "toDouble (294781066518796077 / 72057594037927936) = 4605954164356189 / 1125899906842624"
  using toDouble_normal [of "2" "294781066518796077 / 72057594037927936"] by (simp add: roundTiesToEven_def Let_def)

lemma round_1153: "toDouble (4605954164356189 / 6755399441055744) = 6141272219141585 / 9007199254740992"
  using toDouble_normal [of "-1" "4605954164356189 / 6755399441055744"] by (simp add: roundTiesToEven_def Let_def)

lemma round_1154: "toDouble (276357249861371325 / 1125899906842624) = 4318082029083927 / 17592186044416"
  using toDouble_normal [of "7" "276357249861371325 / 1125899906842624"] by (simp add: roundTiesToEven_def Let_def)

lemma round_1155: "toDouble (2977139176747325 / 35184372088832) = 2977139176747325 / 35184372088832"
  using toDouble_normal [of "6" "2977139176747325 / 35184372088832"] by (simp add: roundTiesToEven_def Let_def)

lemma round_1156: "toDouble (106850108806241175 / 1125899906842624) = 6678131800390073 / 70368744177664"
  using toDouble_normal [of "6" "106850108806241175 / 1125899906842624"] by (simp add: roundTiesToEven_def Let_def)

lemma hsl_of_E9E7FD:
  "rgbToHsl \<lparr> r = 233, g = 231, b = 253 \<rparr> =
     \<lparr> h = 4318082029083927 / 17592186044416, s = 2977139176747325 / 35184372088832, l = 6678131800390073 / 70368744177664 \<rparr>"
  unfolding rgbToHsl_def Let_def
  by (simp add: addD_def subD_def mulD_def divD_def toDouble_zero toDouble_minus
      round_584 round_1142 round_1143 round_1144 round_1145 round_1146 round_1147 round_1148
      round_1149 round_1150 round_1151 round_1152 round_1153 round_1154 round_1155 round_1156)

lemma round_1157: "toDouble (4580867268036165 / 140737488355328) = 4580867268036165 / 140737488355328"
  using toDouble_normal [of "5" "4580867268036165 / 140737488355328"] by (simp add: roundTiesToEven_def Let_def)

lemma round_1158: "toDouble (476023857672433 / 17592186044416) = 476023857672433 / 17592186044416"
  using toDouble_normal [of "4" "476023857672433 / 17592186044416"] by (simp add: roundTiesToEven_def Let_def)

lemma round_1159: "toDouble (1904095430689731 / 70368744177664) = 1904095430689731 / 70368744177664"
  using toDouble_normal [of "4" "1904095430689731 / 70368744177664"] by (simp add: roundTiesToEven_def Let_def)

lemma round_1160: "toDouble (1 / 70368744177664) = 1 / 70368744177664"
  using toDouble_normal [of "-46" "1 / 70368744177664"] by (simp add: roundTiesToEven_def Let_def)

lemma round_1161: "toDouble (772676406656703 / 140737488355328) = 772676406656703 / 140737488355328"
  using toDouble_normal [of "2" "772676406656703 / 140737488355328"] by (simp add: roundTiesToEven_def Let_def)

lemma round_1162: "toDouble (317349238448289 / 35184372088832) = 317349238448289 / 35184372088832"
  using toDouble_normal [of "3" "317349238448289 / 35184372088832"] by (simp add: roundTiesToEven_def Let_def)

lemma near_tie_zone:
  "similarCandidates (sortedByChange \<lparr> h = 2799091800470169 / 8796093022208, s = 6027098716562253 / 70368744177664, l = 7919933168231203 / 140737488355328 \<rparr> \<lparr> h = 8620171161763839 / 35184372088832, s = 1544679750241405 / 17592186044416, l = 2387018184850171 / 35184372088832 \<rparr>
     [\<lparr> rgb = \<lparr> r = 251, g = 202, b = 236 \<rparr>, ratio = ratioOfRgb \<lparr> r = 251, g = 202, b = 236 \<rparr> \<lparr> r = 113, g = 101, b = 245 \<rparr>,
        iterations = 7, path = ''fg-lighten'' \<rparr>,
      \<lparr> rgb = \<lparr> r = 96, g = 7, b = 69 \<rparr>, ratio = ratioOfRgb \<lparr> r = 96, g = 7, b = 69 \<rparr> \<lparr> r = 113, g = 101, b = 245 \<rparr>,
        iterations = 7, path = ''fg-darken'' \<rparr>,
      \<lparr> rgb = \<lparr> r = 28, g = 13, b = 195 \<rparr>, ratio = ratioOfRgb \<lparr> r = 239, g = 48, b = 181 \<rparr> \<lparr> r = 28, g = 13, b = 195 \<rparr>,
        iterations = 7, path = ''bg-darken'' \<rparr>,
      \<lparr> rgb = \<lparr> r = 233, g = 231, b = 253 \<rparr>, ratio = ratioOfRgb \<lparr> r = 239, g = 48, b = 181 \<rparr> \<lparr> r = 233, g = 231, b = 253 \<rparr>,
        iterations = 7, path = ''bg-lighten'' \<rparr>]) =
   [\<lparr> rgb = \<lparr> r = 233, g = 231, b = 253 \<rparr>, ratio = ratioOfRgb \<lparr> r = 239, g = 48, b = 181 \<rparr> \<lparr> r = 233, g = 231, b = 253 \<rparr>,
        iterations = 7, path = ''bg-lighten'',
        change = 1904095430689731 / 70368744177664 \<rparr>,
      \<lparr> rgb = \<lparr> r = 28, g = 13, b = 195 \<rparr>, ratio = ratioOfRgb \<lparr> r = 239, g = 48, b = 181 \<rparr> \<lparr> r = 28, g = 13, b = 195 \<rparr>,
        iterations = 7, path = ''bg-darken'',
        change = 476023857672433 / 17592186044416 \<rparr>]"
  unfolding similarCandidates_def sortedByChange_def Let_def
  by (simp add: withChange_def startsWith_def
      subD_def toDouble_zero toDouble_minus hsl_of_FBCAEC hsl_of_600745 hsl_of_1C0DC3 hsl_of_E9E7FD
      round_65 round_1157 round_1158 round_1159 round_1160 round_1161 round_1162)

lemma near_select:
  "selectBest largeTextBackgroundOptions \<lparr> h = 2799091800470169 / 8796093022208, s = 6027098716562253 / 70368744177664, l = 7919933168231203 / 140737488355328 \<rparr> \<lparr> h = 8620171161763839 / 35184372088832, s = 1544679750241405 / 17592186044416, l = 2387018184850171 / 35184372088832 \<rparr> LARGE_TEXT_THRESHOLD
     [\<lparr> rgb = \<lparr> r = 251, g = 202, b = 236 \<rparr>, ratio = ratioOfRgb \<lparr> r = 251, g = 202, b = 236 \<rparr> \<lparr> r = 113, g = 101, b = 245 \<rparr>,
        iterations = 7, path = ''fg-lighten'' \<rparr>,
      \<lparr> rgb = \<lparr> r = 96, g = 7, b = 69 \<rparr>, ratio = ratioOfRgb \<lparr> r = 96, g = 7, b = 69 \<rparr> \<lparr> r = 113, g = 101, b = 245 \<rparr>,
        iterations = 7, path = ''fg-darken'' \<rparr>,
      \<lparr> rgb = \<lparr> r = 28, g = 13, b = 195 \<rparr>, ratio = ratioOfRgb \<lparr> r = 239, g = 48, b = 181 \<rparr> \<lparr> r = 28, g = 13, b = 195 \<rparr>,
        iterations = 7, path = ''bg-darken'' \<rparr>,
      \<lparr> rgb = \<lparr> r = 233, g = 231, b = 253 \<rparr>, ratio = ratioOfRgb \<lparr> r = 239, g = 48, b = 181 \<rparr> \<lparr> r = 233, g = 231, b = 253 \<rparr>,
        iterations = 7, path = ''bg-lighten'' \<rparr>] =
   (\<lparr> rgb = \<lparr> r = 233, g = 231, b = 253 \<rparr>, ratio = ratioOfRgb \<lparr> r = 239, g = 48, b = 181 \<rparr> \<lparr> r = 233, g = 231, b = 253 \<rparr>,
        iterations = 7, path = ''bg-lighten'' \<rparr>, False)"
  unfolding selectBest_def Let_def near_passing near_tie_zone
  by (simp add: tieBreak_def findOrFirst_def startsWith_def Candidate.truncate_def truthy_def largeTextBackgroundOptions_def)

lemma near_snap:
  "snapToPassingColor ''#EF30B5'' ''#7165F5'' largeTextBackgroundOptions =
     Inr \<lparr> fg = ''#EF30B5'', bg = ''#E9E7FD'',
         ratio = ratioOfRgb \<lparr> r = 239, g = 48, b = 181 \<rparr> \<lparr> r = 233, g = 231, b = 253 \<rparr>,
         clamped = Some False, adjusted = Some ''bg'', iterations = Some 7 \<rparr>"
proof -
  let ?cands = "[\<lparr> rgb = \<lparr> r = 251, g = 202, b = 236 \<rparr>, ratio = ratioOfRgb \<lparr> r = 251, g = 202, b = 236 \<rparr> \<lparr> r = 113, g = 101, b = 245 \<rparr>,
        iterations = 7, path = ''fg-lighten'' \<rparr>,
      \<lparr> rgb = \<lparr> r = 96, g = 7, b = 69 \<rparr>, ratio = ratioOfRgb \<lparr> r = 96, g = 7, b = 69 \<rparr> \<lparr> r = 113, g = 101, b = 245 \<rparr>,
        iterations = 7, path = ''fg-darken'' \<rparr>,
      \<lparr> rgb = \<lparr> r = 28, g = 13, b = 195 \<rparr>, ratio = ratioOfRgb \<lparr> r = 239, g = 48, b = 181 \<rparr> \<lparr> r = 28, g = 13, b = 195 \<rparr>,
        iterations = 7, path = ''bg-darken'' \<rparr>,
      \<lparr> rgb = \<lparr> r = 233, g = 231, b = 253 \<rparr>, ratio = ratioOfRgb \<lparr> r = 239, g = 48, b = 181 \<rparr> \<lparr> r = 233, g = 231, b = 253 \<rparr>,
        iterations = 7, path = ''bg-lighten'' \<rparr>]"
  let ?best = "\<lparr> rgb = \<lparr> r = 233, g = 231, b = 253 \<rparr>, ratio = ratioOfRgb \<lparr> r = 239, g = 48, b = 181 \<rparr> \<lparr> r = 233, g = 231, b = 253 \<rparr>,
        iterations = 7, path = ''bg-lighten'' \<rparr>"
  have T: "requiredThreshold largeTextBackgroundOptions = LARGE_TEXT_THRESHOLD"
    by (simp add: requiredThreshold_def truthy_def largeTextBackgroundOptions_def)
  have sound: "\<forall>c \<in> set ?cands. candidateSound \<lparr> r = 239, g = 48, b = 181 \<rparr> \<lparr> r = 113, g = 101, b = 245 \<rparr> c"
    using snapCandidates_returns [of "\<lparr> r = 239, g = 48, b = 181 \<rparr>" "\<lparr> r = 113, g = 101, b = 245 \<rparr>" LARGE_TEXT_THRESHOLD]
    by (simp add: near_candidates)
  have "snapToPassingColor ''#EF30B5'' ''#7165F5'' largeTextBackgroundOptions =
          Inr (resultOf \<lparr> r = 239, g = 48, b = 181 \<rparr> \<lparr> r = 113, g = 101, b = 245 \<rparr> ?best False)"
  proof (rule snap_searched [OF near_parse_fg near_parse_bg, where cands = ?cands])
    show "\<not> ratioOfRgb \<lparr> r = 239, g = 48, b = 181 \<rparr> \<lparr> r = 113, g = 101, b = 245 \<rparr> \<ge> requiredThreshold largeTextBackgroundOptions - EPSILON"
      unfolding T by (rule ratio_EF30B5_7165F5_large_eps)
    show "ratioOfRgb \<lparr> r = 239, g = 48, b = 181 \<rparr> \<lparr> r = 113, g = 101, b = 245 \<rparr> \<noteq> 1"
      by (rule ratio_EF30B5_7165F5_not_1)
    show "snapCandidates \<lparr> r = 239, g = 48, b = 181 \<rparr> \<lparr> r = 113, g = 101, b = 245 \<rparr> (requiredThreshold largeTextBackgroundOptions) = Inr ?cands"
      unfolding T by (rule near_candidates)
    show "\<forall>c \<in> set ?cands. candidateSound \<lparr> r = 239, g = 48, b = 181 \<rparr> \<lparr> r = 113, g = 101, b = 245 \<rparr> c"
      by (rule sound)
    show "selectBest largeTextBackgroundOptions (rgbToHsl \<lparr> r = 239, g = 48, b = 181 \<rparr>) (rgbToHsl \<lparr> r = 113, g = 101, b = 245 \<rparr>) (requiredThreshold largeTextBackgroundOptions) ?cands = (?best, False)"
      unfolding T hsl_of_EF30B5 hsl_of_7165F5 by (rule near_select)
    show "?best \<in> set ?cands"
      by simp
  qed
  then show ?thesis
    by (simp add: resultOf_def startsWith_def rgbToHexEval)
qed

subsection \<open>snapToPassingColor('#000000', '#1F1F1F', { isLargeText: true })\<close>

lemma half_parse_fg: "hexToRgb ''#000000'' = Inr \<lparr> r = 0, g = 0, b = 0 \<rparr>"
  by (simp add: hexEval)

lemma half_parse_bg: "hexToRgb ''#1F1F1F'' = Inr \<lparr> r = 31, g = 31, b = 31 \<rparr>"
  by (simp add: hexEval)

lemma lum_000000:
  "0 / 1000000000 \<le> luminanceOfRgb \<lparr> r = 0, g = 0, b = 0 \<rparr> \<and> luminanceOfRgb \<lparr> r = 0, g = 0, b = 0 \<rparr> \<le> 0 / 1000000000"
  using gamma_0 by (simp add: luminanceOfRgb_def)

lemma gamma_31:
  "13702083 / 1000000000 \<le> gammaCorrect (31 / 255) \<and> gammaCorrect (31 / 255) \<le> 13702084 / 1000000000"
  by (rule gammaCorrect_between) (simp_all add: power_divide divide_le_eq le_divide_eq)

lemma lum_1F1F1F:
  "13702083 / 1000000000 \<le> luminanceOfRgb \<lparr> r = 31, g = 31, b = 31 \<rparr> \<and> luminanceOfRgb \<lparr> r = 31, g = 31, b = 31 \<rparr> \<le> 13702084 / 1000000000"
  using gamma_31 by (simp add: luminanceOfRgb_def)

lemma ratio_000000_1F1F1F_large_eps:
  "\<not> LARGE_TEXT_THRESHOLD - EPSILON \<le> ratioOfRgb \<lparr> r = 0, g = 0, b = 0 \<rparr> \<lparr> r = 31, g = 31, b = 31 \<rparr>"
  by (rule ratio_lt_from_bounds [OF lum_000000 lum_1F1F1F]) (simp_all add: LARGE_TEXT_THRESHOLD_def NORMAL_TEXT_THRESHOLD_def EPSILON_def)

lemma ratio_000000_1F1F1F_not_1:
  "ratioOfRgb \<lparr> r = 0, g = 0, b = 0 \<rparr> \<lparr> r = 31, g = 31, b = 31 \<rparr> \<noteq> 1"
  by (rule ratio_ne_1_from_bounds [OF lum_000000 lum_1F1F1F]) simp_all

lemma hsl_of_000000:
  "rgbToHsl \<lparr> r = 0, g = 0, b = 0 \<rparr> =
     \<lparr> h = 0, s = 0, l = 0 \<rparr>"
  unfolding rgbToHsl_def Let_def
  by (simp add: addD_def subD_def mulD_def divD_def toDouble_zero toDouble_minus
      )

lemma round_1163: "toDouble (31 / 255) = 8759942804610847 / 72057594037927936"
  using toDouble_normal [of "-4" "31 / 255"] by (simp add: roundTiesToEven_def Let_def)

lemma round_1164: "toDouble (8759942804610847 / 36028797018963968) = 8759942804610847 / 36028797018963968"
  using toDouble_normal [of "-3" "8759942804610847 / 36028797018963968"] by (simp add: roundTiesToEven_def Let_def)

lemma round_1165: "toDouble (8759942804610847 / 72057594037927936) = 8759942804610847 / 72057594037927936"
  using toDouble_normal [of "-4" "8759942804610847 / 72057594037927936"] by (simp add: roundTiesToEven_def Let_def)

lemma round_1166: "toDouble (218998570115271175 / 18014398509481984) = 427731582256389 / 35184372088832"
  using toDouble_normal [of "3" "218998570115271175 / 18014398509481984"] by (simp add: roundTiesToEven_def Let_def)

lemma hsl_of_1F1F1F:
  "rgbToHsl \<lparr> r = 31, g = 31, b = 31 \<rparr> =
     \<lparr> h = 0, s = 0, l = 427731582256389 / 35184372088832 \<rparr>"
  unfolding rgbToHsl_def Let_def
  by (simp add: addD_def subD_def mulD_def divD_def toDouble_zero toDouble_minus
      round_1163 round_1164 round_1165 round_1166)

lemma rgb_of_hsl_91:
  "hslToRgb \<lparr> h = 0, s = 0, l = 0 \<rparr> =
     \<lparr> r = 0, g = 0, b = 0 \<rparr>"
  unfolding hslToRgb_def hue2rgb_def Let_def
  by (simp add: mathRound_def addD_def subD_def mulD_def divD_def toDouble_zero toDouble_minus
      )

lemma round_1167: "toDouble (50) = 50"
  using toDouble_normal [of "5" "50"] by (simp add: roundTiesToEven_def Let_def)

lemma round_1168: "toDouble (255 / 2) = 255 / 2"
  using toDouble_normal [of "6" "255 / 2"] by (simp add: roundTiesToEven_def Let_def)

lemma rgb_of_hsl_92:
  "hslToRgb \<lparr> h = 0, s = 0, l = 50 \<rparr> =
     \<lparr> r = 128, g = 128, b = 128 \<rparr>"
  unfolding hslToRgb_def hue2rgb_def Let_def
  by (simp add: mathRound_def addD_def subD_def mulD_def divD_def toDouble_zero toDouble_minus
      round_199 round_1168)

lemma ratio_808080_1F1F1F_large:
  "LARGE_TEXT_THRESHOLD \<le> ratioOfRgb \<lparr> r = 128, g = 128, b = 128 \<rparr> \<lparr> r = 31, g = 31, b = 31 \<rparr>"
  by (rule ratio_ge_from_bounds [OF lum_808080 lum_1F1F1F]) (simp_all add: LARGE_TEXT_THRESHOLD_def NORMAL_TEXT_THRESHOLD_def EPSILON_def)

lemma canon_1F1F1F: "canonRgb \<lparr> r = 31, g = 31, b = 31 \<rparr> = \<lparr> r = 31, g = 31, b = 31 \<rparr>"
  by (simp add: canonRgb_def channelByte_def mathRound_def)

lemma half_fg_lighten_step_1:
  "searchBody \<lparr> h = 0, s = 0, l = 0 \<rparr> \<lparr> r = 31, g = 31, b = 31 \<rparr> LARGE_TEXT_THRESHOLD True True
     \<lparr> minL = 0, maxL = 100, bestRgb = \<lparr> r = 0, g = 0, b = 0 \<rparr>,
       bestRatio = ratioOfRgb \<lparr> r = 0, g = 0, b = 0 \<rparr> \<lparr> r = 31, g = 31, b = 31 \<rparr>, iterationCount = 0 \<rparr> =
   Inr \<lparr> minL = 0, maxL = 50, bestRgb = \<lparr> r = 128, g = 128, b = 128 \<rparr>,
       bestRatio = ratioOfRgb \<lparr> r = 128, g = 128, b = 128 \<rparr> \<lparr> r = 31, g = 31, b = 31 \<rparr>, iterationCount = Suc 0 \<rparr>"
  unfolding searchBody_def Let_def
  by (simp add: bindE_def contrastRatio_rgbToHex addD_def divD_def toDouble_zero
      round_175 round_1167 rgb_of_hsl_92 canon_808080 canon_1F1F1F ratio_808080_1F1F1F_large)

lemma round_1169: "toDouble (25) = 25"
  using toDouble_normal [of "4" "25"] by (simp add: roundTiesToEven_def Let_def)

lemma round_1170: "toDouble (1 / 4) = 1 / 4"
  using toDouble_normal [of "-2" "1 / 4"] by (simp add: roundTiesToEven_def Let_def)

lemma round_1171: "toDouble (255 / 4) = 255 / 4"
  using toDouble_normal [of "5" "255 / 4"] by (simp add: roundTiesToEven_def Let_def)

lemma rgb_of_hsl_93:
  "hslToRgb \<lparr> h = 0, s = 0, l = 25 \<rparr> =
     \<lparr> r = 64, g = 64, b = 64 \<rparr>"
  unfolding hslToRgb_def hue2rgb_def Let_def
  by (simp add: mathRound_def addD_def subD_def mulD_def divD_def toDouble_zero toDouble_minus
      round_1170 round_1171)

lemma ratio_404040_1F1F1F_large:
  "\<not> LARGE_TEXT_THRESHOLD \<le> ratioOfRgb \<lparr> r = 64, g = 64, b = 64 \<rparr> \<lparr> r = 31, g = 31, b = 31 \<rparr>"
  by (rule ratio_lt_from_bounds [OF lum_404040 lum_1F1F1F]) (simp_all add: LARGE_TEXT_THRESHOLD_def NORMAL_TEXT_THRESHOLD_def EPSILON_def)

lemma half_fg_lighten_step_2:
  "searchBody \<lparr> h = 0, s = 0, l = 0 \<rparr> \<lparr> r = 31, g = 31, b = 31 \<rparr> LARGE_TEXT_THRESHOLD True True
     \<lparr> minL = 0, maxL = 50, bestRgb = \<lparr> r = 128, g = 128, b = 128 \<rparr>,
       bestRatio = ratioOfRgb \<lparr> r = 128, g = 128, b = 128 \<rparr> \<lparr> r = 31, g = 31, b = 31 \<rparr>, iterationCount = Suc 0 \<rparr> =
   Inr \<lparr> minL = 25, maxL = 50, bestRgb = \<lparr> r = 128, g = 128, b = 128 \<rparr>,
       bestRatio = ratioOfRgb \<lparr> r = 128, g = 128, b = 128 \<rparr> \<lparr> r = 31, g = 31, b = 31 \<rparr>, iterationCount = 2 \<rparr>"
  unfolding searchBody_def Let_def
  by (simp add: bindE_def contrastRatio_rgbToHex addD_def divD_def toDouble_zero
      round_1167 round_1169 rgb_of_hsl_93 canon_404040 canon_1F1F1F ratio_404040_1F1F1F_large)

lemma round_1172: "toDouble (75) = 75"
  using toDouble_normal [of "6" "75"] by (simp add: roundTiesToEven_def Let_def)

lemma round_1173: "toDouble (75 / 2) = 75 / 2"
  using toDouble_normal [of "5" "75 / 2"] by (simp add: roundTiesToEven_def Let_def)

lemma round_1174: "toDouble (3 / 8) = 3 / 8"
  using toDouble_normal [of "-2" "3 / 8"] by (simp add: roundTiesToEven_def Let_def)

lemma round_1175: "toDouble (765 / 8) = 765 / 8"
  using toDouble_normal [of "6" "765 / 8"] by (simp add: roundTiesToEven_def Let_def)

lemma rgb_of_hsl_94:
  "hslToRgb \<lparr> h = 0, s = 0, l = 75 / 2 \<rparr> =
     \<lparr> r = 96, g = 96, b = 96 \<rparr>"
  unfolding hslToRgb_def hue2rgb_def Let_def
  by (simp add: mathRound_def addD_def subD_def mulD_def divD_def toDouble_zero toDouble_minus
      round_1174 round_1175)

lemma ratio_606060_1F1F1F_large:
  "\<not> LARGE_TEXT_THRESHOLD \<le> ratioOfRgb \<lparr> r = 96, g = 96, b = 96 \<rparr> \<lparr> r = 31, g = 31, b = 31 \<rparr>"
  by (rule ratio_lt_from_bounds [OF lum_606060 lum_1F1F1F]) (simp_all add: LARGE_TEXT_THRESHOLD_def NORMAL_TEXT_THRESHOLD_def EPSILON_def)

lemma half_fg_lighten_step_3:
  "searchBody \<lparr> h = 0, s = 0, l = 0 \<rparr> \<lparr> r = 31, g = 31, b = 31 \<rparr> LARGE_TEXT_THRESHOLD True True
     \<lparr> minL = 25, maxL = 50, bestRgb = \<lparr> r = 128, g = 128, b = 128 \<rparr>,
       bestRatio = ratioOfRgb \<lparr> r = 128, g = 128, b = 128 \<rparr> \<lparr> r = 31, g = 31, b = 31 \<rparr>, iterationCount = 2 \<rparr> =
   Inr \<lparr> minL = 75 / 2, maxL = 50, bestRgb = \<lparr> r = 128, g = 128, b = 128 \<rparr>,
       bestRatio = ratioOfRgb \<lparr> r = 128, g = 128, b = 128 \<rparr> \<lparr> r = 31, g = 31, b = 31 \<rparr>, iterationCount = 3 \<rparr>"
  unfolding searchBody_def Let_def
  by (simp add: bindE_def contrastRatio_rgbToHex addD_def divD_def toDouble_zero
      round_1172 round_1173 rgb_of_hsl_94 canon_606060 canon_1F1F1F ratio_606060_1F1F1F_large)

lemma round_1176: "toDouble (25 / 2) = 25 / 2"
  using toDouble_normal [of "3" "25 / 2"] by (simp add: roundTiesToEven_def Let_def)

lemma round_1177: "toDouble (175 / 2) = 175 / 2"
  using toDouble_normal [of "6" "175 / 2"] by (simp add: roundTiesToEven_def Let_def)

lemma round_1178: "toDouble (175 / 4) = 175 / 4"
  using toDouble_normal [of "5" "175 / 4"] by (simp add: roundTiesToEven_def Let_def)

lemma round_1179: "toDouble (7 / 16) = 7 / 16"
  using toDouble_normal [of "-2" "7 / 16"] by (simp add: roundTiesToEven_def Let_def)

lemma round_1180: "toDouble (1785 / 16) = 1785 / 16"
  using toDouble_normal [of "6" "1785 / 16"] by (simp add: roundTiesToEven_def Let_def)

lemma rgb_of_hsl_95:
  "hslToRgb \<lparr> h = 0, s = 0, l = 175 / 4 \<rparr> =
     \<lparr> r = 112, g = 112, b = 112 \<rparr>"
  unfolding hslToRgb_def hue2rgb_def Let_def
  by (simp add: mathRound_def addD_def subD_def mulD_def divD_def toDouble_zero toDouble_minus
      round_1179 round_1180)

lemma gamma_112:
  "162029375 / 1000000000 \<le> gammaCorrect (112 / 255) \<and> gammaCorrect (112 / 255) \<le> 162029376 / 1000000000"
  by (rule gammaCorrect_between) (simp_all add: power_divide divide_le_eq le_divide_eq)

lemma lum_707070:
  "162029375 / 1000000000 \<le> luminanceOfRgb \<lparr> r = 112, g = 112, b = 112 \<rparr> \<and> luminanceOfRgb \<lparr> r = 112, g = 112, b = 112 \<rparr> \<le> 162029376 / 1000000000"
  using gamma_112 by (simp add: luminanceOfRgb_def)

lemma ratio_707070_1F1F1F_large:
  "LARGE_TEXT_THRESHOLD \<le> ratioOfRgb \<lparr> r = 112, g = 112, b = 112 \<rparr> \<lparr> r = 31, g = 31, b = 31 \<rparr>"
  by (rule ratio_ge_from_bounds [OF lum_707070 lum_1F1F1F]) (simp_all add: LARGE_TEXT_THRESHOLD_def NORMAL_TEXT_THRESHOLD_def EPSILON_def)

lemma canon_707070: "canonRgb \<lparr> r = 112, g = 112, b = 112 \<rparr> = \<lparr> r = 112, g = 112, b = 112 \<rparr>"
  by (simp add: canonRgb_def channelByte_def mathRound_def)

lemma half_fg_lighten_step_4:
  "searchBody \<lparr> h = 0, s = 0, l = 0 \<rparr> \<lparr> r = 31, g = 31, b = 31 \<rparr> LARGE_TEXT_THRESHOLD True True
     \<lparr> minL = 75 / 2, maxL = 50, bestRgb = \<lparr> r = 128, g = 128, b = 128 \<rparr>,
       bestRatio = ratioOfRgb \<lparr> r = 128, g = 128, b = 128 \<rparr> \<lparr> r = 31, g = 31, b = 31 \<rparr>, iterationCount = 3 \<rparr> =
   Inr \<lparr> minL = 75 / 2, maxL = 175 / 4, bestRgb = \<lparr> r = 112, g = 112, b = 112 \<rparr>,
       bestRatio = ratioOfRgb \<lparr> r = 112, g = 112, b = 112 \<rparr> \<lparr> r = 31, g = 31, b = 31 \<rparr>, iterationCount = 4 \<rparr>"
  unfolding searchBody_def Let_def
  by (simp add: bindE_def contrastRatio_rgbToHex addD_def divD_def toDouble_zero
      round_1177 round_1178 rgb_of_hsl_95 canon_707070 canon_1F1F1F ratio_707070_1F1F1F_large)

lemma round_1181: "toDouble (25 / 4) = 25 / 4"
  using toDouble_normal [of "2" "25 / 4"] by (simp add: roundTiesToEven_def Let_def)

lemma round_1182: "toDouble (325 / 4) = 325 / 4"
  using toDouble_normal [of "6" "325 / 4"] by (simp add: roundTiesToEven_def Let_def)

lemma round_1183: "toDouble (325 / 8) = 325 / 8"
  using toDouble_normal [of "5" "325 / 8"] by (simp add: roundTiesToEven_def Let_def)

lemma round_1184: "toDouble (13 / 32) = 13 / 32"
  using toDouble_normal [of "-2" "13 / 32"] by (simp add: roundTiesToEven_def Let_def)

lemma round_1185: "toDouble (3315 / 32) = 3315 / 32"
  using toDouble_normal [of "6" "3315 / 32"] by (simp add: roundTiesToEven_def Let_def)

lemma rgb_of_hsl_96:
  "hslToRgb \<lparr> h = 0, s = 0, l = 325 / 8 \<rparr> =
     \<lparr> r = 104, g = 104, b = 104 \<rparr>"
  unfolding hslToRgb_def hue2rgb_def Let_def
  by (simp add: mathRound_def addD_def subD_def mulD_def divD_def toDouble_zero toDouble_minus
      round_1184 round_1185)

lemma gamma_104:
  "138431615 / 1000000000 \<le> gammaCorrect (104 / 255) \<and> gammaCorrect (104 / 255) \<le> 138431616 / 1000000000"
  by (rule gammaCorrect_between) (simp_all add: power_divide divide_le_eq le_divide_eq)

lemma lum_686868:
  "138431615 / 1000000000 \<le> luminanceOfRgb \<lparr> r = 104, g = 104, b = 104 \<rparr> \<and> luminanceOfRgb \<lparr> r = 104, g = 104, b = 104 \<rparr> \<le> 138431616 / 1000000000"
  using gamma_104 by (simp add: luminanceOfRgb_def)

lemma ratio_686868_1F1F1F_large:
  "\<not> LARGE_TEXT_THRESHOLD \<le> ratioOfRgb \<lparr> r = 104, g = 104, b = 104 \<rparr> \<lparr> r = 31, g = 31, b = 31 \<rparr>"
  by (rule ratio_lt_from_bounds [OF lum_686868 lum_1F1F1F]) (simp_all add: LARGE_TEXT_THRESHOLD_def NORMAL_TEXT_THRESHOLD_def EPSILON_def)

lemma canon_686868: "canonRgb \<lparr> r = 104, g = 104, b = 104 \<rparr> = \<lparr> r = 104, g = 104, b = 104 \<rparr>"
  by (simp add: canonRgb_def channelByte_def mathRound_def)

lemma half_fg_lighten_step_5:
  "searchBody \<lparr> h = 0, s = 0, l = 0 \<rparr> \<lparr> r = 31, g = 31, b = 31 \<rparr> LARGE_TEXT_THRESHOLD True True
     \<lparr> minL = 75 / 2, maxL = 175 / 4, bestRgb = \<lparr> r = 112, g = 112, b = 112 \<rparr>,
       bestRatio = ratioOfRgb \<lparr> r = 112, g = 112, b = 112 \<rparr> \<lparr> r = 31, g = 31, b = 31 \<rparr>, iterationCount = 4 \<rparr> =
   Inr \<lparr> minL = 325 / 8, maxL = 175 / 4, bestRgb = \<lparr> r = 112, g = 112, b = 112 \<rparr>,
       bestRatio = ratioOfRgb \<lparr> r = 112, g = 112, b = 112 \<rparr> \<lparr> r = 31, g = 31, b = 31 \<rparr>, iterationCount = 5 \<rparr>"
  unfolding searchBody_def Let_def
  by (simp add: bindE_def contrastRatio_rgbToHex addD_def divD_def toDouble_zero
      round_1182 round_1183 rgb_of_hsl_96 canon_686868 canon_1F1F1F ratio_686868_1F1F1F_large)

lemma round_1186: "toDouble (25 / 8) = 25 / 8"
  using toDouble_normal [of "1" "25 / 8"] by (simp add: roundTiesToEven_def Let_def)

lemma round_1187: "toDouble (675 / 8) = 675 / 8"
  using toDouble_normal [of "6" "675 / 8"] by (simp add: roundTiesToEven_def Let_def)

lemma round_1188: "toDouble (675 / 16) = 675 / 16"
  using toDouble_normal [of "5" "675 / 16"] by (simp add: roundTiesToEven_def Let_def)

lemma round_1189: "toDouble (27 / 64) = 27 / 64"
  using toDouble_normal [of "-2" "27 / 64"] by (simp add: roundTiesToEven_def Let_def)

lemma round_1190: "toDouble (6885 / 64) = 6885 / 64"
  using toDouble_normal [of "6" "6885 / 64"] by (simp add: roundTiesToEven_def Let_def)

lemma rgb_of_hsl_97:
  "hslToRgb \<lparr> h = 0, s = 0, l = 675 / 16 \<rparr> =
     \<lparr> r = 108, g = 108, b = 108 \<rparr>"
  unfolding hslToRgb_def hue2rgb_def Let_def
  by (simp add: mathRound_def addD_def subD_def mulD_def divD_def toDouble_zero toDouble_minus
      round_1189 round_1190)

lemma gamma_108:
  "149959789 / 1000000000 \<le> gammaCorrect (108 / 255) \<and> gammaCorrect (108 / 255) \<le> 149959790 / 1000000000"
  by (rule gammaCorrect_between) (simp_all add: power_divide divide_le_eq le_divide_eq)

lemma lum_6C6C6C:
  "149959789 / 1000000000 \<le> luminanceOfRgb \<lparr> r = 108, g = 108, b = 108 \<rparr> \<and> luminanceOfRgb \<lparr> r = 108, g = 108, b = 108 \<rparr> \<le> 149959790 / 1000000000"
  using gamma_108 by (simp add: luminanceOfRgb_def)

lemma ratio_6C6C6C_1F1F1F_large:
  "LARGE_TEXT_THRESHOLD \<le> ratioOfRgb \<lparr> r = 108, g = 108, b = 108 \<rparr> \<lparr> r = 31, g = 31, b = 31 \<rparr>"
  by (rule ratio_ge_from_bounds [OF lum_6C6C6C lum_1F1F1F]) (simp_all add: LARGE_TEXT_THRESHOLD_def NORMAL_TEXT_THRESHOLD_def EPSILON_def)

lemma canon_6C6C6C: "canonRgb \<lparr> r = 108, g = 108, b = 108 \<rparr> = \<lparr> r = 108, g = 108, b = 108 \<rparr>"
  by (simp add: canonRgb_def channelByte_def mathRound_def)

lemma half_fg_lighten_step_6:
  "searchBody \<lparr> h = 0, s = 0, l = 0 \<rparr> \<lparr> r = 31, g = 31, b = 31 \<rparr> LARGE_TEXT_THRESHOLD True True
     \<lparr> minL = 325 / 8, maxL = 175 / 4, bestRgb = \<lparr> r = 112, g = 112, b = 112 \<rparr>,
       bestRatio = ratioOfRgb \<lparr> r = 112, g = 112, b = 112 \<rparr> \<lparr> r = 31, g = 31, b = 31 \<rparr>, iterationCount = 5 \<rparr> =
   Inr \<lparr> minL = 325 / 8, maxL = 675 / 16, bestRgb = \<lparr> r = 108, g = 108, b = 108 \<rparr>,
       bestRatio = ratioOfRgb \<lparr> r = 108, g = 108, b = 108 \<rparr> \<lparr> r = 31, g = 31, b = 31 \<rparr>, iterationCount = 6 \<rparr>"
  unfolding searchBody_def Let_def
  by (simp add: bindE_def contrastRatio_rgbToHex addD_def divD_def toDouble_zero
      round_1187 round_1188 rgb_of_hsl_97 canon_6C6C6C canon_1F1F1F ratio_6C6C6C_1F1F1F_large)

lemma round_1191: "toDouble (25 / 16) = 25 / 16"
  using toDouble_normal [of "0" "25 / 16"] by (simp add: roundTiesToEven_def Let_def)

lemma round_1192: "toDouble (1325 / 16) = 1325 / 16"
  using toDouble_normal [of "6" "1325 / 16"] by (simp add: roundTiesToEven_def Let_def)

lemma round_1193: "toDouble (1325 / 32) = 1325 / 32"
  using toDouble_normal [of "5" "1325 / 32"] by (simp add: roundTiesToEven_def Let_def)

lemma round_1194: "toDouble (53 / 128) = 53 / 128"
  using toDouble_normal [of "-2" "53 / 128"] by (simp add: roundTiesToEven_def Let_def)

lemma round_1195: "toDouble (13515 / 128) = 13515 / 128"
  using toDouble_normal [of "6" "13515 / 128"] by (simp add: roundTiesToEven_def Let_def)

lemma rgb_of_hsl_98:
  "hslToRgb \<lparr> h = 0, s = 0, l = 1325 / 32 \<rparr> =
     \<lparr> r = 106, g = 106, b = 106 \<rparr>"
  unfolding hslToRgb_def hue2rgb_def Let_def
  by (simp add: mathRound_def addD_def subD_def mulD_def divD_def toDouble_zero toDouble_minus
      round_1194 round_1195)

lemma gamma_106:
  "144128470 / 1000000000 \<le> gammaCorrect (106 / 255) \<and> gammaCorrect (106 / 255) \<le> 144128471 / 1000000000"
  by (rule gammaCorrect_between) (simp_all add: power_divide divide_le_eq le_divide_eq)

lemma lum_6A6A6A:
  "144128470 / 1000000000 \<le> luminanceOfRgb \<lparr> r = 106, g = 106, b = 106 \<rparr> \<and> luminanceOfRgb \<lparr> r = 106, g = 106, b = 106 \<rparr> \<le> 144128471 / 1000000000"
  using gamma_106 by (simp add: luminanceOfRgb_def)

lemma ratio_6A6A6A_1F1F1F_large:
  "LARGE_TEXT_THRESHOLD \<le> ratioOfRgb \<lparr> r = 106, g = 106, b = 106 \<rparr> \<lparr> r = 31, g = 31, b = 31 \<rparr>"
  by (rule ratio_ge_from_bounds [OF lum_6A6A6A lum_1F1F1F]) (simp_all add: LARGE_TEXT_THRESHOLD_def NORMAL_TEXT_THRESHOLD_def EPSILON_def)

lemma canon_6A6A6A: "canonRgb \<lparr> r = 106, g = 106, b = 106 \<rparr> = \<lparr> r = 106, g = 106, b = 106 \<rparr>"
  by (simp add: canonRgb_def channelByte_def mathRound_def)

lemma half_fg_lighten_step_7:
  "searchBody \<lparr> h = 0, s = 0, l = 0 \<rparr> \<lparr> r = 31, g = 31, b = 31 \<rparr> LARGE_TEXT_THRESHOLD True True
     \<lparr> minL = 325 / 8, maxL = 675 / 16, bestRgb = \<lparr> r = 108, g = 108, b = 108 \<rparr>,
       bestRatio = ratioOfRgb \<lparr> r = 108, g = 108, b = 108 \<rparr> \<lparr> r = 31, g = 31, b = 31 \<rparr>, iterationCount = 6 \<rparr> =
   Inr \<lparr> minL = 325 / 8, maxL = 1325 / 32, bestRgb = \<lparr> r = 106, g = 106, b = 106 \<rparr>,
       bestRatio = ratioOfRgb \<lparr> r = 106, g = 106, b = 106 \<rparr> \<lparr> r = 31, g = 31, b = 31 \<rparr>, iterationCount = 7 \<rparr>"
  unfolding searchBody_def Let_def
  by (simp add: bindE_def contrastRatio_rgbToHex addD_def divD_def toDouble_zero
      round_1192 round_1193 rgb_of_hsl_98 canon_6A6A6A canon_1F1F1F ratio_6A6A6A_1F1F1F_large)

lemma round_1196: "toDouble (25 / 32) = 25 / 32"
  using toDouble_normal [of "-1" "25 / 32"] by (simp add: roundTiesToEven_def Let_def)

lemma half_fg_lighten_loop:
  "searchLoop 7 \<lparr> h = 0, s = 0, l = 0 \<rparr> \<lparr> r = 31, g = 31, b = 31 \<rparr> LARGE_TEXT_THRESHOLD True True
     \<lparr> minL = 0, maxL = 100, bestRgb = \<lparr> r = 0, g = 0, b = 0 \<rparr>,
       bestRatio = ratioOfRgb \<lparr> r = 0, g = 0, b = 0 \<rparr> \<lparr> r = 31, g = 31, b = 31 \<rparr>, iterationCount = 0 \<rparr> =
   Inr \<lparr> minL = 325 / 8, maxL = 1325 / 32, bestRgb = \<lparr> r = 106, g = 106, b = 106 \<rparr>,
       bestRatio = ratioOfRgb \<lparr> r = 106, g = 106, b = 106 \<rparr> \<lparr> r = 31, g = 31, b = 31 \<rparr>, iterationCount = 7 \<rparr>"
  by (simp add: searchLoop_numeral bindE_def subD_def toDouble_zero toDouble_minus
      round_15 round_1167 round_1169 round_1176 round_1181 round_1186 round_1191 round_1196
      half_fg_lighten_step_1 half_fg_lighten_step_2 half_fg_lighten_step_3 half_fg_lighten_step_4
      half_fg_lighten_step_5 half_fg_lighten_step_6 half_fg_lighten_step_7)

lemma canon_000000: "canonRgb \<lparr> r = 0, g = 0, b = 0 \<rparr> = \<lparr> r = 0, g = 0, b = 0 \<rparr>"
  by (simp add: canonRgb_def channelByte_def mathRound_def)

lemma half_fg_lighten_search:
  "binarySearchLightness \<lparr> h = 0, s = 0, l = 0 \<rparr> \<lparr> r = 31, g = 31, b = 31 \<rparr> LARGE_TEXT_THRESHOLD True True 7 =
   Inr \<lparr> rgb = \<lparr> r = 106, g = 106, b = 106 \<rparr>, ratio = ratioOfRgb \<lparr> r = 106, g = 106, b = 106 \<rparr> \<lparr> r = 31, g = 31, b = 31 \<rparr>, iterations = 7 \<rparr>"
  unfolding binarySearchLightness_def Let_def
  by (simp add: bindE_def contrastRatio_rgbToHex rgb_of_hsl_91 canon_000000 canon_1F1F1F half_fg_lighten_loop)

lemma ratio_000000_1F1F1F_large:
  "\<not> LARGE_TEXT_THRESHOLD \<le> ratioOfRgb \<lparr> r = 0, g = 0, b = 0 \<rparr> \<lparr> r = 31, g = 31, b = 31 \<rparr>"
  by (rule ratio_lt_from_bounds [OF lum_000000 lum_1F1F1F]) (simp_all add: LARGE_TEXT_THRESHOLD_def NORMAL_TEXT_THRESHOLD_def EPSILON_def)

lemma half_fg_darken_step_1:
  "searchBody \<lparr> h = 0, s = 0, l = 0 \<rparr> \<lparr> r = 31, g = 31, b = 31 \<rparr> LARGE_TEXT_THRESHOLD True False
     \<lparr> minL = 0, maxL = 0, bestRgb = \<lparr> r = 0, g = 0, b = 0 \<rparr>,
       bestRatio = ratioOfRgb \<lparr> r = 0, g = 0, b = 0 \<rparr> \<lparr> r = 31, g = 31, b = 31 \<rparr>, iterationCount = 0 \<rparr> =
   Inr \<lparr> minL = 0, maxL = 0, bestRgb = \<lparr> r = 0, g = 0, b = 0 \<rparr>,
       bestRatio = ratioOfRgb \<lparr> r = 0, g = 0, b = 0 \<rparr> \<lparr> r = 31, g = 31, b = 31 \<rparr>, iterationCount = Suc 0 \<rparr>"
  unfolding searchBody_def Let_def
  by (simp add: bindE_def contrastRatio_rgbToHex addD_def divD_def toDouble_zero
       rgb_of_hsl_91 canon_000000 canon_1F1F1F ratio_000000_1F1F1F_large)

lemma half_fg_darken_loop:
  "searchLoop 7 \<lparr> h = 0, s = 0, l = 0 \<rparr> \<lparr> r = 31, g = 31, b = 31 \<rparr> LARGE_TEXT_THRESHOLD True False
     \<lparr> minL = 0, maxL = 0, bestRgb = \<lparr> r = 0, g = 0, b = 0 \<rparr>,
       bestRatio = ratioOfRgb \<lparr> r = 0, g = 0, b = 0 \<rparr> \<lparr> r = 31, g = 31, b = 31 \<rparr>, iterationCount = 0 \<rparr> =
   Inr \<lparr> minL = 0, maxL = 0, bestRgb = \<lparr> r = 0, g = 0, b = 0 \<rparr>,
       bestRatio = ratioOfRgb \<lparr> r = 0, g = 0, b = 0 \<rparr> \<lparr> r = 31, g = 31, b = 31 \<rparr>, iterationCount = Suc 0 \<rparr>"
  by (simp add: searchLoop_numeral bindE_def subD_def toDouble_zero toDouble_minus
      round_15
      half_fg_darken_step_1)

lemma half_fg_darken_search:
  "binarySearchLightness \<lparr> h = 0, s = 0, l = 0 \<rparr> \<lparr> r = 31, g = 31, b = 31 \<rparr> LARGE_TEXT_THRESHOLD True False 7 =
   Inr \<lparr> rgb = \<lparr> r = 0, g = 0, b = 0 \<rparr>, ratio = ratioOfRgb \<lparr> r = 0, g = 0, b = 0 \<rparr> \<lparr> r = 31, g = 31, b = 31 \<rparr>, iterations = 1 \<rparr>"
  unfolding binarySearchLightness_def Let_def
  by (simp add: bindE_def contrastRatio_rgbToHex rgb_of_hsl_91 canon_000000 canon_1F1F1F half_fg_darken_loop)

lemma round_1197: "toDouble (427731582256389 / 3518437208883200) = 8759942804610847 / 72057594037927936"
  using toDouble_normal [of "-4" "427731582256389 / 3518437208883200"] by (simp add: roundTiesToEven_def Let_def)

lemma round_1198: "toDouble (2233785415175765985 / 72057594037927936) = 31"
  using toDouble_normal [of "4" "2233785415175765985 / 72057594037927936"] by (simp add: roundTiesToEven_def Let_def)

lemma rgb_of_hsl_99:
  "hslToRgb \<lparr> h = 0, s = 0, l = 427731582256389 / 35184372088832 \<rparr> =
     \<lparr> r = 31, g = 31, b = 31 \<rparr>"
  unfolding hslToRgb_def hue2rgb_def Let_def
  by (simp add: mathRound_def addD_def subD_def mulD_def divD_def toDouble_zero toDouble_minus
      round_1197 round_1198)

lemma round_1199: "toDouble (427731582256389 / 35184372088832) = 427731582256389 / 35184372088832"
  using toDouble_normal [of "3" "427731582256389 / 35184372088832"] by (simp add: roundTiesToEven_def Let_def)

lemma round_1200: "toDouble (427731582256389 / 70368744177664) = 427731582256389 / 70368744177664"
  using toDouble_normal [of "2" "427731582256389 / 70368744177664"] by (simp add: roundTiesToEven_def Let_def)

lemma round_1201: "toDouble (427731582256389 / 7036874417766400) = 8759942804610847 / 144115188075855872"
  using toDouble_normal [of "-5" "427731582256389 / 7036874417766400"] by (simp add: roundTiesToEven_def Let_def)

lemma round_1202: "toDouble (2233785415175765985 / 144115188075855872) = 31 / 2"
  using toDouble_normal [of "3" "2233785415175765985 / 144115188075855872"] by (simp add: roundTiesToEven_def Let_def)

lemma rgb_of_hsl_100:
  "hslToRgb \<lparr> h = 0, s = 0, l = 427731582256389 / 70368744177664 \<rparr> =
     \<lparr> r = 16, g = 16, b = 16 \<rparr>"
  unfolding hslToRgb_def hue2rgb_def Let_def
  by (simp add: mathRound_def addD_def subD_def mulD_def divD_def toDouble_zero toDouble_minus
      round_1201 round_1202)

lemma gamma_16:
  "5181516 / 1000000000 \<le> gammaCorrect (16 / 255) \<and> gammaCorrect (16 / 255) \<le> 5181517 / 1000000000"
  by (rule gammaCorrect_between) (simp_all add: power_divide divide_le_eq le_divide_eq)

lemma lum_101010:
  "5181516 / 1000000000 \<le> luminanceOfRgb \<lparr> r = 16, g = 16, b = 16 \<rparr> \<and> luminanceOfRgb \<lparr> r = 16, g = 16, b = 16 \<rparr> \<le> 5181517 / 1000000000"
  using gamma_16 by (simp add: luminanceOfRgb_def)

lemma ratio_000000_101010_large:
  "\<not> LARGE_TEXT_THRESHOLD \<le> ratioOfRgb \<lparr> r = 0, g = 0, b = 0 \<rparr> \<lparr> r = 16, g = 16, b = 16 \<rparr>"
  by (rule ratio_lt_from_bounds [OF lum_000000 lum_101010]) (simp_all add: LARGE_TEXT_THRESHOLD_def NORMAL_TEXT_THRESHOLD_def EPSILON_def)

lemma canon_101010: "canonRgb \<lparr> r = 16, g = 16, b = 16 \<rparr> = \<lparr> r = 16, g = 16, b = 16 \<rparr>"
  by (simp add: canonRgb_def channelByte_def mathRound_def)

lemma half_bg_darken_step_1:
  "searchBody \<lparr> h = 0, s = 0, l = 427731582256389 / 35184372088832 \<rparr> \<lparr> r = 0, g = 0, b = 0 \<rparr> LARGE_TEXT_THRESHOLD False False
     \<lparr> minL = 0, maxL = 427731582256389 / 35184372088832, bestRgb = \<lparr> r = 31, g = 31, b = 31 \<rparr>,
       bestRatio = ratioOfRgb \<lparr> r = 31, g = 31, b = 31 \<rparr> \<lparr> r = 0, g = 0, b = 0 \<rparr>, iterationCount = 0 \<rparr> =
   Inr \<lparr> minL = 0, maxL = 427731582256389 / 70368744177664, bestRgb = \<lparr> r = 31, g = 31, b = 31 \<rparr>,
       bestRatio = ratioOfRgb \<lparr> r = 31, g = 31, b = 31 \<rparr> \<lparr> r = 0, g = 0, b = 0 \<rparr>, iterationCount = Suc 0 \<rparr>"
  unfolding searchBody_def Let_def
  by (simp add: bindE_def contrastRatio_rgbToHex addD_def divD_def toDouble_zero
      round_1199 round_1200 rgb_of_hsl_100 canon_101010 canon_000000 ratio_000000_101010_large)

lemma round_1203: "toDouble (427731582256389 / 140737488355328) = 427731582256389 / 140737488355328"
  using toDouble_normal [of "1" "427731582256389 / 140737488355328"] by (simp add: roundTiesToEven_def Let_def)

lemma round_1204: "toDouble (427731582256389 / 14073748835532800) = 8759942804610847 / 288230376151711744"
  using toDouble_normal [of "-6" "427731582256389 / 14073748835532800"] by (simp add: roundTiesToEven_def Let_def)

lemma round_1205: "toDouble (2233785415175765985 / 288230376151711744) = 31 / 4"
  using toDouble_normal [of "2" "2233785415175765985 / 288230376151711744"] by (simp add: roundTiesToEven_def Let_def)

lemma rgb_of_hsl_101:
  "hslToRgb \<lparr> h = 0, s = 0, l = 427731582256389 / 140737488355328 \<rparr> =
     \<lparr> r = 8, g = 8, b = 8 \<rparr>"
  unfolding hslToRgb_def hue2rgb_def Let_def
  by (simp add: mathRound_def addD_def subD_def mulD_def divD_def toDouble_zero toDouble_minus
      round_1204 round_1205)

lemma lum_080808:
  "2428215 / 1000000000 \<le> luminanceOfRgb \<lparr> r = 8, g = 8, b = 8 \<rparr> \<and> luminanceOfRgb \<lparr> r = 8, g = 8, b = 8 \<rparr> \<le> 2428216 / 1000000000"
  using gamma_8 by (simp add: luminanceOfRgb_def)

lemma ratio_000000_080808_large:
  "\<not> LARGE_TEXT_THRESHOLD \<le> ratioOfRgb \<lparr> r = 0, g = 0, b = 0 \<rparr> \<lparr> r = 8, g = 8, b = 8 \<rparr>"
  by (rule ratio_lt_from_bounds [OF lum_000000 lum_080808]) (simp_all add: LARGE_TEXT_THRESHOLD_def NORMAL_TEXT_THRESHOLD_def EPSILON_def)

lemma canon_080808: "canonRgb \<lparr> r = 8, g = 8, b = 8 \<rparr> = \<lparr> r = 8, g = 8, b = 8 \<rparr>"
  by (simp add: canonRgb_def channelByte_def mathRound_def)

lemma half_bg_darken_step_2:
  "searchBody \<lparr> h = 0, s = 0, l = 427731582256389 / 35184372088832 \<rparr> \<lparr> r = 0, g = 0, b = 0 \<rparr> LARGE_TEXT_THRESHOLD False False
     \<lparr> minL = 0, maxL = 427731582256389 / 70368744177664, bestRgb = \<lparr> r = 31, g = 31, b = 31 \<rparr>,
       bestRatio = ratioOfRgb \<lparr> r = 31, g = 31, b = 31 \<rparr> \<lparr> r = 0, g = 0, b = 0 \<rparr>, iterationCount = Suc 0 \<rparr> =
   Inr \<lparr> minL = 0, maxL = 427731582256389 / 140737488355328, bestRgb = \<lparr> r = 31, g = 31, b = 31 \<rparr>,
       bestRatio = ratioOfRgb \<lparr> r = 31, g = 31, b = 31 \<rparr> \<lparr> r = 0, g = 0, b = 0 \<rparr>, iterationCount = 2 \<rparr>"
  unfolding searchBody_def Let_def
  by (simp add: bindE_def contrastRatio_rgbToHex addD_def divD_def toDouble_zero
      round_1200 round_1203 rgb_of_hsl_101 canon_080808 canon_000000 ratio_000000_080808_large)

lemma round_1206: "toDouble (427731582256389 / 281474976710656) = 427731582256389 / 281474976710656"
  using toDouble_normal [of "0" "427731582256389 / 281474976710656"] by (simp add: roundTiesToEven_def Let_def)

lemma round_1207: "toDouble (427731582256389 / 28147497671065600) = 8759942804610847 / 576460752303423488"
  using toDouble_normal [of "-7" "427731582256389 / 28147497671065600"] by (simp add: roundTiesToEven_def Let_def)

lemma round_1208: "toDouble (2233785415175765985 / 576460752303423488) = 31 / 8"
  using toDouble_normal [of "1" "2233785415175765985 / 576460752303423488"] by (simp add: roundTiesToEven_def Let_def)

lemma rgb_of_hsl_102:
  "hslToRgb \<lparr> h = 0, s = 0, l = 427731582256389 / 281474976710656 \<rparr> =
     \<lparr> r = 4, g = 4, b = 4 \<rparr>"
  unfolding hslToRgb_def hue2rgb_def Let_def
  by (simp add: mathRound_def addD_def subD_def mulD_def divD_def toDouble_zero toDouble_minus
      round_1207 round_1208)

lemma gamma_4:
  "1214107 / 1000000000 \<le> gammaCorrect (4 / 255) \<and> gammaCorrect (4 / 255) \<le> 1214108 / 1000000000"
  by (simp add: gammaCorrect_def)

lemma lum_040404:
  "1214107 / 1000000000 \<le> luminanceOfRgb \<lparr> r = 4, g = 4, b = 4 \<rparr> \<and> luminanceOfRgb \<lparr> r = 4, g = 4, b = 4 \<rparr> \<le> 1214108 / 1000000000"
  using gamma_4 by (simp add: luminanceOfRgb_def)

lemma ratio_000000_040404_large:
  "\<not> LARGE_TEXT_THRESHOLD \<le> ratioOfRgb \<lparr> r = 0, g = 0, b = 0 \<rparr> \<lparr> r = 4, g = 4, b = 4 \<rparr>"
  by (rule ratio_lt_from_bounds [OF lum_000000 lum_040404]) (simp_all add: LARGE_TEXT_THRESHOLD_def NORMAL_TEXT_THRESHOLD_def EPSILON_def)

lemma canon_040404: "canonRgb \<lparr> r = 4, g = 4, b = 4 \<rparr> = \<lparr> r = 4, g = 4, b = 4 \<rparr>"
  by (simp add: canonRgb_def channelByte_def mathRound_def)

lemma half_bg_darken_step_3:
  "searchBody \<lparr> h = 0, s = 0, l = 427731582256389 / 35184372088832 \<rparr> \<lparr> r = 0, g = 0, b = 0 \<rparr> LARGE_TEXT_THRESHOLD False False
     \<lparr> minL = 0, maxL = 427731582256389 / 140737488355328, bestRgb = \<lparr> r = 31, g = 31, b = 31 \<rparr>,
       bestRatio = ratioOfRgb \<lparr> r = 31, g = 31, b = 31 \<rparr> \<lparr> r = 0, g = 0, b = 0 \<rparr>, iterationCount = 2 \<rparr> =
   Inr \<lparr> minL = 0, maxL = 427731582256389 / 281474976710656, bestRgb = \<lparr> r = 31, g = 31, b = 31 \<rparr>,
       bestRatio = ratioOfRgb \<lparr> r = 31, g = 31, b = 31 \<rparr> \<lparr> r = 0, g = 0, b = 0 \<rparr>, iterationCount = 3 \<rparr>"
  unfolding searchBody_def Let_def
  by (simp add: bindE_def contrastRatio_rgbToHex addD_def divD_def toDouble_zero
      round_1203 round_1206 rgb_of_hsl_102 canon_040404 canon_000000 ratio_000000_040404_large)

lemma round_1209: "toDouble (427731582256389 / 562949953421312) = 427731582256389 / 562949953421312"
  using toDouble_normal [of "-1" "427731582256389 / 562949953421312"] by (simp add: roundTiesToEven_def Let_def)

lemma round_1210: "toDouble (427731582256389 / 56294995342131200) = 8759942804610847 / 1152921504606846976"
  using toDouble_normal [of "-8" "427731582256389 / 56294995342131200"] by (simp add: roundTiesToEven_def Let_def)

lemma round_1211: "toDouble (2233785415175765985 / 1152921504606846976) = 31 / 16"
  using toDouble_normal [of "0" "2233785415175765985 / 1152921504606846976"] by (simp add: roundTiesToEven_def Let_def)

lemma rgb_of_hsl_103:
  "hslToRgb \<lparr> h = 0, s = 0, l = 427731582256389 / 562949953421312 \<rparr> =
     \<lparr> r = 2, g = 2, b = 2 \<rparr>"
  unfolding hslToRgb_def hue2rgb_def Let_def
  by (simp add: mathRound_def addD_def subD_def mulD_def divD_def toDouble_zero toDouble_minus
      round_1210 round_1211)

lemma gamma_2:
  "607053 / 1000000000 \<le> gammaCorrect (2 / 255) \<and> gammaCorrect (2 / 255) \<le> 607054 / 1000000000"
  by (simp add: gammaCorrect_def)

lemma lum_020202:
  "607053 / 1000000000 \<le> luminanceOfRgb \<lparr> r = 2, g = 2, b = 2 \<rparr> \<and> luminanceOfRgb \<lparr> r = 2, g = 2, b = 2 \<rparr> \<le> 607054 / 1000000000"
  using gamma_2 by (simp add: luminanceOfRgb_def)

lemma ratio_000000_020202_large:
  "\<not> LARGE_TEXT_THRESHOLD \<le> ratioOfRgb \<lparr> r = 0, g = 0, b = 0 \<rparr> \<lparr> r = 2, g = 2, b = 2 \<rparr>"
  by (rule ratio_lt_from_bounds [OF lum_000000 lum_020202]) (simp_all add: LARGE_TEXT_THRESHOLD_def NORMAL_TEXT_THRESHOLD_def EPSILON_def)

lemma canon_020202: "canonRgb \<lparr> r = 2, g = 2, b = 2 \<rparr> = \<lparr> r = 2, g = 2, b = 2 \<rparr>"
  by (simp add: canonRgb_def channelByte_def mathRound_def)

lemma half_bg_darken_step_4:
  "searchBody \<lparr> h = 0, s = 0, l = 427731582256389 / 35184372088832 \<rparr> \<lparr> r = 0, g = 0, b = 0 \<rparr> LARGE_TEXT_THRESHOLD False False
     \<lparr> minL = 0, maxL = 427731582256389 / 281474976710656, bestRgb = \<lparr> r = 31, g = 31, b = 31 \<rparr>,
       bestRatio = ratioOfRgb \<lparr> r = 31, g = 31, b = 31 \<rparr> \<lparr> r = 0, g = 0, b = 0 \<rparr>, iterationCount = 3 \<rparr> =
   Inr \<lparr> minL = 0, maxL = 427731582256389 / 562949953421312, bestRgb = \<lparr> r = 31, g = 31, b = 31 \<rparr>,
       bestRatio = ratioOfRgb \<lparr> r = 31, g = 31, b = 31 \<rparr> \<lparr> r = 0, g = 0, b = 0 \<rparr>, iterationCount = 4 \<rparr>"
  unfolding searchBody_def Let_def
  by (simp add: bindE_def contrastRatio_rgbToHex addD_def divD_def toDouble_zero
      round_1206 round_1209 rgb_of_hsl_103 canon_020202 canon_000000 ratio_000000_020202_large)

lemma round_1212: "toDouble (427731582256389 / 1125899906842624) = 427731582256389 / 1125899906842624"
  using toDouble_normal [of "-2" "427731582256389 / 1125899906842624"] by (simp add: roundTiesToEven_def Let_def)

lemma round_1213: "toDouble (427731582256389 / 112589990684262400) = 8759942804610847 / 2305843009213693952"
  using toDouble_normal [of "-9" "427731582256389 / 112589990684262400"] by (simp add: roundTiesToEven_def Let_def)

lemma round_1214: "toDouble (2233785415175765985 / 2305843009213693952) = 31 / 32"
  using toDouble_normal [of "-1" "2233785415175765985 / 2305843009213693952"] by (simp add: roundTiesToEven_def Let_def)

lemma rgb_of_hsl_104:
  "hslToRgb \<lparr> h = 0, s = 0, l = 427731582256389 / 1125899906842624 \<rparr> =
     \<lparr> r = 1, g = 1, b = 1 \<rparr>"
  unfolding hslToRgb_def hue2rgb_def Let_def
  by (simp add: mathRound_def addD_def subD_def mulD_def divD_def toDouble_zero toDouble_minus
      round_1213 round_1214)

lemma gamma_1:
  "303526 / 1000000000 \<le> gammaCorrect (1 / 255) \<and> gammaCorrect (1 / 255) \<le> 303527 / 1000000000"
  by (simp add: gammaCorrect_def)

lemma lum_010101:
  "303526 / 1000000000 \<le> luminanceOfRgb \<lparr> r = 1, g = 1, b = 1 \<rparr> \<and> luminanceOfRgb \<lparr> r = 1, g = 1, b = 1 \<rparr> \<le> 303527 / 1000000000"
  using gamma_1 by (simp add: luminanceOfRgb_def)

lemma ratio_000000_010101_large:
  "\<not> LARGE_TEXT_THRESHOLD \<le> ratioOfRgb \<lparr> r = 0, g = 0, b = 0 \<rparr> \<lparr> r = 1, g = 1, b = 1 \<rparr>"
  by (rule ratio_lt_from_bounds [OF lum_000000 lum_010101]) (simp_all add: LARGE_TEXT_THRESHOLD_def NORMAL_TEXT_THRESHOLD_def EPSILON_def)

lemma canon_010101: "canonRgb \<lparr> r = 1, g = 1, b = 1 \<rparr> = \<lparr> r = 1, g = 1, b = 1 \<rparr>"
  by (simp add: canonRgb_def channelByte_def mathRound_def)

lemma half_bg_darken_step_5:
  "searchBody \<lparr> h = 0, s = 0, l = 427731582256389 / 35184372088832 \<rparr> \<lparr> r = 0, g = 0, b = 0 \<rparr> LARGE_TEXT_THRESHOLD False False
     \<lparr> minL = 0, maxL = 427731582256389 / 562949953421312, bestRgb = \<lparr> r = 31, g = 31, b = 31 \<rparr>,
       bestRatio = ratioOfRgb \<lparr> r = 31, g = 31, b = 31 \<rparr> \<lparr> r = 0, g = 0, b = 0 \<rparr>, iterationCount = 4 \<rparr> =
   Inr \<lparr> minL = 0, maxL = 427731582256389 / 1125899906842624, bestRgb = \<lparr> r = 31, g = 31, b = 31 \<rparr>,
       bestRatio = ratioOfRgb \<lparr> r = 31, g = 31, b = 31 \<rparr> \<lparr> r = 0, g = 0, b = 0 \<rparr>, iterationCount = 5 \<rparr>"
  unfolding searchBody_def Let_def
  by (simp add: bindE_def contrastRatio_rgbToHex addD_def divD_def toDouble_zero
      round_1209 round_1212 rgb_of_hsl_104 canon_010101 canon_000000 ratio_000000_010101_large)

lemma round_1215: "toDouble (427731582256389 / 2251799813685248) = 427731582256389 / 2251799813685248"
  using toDouble_normal [of "-3" "427731582256389 / 2251799813685248"] by (simp add: roundTiesToEven_def Let_def)

lemma round_1216: "toDouble (427731582256389 / 225179981368524800) = 8759942804610847 / 4611686018427387904"
  using toDouble_normal [of "-10" "427731582256389 / 225179981368524800"] by (simp add: roundTiesToEven_def Let_def)

lemma round_1217: "toDouble (2233785415175765985 / 4611686018427387904) = 31 / 64"
  using toDouble_normal [of "-2" "2233785415175765985 / 4611686018427387904"] by (simp add: roundTiesToEven_def Let_def)

lemma rgb_of_hsl_105:
  "hslToRgb \<lparr> h = 0, s = 0, l = 427731582256389 / 2251799813685248 \<rparr> =
     \<lparr> r = 0, g = 0, b = 0 \<rparr>"
  unfolding hslToRgb_def hue2rgb_def Let_def
  by (simp add: mathRound_def addD_def subD_def mulD_def divD_def toDouble_zero toDouble_minus
      round_1216 round_1217)

lemma ratio_000000_000000_large:
  "\<not> LARGE_TEXT_THRESHOLD \<le> ratioOfRgb \<lparr> r = 0, g = 0, b = 0 \<rparr> \<lparr> r = 0, g = 0, b = 0 \<rparr>"
  by (rule ratio_lt_from_bounds [OF lum_000000 lum_000000]) (simp_all add: LARGE_TEXT_THRESHOLD_def NORMAL_TEXT_THRESHOLD_def EPSILON_def)

lemma half_bg_darken_step_6:
  "searchBody \<lparr> h = 0, s = 0, l = 427731582256389 / 35184372088832 \<rparr> \<lparr> r = 0, g = 0, b = 0 \<rparr> LARGE_TEXT_THRESHOLD False False
     \<lparr> minL = 0, maxL = 427731582256389 / 1125899906842624, bestRgb = \<lparr> r = 31, g = 31, b = 31 \<rparr>,
       bestRatio = ratioOfRgb \<lparr> r = 31, g = 31, b = 31 \<rparr> \<lparr> r = 0, g = 0, b = 0 \<rparr>, iterationCount = 5 \<rparr> =
   Inr \<lparr> minL = 0, maxL = 427731582256389 / 2251799813685248, bestRgb = \<lparr> r = 31, g = 31, b = 31 \<rparr>,
       bestRatio = ratioOfRgb \<lparr> r = 31, g = 31, b = 31 \<rparr> \<lparr> r = 0, g = 0, b = 0 \<rparr>, iterationCount = 6 \<rparr>"
  unfolding searchBody_def Let_def
  by (simp add: bindE_def contrastRatio_rgbToHex addD_def divD_def toDouble_zero
      round_1212 round_1215 rgb_of_hsl_105 canon_000000 canon_000000 ratio_000000_000000_large)

lemma round_1218: "toDouble (427731582256389 / 4503599627370496) = 427731582256389 / 4503599627370496"
  using toDouble_normal [of "-4" "427731582256389 / 4503599627370496"] by (simp add: roundTiesToEven_def Let_def)

lemma round_1219: "toDouble (427731582256389 / 450359962737049600) = 8759942804610847 / 9223372036854775808"
  using toDouble_normal [of "-11" "427731582256389 / 450359962737049600"] by (simp add: roundTiesToEven_def Let_def)

lemma round_1220: "toDouble (2233785415175765985 / 9223372036854775808) = 31 / 128"
  using toDouble_normal [of "-3" "2233785415175765985 / 9223372036854775808"] by (simp add: roundTiesToEven_def Let_def)

lemma rgb_of_hsl_106:
  "hslToRgb \<lparr> h = 0, s = 0, l = 427731582256389 / 4503599627370496 \<rparr> =
     \<lparr> r = 0, g = 0, b = 0 \<rparr>"
  unfolding hslToRgb_def hue2rgb_def Let_def
  by (simp add: mathRound_def addD_def subD_def mulD_def divD_def toDouble_zero toDouble_minus
      round_1219 round_1220)

lemma half_bg_darken_step_7:
  "searchBody \<lparr> h = 0, s = 0, l = 427731582256389 / 35184372088832 \<rparr> \<lparr> r = 0, g = 0, b = 0 \<rparr> LARGE_TEXT_THRESHOLD False False
     \<lparr> minL = 0, maxL = 427731582256389 / 2251799813685248, bestRgb = \<lparr> r = 31, g = 31, b = 31 \<rparr>,
       bestRatio = ratioOfRgb \<lparr> r = 31, g = 31, b = 31 \<rparr> \<lparr> r = 0, g = 0, b = 0 \<rparr>, iterationCount = 6 \<rparr> =
   Inr \<lparr> minL = 0, maxL = 427731582256389 / 4503599627370496, bestRgb = \<lparr> r = 31, g = 31, b = 31 \<rparr>,
       bestRatio = ratioOfRgb \<lparr> r = 31, g = 31, b = 31 \<rparr> \<lparr> r = 0, g = 0, b = 0 \<rparr>, iterationCount = 7 \<rparr>"
  unfolding searchBody_def Let_def
  by (simp add: bindE_def contrastRatio_rgbToHex addD_def divD_def toDouble_zero
      round_1215 round_1218 rgb_of_hsl_106 canon_000000 canon_000000 ratio_000000_000000_large)

lemma half_bg_darken_loop:
  "searchLoop 7 \<lparr> h = 0, s = 0, l = 427731582256389 / 35184372088832 \<rparr> \<lparr> r = 0, g = 0, b = 0 \<rparr> LARGE_TEXT_THRESHOLD False False
     \<lparr> minL = 0, maxL = 427731582256389 / 35184372088832, bestRgb = \<lparr> r = 31, g = 31, b = 31 \<rparr>,
       bestRatio = ratioOfRgb \<lparr> r = 31, g = 31, b = 31 \<rparr> \<lparr> r = 0, g = 0, b = 0 \<rparr>, iterationCount = 0 \<rparr> =
   Inr \<lparr> minL = 0, maxL = 427731582256389 / 4503599627370496, bestRgb = \<lparr> r = 31, g = 31, b = 31 \<rparr>,
       bestRatio = ratioOfRgb \<lparr> r = 31, g = 31, b = 31 \<rparr> \<lparr> r = 0, g = 0, b = 0 \<rparr>, iterationCount = 7 \<rparr>"
  by (simp add: searchLoop_numeral bindE_def subD_def toDouble_zero toDouble_minus
      round_15 round_1200 round_1203 round_1206 round_1209 round_1212 round_1215 round_1218
      half_bg_darken_step_1 half_bg_darken_step_2 half_bg_darken_step_3 half_bg_darken_step_4
      half_bg_darken_step_5 half_bg_darken_step_6 half_bg_darken_step_7)

lemma half_bg_darken_search:
  "binarySearchLightness \<lparr> h = 0, s = 0, l = 427731582256389 / 35184372088832 \<rparr> \<lparr> r = 0, g = 0, b = 0 \<rparr> LARGE_TEXT_THRESHOLD False False 7 =
   Inr \<lparr> rgb = \<lparr> r = 31, g = 31, b = 31 \<rparr>, ratio = ratioOfRgb \<lparr> r = 31, g = 31, b = 31 \<rparr> \<lparr> r = 0, g = 0, b = 0 \<rparr>, iterations = 7 \<rparr>"
  unfolding binarySearchLightness_def Let_def
  by (simp add: bindE_def contrastRatio_rgbToHex rgb_of_hsl_99 canon_1F1F1F canon_000000 half_bg_darken_loop)

lemma round_1221: "toDouble (3946168791139589 / 35184372088832) = 3946168791139589 / 35184372088832"
  using toDouble_normal [of "6" "3946168791139589 / 35184372088832"] by (simp add: roundTiesToEven_def Let_def)

lemma round_1222: "toDouble (3946168791139589 / 70368744177664) = 3946168791139589 / 70368744177664"
  using toDouble_normal [of "5" "3946168791139589 / 70368744177664"] by (simp add: roundTiesToEven_def Let_def)

lemma round_1223: "toDouble (3946168791139589 / 7036874417766400) = 2525548026329337 / 4503599627370496"
  using toDouble_normal [of "-1" "3946168791139589 / 7036874417766400"] by (simp add: roundTiesToEven_def Let_def)

lemma round_1224: "toDouble (644014746713980935 / 4503599627370496) = 143"
  using toDouble_normal [of "7" "644014746713980935 / 4503599627370496"] by (simp add: roundTiesToEven_def Let_def)

lemma rgb_of_hsl_107:
  "hslToRgb \<lparr> h = 0, s = 0, l = 3946168791139589 / 70368744177664 \<rparr> =
     \<lparr> r = 143, g = 143, b = 143 \<rparr>"
  unfolding hslToRgb_def hue2rgb_def Let_def
  by (simp add: mathRound_def addD_def subD_def mulD_def divD_def toDouble_zero toDouble_minus
      round_1223 round_1224)

lemma gamma_143:
  "274677312 / 1000000000 \<le> gammaCorrect (143 / 255) \<and> gammaCorrect (143 / 255) \<le> 274677313 / 1000000000"
  by (rule gammaCorrect_between) (simp_all add: power_divide divide_le_eq le_divide_eq)

lemma lum_8F8F8F:
  "274677312 / 1000000000 \<le> luminanceOfRgb \<lparr> r = 143, g = 143, b = 143 \<rparr> \<and> luminanceOfRgb \<lparr> r = 143, g = 143, b = 143 \<rparr> \<le> 274677313 / 1000000000"
  using gamma_143 by (simp add: luminanceOfRgb_def)

lemma ratio_000000_8F8F8F_large:
  "LARGE_TEXT_THRESHOLD \<le> ratioOfRgb \<lparr> r = 0, g = 0, b = 0 \<rparr> \<lparr> r = 143, g = 143, b = 143 \<rparr>"
  by (rule ratio_ge_from_bounds [OF lum_000000 lum_8F8F8F]) (simp_all add: LARGE_TEXT_THRESHOLD_def NORMAL_TEXT_THRESHOLD_def EPSILON_def)

lemma canon_8F8F8F: "canonRgb \<lparr> r = 143, g = 143, b = 143 \<rparr> = \<lparr> r = 143, g = 143, b = 143 \<rparr>"
  by (simp add: canonRgb_def channelByte_def mathRound_def)

lemma half_bg_lighten_step_1:
  "searchBody \<lparr> h = 0, s = 0, l = 427731582256389 / 35184372088832 \<rparr> \<lparr> r = 0, g = 0, b = 0 \<rparr> LARGE_TEXT_THRESHOLD False True
     \<lparr> minL = 427731582256389 / 35184372088832, maxL = 100, bestRgb = \<lparr> r = 31, g = 31, b = 31 \<rparr>,
       bestRatio = ratioOfRgb \<lparr> r = 31, g = 31, b = 31 \<rparr> \<lparr> r = 0, g = 0, b = 0 \<rparr>, iterationCount = 0 \<rparr> =
   Inr \<lparr> minL = 427731582256389 / 35184372088832, maxL = 3946168791139589 / 70368744177664, bestRgb = \<lparr> r = 143, g = 143, b = 143 \<rparr>,
       bestRatio = ratioOfRgb \<lparr> r = 0, g = 0, b = 0 \<rparr> \<lparr> r = 143, g = 143, b = 143 \<rparr>, iterationCount = Suc 0 \<rparr>"
  unfolding searchBody_def Let_def
  by (simp add: bindE_def contrastRatio_rgbToHex addD_def divD_def toDouble_zero
      round_1221 round_1222 rgb_of_hsl_107 canon_8F8F8F canon_000000 ratio_000000_8F8F8F_large)

lemma round_1225: "toDouble (3090705626626811 / 70368744177664) = 3090705626626811 / 70368744177664"
  using toDouble_normal [of "5" "3090705626626811 / 70368744177664"] by (simp add: roundTiesToEven_def Let_def)

lemma round_1226: "toDouble (4801631955652367 / 70368744177664) = 4801631955652367 / 70368744177664"
  using toDouble_normal [of "6" "4801631955652367 / 70368744177664"] by (simp add: roundTiesToEven_def Let_def)

lemma round_1227: "toDouble (4801631955652367 / 140737488355328) = 4801631955652367 / 140737488355328"
  using toDouble_normal [of "5" "4801631955652367 / 140737488355328"] by (simp add: roundTiesToEven_def Let_def)

lemma round_1228: "toDouble (4801631955652367 / 14073748835532800) = 3073044451617515 / 9007199254740992"
  using toDouble_normal [of "-2" "4801631955652367 / 14073748835532800"] by (simp add: roundTiesToEven_def Let_def)

lemma round_1229: "toDouble (783626335162466325 / 9007199254740992) = 87"
  using toDouble_normal [of "6" "783626335162466325 / 9007199254740992"] by (simp add: roundTiesToEven_def Let_def)

lemma rgb_of_hsl_108:
  "hslToRgb \<lparr> h = 0, s = 0, l = 4801631955652367 / 140737488355328 \<rparr> =
     \<lparr> r = 87, g = 87, b = 87 \<rparr>"
  unfolding hslToRgb_def hue2rgb_def Let_def
  by (simp add: mathRound_def addD_def subD_def mulD_def divD_def toDouble_zero toDouble_minus
      round_1228 round_1229)

lemma gamma_87:
  "95307466 / 1000000000 \<le> gammaCorrect (87 / 255) \<and> gammaCorrect (87 / 255) \<le> 95307467 / 1000000000"
  by (rule gammaCorrect_between) (simp_all add: power_divide divide_le_eq le_divide_eq)

lemma lum_575757:
  "95307466 / 1000000000 \<le> luminanceOfRgb \<lparr> r = 87, g = 87, b = 87 \<rparr> \<and> luminanceOfRgb \<lparr> r = 87, g = 87, b = 87 \<rparr> \<le> 95307467 / 1000000000"
  using gamma_87 by (simp add: luminanceOfRgb_def)

lemma ratio_000000_575757_large:
  "\<not> LARGE_TEXT_THRESHOLD \<le> ratioOfRgb \<lparr> r = 0, g = 0, b = 0 \<rparr> \<lparr> r = 87, g = 87, b = 87 \<rparr>"
  by (rule ratio_lt_from_bounds [OF lum_000000 lum_575757]) (simp_all add: LARGE_TEXT_THRESHOLD_def NORMAL_TEXT_THRESHOLD_def EPSILON_def)

lemma canon_575757: "canonRgb \<lparr> r = 87, g = 87, b = 87 \<rparr> = \<lparr> r = 87, g = 87, b = 87 \<rparr>"
  by (simp add: canonRgb_def channelByte_def mathRound_def)

lemma half_bg_lighten_step_2:
  "searchBody \<lparr> h = 0, s = 0, l = 427731582256389 / 35184372088832 \<rparr> \<lparr> r = 0, g = 0, b = 0 \<rparr> LARGE_TEXT_THRESHOLD False True
     \<lparr> minL = 427731582256389 / 35184372088832, maxL = 3946168791139589 / 70368744177664, bestRgb = \<lparr> r = 143, g = 143, b = 143 \<rparr>,
       bestRatio = ratioOfRgb \<lparr> r = 0, g = 0, b = 0 \<rparr> \<lparr> r = 143, g = 143, b = 143 \<rparr>, iterationCount = Suc 0 \<rparr> =
   Inr \<lparr> minL = 4801631955652367 / 140737488355328, maxL = 3946168791139589 / 70368744177664, bestRgb = \<lparr> r = 143, g = 143, b = 143 \<rparr>,
       bestRatio = ratioOfRgb \<lparr> r = 0, g = 0, b = 0 \<rparr> \<lparr> r = 143, g = 143, b = 143 \<rparr>, iterationCount = 2 \<rparr>"
  unfolding searchBody_def Let_def
  by (simp add: bindE_def contrastRatio_rgbToHex addD_def divD_def toDouble_zero
      round_1226 round_1227 rgb_of_hsl_108 canon_575757 canon_000000 ratio_000000_575757_large)

lemma round_1230: "toDouble (3090705626626811 / 140737488355328) = 3090705626626811 / 140737488355328"
  using toDouble_normal [of "4" "3090705626626811 / 140737488355328"] by (simp add: roundTiesToEven_def Let_def)

lemma round_1231: "toDouble (12693969537931545 / 140737488355328) = 1586746192241443 / 17592186044416"
  using toDouble_normal [of "6" "12693969537931545 / 140737488355328"] by (simp add: roundTiesToEven_def Let_def)

lemma round_1232: "toDouble (1586746192241443 / 35184372088832) = 1586746192241443 / 35184372088832"
  using toDouble_normal [of "5" "1586746192241443 / 35184372088832"] by (simp add: roundTiesToEven_def Let_def)

lemma round_1233: "toDouble (1586746192241443 / 3518437208883200) = 2031035126069047 / 4503599627370496"
  using toDouble_normal [of "-2" "1586746192241443 / 3518437208883200"] by (simp add: roundTiesToEven_def Let_def)

lemma round_1234: "toDouble (517913957147606985 / 4503599627370496) = 8092405580431359 / 70368744177664"
  using toDouble_normal [of "6" "517913957147606985 / 4503599627370496"] by (simp add: roundTiesToEven_def Let_def)

lemma rgb_of_hsl_109:
  "hslToRgb \<lparr> h = 0, s = 0, l = 1586746192241443 / 35184372088832 \<rparr> =
     \<lparr> r = 115, g = 115, b = 115 \<rparr>"
  unfolding hslToRgb_def hue2rgb_def Let_def
  by (simp add: mathRound_def addD_def subD_def mulD_def divD_def toDouble_zero toDouble_minus
      round_1233 round_1234)

lemma gamma_115:
  "171441100 / 1000000000 \<le> gammaCorrect (115 / 255) \<and> gammaCorrect (115 / 255) \<le> 171441101 / 1000000000"
  by (rule gammaCorrect_between) (simp_all add: power_divide divide_le_eq le_divide_eq)

lemma lum_737373:
  "171441100 / 1000000000 \<le> luminanceOfRgb \<lparr> r = 115, g = 115, b = 115 \<rparr> \<and> luminanceOfRgb \<lparr> r = 115, g = 115, b = 115 \<rparr> \<le> 171441101 / 1000000000"
  using gamma_115 by (simp add: luminanceOfRgb_def)

lemma ratio_000000_737373_large:
  "LARGE_TEXT_THRESHOLD \<le> ratioOfRgb \<lparr> r = 0, g = 0, b = 0 \<rparr> \<lparr> r = 115, g = 115, b = 115 \<rparr>"
  by (rule ratio_ge_from_bounds [OF lum_000000 lum_737373]) (simp_all add: LARGE_TEXT_THRESHOLD_def NORMAL_TEXT_THRESHOLD_def EPSILON_def)

lemma canon_737373: "canonRgb \<lparr> r = 115, g = 115, b = 115 \<rparr> = \<lparr> r = 115, g = 115, b = 115 \<rparr>"
  by (simp add: canonRgb_def channelByte_def mathRound_def)

lemma half_bg_lighten_step_3:
  "searchBody \<lparr> h = 0, s = 0, l = 427731582256389 / 35184372088832 \<rparr> \<lparr> r = 0, g = 0, b = 0 \<rparr> LARGE_TEXT_THRESHOLD False True
     \<lparr> minL = 4801631955652367 / 140737488355328, maxL = 3946168791139589 / 70368744177664, bestRgb = \<lparr> r = 143, g = 143, b = 143 \<rparr>,
       bestRatio = ratioOfRgb \<lparr> r = 0, g = 0, b = 0 \<rparr> \<lparr> r = 143, g = 143, b = 143 \<rparr>, iterationCount = 2 \<rparr> =
   Inr \<lparr> minL = 4801631955652367 / 140737488355328, maxL = 1586746192241443 / 35184372088832, bestRgb = \<lparr> r = 115, g = 115, b = 115 \<rparr>,
       bestRatio = ratioOfRgb \<lparr> r = 0, g = 0, b = 0 \<rparr> \<lparr> r = 115, g = 115, b = 115 \<rparr>, iterationCount = 3 \<rparr>"
  unfolding searchBody_def Let_def
  by (simp add: bindE_def contrastRatio_rgbToHex addD_def divD_def toDouble_zero
      round_1231 round_1232 rgb_of_hsl_109 canon_737373 canon_000000 ratio_000000_737373_large)

lemma round_1235: "toDouble (1545352813313405 / 140737488355328) = 1545352813313405 / 140737488355328"
  using toDouble_normal [of "3" "1545352813313405 / 140737488355328"] by (simp add: roundTiesToEven_def Let_def)

lemma round_1236: "toDouble (11148616724618139 / 140737488355328) = 2787154181154535 / 35184372088832"
  using toDouble_normal [of "6" "11148616724618139 / 140737488355328"] by (simp add: roundTiesToEven_def Let_def)

lemma round_1237: "toDouble (2787154181154535 / 70368744177664) = 2787154181154535 / 70368744177664"
  using toDouble_normal [of "5" "2787154181154535 / 70368744177664"] by (simp add: roundTiesToEven_def Let_def)

lemma round_1238: "toDouble (557430836230907 / 1407374883553280) = 3567557351877805 / 9007199254740992"
  using toDouble_normal [of "-2" "557430836230907 / 1407374883553280"] by (simp add: roundTiesToEven_def Let_def)

lemma rgb_of_hsl_110:
  "hslToRgb \<lparr> h = 0, s = 0, l = 2787154181154535 / 70368744177664 \<rparr> =
     \<lparr> r = 101, g = 101, b = 101 \<rparr>"
  unfolding hslToRgb_def hue2rgb_def Let_def
  by (simp add: mathRound_def addD_def subD_def mulD_def divD_def toDouble_zero toDouble_minus
      round_887 round_1238)

lemma lum_656565:
  "130136476 / 1000000000 \<le> luminanceOfRgb \<lparr> r = 101, g = 101, b = 101 \<rparr> \<and> luminanceOfRgb \<lparr> r = 101, g = 101, b = 101 \<rparr> \<le> 130136477 / 1000000000"
  using gamma_101 by (simp add: luminanceOfRgb_def)

lemma ratio_000000_656565_large:
  "LARGE_TEXT_THRESHOLD \<le> ratioOfRgb \<lparr> r = 0, g = 0, b = 0 \<rparr> \<lparr> r = 101, g = 101, b = 101 \<rparr>"
  by (rule ratio_ge_from_bounds [OF lum_000000 lum_656565]) (simp_all add: LARGE_TEXT_THRESHOLD_def NORMAL_TEXT_THRESHOLD_def EPSILON_def)

lemma canon_656565: "canonRgb \<lparr> r = 101, g = 101, b = 101 \<rparr> = \<lparr> r = 101, g = 101, b = 101 \<rparr>"
  by (simp add: canonRgb_def channelByte_def mathRound_def)

lemma half_bg_lighten_step_4:
  "searchBody \<lparr> h = 0, s = 0, l = 427731582256389 / 35184372088832 \<rparr> \<lparr> r = 0, g = 0, b = 0 \<rparr> LARGE_TEXT_THRESHOLD False True
     \<lparr> minL = 4801631955652367 / 140737488355328, maxL = 1586746192241443 / 35184372088832, bestRgb = \<lparr> r = 115, g = 115, b = 115 \<rparr>,
       bestRatio = ratioOfRgb \<lparr> r = 0, g = 0, b = 0 \<rparr> \<lparr> r = 115, g = 115, b = 115 \<rparr>, iterationCount = 3 \<rparr> =
   Inr \<lparr> minL = 4801631955652367 / 140737488355328, maxL = 2787154181154535 / 70368744177664, bestRgb = \<lparr> r = 101, g = 101, b = 101 \<rparr>,
       bestRatio = ratioOfRgb \<lparr> r = 0, g = 0, b = 0 \<rparr> \<lparr> r = 101, g = 101, b = 101 \<rparr>, iterationCount = 4 \<rparr>"
  unfolding searchBody_def Let_def
  by (simp add: bindE_def contrastRatio_rgbToHex addD_def divD_def toDouble_zero
      round_1236 round_1237 rgb_of_hsl_110 canon_656565 canon_000000 ratio_000000_656565_large)

lemma ratio_000000_5E5E5E_large:
  "LARGE_TEXT_THRESHOLD \<le> ratioOfRgb \<lparr> r = 0, g = 0, b = 0 \<rparr> \<lparr> r = 94, g = 94, b = 94 \<rparr>"
  by (rule ratio_ge_from_bounds [OF lum_000000 lum_5E5E5E]) (simp_all add: LARGE_TEXT_THRESHOLD_def NORMAL_TEXT_THRESHOLD_def EPSILON_def)

lemma half_bg_lighten_step_5:
  "searchBody \<lparr> h = 0, s = 0, l = 427731582256389 / 35184372088832 \<rparr> \<lparr> r = 0, g = 0, b = 0 \<rparr> LARGE_TEXT_THRESHOLD False True
     \<lparr> minL = 4801631955652367 / 140737488355328, maxL = 2787154181154535 / 70368744177664, bestRgb = \<lparr> r = 101, g = 101, b = 101 \<rparr>,
       bestRatio = ratioOfRgb \<lparr> r = 0, g = 0, b = 0 \<rparr> \<lparr> r = 101, g = 101, b = 101 \<rparr>, iterationCount = 4 \<rparr> =
   Inr \<lparr> minL = 4801631955652367 / 140737488355328, maxL = 2593985079490359 / 70368744177664, bestRgb = \<lparr> r = 94, g = 94, b = 94 \<rparr>,
       bestRatio = ratioOfRgb \<lparr> r = 0, g = 0, b = 0 \<rparr> \<lparr> r = 94, g = 94, b = 94 \<rparr>, iterationCount = 5 \<rparr>"
  unfolding searchBody_def Let_def
  by (simp add: bindE_def contrastRatio_rgbToHex addD_def divD_def toDouble_zero
      round_69 round_70 rgb_of_hsl_14 canon_5E5E5E canon_000000 ratio_000000_5E5E5E_large)

lemma round_1239: "toDouble (386338203328351 / 140737488355328) = 386338203328351 / 140737488355328"
  using toDouble_normal [of "1" "386338203328351 / 140737488355328"] by (simp add: roundTiesToEven_def Let_def)

lemma round_1240: "toDouble (9989602114633085 / 140737488355328) = 2497400528658271 / 35184372088832"
  using toDouble_normal [of "6" "9989602114633085 / 140737488355328"] by (simp add: roundTiesToEven_def Let_def)

lemma round_1241: "toDouble (2497400528658271 / 70368744177664) = 2497400528658271 / 70368744177664"
  using toDouble_normal [of "5" "2497400528658271 / 70368744177664"] by (simp add: roundTiesToEven_def Let_def)

lemma round_1242: "toDouble (2497400528658271 / 7036874417766400) = 3196672676682587 / 9007199254740992"
  using toDouble_normal [of "-2" "2497400528658271 / 7036874417766400"] by (simp add: roundTiesToEven_def Let_def)

lemma round_1243: "toDouble (815151532554059685 / 9007199254740992) = 6368371348078591 / 70368744177664"
  using toDouble_normal [of "6" "815151532554059685 / 9007199254740992"] by (simp add: roundTiesToEven_def Let_def)

lemma rgb_of_hsl_111:
  "hslToRgb \<lparr> h = 0, s = 0, l = 2497400528658271 / 70368744177664 \<rparr> =
     \<lparr> r = 90, g = 90, b = 90 \<rparr>"
  unfolding hslToRgb_def hue2rgb_def Let_def
  by (simp add: mathRound_def addD_def subD_def mulD_def divD_def toDouble_zero toDouble_minus
      round_1242 round_1243)

lemma ratio_000000_5A5A5A_large:
  "LARGE_TEXT_THRESHOLD \<le> ratioOfRgb \<lparr> r = 0, g = 0, b = 0 \<rparr> \<lparr> r = 90, g = 90, b = 90 \<rparr>"
  by (rule ratio_ge_from_bounds [OF lum_000000 lum_5A5A5A]) (simp_all add: LARGE_TEXT_THRESHOLD_def NORMAL_TEXT_THRESHOLD_def EPSILON_def)

lemma half_bg_lighten_step_6:
  "searchBody \<lparr> h = 0, s = 0, l = 427731582256389 / 35184372088832 \<rparr> \<lparr> r = 0, g = 0, b = 0 \<rparr> LARGE_TEXT_THRESHOLD False True
     \<lparr> minL = 4801631955652367 / 140737488355328, maxL = 2593985079490359 / 70368744177664, bestRgb = \<lparr> r = 94, g = 94, b = 94 \<rparr>,
       bestRatio = ratioOfRgb \<lparr> r = 0, g = 0, b = 0 \<rparr> \<lparr> r = 94, g = 94, b = 94 \<rparr>, iterationCount = 5 \<rparr> =
   Inr \<lparr> minL = 4801631955652367 / 140737488355328, maxL = 2497400528658271 / 70368744177664, bestRgb = \<lparr> r = 90, g = 90, b = 90 \<rparr>,
       bestRatio = ratioOfRgb \<lparr> r = 0, g = 0, b = 0 \<rparr> \<lparr> r = 90, g = 90, b = 90 \<rparr>, iterationCount = 6 \<rparr>"
  unfolding searchBody_def Let_def
  by (simp add: bindE_def contrastRatio_rgbToHex addD_def divD_def toDouble_zero
      round_1240 round_1241 rgb_of_hsl_111 canon_5A5A5A canon_000000 ratio_000000_5A5A5A_large)

lemma round_1244: "toDouble (193169101664175 / 140737488355328) = 193169101664175 / 140737488355328"
  using toDouble_normal [of "0" "193169101664175 / 140737488355328"] by (simp add: roundTiesToEven_def Let_def)

lemma round_1245: "toDouble (9796433012968909 / 140737488355328) = 2449108253242227 / 35184372088832"
  using toDouble_normal [of "6" "9796433012968909 / 140737488355328"] by (simp add: roundTiesToEven_def Let_def)

lemma round_1246: "toDouble (2449108253242227 / 70368744177664) = 2449108253242227 / 70368744177664"
  using toDouble_normal [of "5" "2449108253242227 / 70368744177664"] by (simp add: roundTiesToEven_def Let_def)

lemma round_1247: "toDouble (2449108253242227 / 7036874417766400) = 6269717128300101 / 18014398509481984"
  using toDouble_normal [of "-2" "2449108253242227 / 7036874417766400"] by (simp add: roundTiesToEven_def Let_def)

lemma round_1248: "toDouble (1598777867716525755 / 18014398509481984) = 6245226045767679 / 70368744177664"
  using toDouble_normal [of "6" "1598777867716525755 / 18014398509481984"] by (simp add: roundTiesToEven_def Let_def)

lemma rgb_of_hsl_112:
  "hslToRgb \<lparr> h = 0, s = 0, l = 2449108253242227 / 70368744177664 \<rparr> =
     \<lparr> r = 89, g = 89, b = 89 \<rparr>"
  unfolding hslToRgb_def hue2rgb_def Let_def
  by (simp add: mathRound_def addD_def subD_def mulD_def divD_def toDouble_zero toDouble_minus
      round_1247 round_1248)

lemma gamma_89:
  "99898728 / 1000000000 \<le> gammaCorrect (89 / 255) \<and> gammaCorrect (89 / 255) \<le> 99898729 / 1000000000"
  by (rule gammaCorrect_between) (simp_all add: power_divide divide_le_eq le_divide_eq)

lemma lum_595959:
  "99898728 / 1000000000 \<le> luminanceOfRgb \<lparr> r = 89, g = 89, b = 89 \<rparr> \<and> luminanceOfRgb \<lparr> r = 89, g = 89, b = 89 \<rparr> \<le> 99898729 / 1000000000"
  using gamma_89 by (simp add: luminanceOfRgb_def)

lemma ratio_000000_595959_large:
  "\<not> LARGE_TEXT_THRESHOLD \<le> ratioOfRgb \<lparr> r = 0, g = 0, b = 0 \<rparr> \<lparr> r = 89, g = 89, b = 89 \<rparr>"
  by (rule ratio_lt_from_bounds [OF lum_000000 lum_595959]) (simp_all add: LARGE_TEXT_THRESHOLD_def NORMAL_TEXT_THRESHOLD_def EPSILON_def)

lemma canon_595959: "canonRgb \<lparr> r = 89, g = 89, b = 89 \<rparr> = \<lparr> r = 89, g = 89, b = 89 \<rparr>"
  by (simp add: canonRgb_def channelByte_def mathRound_def)

lemma half_bg_lighten_step_7:
  "searchBody \<lparr> h = 0, s = 0, l = 427731582256389 / 35184372088832 \<rparr> \<lparr> r = 0, g = 0, b = 0 \<rparr> LARGE_TEXT_THRESHOLD False True
     \<lparr> minL = 4801631955652367 / 140737488355328, maxL = 2497400528658271 / 70368744177664, bestRgb = \<lparr> r = 90, g = 90, b = 90 \<rparr>,
       bestRatio = ratioOfRgb \<lparr> r = 0, g = 0, b = 0 \<rparr> \<lparr> r = 90, g = 90, b = 90 \<rparr>, iterationCount = 6 \<rparr> =
   Inr \<lparr> minL = 2449108253242227 / 70368744177664, maxL = 2497400528658271 / 70368744177664, bestRgb = \<lparr> r = 90, g = 90, b = 90 \<rparr>,
       bestRatio = ratioOfRgb \<lparr> r = 0, g = 0, b = 0 \<rparr> \<lparr> r = 90, g = 90, b = 90 \<rparr>, iterationCount = 7 \<rparr>"
  unfolding searchBody_def Let_def
  by (simp add: bindE_def contrastRatio_rgbToHex addD_def divD_def toDouble_zero
      round_1245 round_1246 rgb_of_hsl_112 canon_595959 canon_000000 ratio_000000_595959_large)

lemma round_1249: "toDouble (12073068854011 / 17592186044416) = 12073068854011 / 17592186044416"
  using toDouble_normal [of "-1" "12073068854011 / 17592186044416"] by (simp add: roundTiesToEven_def Let_def)

lemma half_bg_lighten_loop:
  "searchLoop 7 \<lparr> h = 0, s = 0, l = 427731582256389 / 35184372088832 \<rparr> \<lparr> r = 0, g = 0, b = 0 \<rparr> LARGE_TEXT_THRESHOLD False True
     \<lparr> minL = 427731582256389 / 35184372088832, maxL = 100, bestRgb = \<lparr> r = 31, g = 31, b = 31 \<rparr>,
       bestRatio = ratioOfRgb \<lparr> r = 31, g = 31, b = 31 \<rparr> \<lparr> r = 0, g = 0, b = 0 \<rparr>, iterationCount = 0 \<rparr> =
   Inr \<lparr> minL = 2449108253242227 / 70368744177664, maxL = 2497400528658271 / 70368744177664, bestRgb = \<lparr> r = 90, g = 90, b = 90 \<rparr>,
       bestRatio = ratioOfRgb \<lparr> r = 0, g = 0, b = 0 \<rparr> \<lparr> r = 90, g = 90, b = 90 \<rparr>, iterationCount = 7 \<rparr>"
  by (simp add: searchLoop_numeral bindE_def subD_def toDouble_zero toDouble_minus
      round_15 round_1161 round_1225 round_1230 round_1235 round_1239 round_1244 round_1249
      half_bg_lighten_step_1 half_bg_lighten_step_2 half_bg_lighten_step_3 half_bg_lighten_step_4
      half_bg_lighten_step_5 half_bg_lighten_step_6 half_bg_lighten_step_7)

lemma half_bg_lighten_search:
  "binarySearchLightness \<lparr> h = 0, s = 0, l = 427731582256389 / 35184372088832 \<rparr> \<lparr> r = 0, g = 0, b = 0 \<rparr> LARGE_TEXT_THRESHOLD False True 7 =
   Inr \<lparr> rgb = \<lparr> r = 90, g = 90, b = 90 \<rparr>, ratio = ratioOfRgb \<lparr> r = 0, g = 0, b = 0 \<rparr> \<lparr> r = 90, g = 90, b = 90 \<rparr>, iterations = 7 \<rparr>"
  unfolding binarySearchLightness_def Let_def
  by (simp add: bindE_def contrastRatio_rgbToHex rgb_of_hsl_99 canon_1F1F1F canon_000000 half_bg_lighten_loop)

lemma half_candidates:
  "snapCandidates \<lparr> r = 0, g = 0, b = 0 \<rparr> \<lparr> r = 31, g = 31, b = 31 \<rparr> LARGE_TEXT_THRESHOLD =
   Inr [\<lparr> rgb = \<lparr> r = 106, g = 106, b = 106 \<rparr>, ratio = ratioOfRgb \<lparr> r = 106, g = 106, b = 106 \<rparr> \<lparr> r = 31, g = 31, b = 31 \<rparr>,
        iterations = 7, path = ''fg-lighten'' \<rparr>,
      \<lparr> rgb = \<lparr> r = 0, g = 0, b = 0 \<rparr>, ratio = ratioOfRgb \<lparr> r = 0, g = 0, b = 0 \<rparr> \<lparr> r = 31, g = 31, b = 31 \<rparr>,
        iterations = 1, path = ''fg-darken'' \<rparr>,
      \<lparr> rgb = \<lparr> r = 31, g = 31, b = 31 \<rparr>, ratio = ratioOfRgb \<lparr> r = 31, g = 31, b = 31 \<rparr> \<lparr> r = 0, g = 0, b = 0 \<rparr>,
        iterations = 7, path = ''bg-darken'' \<rparr>,
      \<lparr> rgb = \<lparr> r = 90, g = 90, b = 90 \<rparr>, ratio = ratioOfRgb \<lparr> r = 0, g = 0, b = 0 \<rparr> \<lparr> r = 90, g = 90, b = 90 \<rparr>,
        iterations = 7, path = ''bg-lighten'' \<rparr>]"
  unfolding snapCandidates_def Let_def
  by (simp add: bindE_def withPath_def hsl_of_000000 hsl_of_1F1F1F half_fg_lighten_search half_fg_darken_search half_bg_darken_search half_bg_lighten_search)

lemma ratio_6A6A6A_1F1F1F_large_eps:
  "LARGE_TEXT_THRESHOLD - EPSILON \<le> ratioOfRgb \<lparr> r = 106, g = 106, b = 106 \<rparr> \<lparr> r = 31, g = 31, b = 31 \<rparr>"
  by (rule ratio_ge_from_bounds [OF lum_6A6A6A lum_1F1F1F]) (simp_all add: LARGE_TEXT_THRESHOLD_def NORMAL_TEXT_THRESHOLD_def EPSILON_def)

lemma ratio_1F1F1F_000000_large_eps:
  "\<not> LARGE_TEXT_THRESHOLD - EPSILON \<le> ratioOfRgb \<lparr> r = 31, g = 31, b = 31 \<rparr> \<lparr> r = 0, g = 0, b = 0 \<rparr>"
  by (rule ratio_lt_from_bounds [OF lum_1F1F1F lum_000000]) (simp_all add: LARGE_TEXT_THRESHOLD_def NORMAL_TEXT_THRESHOLD_def EPSILON_def)

lemma ratio_000000_5A5A5A_large_eps:
  "LARGE_TEXT_THRESHOLD - EPSILON \<le> ratioOfRgb \<lparr> r = 0, g = 0, b = 0 \<rparr> \<lparr> r = 90, g = 90, b = 90 \<rparr>"
  by (rule ratio_ge_from_bounds [OF lum_000000 lum_5A5A5A]) (simp_all add: LARGE_TEXT_THRESHOLD_def NORMAL_TEXT_THRESHOLD_def EPSILON_def)

lemma half_passing:
  "filter (\<lambda>c. ratio c \<ge> LARGE_TEXT_THRESHOLD - EPSILON)
     [\<lparr> rgb = \<lparr> r = 106, g = 106, b = 106 \<rparr>, ratio = ratioOfRgb \<lparr> r = 106, g = 106, b = 106 \<rparr> \<lparr> r = 31, g = 31, b = 31 \<rparr>,
        iterations = 7, path = ''fg-lighten'' \<rparr>,
      \<lparr> rgb = \<lparr> r = 0, g = 0, b = 0 \<rparr>, ratio = ratioOfRgb \<lparr> r = 0, g = 0, b = 0 \<rparr> \<lparr> r = 31, g = 31, b = 31 \<rparr>,
        iterations = 1, path = ''fg-darken'' \<rparr>,
      \<lparr> rgb = \<lparr> r = 31, g = 31, b = 31 \<rparr>, ratio = ratioOfRgb \<lparr> r = 31, g = 31, b = 31 \<rparr> \<lparr> r = 0, g = 0, b = 0 \<rparr>,
        iterations = 7, path = ''bg-darken'' \<rparr>,
      \<lparr> rgb = \<lparr> r = 90, g = 90, b = 90 \<rparr>, ratio = ratioOfRgb \<lparr> r = 0, g = 0, b = 0 \<rparr> \<lparr> r = 90, g = 90, b = 90 \<rparr>,
        iterations = 7, path = ''bg-lighten'' \<rparr>] =
   [\<lparr> rgb = \<lparr> r = 106, g = 106, b = 106 \<rparr>, ratio = ratioOfRgb \<lparr> r = 106, g = 106, b = 106 \<rparr> \<lparr> r = 31, g = 31, b = 31 \<rparr>,
        iterations = 7, path = ''fg-lighten'' \<rparr>,
      \<lparr> rgb = \<lparr> r = 90, g = 90, b = 90 \<rparr>, ratio = ratioOfRgb \<lparr> r = 0, g = 0, b = 0 \<rparr> \<lparr> r = 90, g = 90, b = 90 \<rparr>,
        iterations = 7, path = ''bg-lighten'' \<rparr>]"
  by (simp add: ratio_6A6A6A_1F1F1F_large_eps ratio_000000_1F1F1F_large_eps ratio_1F1F1F_000000_large_eps ratio_000000_5A5A5A_large_eps)

lemma round_1250: "toDouble (106 / 255) = 7488338203941531 / 18014398509481984"
  using toDouble_normal [of "-2" "106 / 255"] by (simp add: roundTiesToEven_def Let_def)

lemma round_1251: "toDouble (7488338203941531 / 9007199254740992) = 7488338203941531 / 9007199254740992"
  using toDouble_normal [of "-1" "7488338203941531 / 9007199254740992"] by (simp add: roundTiesToEven_def Let_def)

lemma round_1252: "toDouble (7488338203941531 / 18014398509481984) = 7488338203941531 / 18014398509481984"
  using toDouble_normal [of "-2" "7488338203941531 / 18014398509481984"] by (simp add: roundTiesToEven_def Let_def)

lemma round_1253: "toDouble (187208455098538275 / 4503599627370496) = 5850264221829321 / 140737488355328"
  using toDouble_normal [of "5" "187208455098538275 / 4503599627370496"] by (simp add: roundTiesToEven_def Let_def)

lemma hsl_of_6A6A6A:
  "rgbToHsl \<lparr> r = 106, g = 106, b = 106 \<rparr> =
     \<lparr> h = 0, s = 0, l = 5850264221829321 / 140737488355328 \<rparr>"
  unfolding rgbToHsl_def Let_def
  by (simp add: addD_def subD_def mulD_def divD_def toDouble_zero toDouble_minus
      round_1250 round_1251 round_1252 round_1253)

lemma round_1254: "toDouble (6 / 17) = 6358023003346583 / 18014398509481984"
  using toDouble_normal [of "-2" "6 / 17"] by (simp add: roundTiesToEven_def Let_def)

lemma round_1255: "toDouble (6358023003346583 / 9007199254740992) = 6358023003346583 / 9007199254740992"
  using toDouble_normal [of "-1" "6358023003346583 / 9007199254740992"] by (simp add: roundTiesToEven_def Let_def)

lemma round_1256: "toDouble (6358023003346583 / 18014398509481984) = 6358023003346583 / 18014398509481984"
  using toDouble_normal [of "-2" "6358023003346583 / 18014398509481984"] by (simp add: roundTiesToEven_def Let_def)

lemma round_1257: "toDouble (158950575083664575 / 4503599627370496) = 2483602735682259 / 70368744177664"
  using toDouble_normal [of "5" "158950575083664575 / 4503599627370496"] by (simp add: roundTiesToEven_def Let_def)

lemma hsl_of_5A5A5A:
  "rgbToHsl \<lparr> r = 90, g = 90, b = 90 \<rparr> =
     \<lparr> h = 0, s = 0, l = 2483602735682259 / 70368744177664 \<rparr>"
  unfolding rgbToHsl_def Let_def
  by (simp add: addD_def subD_def mulD_def divD_def toDouble_zero toDouble_minus
      round_1254 round_1255 round_1256 round_1257)

lemma round_1258: "toDouble (5850264221829321 / 140737488355328) = 5850264221829321 / 140737488355328"
  using toDouble_normal [of "5" "5850264221829321 / 140737488355328"] by (simp add: roundTiesToEven_def Let_def)

lemma round_1259: "toDouble (1628139571169481 / 70368744177664) = 1628139571169481 / 70368744177664"
  using toDouble_normal [of "4" "1628139571169481 / 70368744177664"] by (simp add: roundTiesToEven_def Let_def)

lemma round_1260: "toDouble (2593985079490359 / 140737488355328) = 2593985079490359 / 140737488355328"
  using toDouble_normal [of "4" "2593985079490359 / 140737488355328"] by (simp add: roundTiesToEven_def Let_def)

lemma half_tie_zone:
  "similarCandidates (sortedByChange \<lparr> h = 0, s = 0, l = 0 \<rparr> \<lparr> h = 0, s = 0, l = 427731582256389 / 35184372088832 \<rparr>
     [\<lparr> rgb = \<lparr> r = 106, g = 106, b = 106 \<rparr>, ratio = ratioOfRgb \<lparr> r = 106, g = 106, b = 106 \<rparr> \<lparr> r = 31, g = 31, b = 31 \<rparr>,
        iterations = 7, path = ''fg-lighten'' \<rparr>,
      \<lparr> rgb = \<lparr> r = 90, g = 90, b = 90 \<rparr>, ratio = ratioOfRgb \<lparr> r = 0, g = 0, b = 0 \<rparr> \<lparr> r = 90, g = 90, b = 90 \<rparr>,
        iterations = 7, path = ''bg-lighten'' \<rparr>]) =
   [\<lparr> rgb = \<lparr> r = 90, g = 90, b = 90 \<rparr>, ratio = ratioOfRgb \<lparr> r = 0, g = 0, b = 0 \<rparr> \<lparr> r = 90, g = 90, b = 90 \<rparr>,
        iterations = 7, path = ''bg-lighten'',
        change = 1628139571169481 / 70368744177664 \<rparr>]"
  unfolding similarCandidates_def sortedByChange_def Let_def
  by (simp add: withChange_def startsWith_def
      subD_def toDouble_zero toDouble_minus hsl_of_6A6A6A hsl_of_5A5A5A
      round_1258 round_1259 round_1260)

lemma half_select:
  "selectBest largeTextOptions \<lparr> h = 0, s = 0, l = 0 \<rparr> \<lparr> h = 0, s = 0, l = 427731582256389 / 35184372088832 \<rparr> LARGE_TEXT_THRESHOLD
     [\<lparr> rgb = \<lparr> r = 106, g = 106, b = 106 \<rparr>, ratio = ratioOfRgb \<lparr> r = 106, g = 106, b = 106 \<rparr> \<lparr> r = 31, g = 31, b = 31 \<rparr>,
        iterations = 7, path = ''fg-lighten'' \<rparr>,
      \<lparr> rgb = \<lparr> r = 0, g = 0, b = 0 \<rparr>, ratio = ratioOfRgb \<lparr> r = 0, g = 0, b = 0 \<rparr> \<lparr> r = 31, g = 31, b = 31 \<rparr>,
        iterations = 1, path = ''fg-darken'' \<rparr>,
      \<lparr> rgb = \<lparr> r = 31, g = 31, b = 31 \<rparr>, ratio = ratioOfRgb \<lparr> r = 31, g = 31, b = 31 \<rparr> \<lparr> r = 0, g = 0, b = 0 \<rparr>,
        iterations = 7, path = ''bg-darken'' \<rparr>,
      \<lparr> rgb = \<lparr> r = 90, g = 90, b = 90 \<rparr>, ratio = ratioOfRgb \<lparr> r = 0, g = 0, b = 0 \<rparr> \<lparr> r = 90, g = 90, b = 90 \<rparr>,
        iterations = 7, path = ''bg-lighten'' \<rparr>] =
   (\<lparr> rgb = \<lparr> r = 90, g = 90, b = 90 \<rparr>, ratio = ratioOfRgb \<lparr> r = 0, g = 0, b = 0 \<rparr> \<lparr> r = 90, g = 90, b = 90 \<rparr>,
        iterations = 7, path = ''bg-lighten'' \<rparr>, False)"
  unfolding selectBest_def Let_def half_passing half_tie_zone
  by (simp add: tieBreak_def findOrFirst_def startsWith_def Candidate.truncate_def truthy_def largeTextOptions_def)

lemma half_snap:
  "snapToPassingColor ''#000000'' ''#1F1F1F'' largeTextOptions =
     Inr \<lparr> fg = ''#000000'', bg = ''#5A5A5A'',
         ratio = ratioOfRgb \<lparr> r = 0, g = 0, b = 0 \<rparr> \<lparr> r = 90, g = 90, b = 90 \<rparr>,
         clamped = Some False, adjusted = Some ''bg'', iterations = Some 7 \<rparr>"
proof -
  let ?cands = "[\<lparr> rgb = \<lparr> r = 106, g = 106, b = 106 \<rparr>, ratio = ratioOfRgb \<lparr> r = 106, g = 106, b = 106 \<rparr> \<lparr> r = 31, g = 31, b = 31 \<rparr>,
        iterations = 7, path = ''fg-lighten'' \<rparr>,
      \<lparr> rgb = \<lparr> r = 0, g = 0, b = 0 \<rparr>, ratio = ratioOfRgb \<lparr> r = 0, g = 0, b = 0 \<rparr> \<lparr> r = 31, g = 31, b = 31 \<rparr>,
        iterations = 1, path = ''fg-darken'' \<rparr>,
      \<lparr> rgb = \<lparr> r = 31, g = 31, b = 31 \<rparr>, ratio = ratioOfRgb \<lparr> r = 31, g = 31, b = 31 \<rparr> \<lparr> r = 0, g = 0, b = 0 \<rparr>,
        iterations = 7, path = ''bg-darken'' \<rparr>,
      \<lparr> rgb = \<lparr> r = 90, g = 90, b = 90 \<rparr>, ratio = ratioOfRgb \<lparr> r = 0, g = 0, b = 0 \<rparr> \<lparr> r = 90, g = 90, b = 90 \<rparr>,
        iterations = 7, path = ''bg-lighten'' \<rparr>]"
  let ?best = "\<lparr> rgb = \<lparr> r = 90, g = 90, b = 90 \<rparr>, ratio = ratioOfRgb \<lparr> r = 0, g = 0, b = 0 \<rparr> \<lparr> r = 90, g = 90, b = 90 \<rparr>,
        iterations = 7, path = ''bg-lighten'' \<rparr>"
  have T: "requiredThreshold largeTextOptions = LARGE_TEXT_THRESHOLD"
    by (simp add: requiredThreshold_def truthy_def largeTextOptions_def)
  have sound: "\<forall>c \<in> set ?cands. candidateSound \<lparr> r = 0, g = 0, b = 0 \<rparr> \<lparr> r = 31, g = 31, b = 31 \<rparr> c"
    using snapCandidates_returns [of "\<lparr> r = 0, g = 0, b = 0 \<rparr>" "\<lparr> r = 31, g = 31, b = 31 \<rparr>" LARGE_TEXT_THRESHOLD]
    by (simp add: half_candidates)
  have "snapToPassingColor ''#000000'' ''#1F1F1F'' largeTextOptions =
          Inr (resultOf \<lparr> r = 0, g = 0, b = 0 \<rparr> \<lparr> r = 31, g = 31, b = 31 \<rparr> ?best False)"
  proof (rule snap_searched [OF half_parse_fg half_parse_bg, where cands = ?cands])
    show "\<not> ratioOfRgb \<lparr> r = 0, g = 0, b = 0 \<rparr> \<lparr> r = 31, g = 31, b = 31 \<rparr> \<ge> requiredThreshold largeTextOptions - EPSILON"
      unfolding T by (rule ratio_000000_1F1F1F_large_eps)
    show "ratioOfRgb \<lparr> r = 0, g = 0, b = 0 \<rparr> \<lparr> r = 31, g = 31, b = 31 \<rparr> \<noteq> 1"
      by (rule ratio_000000_1F1F1F_not_1)
    show "snapCandidates \<lparr> r = 0, g = 0, b = 0 \<rparr> \<lparr> r = 31, g = 31, b = 31 \<rparr> (requiredThreshold largeTextOptions) = Inr ?cands"
      unfolding T by (rule half_candidates)
    show "\<forall>c \<in> set ?cands. candidateSound \<lparr> r = 0, g = 0, b = 0 \<rparr> \<lparr> r = 31, g = 31, b = 31 \<rparr> c"
      by (rule sound)
    show "selectBest largeTextOptions (rgbToHsl \<lparr> r = 0, g = 0, b = 0 \<rparr>) (rgbToHsl \<lparr> r = 31, g = 31, b = 31 \<rparr>) (requiredThreshold largeTextOptions) ?cands = (?best, False)"
      unfolding T hsl_of_000000 hsl_of_1F1F1F by (rule half_select)
    show "?best \<in> set ?cands"
      by simp
  qed
  then show ?thesis
    by (simp add: resultOf_def startsWith_def rgbToHexEval)
qed

subsection \<open>The boundary at 4.5: \<open>#767676\<close> and \<open>#777777\<close> on white\<close>

lemma gamma_118:
  "181164244 / 1000000000 \<le> gammaCorrect (118 / 255) \<and> gammaCorrect (118 / 255) \<le> 181164245 / 1000000000"
  by (rule gammaCorrect_between) (simp_all add: power_divide divide_le_eq le_divide_eq)

lemma lum_767676:
  "181164244 / 1000000000 \<le> luminanceOfRgb \<lparr> r = 118, g = 118, b = 118 \<rparr> \<and> luminanceOfRgb \<lparr> r = 118, g = 118, b = 118 \<rparr> \<le> 181164245 / 1000000000"
  using gamma_118 by (simp add: luminanceOfRgb_def)

lemma lum_FFFFFF:
  "1000000000 / 1000000000 \<le> luminanceOfRgb \<lparr> r = 255, g = 255, b = 255 \<rparr> \<and> luminanceOfRgb \<lparr> r = 255, g = 255, b = 255 \<rparr> \<le> 1000000001 / 1000000000"
  using gamma_255 by (simp add: luminanceOfRgb_def)

lemma ratio_767676_FFFFFF_normal_eps:
  "NORMAL_TEXT_THRESHOLD - EPSILON \<le> ratioOfRgb \<lparr> r = 118, g = 118, b = 118 \<rparr> \<lparr> r = 255, g = 255, b = 255 \<rparr>"
  by (rule ratio_ge_from_bounds [OF lum_767676 lum_FFFFFF]) (simp_all add: LARGE_TEXT_THRESHOLD_def NORMAL_TEXT_THRESHOLD_def EPSILON_def)

lemma gamma_119:
  "184474994 / 1000000000 \<le> gammaCorrect (119 / 255) \<and> gammaCorrect (119 / 255) \<le> 184474995 / 1000000000"
  by (rule gammaCorrect_between) (simp_all add: power_divide divide_le_eq le_divide_eq)

lemma lum_777777:
  "184474994 / 1000000000 \<le> luminanceOfRgb \<lparr> r = 119, g = 119, b = 119 \<rparr> \<and> luminanceOfRgb \<lparr> r = 119, g = 119, b = 119 \<rparr> \<le> 184474995 / 1000000000"
  using gamma_119 by (simp add: luminanceOfRgb_def)

lemma ratio_777777_FFFFFF_normal_eps:
  "\<not> NORMAL_TEXT_THRESHOLD - EPSILON \<le> ratioOfRgb \<lparr> r = 119, g = 119, b = 119 \<rparr> \<lparr> r = 255, g = 255, b = 255 \<rparr>"
  by (rule ratio_lt_from_bounds [OF lum_777777 lum_FFFFFF]) (simp_all add: LARGE_TEXT_THRESHOLD_def NORMAL_TEXT_THRESHOLD_def EPSILON_def)

section \<open>The claims\<close>

text \<open>
  C1. For every pair of valid hex colours and every options object, snapToPassingColor
  returns a result, and if the result's clamped field is not true then passesContrast holds
  of the returned pair under the same options.
\<close>

theorem snap_result_passes:
  assumes "hexToRgb fgHex = Inr c1" and "hexToRgb bgHex = Inr c2"
  shows "\<exists>res. snapToPassingColor fgHex bgHex opts = Inr res
           \<and> (clamped res \<noteq> Some True \<longrightarrow> passesContrast (fg res) (bg res) opts = Inr True)"
  using assms
proof (cases rule: snap_cases [where opts = opts])
  case passing
  have "passesContrast (rgbToHex c1) (rgbToHex c2) opts = Inr True"
    using passing(1)
    by (simp add: passesContrast_parsed [OF hexToRgb_canonical [OF assms(1)] hexToRgb_canonical [OF assms(2)]])
  with passing(2) show ?thesis by simp
next
  case identical
  then show ?thesis by simp
next
  case (searched cands best cl)
  have b: "canonRgb c1 = c1" "canonRgb c2 = c2"
    using assms by (simp_all add: canonRgb_byteRgb hexToRgb_byteRgb)
  have snd: "candidateSound c1 c2 best" using searched(5,7) by blast
  have "\<not> cl \<Longrightarrow> passesContrast (fg (resultOf c1 c2 best cl)) (bg (resultOf c1 c2 best cl)) opts = Inr True"
  proof -
    assume ncl: "\<not> cl"
    note ge = searched(8) [OF ncl]
    show ?thesis
    proof (cases "startsWith (path best) ''fg''")
      case True
      with snd have "ratio best = ratioOfRgb (canonRgb (rgb best)) c2"
        by (simp add: candidateSound_def ratioRecorded_def b)
      with ge True show ?thesis
        by (simp add: resultOf_def
            passesContrast_parsed [OF hexToRgb_rgbToHex hexToRgb_canonical [OF assms(2)]])
    next
      case False
      with snd have "ratio best = ratioOfRgb c1 (canonRgb (rgb best))"
        by (simp add: candidateSound_def ratioRecorded_def b ratioOfRgb_sym [of c1])
      with ge False show ?thesis
        by (simp add: resultOf_def
            passesContrast_parsed [OF hexToRgb_canonical [OF assms(1)] hexToRgb_rgbToHex])
    qed
  qed
  moreover have "clamped (resultOf c1 c2 best cl) = Some cl"
    by (simp add: resultOf_def)
  ultimately show ?thesis using searched(9) by auto
qed

text \<open>
  The call \<open>snapToPassingColor('#97A000', '#E244E3', { isLargeText: true })\<close> darkens the
  foreground to \<open>#404400\<close>, and the returned pair passes.
\<close>

theorem snap_result_passes_witness:
  "hexToRgb ''#97A000'' = Inr \<lparr> r = 151, g = 160, b = 0 \<rparr>
   \<and> hexToRgb ''#E244E3'' = Inr \<lparr> r = 226, g = 68, b = 227 \<rparr>
   \<and> snapToPassingColor ''#97A000'' ''#E244E3'' largeTextOptions =
       Inr \<lparr> fg = ''#404400'', bg = ''#E244E3'',
          ratio = ratioOfRgb \<lparr> r = 64, g = 68, b = 0 \<rparr> \<lparr> r = 226, g = 68, b = 227 \<rparr>,
          clamped = Some False, adjusted = Some ''fg'', iterations = Some 7 \<rparr>
   \<and> passesContrast ''#404400'' ''#E244E3'' largeTextOptions = Inr True"
  using snap_result_passes [OF tie_parse_fg tie_parse_bg, of largeTextOptions]
    tie_parse_fg tie_parse_bg tie_snap
  by auto

text \<open>
  C2 as stated fails. In \<open>snapToPassingColor('#808080', '#B3B3B3', { isLargeText: true })\<close>
  the second midpoint of the search that darkens the foreground is \<open>#606060\<close>. Its ratio
  against \<open>#B3B3B3\<close> lies between 2.999 and 3, so passesContrast accepts the pair, but the
  search keeps \<open>#404040\<close> as its best and moves the upper end of the interval to the
  midpoint; the call returns \<open>#5F5F5F\<close>.
\<close>

theorem search_epsilon_counterexample:
  "rgbToHsl \<lparr> r = 128, g = 128, b = 128 \<rparr> = \<lparr> h = 0, s = 0, l = 7064470003718425 / 140737488355328 \<rparr>
   \<and> searchBody \<lparr> h = 0, s = 0, l = 7064470003718425 / 140737488355328 \<rparr> \<lparr> r = 179, g = 179, b = 179 \<rparr> LARGE_TEXT_THRESHOLD True False
        \<lparr> minL = 0, maxL = 7064470003718425 / 140737488355328, bestRgb = \<lparr> r = 128, g = 128, b = 128 \<rparr>,
        bestRatio = ratioOfRgb \<lparr> r = 128, g = 128, b = 128 \<rparr> \<lparr> r = 179, g = 179, b = 179 \<rparr>, iterationCount = 0 \<rparr> =
       Inr \<lparr> minL = 7064470003718425 / 281474976710656, maxL = 7064470003718425 / 140737488355328, bestRgb = \<lparr> r = 64, g = 64, b = 64 \<rparr>,
        bestRatio = ratioOfRgb \<lparr> r = 64, g = 64, b = 64 \<rparr> \<lparr> r = 179, g = 179, b = 179 \<rparr>, iterationCount = 1 \<rparr>
   \<and> rgbToHex (midpointRgb \<lparr> h = 0, s = 0, l = 7064470003718425 / 140737488355328 \<rparr>
        \<lparr> minL = 7064470003718425 / 281474976710656, maxL = 7064470003718425 / 140737488355328, bestRgb = \<lparr> r = 64, g = 64, b = 64 \<rparr>,
        bestRatio = ratioOfRgb \<lparr> r = 64, g = 64, b = 64 \<rparr> \<lparr> r = 179, g = 179, b = 179 \<rparr>, iterationCount = 1 \<rparr>) = ''#606060''
   \<and> contrastRatio ''#606060'' ''#B3B3B3'' = Inr (ratioOfRgb \<lparr> r = 96, g = 96, b = 96 \<rparr> \<lparr> r = 179, g = 179, b = 179 \<rparr>)
   \<and> LARGE_TEXT_THRESHOLD - EPSILON \<le> ratioOfRgb \<lparr> r = 96, g = 96, b = 96 \<rparr> \<lparr> r = 179, g = 179, b = 179 \<rparr>
   \<and> ratioOfRgb \<lparr> r = 96, g = 96, b = 96 \<rparr> \<lparr> r = 179, g = 179, b = 179 \<rparr> < LARGE_TEXT_THRESHOLD
   \<and> passesContrast ''#606060'' ''#B3B3B3'' largeTextOptions = Inr True
   \<and> searchBody \<lparr> h = 0, s = 0, l = 7064470003718425 / 140737488355328 \<rparr> \<lparr> r = 179, g = 179, b = 179 \<rparr> LARGE_TEXT_THRESHOLD True False
        \<lparr> minL = 7064470003718425 / 281474976710656, maxL = 7064470003718425 / 140737488355328, bestRgb = \<lparr> r = 64, g = 64, b = 64 \<rparr>,
        bestRatio = ratioOfRgb \<lparr> r = 64, g = 64, b = 64 \<rparr> \<lparr> r = 179, g = 179, b = 179 \<rparr>, iterationCount = 1 \<rparr> =
       Inr \<lparr> minL = 7064470003718425 / 281474976710656, maxL = 5298352502788819 / 140737488355328, bestRgb = \<lparr> r = 64, g = 64, b = 64 \<rparr>,
        bestRatio = ratioOfRgb \<lparr> r = 64, g = 64, b = 64 \<rparr> \<lparr> r = 179, g = 179, b = 179 \<rparr>, iterationCount = 2 \<rparr>
   \<and> snapToPassingColor ''#808080'' ''#B3B3B3'' largeTextOptions =
       Inr \<lparr> fg = ''#5F5F5F'', bg = ''#B3B3B3'',
          ratio = ratioOfRgb \<lparr> r = 95, g = 95, b = 95 \<rparr> \<lparr> r = 179, g = 179, b = 179 \<rparr>,
          clamped = Some False, adjusted = Some ''fg'', iterations = Some 7 \<rparr>"
proof -
  have hx: "rgbToHex \<lparr> r = 96, g = 96, b = 96 \<rparr> = ''#606060''" "rgbToHex \<lparr> r = 179, g = 179, b = 179 \<rparr> = ''#B3B3B3''"
    by (simp_all add: rgbToHexEval)
  have cr: "contrastRatio ''#606060'' ''#B3B3B3'' = Inr (ratioOfRgb \<lparr> r = 96, g = 96, b = 96 \<rparr> \<lparr> r = 179, g = 179, b = 179 \<rparr>)"
    using contrastRatio_rgbToHex [of "\<lparr> r = 96, g = 96, b = 96 \<rparr>" "\<lparr> r = 179, g = 179, b = 179 \<rparr>"]
    by (simp add: hx canon_606060 canon_B3B3B3)
  have lt: "ratioOfRgb \<lparr> r = 96, g = 96, b = 96 \<rparr> \<lparr> r = 179, g = 179, b = 179 \<rparr> < LARGE_TEXT_THRESHOLD"
    using ratio_606060_B3B3B3_large by simp
  have pc: "passesContrast ''#606060'' ''#B3B3B3'' largeTextOptions = Inr True"
    using ratio_606060_B3B3B3_large_eps
    by (simp add: passesContrast_def cr bindE_def truthy_def largeTextOptions_def)
  show ?thesis
    using hsl_of_808080 gray_fg_darken_step_1 gray_fg_darken_step_2 gray_snap
      ratio_606060_B3B3B3_large_eps lt pc cr
    by (simp add: midpointRgb_def midpointL_def addD_def divD_def round_49 round_50 rgb_of_hsl_10 hx)
qed

text \<open>
  C2, as the code has it. In each iteration of a search the ratio of the midpoint colour
  against the other colour is compared with the threshold itself: at or above the
  threshold the midpoint becomes the current best and the interval is narrowed toward it;
  below the threshold, also within 0.001 of it, the best is kept and the interval is
  narrowed away. So what a search returns is the starting colour or has a ratio of at least
  the threshold.
\<close>

theorem search_iteration_compares_with_threshold:
  "\<exists>\<rho>. contrastRatio
           (rgbToHex (if isForeground then midpointRgb originalHsl st else otherRgb))
           (rgbToHex (if isForeground then otherRgb else midpointRgb originalHsl st)) = Inr \<rho>
      \<and> (\<rho> \<ge> threshold \<longrightarrow>
            searchBody originalHsl otherRgb threshold isForeground isLightening st =
              Inr (if isLightening
                   then st \<lparr> maxL := midpointL st, bestRgb := midpointRgb originalHsl st,
                             bestRatio := \<rho>, iterationCount := iterationCount st + 1 \<rparr>
                   else st \<lparr> minL := midpointL st, bestRgb := midpointRgb originalHsl st,
                             bestRatio := \<rho>, iterationCount := iterationCount st + 1 \<rparr>))
      \<and> (\<rho> < threshold \<longrightarrow>
            searchBody originalHsl otherRgb threshold isForeground isLightening st =
              Inr (if isLightening
                   then st \<lparr> minL := midpointL st, iterationCount := iterationCount st + 1 \<rparr>
                   else st \<lparr> maxL := midpointL st, iterationCount := iterationCount st + 1 \<rparr>))
      \<and> (\<forall>n res. binarySearchLightness originalHsl otherRgb threshold isForeground isLightening n
                      = Inr res \<longrightarrow>
                    ratio res \<ge> threshold \<or> rgb res = hslToRgb originalHsl)"
proof -
  have "\<forall>n res. binarySearchLightness originalHsl otherRgb threshold isForeground isLightening n
                      = Inr res \<longrightarrow>
                    ratio res \<ge> threshold \<or> rgb res = hslToRgb originalHsl"
    using binarySearchLightness_meets_threshold by blast
  then show ?thesis
    by (simp add: contrastRatio_rgbToHex searchBody_unfold midpointRgb_def midpointL_def)
qed

text \<open>
  The first two iterations of the same search. The first midpoint, \<open>#404040\<close>, has a ratio
  of at least 3 and becomes the best; the second, \<open>#606060\<close>, has a ratio below 3 and is not
  recorded. The whole search returns \<open>#5F5F5F\<close>, with a ratio of at least 3.
\<close>

theorem search_iteration_compares_with_threshold_witness:
  "LARGE_TEXT_THRESHOLD \<le> ratioOfRgb \<lparr> r = 64, g = 64, b = 64 \<rparr> \<lparr> r = 179, g = 179, b = 179 \<rparr>
   \<and> searchBody \<lparr> h = 0, s = 0, l = 7064470003718425 / 140737488355328 \<rparr> \<lparr> r = 179, g = 179, b = 179 \<rparr> LARGE_TEXT_THRESHOLD True False
        \<lparr> minL = 0, maxL = 7064470003718425 / 140737488355328, bestRgb = \<lparr> r = 128, g = 128, b = 128 \<rparr>,
        bestRatio = ratioOfRgb \<lparr> r = 128, g = 128, b = 128 \<rparr> \<lparr> r = 179, g = 179, b = 179 \<rparr>, iterationCount = 0 \<rparr> =
       Inr \<lparr> minL = 7064470003718425 / 281474976710656, maxL = 7064470003718425 / 140737488355328, bestRgb = \<lparr> r = 64, g = 64, b = 64 \<rparr>,
        bestRatio = ratioOfRgb \<lparr> r = 64, g = 64, b = 64 \<rparr> \<lparr> r = 179, g = 179, b = 179 \<rparr>, iterationCount = 1 \<rparr>
   \<and> ratioOfRgb \<lparr> r = 96, g = 96, b = 96 \<rparr> \<lparr> r = 179, g = 179, b = 179 \<rparr> < LARGE_TEXT_THRESHOLD
   \<and> searchBody \<lparr> h = 0, s = 0, l = 7064470003718425 / 140737488355328 \<rparr> \<lparr> r = 179, g = 179, b = 179 \<rparr> LARGE_TEXT_THRESHOLD True False
        \<lparr> minL = 7064470003718425 / 281474976710656, maxL = 7064470003718425 / 140737488355328, bestRgb = \<lparr> r = 64, g = 64, b = 64 \<rparr>,
        bestRatio = ratioOfRgb \<lparr> r = 64, g = 64, b = 64 \<rparr> \<lparr> r = 179, g = 179, b = 179 \<rparr>, iterationCount = 1 \<rparr> =
       Inr \<lparr> minL = 7064470003718425 / 281474976710656, maxL = 5298352502788819 / 140737488355328, bestRgb = \<lparr> r = 64, g = 64, b = 64 \<rparr>,
        bestRatio = ratioOfRgb \<lparr> r = 64, g = 64, b = 64 \<rparr> \<lparr> r = 179, g = 179, b = 179 \<rparr>, iterationCount = 2 \<rparr>
   \<and> binarySearchLightness \<lparr> h = 0, s = 0, l = 7064470003718425 / 140737488355328 \<rparr> \<lparr> r = 179, g = 179, b = 179 \<rparr> LARGE_TEXT_THRESHOLD True False 7 =
       Inr \<lparr> rgb = \<lparr> r = 95, g = 95, b = 95 \<rparr>, ratio = ratioOfRgb \<lparr> r = 95, g = 95, b = 95 \<rparr> \<lparr> r = 179, g = 179, b = 179 \<rparr>, iterations = 7 \<rparr>
   \<and> LARGE_TEXT_THRESHOLD \<le> ratioOfRgb \<lparr> r = 95, g = 95, b = 95 \<rparr> \<lparr> r = 179, g = 179, b = 179 \<rparr>"
proof -
  let ?hsl = "\<lparr> h = 0, s = 0, l = 7064470003718425 / 140737488355328 \<rparr>"
  let ?st0 = "\<lparr> minL = 0, maxL = 7064470003718425 / 140737488355328, bestRgb = \<lparr> r = 128, g = 128, b = 128 \<rparr>,
        bestRatio = ratioOfRgb \<lparr> r = 128, g = 128, b = 128 \<rparr> \<lparr> r = 179, g = 179, b = 179 \<rparr>, iterationCount = 0 \<rparr>"
  let ?st1 = "\<lparr> minL = 7064470003718425 / 281474976710656, maxL = 7064470003718425 / 140737488355328, bestRgb = \<lparr> r = 64, g = 64, b = 64 \<rparr>,
        bestRatio = ratioOfRgb \<lparr> r = 64, g = 64, b = 64 \<rparr> \<lparr> r = 179, g = 179, b = 179 \<rparr>, iterationCount = 1 \<rparr>"
  have cr0: "contrastRatio (rgbToHex \<lparr> r = 64, g = 64, b = 64 \<rparr>) (rgbToHex \<lparr> r = 179, g = 179, b = 179 \<rparr>) = Inr (ratioOfRgb \<lparr> r = 64, g = 64, b = 64 \<rparr> \<lparr> r = 179, g = 179, b = 179 \<rparr>)"
    by (simp add: contrastRatio_rgbToHex canon_404040 canon_B3B3B3)
  have cr1: "contrastRatio (rgbToHex \<lparr> r = 96, g = 96, b = 96 \<rparr>) (rgbToHex \<lparr> r = 179, g = 179, b = 179 \<rparr>) = Inr (ratioOfRgb \<lparr> r = 96, g = 96, b = 96 \<rparr> \<lparr> r = 179, g = 179, b = 179 \<rparr>)"
    by (simp add: contrastRatio_rgbToHex canon_606060 canon_B3B3B3)
  have lt: "ratioOfRgb \<lparr> r = 96, g = 96, b = 96 \<rparr> \<lparr> r = 179, g = 179, b = 179 \<rparr> < LARGE_TEXT_THRESHOLD"
    using ratio_606060_B3B3B3_large by simp
  have ne: "\<lparr> r = 95, g = 95, b = 95 \<rparr> \<noteq> hslToRgb ?hsl"
    by (simp add: rgb_of_hsl_1)
  have m0: "midpointL ?st0 = 7064470003718425 / 281474976710656"
    by (simp add: midpointL_def addD_def divD_def toDouble_zero round_4 round_46)
  have m1: "midpointL ?st1 = 5298352502788819 / 140737488355328"
    by (simp add: midpointL_def addD_def divD_def toDouble_zero round_49 round_50)
  have r0: "midpointRgb ?hsl ?st0 = \<lparr> r = 64, g = 64, b = 64 \<rparr>"
    unfolding midpointRgb_def m0 by (simp add: rgb_of_hsl_9)
  have r1: "midpointRgb ?hsl ?st1 = \<lparr> r = 96, g = 96, b = 96 \<rparr>"
    unfolding midpointRgb_def m1 by (simp add: rgb_of_hsl_10)
  note th0 = search_iteration_compares_with_threshold
    [of True ?hsl ?st0 "\<lparr> r = 179, g = 179, b = 179 \<rparr>" LARGE_TEXT_THRESHOLD False]
  note th1 = search_iteration_compares_with_threshold
    [of True ?hsl ?st1 "\<lparr> r = 179, g = 179, b = 179 \<rparr>" LARGE_TEXT_THRESHOLD False]
  from th0 have step0: "searchBody ?hsl \<lparr> r = 179, g = 179, b = 179 \<rparr> LARGE_TEXT_THRESHOLD True False ?st0 =
      Inr (?st0 \<lparr> minL := 7064470003718425 / 281474976710656, bestRgb := \<lparr> r = 64, g = 64, b = 64 \<rparr>,
                    bestRatio := ratioOfRgb \<lparr> r = 64, g = 64, b = 64 \<rparr> \<lparr> r = 179, g = 179, b = 179 \<rparr>,
                    iterationCount := iterationCount ?st0 + 1 \<rparr>)"
    using ratio_404040_B3B3B3_large
    unfolding r0 m0 by (auto simp: cr0)
  from th1 have step1: "searchBody ?hsl \<lparr> r = 179, g = 179, b = 179 \<rparr> LARGE_TEXT_THRESHOLD True False ?st1 =
      Inr (?st1 \<lparr> maxL := 5298352502788819 / 140737488355328, iterationCount := iterationCount ?st1 + 1 \<rparr>)"
    using lt
    unfolding r1 m1 by (auto simp: cr1)
  from th0 have "\<forall>n res. binarySearchLightness ?hsl \<lparr> r = 179, g = 179, b = 179 \<rparr> LARGE_TEXT_THRESHOLD True False n = Inr res
      \<longrightarrow> ratio res \<ge> LARGE_TEXT_THRESHOLD \<or> rgb res = hslToRgb ?hsl"
    by blast
  from this [rule_format, OF gray_fg_darken_search] ne
  have ge: "LARGE_TEXT_THRESHOLD \<le> ratioOfRgb \<lparr> r = 95, g = 95, b = 95 \<rparr> \<lparr> r = 179, g = 179, b = 179 \<rparr>"
    by simp
  show ?thesis
    using ratio_404040_B3B3B3_large gray_fg_darken_search ge step0 step1 lt by simp
qed




text \<open>
  C4. The parser is meant to accept an optional leading hash sign followed by three or six hex
  digits, and the message of its error names the shapes \<open>#RGB\<close> and \<open>#RRGGBB\<close>. But
  \<open>hex.replace('#', '')\<close> removes the first hash sign wherever it stands, so a string with a
  hash sign in the middle or at the end is accepted: \<open>'FF#0000'\<close> parses as red and
  \<open>'ABC#'\<close> as \<open>#AABBCC\<close>, while \<open>'#12345'\<close> is refused with the message of the source.
\<close>

theorem hexToRgb_accepts_inner_hash:
  "hexToRgb ''FF#0000'' = Inr \<lparr> r = 255, g = 0, b = 0 \<rparr>
   \<and> hexToRgb ''ABC#'' = Inr \<lparr> r = 170, g = 187, b = 204 \<rparr>
   \<and> hexToRgb ''#12345'' =
       Inl (FormatError ''Invalid hex color format: #12345. Expected #RGB or #RRGGBB format.'')"
  by (simp add: hexEval)

text \<open>
  C5. For all valid hex colours x and y: contrastRatio(x, y) equals contrastRatio(y, x);
  contrastRatio(x, x) is exactly 1; the ratio lies between 1 and 21, and it is 21 exactly
  when one colour is black and the other white.
\<close>

theorem contrastRatio_symmetric_bounded:
  assumes "hexToRgb x = Inr cx" and "hexToRgb y = Inr cy"
  shows "contrastRatio x y = contrastRatio y x
       \<and> contrastRatio x x = Inr 1
       \<and> (\<exists>\<rho>. contrastRatio x y = Inr \<rho> \<and> 1 \<le> \<rho> \<and> \<rho> \<le> 21
             \<and> (\<rho> = 21 \<longleftrightarrow> (cx = black \<and> cy = white) \<or> (cx = white \<and> cy = black)))"
proof -
  have bx: "byteRgb cx" and by': "byteRgb cy"
    using assms by (auto dest: hexToRgb_byteRgb)
  have "contrastRatio x y = contrastRatio y x"
    by (simp add: contrastRatio_parsed [OF assms(1) assms(2)]
        contrastRatio_parsed [OF assms(2) assms(1)] ratioOfRgb_sym [of cx cy])
  moreover have "contrastRatio x x = Inr 1"
    by (simp add: contrastRatio_parsed [OF assms(1) assms(1)] ratioOfRgb_same [OF bx])
  moreover have "\<exists>\<rho>. contrastRatio x y = Inr \<rho> \<and> 1 \<le> \<rho> \<and> \<rho> \<le> 21
             \<and> (\<rho> = 21 \<longleftrightarrow> (cx = black \<and> cy = white) \<or> (cx = white \<and> cy = black))"
    using contrastRatio_parsed [OF assms(1) assms(2)] ratioOfRgb_bounds(1,2,3) [OF bx by']
    by blast
  ultimately show ?thesis by blast
qed

text \<open>The shorthand \<open>#abc\<close> against black written without the hash sign.\<close>

theorem contrastRatio_symmetric_bounded_witness:
  "hexToRgb ''#abc'' = Inr \<lparr> r = 170, g = 187, b = 204 \<rparr>
   \<and> hexToRgb ''000000'' = Inr \<lparr> r = 0, g = 0, b = 0 \<rparr>
   \<and> contrastRatio ''#abc'' ''000000'' = contrastRatio ''000000'' ''#abc''
   \<and> contrastRatio ''#abc'' ''#abc'' = Inr 1
   \<and> (\<exists>\<rho>. contrastRatio ''#abc'' ''000000'' = Inr \<rho> \<and> 1 \<le> \<rho> \<and> \<rho> \<le> 21 \<and> \<rho> \<noteq> 21)"
proof -
  have p: "hexToRgb ''#abc'' = Inr \<lparr> r = 170, g = 187, b = 204 \<rparr>"
    by (simp add: hexEval)
  have q: "hexToRgb ''000000'' = Inr \<lparr> r = 0, g = 0, b = 0 \<rparr>"
    by (simp add: hexEval)
  have ne: "\<not> ((\<lparr> r = 170, g = 187, b = 204 \<rparr> = black \<and> \<lparr> r = 0, g = 0, b = 0 \<rparr> = white)
           \<or> (\<lparr> r = 170, g = 187, b = 204 \<rparr> = white \<and> \<lparr> r = 0, g = 0, b = 0 \<rparr> = black))"
    by (simp add: black_def white_def)
  show ?thesis
    using contrastRatio_symmetric_bounded [OF p q] p q ne by blast
qed

text \<open>
  C6. For all valid hex colours and all options, passesContrast returns true if and only if
  the contrast ratio is at least T - 0.001, where T is 3 when isLargeText or uiComponent is
  true and 4.5 otherwise (an omitted flag counts as false).
\<close>

theorem passesContrast_threshold:
  assumes "hexToRgb fgHex = Inr c1" and "hexToRgb bgHex = Inr c2"
  shows "\<exists>\<rho>. contrastRatio fgHex bgHex = Inr \<rho>
          \<and> passesContrast fgHex bgHex opts =
              Inr (\<rho> \<ge> (if isLargeText opts = Some True \<or> uiComponent opts = Some True
                         then 3 else 45 / 10) - 1 / 1000)"
  by (simp add: passesContrast_def contrastRatio_parsed [OF assms] bindE_def truthy_def
      LARGE_TEXT_THRESHOLD_def NORMAL_TEXT_THRESHOLD_def EPSILON_def)

text \<open>
  The boundary at 4.5: \<open>#767676\<close> on white passes (about 4.54), \<open>#777777\<close> on white does
  not (about 4.48).
\<close>

theorem passesContrast_threshold_witness:
  "hexToRgb ''#767676'' = Inr \<lparr> r = 118, g = 118, b = 118 \<rparr>
   \<and> hexToRgb ''#777777'' = Inr \<lparr> r = 119, g = 119, b = 119 \<rparr>
   \<and> hexToRgb ''#FFFFFF'' = Inr \<lparr> r = 255, g = 255, b = 255 \<rparr>
   \<and> passesContrast ''#767676'' ''#FFFFFF'' noOptions = Inr True
   \<and> passesContrast ''#777777'' ''#FFFFFF'' noOptions = Inr False"
proof -
  have p: "hexToRgb ''#767676'' = Inr \<lparr> r = 118, g = 118, b = 118 \<rparr>" by (simp add: hexEval)
  have p': "hexToRgb ''#777777'' = Inr \<lparr> r = 119, g = 119, b = 119 \<rparr>" by (simp add: hexEval)
  have q: "hexToRgb ''#FFFFFF'' = Inr \<lparr> r = 255, g = 255, b = 255 \<rparr>" by (simp add: hexEval)
  have o: "isLargeText noOptions = None" "uiComponent noOptions = None"
    by (simp_all add: noOptions_def)
  have a: "45 / 10 - 1 / 1000 \<le> ratioOfRgb \<lparr> r = 118, g = 118, b = 118 \<rparr> \<lparr> r = 255, g = 255, b = 255 \<rparr>"
    using ratio_767676_FFFFFF_normal_eps by (simp add: NORMAL_TEXT_THRESHOLD_def EPSILON_def)
  have b: "\<not> 45 / 10 - 1 / 1000 \<le> ratioOfRgb \<lparr> r = 119, g = 119, b = 119 \<rparr> \<lparr> r = 255, g = 255, b = 255 \<rparr>"
    using ratio_777777_FFFFFF_normal_eps by (simp add: NORMAL_TEXT_THRESHOLD_def EPSILON_def)
  from passesContrast_threshold [OF p q, of noOptions] a
  have "passesContrast ''#767676'' ''#FFFFFF'' noOptions = Inr True"
    by (auto simp: o contrastRatio_parsed [OF p q])
  moreover from passesContrast_threshold [OF p' q, of noOptions] b
  have "passesContrast ''#777777'' ''#FFFFFF'' noOptions = Inr False"
    by (auto simp: o contrastRatio_parsed [OF p' q])
  ultimately show ?thesis using p p' q by simp
qed

text \<open>
  C7. For two input strings that denote the same colour, under any options,
  snapToPassingColor returns clamped = true, ratio = 1, both colours in canonical form and
  otherwise unchanged, and neither adjusted nor iterations.
\<close>

theorem snap_identical_colors:
  assumes "hexToRgb fgHex = Inr c" and "hexToRgb bgHex = Inr c"
  shows "contrastRatio fgHex bgHex = Inr 1
       \<and> requiredThreshold opts > 1
       \<and> snapToPassingColor fgHex bgHex opts =
           Inr \<lparr> fg = rgbToHex c, bg = rgbToHex c, ratio = 1,
                 clamped = Some True, adjusted = None, iterations = None \<rparr>
       \<and> hexToRgb (rgbToHex c) = Inr c"
proof -
  have one: "ratioOfRgb c c = 1"
    using assms(1) by (simp add: ratioOfRgb_same hexToRgb_byteRgb)
  show ?thesis
    using snap_identical [OF assms one, of opts] contrastRatio_parsed [OF assms] one
      requiredThreshold_gt_1 [of opts] hexToRgb_canonical [OF assms(1)]
    by simp
qed

text \<open>White written in two ways.\<close>

theorem snap_identical_colors_witness:
  "hexToRgb ''#fff'' = Inr white \<and> hexToRgb ''FFFFFF'' = Inr white
   \<and> snapToPassingColor ''#fff'' ''FFFFFF'' noOptions =
       Inr \<lparr> fg = ''#FFFFFF'', bg = ''#FFFFFF'', ratio = 1,
             clamped = Some True, adjusted = None, iterations = None \<rparr>"
proof -
  have p: "hexToRgb ''#fff'' = Inr white" by (simp add: hexEval white_def)
  have q: "hexToRgb ''FFFFFF'' = Inr white" by (simp add: hexEval white_def)
  have hx: "rgbToHex white = ''#FFFFFF''" by (simp add: rgbToHexEval white_def)
  show ?thesis
    using snap_identical_colors [OF p q, of noOptions] p q by (simp add: hx)
qed

text \<open>
  C8. Both colour strings of every result are a hash sign followed by six upper-case hex
  digits. When the adjusted field is set, the side it names carries the colour of the
  selected candidate, which is one of the four and a candidate of that side, and the other
  side is the canonical form of the corresponding input colour.
\<close>

theorem snap_adjusts_one_side:
  assumes "hexToRgb fgHex = Inr c1" and "hexToRgb bgHex = Inr c2"
    and "snapToPassingColor fgHex bgHex opts = Inr res"
  shows "canonicalHex (fg res) \<and> canonicalHex (bg res)
       \<and> (\<forall>side. adjusted res = Some side \<longrightarrow>
            (\<exists>cands best cl. snapCandidates c1 c2 (requiredThreshold opts) = Inr cands
               \<and> selectBest opts (rgbToHsl c1) (rgbToHsl c2) (requiredThreshold opts) cands
                   = (best, cl)
               \<and> best \<in> set cands
               \<and> (side = ''fg'' \<and> startsWith (path best) ''fg''
                     \<and> fg res = rgbToHex (rgb best) \<and> bg res = rgbToHex c2
                  \<or> side = ''bg'' \<and> startsWith (path best) ''bg''
                     \<and> bg res = rgbToHex (rgb best) \<and> fg res = rgbToHex c1)))"
  using assms(1,2)
proof (cases rule: snap_cases [where opts = opts])
  case passing
  with assms(3) show ?thesis by (auto simp: canonicalHex_rgbToHex)
next
  case identical
  with assms(3) show ?thesis by (auto simp: canonicalHex_rgbToHex)
next
  case (searched cands best cl)
  from searched(9) assms(3) have res: "res = resultOf c1 c2 best cl" by simp
  from searched(4,7) have "path best \<in> set [''fg-lighten'', ''fg-darken'', ''bg-darken'', ''bg-lighten'']"
    by (metis image_eqI list.set_map)
  then have side: "startsWith (path best) ''fg'' \<or> startsWith (path best) ''bg''"
    by (auto simp: startsWith_def)
  show ?thesis
  proof (cases "startsWith (path best) ''fg''")
    case True
    then show ?thesis
      using searched(3,6,7) by (auto simp: res resultOf_def canonicalHex_rgbToHex)
  next
    case False
    with side have "startsWith (path best) ''bg''" by simp
    with False show ?thesis
      using searched(3,6,7) by (auto simp: res resultOf_def canonicalHex_rgbToHex)
  qed
qed

text \<open>
  The call \<open>snapToPassingColor('#808080', '#B3B3B3', { isLargeText: true })\<close>: the foreground
  becomes \<open>#5F5F5F\<close>, the colour of the darken-foreground candidate, and the background is
  returned as it came.
\<close>

theorem snap_adjusts_one_side_witness:
  "hexToRgb ''#808080'' = Inr \<lparr> r = 128, g = 128, b = 128 \<rparr>
   \<and> hexToRgb ''#B3B3B3'' = Inr \<lparr> r = 179, g = 179, b = 179 \<rparr>
   \<and> snapToPassingColor ''#808080'' ''#B3B3B3'' largeTextOptions =
       Inr \<lparr> fg = ''#5F5F5F'', bg = ''#B3B3B3'',
          ratio = ratioOfRgb \<lparr> r = 95, g = 95, b = 95 \<rparr> \<lparr> r = 179, g = 179, b = 179 \<rparr>,
          clamped = Some False, adjusted = Some ''fg'', iterations = Some 7 \<rparr>
   \<and> canonicalHex ''#5F5F5F'' \<and> canonicalHex ''#B3B3B3''
   \<and> (\<exists>cands best cl.
         snapCandidates \<lparr> r = 128, g = 128, b = 128 \<rparr> \<lparr> r = 179, g = 179, b = 179 \<rparr>
           (requiredThreshold largeTextOptions) = Inr cands
         \<and> selectBest largeTextOptions (rgbToHsl \<lparr> r = 128, g = 128, b = 128 \<rparr>)
               (rgbToHsl \<lparr> r = 179, g = 179, b = 179 \<rparr>) (requiredThreshold largeTextOptions) cands
             = (best, cl)
         \<and> best \<in> set cands \<and> startsWith (path best) ''fg''
         \<and> rgbToHex (rgb best) = ''#5F5F5F'' \<and> rgbToHex \<lparr> r = 179, g = 179, b = 179 \<rparr> = ''#B3B3B3'')"
  using snap_adjusts_one_side [OF gray_parse_fg gray_parse_bg gray_snap]
    gray_parse_fg gray_parse_bg gray_snap
  by auto

text \<open>
  C9. If the input pair already passes, snapToPassingColor returns the pair in canonical form,
  denoting the same colours, with that ratio and with no adjusted, clamped or iterations
  field; running it again on what it returned gives the same result.
\<close>

theorem snap_already_passing:
  assumes "hexToRgb fgHex = Inr c1" and "hexToRgb bgHex = Inr c2"
    and "contrastRatio fgHex bgHex = Inr \<rho>"
    and "\<rho> \<ge> requiredThreshold opts - EPSILON"
  shows "snapToPassingColor fgHex bgHex opts =
           Inr \<lparr> fg = rgbToHex c1, bg = rgbToHex c2, ratio = \<rho>,
                 clamped = None, adjusted = None, iterations = None \<rparr>
       \<and> hexToRgb (rgbToHex c1) = Inr c1 \<and> hexToRgb (rgbToHex c2) = Inr c2
       \<and> snapToPassingColor (rgbToHex c1) (rgbToHex c2) opts = snapToPassingColor fgHex bgHex opts"
proof -
  have r: "\<rho> = ratioOfRgb c1 c2"
    using assms(3) contrastRatio_parsed [OF assms(1,2)] by simp
  note q1 = hexToRgb_canonical [OF assms(1)]
  note q2 = hexToRgb_canonical [OF assms(2)]
  from assms(4) have ge: "ratioOfRgb c1 c2 \<ge> requiredThreshold opts - EPSILON" by (simp add: r)
  show ?thesis
    using snap_passing [OF assms(1,2) ge] snap_passing [OF q1 q2 ge] q1 q2 by (simp add: r)
qed

text \<open>Black on white, written in shorthand and in lower case.\<close>

theorem snap_already_passing_witness:
  "hexToRgb ''#000'' = Inr black \<and> hexToRgb ''#ffffff'' = Inr white
   \<and> contrastRatio ''#000'' ''#ffffff'' = Inr 21
   \<and> 21 \<ge> requiredThreshold noOptions - EPSILON
   \<and> snapToPassingColor ''#000'' ''#ffffff'' noOptions =
       Inr \<lparr> fg = ''#000000'', bg = ''#FFFFFF'', ratio = 21,
             clamped = None, adjusted = None, iterations = None \<rparr>
   \<and> snapToPassingColor ''#000000'' ''#FFFFFF'' noOptions =
       snapToPassingColor ''#000'' ''#ffffff'' noOptions"
proof -
  have p: "hexToRgb ''#000'' = Inr black" by (simp add: hexEval black_def)
  have q: "hexToRgb ''#ffffff'' = Inr white" by (simp add: hexEval white_def)
  have e: "contrastRatio ''#000'' ''#ffffff'' = Inr 21"
    by (simp add: contrastRatio_parsed [OF p q] ratioOfRgb_def luminanceOfRgb_def gammaCorrect_def
        black_def white_def)
  have t: "21 \<ge> requiredThreshold noOptions - EPSILON"
    by (simp add: requiredThreshold_def truthy_def noOptions_def NORMAL_TEXT_THRESHOLD_def
        EPSILON_def)
  have hx: "rgbToHex black = ''#000000''" "rgbToHex white = ''#FFFFFF''"
    by (simp_all add: rgbToHexEval black_def white_def)
  show ?thesis
    using snap_already_passing [OF p q e t] p q e t by (simp add: hx)
qed

end
